(* ===== verification/KPrelude.thy ===== *)
theory KPrelude
  imports Main "HOL-Library.State_Monad" "HOL-Library.List_Lexorder" "HOL-Library.Char_ord"
begin

text \<open>
  Shared ground of the development: fact collections, facts about suffixes and filtered
  lists that the components share, and the small calculus used for every function of
  the program that talks to the outside world.

  A Go function that calls the Kubernetes API or Cloudflare is a value of the library's
  \<open>state\<close> monad whose state is the history: the list of calls made so far, each with
  the answer it got. The outside world is a function of that history, so it may answer each
  call in any way, also differently over time. \<open>yields m P\<close> states what a
  function does whatever the world answers: started from any history it appends some calls
  \<open>es\<close> and returns some \<open>r\<close> with \<open>P r es\<close>.
\<close>

named_theorems yields_rules \<open>introduction rules for yields, one per program construct\<close>
named_theorems go_string \<open>facts about the modelled string functions\<close>

section \<open>Lists\<close>

lemma dropWhile_idem [simp]: "dropWhile p (dropWhile p xs) = dropWhile p xs"
  by (induction xs) auto

lemma set_dropWhile_subset: "set (dropWhile p xs) \<subseteq> set xs"
  by (metis set_dropWhileD subsetI)

lemma distinct_set_sort_eq:
  fixes xs :: "'a::linorder list"
  assumes "distinct xs" "distinct ys" "set xs = set ys"
  shows "sort xs = sort ys"
  using assms by (intro sorted_distinct_set_unique) auto

lemma append_same_length_suffix:
  assumes "xs @ us = ys @ vs" and "length us = length vs"
  shows "us = vs"
  using assms by (metis append_eq_append_conv)

section \<open>Histories and calls\<close>

text \<open>\<open>call f mk\<close> asks the world a question: \<open>f\<close> gives the answer for the
  present history, and the call is recorded, with its answer, as \<open>mk\<close> says.\<close>

definition call :: "('e list \<Rightarrow> 'a) \<Rightarrow> ('a \<Rightarrow> 'e) \<Rightarrow> ('e list, 'a) state" where
  "call f mk = State (\<lambda>h. (f h, h @ [mk (f h)]))"

abbreviation ret :: "'a \<Rightarrow> ('s, 'a) state" where
  "ret \<equiv> State_Monad.return"

lemma run_call [simp]: "run_state (call f mk) h = (f h, h @ [mk (f h)])"
  by (simp add: call_def)

definition yields :: "('e list, 'a) state \<Rightarrow> ('a \<Rightarrow> 'e list \<Rightarrow> bool) \<Rightarrow> bool" where
  "yields m P \<longleftrightarrow> (\<forall>h. \<exists>r es. run_state m h = (r, h @ es) \<and> P r es)"

lemma yieldsI: "(\<And>h. \<exists>r es. run_state m h = (r, h @ es) \<and> P r es) \<Longrightarrow> yields m P"
  by (simp add: yields_def)

lemma yieldsE:
  assumes "yields m P"
  obtains r es where "run_state m h = (r, h @ es)" and "P r es"
  using assms unfolding yields_def by blast

lemma yieldsD:
  assumes "yields m P" and "run_state m h = (r, h')"
  shows "\<exists>es. h' = h @ es \<and> P r es"
  using assms unfolding yields_def by (metis prod.inject)

lemma yields_ret [yields_rules]: "P a [] \<Longrightarrow> yields (ret a) P"
  by (rule yieldsI) simp

lemma yields_call [yields_rules]: "(\<And>r. P r [mk r]) \<Longrightarrow> yields (call f mk) P"
  by (rule yieldsI) simp

lemma yields_call_known: "(\<And>h. P (f h) [mk (f h)]) \<Longrightarrow> yields (call f mk) P"
  by (rule yieldsI) simp

lemma yields_bind [yields_rules]:
  assumes "yields m (\<lambda>r es. yields (f r) (\<lambda>r' es'. P r' (es @ es')))"
  shows "yields (State_Monad.bind m f) P"
proof (rule yieldsI)
  fix h
  obtain r es where 1: "run_state m h = (r, h @ es)"
    and 2: "yields (f r) (\<lambda>r' es'. P r' (es @ es'))"
    using assms by (rule yieldsE)
  from 2 obtain r' es' where "run_state (f r) (h @ es) = (r', (h @ es) @ es')" "P r' (es @ es')"
    by (rule yieldsE)
  with 1 show "\<exists>r es. run_state (State_Monad.bind m f) h = (r, h @ es) \<and> P r es"
    by auto
qed

lemma yields_mono: "yields m P \<Longrightarrow> (\<And>r es. P r es \<Longrightarrow> Q r es) \<Longrightarrow> yields m Q"
  unfolding yields_def by blast

lemma yields_conj: "yields m P \<Longrightarrow> yields m Q \<Longrightarrow> yields m (\<lambda>r es. P r es \<and> Q r es)"
  unfolding yields_def by (metis prod.inject same_append_eq)

text \<open>Facts about a sub-computation are used through \<open>yields_bind_mono\<close>.\<close>

lemma yields_bind_mono:
  assumes "yields m Q" and "\<And>r es. Q r es \<Longrightarrow> yields (f r) (\<lambda>r' es'. P r' (es @ es'))"
  shows "yields (State_Monad.bind m f) P"
  by (rule yields_bind) (rule yields_mono [OF assms(1)], erule assms(2))

subsection \<open>Rely and guarantee\<close>

text \<open>\<open>extends m\<close>: \<open>m\<close> only appends to the history. \<open>emits A G R m\<close>: as long as
  the world's answers satisfy the rely \<open>A\<close>, every call \<open>m\<close> makes satisfies the guarantee
  \<open>G\<close>, and its result satisfies \<open>R\<close>. Unlike for \<open>yields\<close>, the rule for a composition
  does not accumulate the calls made before.\<close>

named_theorems extends_rules \<open>introduction rules for extends, one per program construct\<close>
named_theorems emits_rules \<open>introduction rules for emits, one per program construct\<close>

definition extends :: "('e list, 'a) state \<Rightarrow> bool" where
  "extends m \<longleftrightarrow> yields m (\<lambda>_ _. True)"

lemma extends_ret [extends_rules]: "extends (ret a)"
  by (simp add: extends_def yields_ret)

lemma extends_call [extends_rules]: "extends (call f mk)"
  by (simp add: extends_def yields_call)

lemma extends_bind [extends_rules]:
  "extends m \<Longrightarrow> (\<And>a. extends (f a)) \<Longrightarrow> extends (State_Monad.bind m f)"
  unfolding extends_def by (rule yields_bind) (erule yields_mono, simp)

lemma extends_if [extends_rules]: "extends a \<Longrightarrow> extends b \<Longrightarrow> extends (if c then a else b)"
  by simp

lemma extends_let [extends_rules]: "(\<And>x. extends (f x)) \<Longrightarrow> extends (Let a f)"
  by simp

lemma extends_case_sum [extends_rules]:
  "(\<And>x. extends (f x)) \<Longrightarrow> (\<And>y. extends (g y)) \<Longrightarrow> extends (case_sum f g s)"
  by (simp split: sum.split)

lemma extends_case_option [extends_rules]:
  "extends a \<Longrightarrow> (\<And>y. extends (g y)) \<Longrightarrow> extends (case_option a g s)"
  by (simp split: option.split)

lemma extends_case_prod [extends_rules]: "(\<And>x y. extends (f x y)) \<Longrightarrow> extends (case_prod f p)"
  by (simp split: prod.split)

lemma yields_extends: "yields m P \<Longrightarrow> extends m"
  unfolding extends_def by (erule yields_mono) simp

lemma yields_bind_known:
  assumes "\<And>h. f h = a" "yields (m a) (\<lambda>r es. P r (mk a # es))"
  shows "yields (State_Monad.bind (call f mk) m) P"
  by (rule yields_bind, rule yields_call_known) (use assms in simp)

lemma yields_whatever: "extends m \<Longrightarrow> (\<And>r es. P r es) \<Longrightarrow> yields m P"
  unfolding extends_def by (erule yields_mono)

definition emits ::
  "('e \<Rightarrow> bool) \<Rightarrow> ('e \<Rightarrow> bool) \<Rightarrow> ('a \<Rightarrow> bool) \<Rightarrow> ('e list, 'a) state \<Rightarrow> bool" where
  "emits A G R m \<longleftrightarrow> yields m (\<lambda>r es. list_all A es \<longrightarrow> R r \<and> list_all G es)"

lemma emits_ret [emits_rules]: "R a \<Longrightarrow> emits A G R (ret a)"
  by (simp add: emits_def yields_ret)

lemma emits_call [emits_rules]:
  "(\<And>r. A (mk r) \<Longrightarrow> G (mk r) \<and> R r) \<Longrightarrow> emits A G R (call f mk)"
  by (simp add: emits_def yields_call)

lemma emits_bind [emits_rules]:
  assumes "emits A G (\<lambda>a. emits A G R (f a)) m" and "\<And>a. extends (f a)"
  shows "emits A G R (State_Monad.bind m f)"
  unfolding emits_def
proof (rule yields_bind_mono [OF assms(1) [unfolded emits_def [of A G "\<lambda>a. emits A G R (f a)"]]])
  fix r es
  assume 1: "list_all A es \<longrightarrow> emits A G R (f r) \<and> list_all G es"
  show "yields (f r) (\<lambda>r' es'. list_all A (es @ es') \<longrightarrow> R r' \<and> list_all G (es @ es'))"
  proof (cases "list_all A es")
    case True
    with 1 show ?thesis unfolding emits_def by (auto elim: yields_mono)
  next
    case False
    then show ?thesis using assms(2) [of r] unfolding extends_def by (auto elim: yields_mono)
  qed
qed

lemma emits_mono:
  assumes "emits A G R m" "\<And>e. A' e \<Longrightarrow> A e" "\<And>e. A' e \<Longrightarrow> G e \<Longrightarrow> G' e" "\<And>r. R r \<Longrightarrow> R' r"
  shows "emits A' G' R' m"
  using assms(1) unfolding emits_def
  by (rule yields_mono) (auto simp: list_all_iff assms(2,3,4))

lemma emits_yields:
  "emits A G R m \<Longrightarrow> yields m (\<lambda>r es. list_all A es \<longrightarrow> R r \<and> list_all G es)"
  by (simp add: emits_def)

lemma emits_forall:
  assumes "\<And>U. P U \<Longrightarrow> emits (A U) (G U) (\<lambda>_. True) m" "extends m"
  shows "yields m (\<lambda>_ es. \<forall>U. P U \<longrightarrow> list_all (A U) es \<longrightarrow> list_all (G U) es)"
proof (rule yieldsI)
  fix h
  obtain x es where run: "run_state m h = (x, h @ es)"
    using yieldsE [OF assms(2) [unfolded extends_def]] .
  moreover have "list_all (G U) es" if "P U" "list_all (A U) es" for U
    using yieldsD [OF emits_yields [OF assms(1) [OF that(1)]] run] that(2) by simp
  ultimately show "\<exists>x es. run_state m h = (x, h @ es)
      \<and> (\<forall>U. P U \<longrightarrow> list_all (A U) es \<longrightarrow> list_all (G U) es)" by blast
qed

text \<open>Without a rely, the guarantee holds of every call.\<close>

abbreviation only :: "('e \<Rightarrow> bool) \<Rightarrow> ('e list, 'a) state \<Rightarrow> bool" where
  "only G m \<equiv> yields m (\<lambda>_. list_all G)"

lemma only_bind: "only G m \<Longrightarrow> (\<And>a. only G (f a)) \<Longrightarrow> only G (State_Monad.bind m f)"
  by (rule yields_bind) (auto elim!: yields_mono)

lemma yields_emits: "yields m P \<Longrightarrow> (\<And>r es. P r es \<Longrightarrow> list_all A es \<Longrightarrow> R r \<and> list_all G es)
  \<Longrightarrow> emits A G R m"
  unfolding emits_def by (erule yields_mono) blast

end
