(* ===== verification/GoStrings.thy ===== *)
theory GoStrings
  imports KPrelude
begin

text \<open>
  The functions of Go's \<^verbatim>\<open>strings\<close>, \<^verbatim>\<open>strconv\<close> and \<^verbatim>\<open>unicode\<close> packages that the program
  calls, on byte strings. A Go string is a sequence of bytes and an Isabelle \<open>string\<close> is a
  list of 8-bit characters, so lengths, slices and comparisons agree. The rune-wise functions
  (trimming white space, lower-casing, classifying letters and digits) are written out for
  ASCII, where a rune is a byte: every name they are applied to is a Kubernetes object name,
  namespace, UID or DNS name. Bytes above 127 are left alone by them.
\<close>

section \<open>Characters\<close>

definition code :: "char \<Rightarrow> nat" where
  "code c = of_char c"

definition is_space :: "char \<Rightarrow> bool" where
  "is_space c \<longleftrightarrow> code c = 32 \<or> (9 \<le> code c \<and> code c \<le> 13)"

definition is_upper :: "char \<Rightarrow> bool" where
  "is_upper c \<longleftrightarrow> 65 \<le> code c \<and> code c \<le> 90"

definition is_lower :: "char \<Rightarrow> bool" where
  "is_lower c \<longleftrightarrow> 97 \<le> code c \<and> code c \<le> 122"

definition is_letter :: "char \<Rightarrow> bool" where
  "is_letter c \<longleftrightarrow> is_upper c \<or> is_lower c"

definition is_digit :: "char \<Rightarrow> bool" where
  "is_digit c \<longleftrightarrow> 48 \<le> code c \<and> code c \<le> 57"

definition lower :: "char \<Rightarrow> char" where
  "lower c = (if is_upper c then char_of (code c + 32) else c)"

definition dash :: char where
  "dash = CHR ''-''"

lemma code_lower: "code (lower c) = (if is_upper c then code c + 32 else code c)"
  by (auto simp: lower_def code_def is_upper_def of_char_of)

lemma code_dash: "code dash = 45"
  by (simp add: code_def dash_def)

lemma not_upper_lower [go_string]: "\<not> is_upper (lower c)"
  by (auto simp: is_upper_def code_lower)

lemma lower_id [go_string]: "\<not> is_upper c \<Longrightarrow> lower c = c"
  by (simp add: lower_def)

lemma lower_lower [simp]: "lower (lower c) = lower c"
  by (simp add: lower_id not_upper_lower)

lemma is_space_lower [simp]: "is_space (lower c) = is_space c"
  by (auto simp: is_space_def is_upper_def code_lower)

lemma lower_dot [simp]: "lower c = CHR ''.'' \<longleftrightarrow> c = CHR ''.''"
proof
  assume h: "lower c = CHR ''.''"
  then have "code (lower c) = 46" by (simp add: code_def)
  then have "\<not> is_upper c" by (auto simp: code_lower is_upper_def split: if_splits)
  with h show "c = CHR ''.''" by (simp add: lower_def)
qed (simp add: lower_def is_upper_def code_def)

section \<open>The strings package\<close>

definition has_prefix :: "string \<Rightarrow> string \<Rightarrow> bool" where
  "has_prefix s p \<longleftrightarrow> take (length p) s = p"

definition has_suffix :: "string \<Rightarrow> string \<Rightarrow> bool" where
  "has_suffix s p \<longleftrightarrow> length p \<le> length s \<and> drop (length s - length p) s = p"

definition trim_prefix :: "string \<Rightarrow> string \<Rightarrow> string" where
  "trim_prefix s p = (if has_prefix s p then drop (length p) s else s)"

definition trim_suffix :: "string \<Rightarrow> string \<Rightarrow> string" where
  "trim_suffix s p = (if has_suffix s p then take (length s - length p) s else s)"

definition trim_right_by :: "(char \<Rightarrow> bool) \<Rightarrow> string \<Rightarrow> string" where
  "trim_right_by p s = rev (dropWhile p (rev s))"

definition trim_by :: "(char \<Rightarrow> bool) \<Rightarrow> string \<Rightarrow> string" where
  "trim_by p s = trim_right_by p (dropWhile p s)"

definition trim_space :: "string \<Rightarrow> string" where
  "trim_space s = trim_by is_space s"

definition to_lower :: "string \<Rightarrow> string" where
  "to_lower s = map lower s"

text \<open>\<^verbatim>\<open>strings.ReplaceAll(s, "-", "")\<close>, \<^verbatim>\<open>strings.Trim(s, "-")\<close> and
  \<^verbatim>\<open>strings.TrimRight(s, "-")\<close>.\<close>

definition remove_dashes :: "string \<Rightarrow> string" where
  "remove_dashes s = filter (\<lambda>c. c \<noteq> dash) s"

definition trim_dashes :: "string \<Rightarrow> string" where
  "trim_dashes s = trim_by (\<lambda>c. c = dash) s"

definition trim_right_dashes :: "string \<Rightarrow> string" where
  "trim_right_dashes s = trim_right_by (\<lambda>c. c = dash) s"

lemma has_suffix_iff [go_string]: "has_suffix s p \<longleftrightarrow> (\<exists>q. s = q @ p)"
proof
  assume "has_suffix s p"
  then have "s = take (length s - length p) s @ p"
    by (metis has_suffix_def append_take_drop_id)
  then show "\<exists>q. s = q @ p" ..
qed (auto simp: has_suffix_def)

lemma has_prefix_iff [go_string]: "has_prefix s p \<longleftrightarrow> (\<exists>q. s = p @ q)"
proof
  assume "has_prefix s p"
  then have "s = p @ drop (length p) s"
    by (metis has_prefix_def append_take_drop_id)
  then show "\<exists>q. s = p @ q" ..
qed (auto simp: has_prefix_def)

lemma trim_prefix_append [simp]: "trim_prefix (p @ s) p = s"
  by (simp add: trim_prefix_def has_prefix_def)

lemma length_to_lower [simp]: "length (to_lower s) = length s"
  by (simp add: to_lower_def)

lemma trim_right_by_decomp: "\<exists>t. s = trim_right_by p s @ t \<and> (\<forall>c \<in> set t. p c)"
proof (intro exI conjI)
  show "s = trim_right_by p s @ rev (takeWhile p (rev s))"
    unfolding trim_right_by_def by (metis rev_append rev_rev_ident takeWhile_dropWhile_id)
  show "\<forall>c \<in> set (rev (takeWhile p (rev s))). p c"
    by (auto dest: set_takeWhileD)
qed

lemma length_trim_right_by: "length (trim_right_by p s) \<le> length s"
  unfolding trim_right_by_def by (metis length_dropWhile_le length_rev)

lemma length_trim_by: "length (trim_by p s) \<le> length s"
  unfolding trim_by_def by (meson length_trim_right_by length_dropWhile_le le_trans)

lemma trim_right_by_last: "trim_right_by p s \<noteq> [] \<Longrightarrow> \<not> p (last (trim_right_by p s))"
  unfolding trim_right_by_def using hd_dropWhile [of p "rev s"] by (simp add: last_rev)

lemma hd_trim_right_by:
  assumes "s \<noteq> []" and "\<not> p (hd s)"
  shows "trim_right_by p s \<noteq> [] \<and> hd (trim_right_by p s) = hd s"
proof -
  obtain t where s: "s = trim_right_by p s @ t" and t: "\<forall>c \<in> set t. p c"
    using trim_right_by_decomp by blast
  have "trim_right_by p s \<noteq> []"
  proof
    assume "trim_right_by p s = []"
    with s have "s = t" by simp
    with assms t show False by (metis list.set_sel(1))
  qed
  with s show ?thesis by (metis hd_append2)
qed

lemma trim_by_ends:
  assumes "trim_by p s \<noteq> []"
  shows "\<not> p (hd (trim_by p s)) \<and> \<not> p (last (trim_by p s))"
proof -
  let ?d = "dropWhile p s"
  have d: "?d \<noteq> []"
  proof
    assume "?d = []"
    then have "trim_by p s = []" unfolding trim_by_def trim_right_by_def by (simp only: rev.simps dropWhile.simps)
    with assms show False by contradiction
  qed
  then have "\<not> p (hd ?d)" by (rule hd_dropWhile)
  with d have "hd (trim_by p s) = hd ?d" by (simp add: trim_by_def hd_trim_right_by)
  with \<open>\<not> p (hd ?d)\<close> assms show ?thesis
    by (simp add: trim_by_def trim_right_by_last)
qed

lemma set_trim_right_by: "set (trim_right_by p s) \<subseteq> set s"
  using trim_right_by_decomp [of s p] by (metis set_append sup_ge1)

lemma set_trim_by: "set (trim_by p s) \<subseteq> set s"
  unfolding trim_by_def using set_trim_right_by set_dropWhile_subset by (metis subset_trans)

lemma trim_right_by_id: "s = [] \<or> \<not> p (last s) \<Longrightarrow> trim_right_by p s = s"
  by (cases s rule: rev_cases) (auto simp: trim_right_by_def)

lemma trim_by_id: "s = [] \<or> (\<not> p (hd s) \<and> \<not> p (last s)) \<Longrightarrow> trim_by p s = s"
  by (cases s) (auto simp: trim_by_def trim_right_by_id)

section \<open>Decimal numbers and quoting\<close>

text \<open>\<^verbatim>\<open>strconv.Itoa\<close> and the verb \<^verbatim>\<open>%d\<close>; the verb \<^verbatim>\<open>%q\<close> is
  \<^verbatim>\<open>strconv.Quote\<close>.\<close>

definition digit_char :: "nat \<Rightarrow> char" where
  "digit_char d = char_of (48 + d)"

fun nat_to_dec :: "nat \<Rightarrow> string" where
  "nat_to_dec n = (if n < 10 then [digit_char n] else nat_to_dec (n div 10) @ [digit_char (n mod 10)])"

declare nat_to_dec.simps [simp del]

lemma nat_to_dec_small [go_string]: "n < 10 \<Longrightarrow> nat_to_dec n = [digit_char n]"
  by (simp add: nat_to_dec.simps)

lemma nat_to_dec_step [go_string]:
  "\<not> n < 10 \<Longrightarrow> nat_to_dec n = nat_to_dec (n div 10) @ [digit_char (n mod 10)]"
  by (simp add: nat_to_dec.simps)

definition int_to_dec :: "int \<Rightarrow> string" where
  "int_to_dec i = (if i < 0 then ''-'' @ nat_to_dec (nat (- i)) else nat_to_dec (nat i))"

definition hex_digit :: "nat \<Rightarrow> char" where
  "hex_digit d = (if d < 10 then char_of (48 + d) else char_of (87 + d))"

definition quote_char :: "char \<Rightarrow> string" where
  "quote_char c =
    (let bs = CHR 0x5C in
     if code c = 34 \<or> code c = 92 then [bs, c]
     else if 32 \<le> code c \<and> code c < 127 then [c]
     else if code c = 7 then [bs, CHR ''a'']
     else if code c = 8 then [bs, CHR ''b'']
     else if code c = 9 then [bs, CHR ''t'']
     else if code c = 10 then [bs, CHR ''n'']
     else if code c = 11 then [bs, CHR ''v'']
     else if code c = 12 then [bs, CHR ''f'']
     else if code c = 13 then [bs, CHR ''r'']
     else [bs, CHR ''x'', hex_digit (code c div 16), hex_digit (code c mod 16)])"

definition quote :: "string \<Rightarrow> string" where
  "quote s = [CHR 0x22] @ concat (map quote_char s) @ [CHR 0x22]"

end
