(* ===== verification/KubeTypes.thy ===== *)
theory KubeTypes
  imports GoStrings
begin

text \<open>
  The Kubernetes and Gateway API objects the controllers read and write, restricted to the
  fields the program uses, and the third-party functions it calls on them. The functions
  are not defined here: the record \<open>lib\<close> has one field for each, every definition of the
  development that needs one takes a \<open>lib\<close> as its argument, and what the program relies on is
  stated by the predicates \<open>condition_laws\<close> and \<open>finalizer_laws\<close>.

  Times are integers (\<^verbatim>\<open>metav1.Time\<close> as nanoseconds since Go's zero time, so 0 is the
  zero time), generations, ports and replica counts are integers: the program compares and
  prints them and never calculates with them.
\<close>

section \<open>Object metadata and conditions\<close>

type_synonym labels = "string \<rightharpoonup> string"

record objectMeta =
  om_name :: string
  om_namespace :: string
  om_uid :: string
  om_generation :: int
  om_creationTimestamp :: int
  om_deletionTimestamp :: "int option"
  om_finalizers :: "string list"
  om_labels :: labels

definition labelValue :: "labels \<Rightarrow> string \<Rightarrow> string" where
  \<comment> \<open>Indexing a Go map: the zero value for a missing key.\<close>
  "labelValue m k = (case m k of None \<Rightarrow> '''' | Some v \<Rightarrow> v)"

definition timeIsZero :: "int option \<Rightarrow> bool" where
  \<comment> \<open>\<^verbatim>\<open>(*metav1.Time).IsZero\<close>: a nil pointer or the zero time.\<close>
  "timeIsZero t = (case t of None \<Rightarrow> True | Some x \<Rightarrow> x = 0)"

definition newObject :: "string \<Rightarrow> string \<Rightarrow> objectMeta" where
  \<comment> \<open>A fresh Go object literal with only its name and namespace set.\<close>
  "newObject ns n = \<lparr>om_name = n, om_namespace = ns, om_uid = '''', om_generation = 0,
     om_creationTimestamp = 0, om_deletionTimestamp = None, om_finalizers = [],
     om_labels = Map.empty\<rparr>"

datatype conditionStatus = ConditionTrue | ConditionFalse | ConditionUnknown

record condition =
  cond_type :: string
  cond_status :: conditionStatus
  cond_observedGeneration :: int
  cond_reason :: string
  cond_message :: string

text \<open>\<^verbatim>\<open>metav1.Condition.LastTransitionTime\<close> is left out: the library sets it and
  the program never reads it.\<close>

record labelSelector =
  sel_matchLabels :: "(string \<times> string) list"
  sel_matchExpressions :: "(string \<times> string \<times> string list) list"

datatype intOrString = IntVal int | StrVal string

section \<open>Core objects\<close>

record namespaceObj =
  ns_meta :: objectMeta

record servicePort =
  sp_name :: string
  sp_port :: int

record service =
  svc_meta :: objectMeta
  svc_type :: string
  svc_clusterIP :: string
  svc_ports :: "servicePort list"

record secret =
  sec_meta :: objectMeta
  sec_type :: string
  sec_data :: "string \<rightharpoonup> string"

definition ServiceTypeClusterIP :: string where
  "ServiceTypeClusterIP = ''ClusterIP''"

definition ClusterIPNone :: string where
  "ClusterIPNone = ''None''"

definition SecretTypeOpaque :: string where
  "SecretTypeOpaque = ''Opaque''"

definition NamespaceSystem :: string where
  "NamespaceSystem = ''kube-system''"

section \<open>Pods and Deployments\<close>

text \<open>Quantities (\<^verbatim>\<open>resource.Quantity\<close>) are values of the third-party parser, kept as
  its milli-units.\<close>

record podSecurityContext =
  psc_runAsNonRoot :: "bool option"
  psc_runAsUser :: "int option"
  psc_runAsGroup :: "int option"
  psc_fsGroup :: "int option"
  psc_seccompProfile :: "string option"

record securityContext =
  sc_allowPrivilegeEscalation :: "bool option"
  sc_readOnlyRootFilesystem :: "bool option"
  sc_runAsNonRoot :: "bool option"
  sc_capabilitiesDrop :: "string list"
  sc_capabilitiesAdd :: "string list"

record containerPort =
  cp_name :: string
  cp_containerPort :: int
  cp_protocol :: string

record volumeMount =
  vm_name :: string
  vm_mountPath :: string
  vm_readOnly :: bool

record probe =
  prb_path :: string
  prb_port :: intOrString
  prb_initialDelaySeconds :: int
  prb_periodSeconds :: int
  prb_failureThreshold :: int

record container =
  ct_name :: string
  ct_image :: string
  ct_args :: "string list"
  ct_env :: "(string \<times> string) list"
  ct_ports :: "containerPort list"
  ct_volumeMounts :: "volumeMount list"
  ct_securityContext :: "securityContext option"
  ct_readinessProbe :: "probe option"
  ct_livenessProbe :: "probe option"
  ct_requests :: "(string \<times> int) list"
  ct_limits :: "(string \<times> int) list"

record volume =
  vol_name :: string
  vol_secretName :: string
  vol_defaultMode :: "int option"

record podSpec =
  pod_automountServiceAccountToken :: "bool option"
  pod_securityContext :: "podSecurityContext option"
  pod_containers :: "container list"
  pod_volumes :: "volume list"

record deployment =
  dep_meta :: objectMeta
  dep_replicas :: "int option"
  dep_selector :: labels
  dep_strategy :: string
  dep_templateLabels :: labels
  dep_templateSpec :: podSpec
  dep_availableReplicas :: int
  dep_observedGeneration :: int

section \<open>Gateway API objects\<close>

record listener =
  li_name :: string
  li_protocol :: string

record gateway =
  gw_meta :: objectMeta
  gw_className :: string
  gw_listeners :: "listener list"
  gw_conditions :: "condition list"

record gatewayClass =
  gc_meta :: objectMeta
  gc_controllerName :: string

record parentReference =
  pref_group :: "string option"
  pref_kind :: "string option"
  pref_namespace :: "string option"
  pref_name :: string
  pref_sectionName :: "string option"

record routeParentStatus =
  rps_parentRef :: parentReference
  rps_controllerName :: string
  rps_conditions :: "condition list"

record httpRoute =
  hr_meta :: objectMeta
  hr_parentRefs :: "parentReference list"
  hr_hostnames :: "string list"
  hr_parents :: "routeParentStatus list"

record grantFrom =
  gf_group :: string
  gf_kind :: string
  gf_namespace :: string

record grantTo =
  gt_group :: string
  gt_kind :: string
  gt_name :: "string option"

record referenceGrant =
  rg_meta :: objectMeta
  rg_from :: "grantFrom list"
  rg_to :: "grantTo list"

definition GatewayGroupName :: string where
  "GatewayGroupName = ''gateway.networking.k8s.io''"

definition HTTPProtocolType :: string where
  "HTTPProtocolType = ''HTTP''"

section \<open>The ExternalDNS endpoint, an unstructured object\<close>

record dnsEndpointItem =
  dei_dnsName :: string
  dei_recordType :: string
  dei_targets :: "string list"
  dei_providerSpecific :: "(string \<times> string) list"

record dnsEndpoint =
  de_meta :: objectMeta
  de_controllerUID :: "string option"
  de_endpoints :: "dnsEndpointItem list"

section \<open>Third-party functions\<close>

record lib =
  lib_isDNS1123Subdomain :: "string \<Rightarrow> string list"
  lib_setStatusCondition :: "condition list \<Rightarrow> condition \<Rightarrow> condition list"
  lib_findStatusCondition :: "condition list \<Rightarrow> string \<Rightarrow> condition option"
  lib_containsFinalizer :: "string list \<Rightarrow> string \<Rightarrow> bool"
  lib_addFinalizer :: "string list \<Rightarrow> string \<Rightarrow> string list"
  lib_removeFinalizer :: "string list \<Rightarrow> string \<Rightarrow> string list"
  lib_labelSelectorAsSelector :: "labelSelector \<Rightarrow> string + (labels \<Rightarrow> bool)"
  lib_intOrStringString :: "intOrString \<Rightarrow> string"
  lib_mustParse :: "string \<Rightarrow> int"
  lib_setControllerReference :: "objectMeta \<Rightarrow> dnsEndpoint \<Rightarrow> string + dnsEndpoint"

text \<open>The documented behaviour of \<^verbatim>\<open>meta.SetStatusCondition\<close> and
  \<^verbatim>\<open>meta.FindStatusCondition\<close>: setting a condition makes it the one found under its
  type and touches no other type.\<close>

definition condition_laws :: "lib \<Rightarrow> bool" where
  "condition_laws L \<longleftrightarrow>
     (\<forall>cs c t. lib_findStatusCondition L (lib_setStatusCondition L cs c) t =
        (if t = cond_type c then Some c else lib_findStatusCondition L cs t))"

text \<open>The documented behaviour of \<^verbatim>\<open>controllerutil\<close>'s finalizer helpers.\<close>

definition finalizer_laws :: "lib \<Rightarrow> bool" where
  "finalizer_laws L \<longleftrightarrow>
     (\<forall>fs f g. lib_containsFinalizer L (lib_addFinalizer L fs f) g =
         (g = f \<or> lib_containsFinalizer L fs g)) \<and>
     (\<forall>fs f g. lib_containsFinalizer L (lib_removeFinalizer L fs f) g =
         (g \<noteq> f \<and> lib_containsFinalizer L fs g))"

text \<open>What the validator \<^verbatim>\<open>validation.IsDNS1123Subdomain\<close> documents of the names it
  accepts (it returns no message for them): lower-case letters, digits, dashes and dots, beginning
  and ending with a letter or digit.\<close>

definition dns_char :: "char \<Rightarrow> bool" where
  "dns_char c \<longleftrightarrow> is_lower c \<or> is_digit c \<or> c = dash \<or> c = CHR ''.''"

definition dns_end :: "char \<Rightarrow> bool" where
  "dns_end c \<longleftrightarrow> is_lower c \<or> is_digit c"

definition dns_laws :: "lib \<Rightarrow> bool" where
  "dns_laws L \<longleftrightarrow>
     (\<forall>s. lib_isDNS1123Subdomain L s = [] \<longrightarrow>
        s \<noteq> [] \<and> list_all dns_char s \<and> dns_end (hd s) \<and> dns_end (last s))"

lemma find_set_condition [simp]:
  "condition_laws L \<Longrightarrow> lib_findStatusCondition L (lib_setStatusCondition L cs c) t =
     (if t = cond_type c then Some c else lib_findStatusCondition L cs t)"
  by (simp add: condition_laws_def)

end
