(* ===== verification/ApiTypes.thy ===== *)
theory ApiTypes
  imports KubeTypes
begin

text \<open>
  The custom resources of \<^verbatim>\<open>api/v1alpha1\<close>: \<^verbatim>\<open>ClusterCloudflareProvider\<close>,
  \<^verbatim>\<open>CloudflareTunnelBinding\<close> and \<^verbatim>\<open>CloudflareTunnelPrivateRoute\<close>, and the
  external state of \<^verbatim>\<open>internal/cloudflare/client.go\<close>.
\<close>

definition GroupVersion_Group :: string where
  "GroupVersion_Group = ''kflared.kodeblox.com''"

section \<open>ClusterCloudflareProvider\<close>

definition ProviderConditionAccepted :: string where
  "ProviderConditionAccepted = ''Accepted''"

definition ProviderConditionCredentialsValid :: string where
  "ProviderConditionCredentialsValid = ''CredentialsValid''"

record secretKeyReference =
  skr_name :: string
  skr_key :: string

record clusterCloudflareProviderSpec =
  ps_controller :: string
  ps_accountID :: string
  ps_apiTokenSecretRef :: secretKeyReference
  ps_allowedDNSZones :: "string list"
  ps_bindingNamespaceSelector :: labelSelector

record clusterCloudflareProviderStatus =
  pst_observedGeneration :: int
  pst_conditions :: "condition list"

record clusterCloudflareProvider =
  p_meta :: objectMeta
  p_spec :: clusterCloudflareProviderSpec
  p_status :: clusterCloudflareProviderStatus

section \<open>CloudflareTunnelBinding\<close>

definition BindingConditionAccepted :: string where
  "BindingConditionAccepted = ''Accepted''"

definition BindingConditionProgrammed :: string where
  "BindingConditionProgrammed = ''Programmed''"

definition BindingConditionConnectorReady :: string where
  "BindingConditionConnectorReady = ''ConnectorReady''"

definition BindingConditionDNSAutomationReady :: string where
  "BindingConditionDNSAutomationReady = ''DNSAutomationReady''"

definition BindingConditionReady :: string where
  "BindingConditionReady = ''Ready''"

type_synonym deletionPolicy = string

definition DeletionPolicyDelete :: deletionPolicy where
  "DeletionPolicyDelete = ''Delete''"

definition DeletionPolicyRetain :: deletionPolicy where
  "DeletionPolicyRetain = ''Retain''"

record gatewayReference =
  gr_name :: string
  gr_sectionName :: string

record originServiceReference =
  osr_name :: string
  osr_namespace :: string
  osr_port :: intOrString

text \<open>A \<^verbatim>\<open>LocalReference\<close> has the one field \<^verbatim>\<open>name\<close> and is kept as that string.\<close>

record cloudflareTunnelBindingSpec =
  bs_controller :: string
  bs_providerRef :: string
  bs_gatewayRef :: gatewayReference
  bs_originServiceRef :: originServiceReference
  bs_connectorReplicas :: int
  bs_deletionPolicy :: deletionPolicy
  bs_dnsAutomationEnabled :: "bool option"

record dnsRecord =
  dr_hostname :: string
  dr_type :: string
  dr_target :: string

record connectorResourceNames =
  crn_deployment :: string
  crn_secret :: string
  crn_dnsEndpoint :: string

record cloudflareTunnelBindingStatus =
  bst_observedGeneration :: int
  bst_tunnelID :: string
  bst_tunnelName :: string
  bst_tunnelCNAME :: string
  bst_publishedHostnames :: "string list"
  bst_dnsRecords :: "dnsRecord list"
  bst_resources :: connectorResourceNames
  bst_conditions :: "condition list"

record cloudflareTunnelBinding =
  b_meta :: objectMeta
  b_spec :: cloudflareTunnelBindingSpec
  b_status :: cloudflareTunnelBindingStatus

section \<open>CloudflareTunnelPrivateRoute\<close>

definition PrivateRouteConditionAccepted :: string where
  "PrivateRouteConditionAccepted = ''Accepted''"

definition PrivateRouteConditionProgrammed :: string where
  "PrivateRouteConditionProgrammed = ''Programmed''"

definition PrivateRouteConditionConnectorReady :: string where
  "PrivateRouteConditionConnectorReady = ''ConnectorReady''"

definition PrivateRouteConditionReady :: string where
  "PrivateRouteConditionReady = ''Ready''"

record privateRouteServiceReference =
  prs_name :: string
  prs_namespace :: string
  prs_port :: intOrString

record cloudflareTunnelPrivateRouteSpec =
  rs_controller :: string
  rs_providerRef :: string
  rs_serviceRef :: privateRouteServiceReference
  rs_connectorReplicas :: int
  rs_deletionPolicy :: deletionPolicy

record cloudflareTunnelPrivateRouteStatus =
  rst_observedGeneration :: int
  rst_tunnelID :: string
  rst_tunnelName :: string
  rst_routeID :: string
  rst_network :: string
  rst_resources :: connectorResourceNames
  rst_conditions :: "condition list"

record cloudflareTunnelPrivateRoute =
  r_meta :: objectMeta
  r_spec :: cloudflareTunnelPrivateRouteSpec
  r_status :: cloudflareTunnelPrivateRouteStatus

section \<open>Cloudflare's external state\<close>

definition ConfigSourceCloudflare :: string where
  "ConfigSourceCloudflare = ''cloudflare''"

record tunnel =
  tn_id :: string
  tn_name :: string
  tn_configSource :: string
  tn_status :: string

record ingressRule =
  ir_hostname :: string
  ir_service :: string
  ir_path :: string

record privateRoute =
  pr_id :: string
  pr_network :: string
  pr_tunnelID :: string
  pr_comment :: string
  pr_virtualNetworkID :: string

section \<open>Names for the parts of an object the code reads most\<close>

abbreviation b_name :: "cloudflareTunnelBinding \<Rightarrow> string" where
  "b_name b \<equiv> om_name (b_meta b)"
abbreviation b_namespace :: "cloudflareTunnelBinding \<Rightarrow> string" where
  "b_namespace b \<equiv> om_namespace (b_meta b)"
abbreviation b_uid :: "cloudflareTunnelBinding \<Rightarrow> string" where
  "b_uid b \<equiv> om_uid (b_meta b)"
abbreviation b_generation :: "cloudflareTunnelBinding \<Rightarrow> int" where
  "b_generation b \<equiv> om_generation (b_meta b)"
abbreviation r_name :: "cloudflareTunnelPrivateRoute \<Rightarrow> string" where
  "r_name r \<equiv> om_name (r_meta r)"
abbreviation r_namespace :: "cloudflareTunnelPrivateRoute \<Rightarrow> string" where
  "r_namespace r \<equiv> om_namespace (r_meta r)"
abbreviation r_uid :: "cloudflareTunnelPrivateRoute \<Rightarrow> string" where
  "r_uid r \<equiv> om_uid (r_meta r)"
abbreviation r_generation :: "cloudflareTunnelPrivateRoute \<Rightarrow> int" where
  "r_generation r \<equiv> om_generation (r_meta r)"
abbreviation p_name :: "clusterCloudflareProvider \<Rightarrow> string" where
  "p_name p \<equiv> om_name (p_meta p)"
abbreviation p_generation :: "clusterCloudflareProvider \<Rightarrow> int" where
  "p_generation p \<equiv> om_generation (p_meta p)"

section \<open>Errors\<close>

text \<open>
  Go error values. \<open>kubeError\<close> is what the Kubernetes client and the REST mapper return, told
  apart the way \<^verbatim>\<open>apierrors.IsNotFound\<close> and \<^verbatim>\<open>meta.IsNoMatchError\<close> do,
  \<open>sdkError\<close> what the Cloudflare SDK returns (an API error carries its HTTP status code).
  \<open>Errorf\<close> is \<^verbatim>\<open>fmt.Errorf\<close> without \<^verbatim>\<open>%w\<close>, \<open>Wrap\<close> and \<open>Framed\<close> with it, \<open>Joined\<close> is
  \<^verbatim>\<open>errors.Join\<close>; the two sentinels are the program's package variables.
\<close>

datatype kubeError = NotFound string | NoMatch string | KubeFailure string

datatype sdkError = APIError int string | TransportError string

datatype goerr =
    Kube kubeError
  | SDK sdkError
  | ErrCredentialsRejected
  | ErrClusterProviderStatusUnknown
  | Errorf string
  | Wrap string goerr
  | Framed string goerr string
  | Joined "goerr list"

definition errorsJoin :: "goerr option list \<Rightarrow> goerr option" where
  "errorsJoin es = (case List.map_filter id es of [] \<Rightarrow> None | ds \<Rightarrow> Some (Joined ds))"

fun errorsIs :: "(goerr \<Rightarrow> bool) \<Rightarrow> goerr \<Rightarrow> bool" where
  \<comment> \<open>\<^verbatim>\<open>errors.Is\<close> and \<^verbatim>\<open>errors.As\<close>: some error of the tree matches.\<close>
  "errorsIs p (Wrap s e) = (p (Wrap s e) \<or> errorsIs p e)"
| "errorsIs p (Framed s e t) = (p (Framed s e t) \<or> errorsIs p e)"
| "errorsIs p (Joined es) = (p (Joined es) \<or> list_ex (errorsIs p) es)"
| "errorsIs p e = p e"

fun kubeErrorText :: "kubeError \<Rightarrow> string" where
  "kubeErrorText (NotFound s) = s"
| "kubeErrorText (NoMatch s) = s"
| "kubeErrorText (KubeFailure s) = s"

fun sdkErrorText :: "sdkError \<Rightarrow> string" where
  "sdkErrorText (APIError statusCode s) = s"
| "sdkErrorText (TransportError s) = s"

fun joinLines :: "string list \<Rightarrow> string" where
  "joinLines [] = []"
| "joinLines [s] = s"
| "joinLines (s # ss) = s @ CHR 0x0A # joinLines ss"

fun errorText :: "goerr \<Rightarrow> string" where
  \<comment> \<open>\<^verbatim>\<open>err.Error()\<close>\<close>
  "errorText (Kube k) = kubeErrorText k"
| "errorText (SDK e) = sdkErrorText e"
| "errorText ErrCredentialsRejected = ''cloudflare credentials rejected''"
| "errorText ErrClusterProviderStatusUnknown = ''ClusterCloudflareProvider status is not currently known''"
| "errorText (Errorf s) = s"
| "errorText (Wrap s e) = s @ '': '' @ errorText e"
| "errorText (Framed s e t) = s @ errorText e @ t"
| "errorText (Joined es) = joinLines (map errorText es)"

definition isNotFoundKube :: "kubeError \<Rightarrow> bool" where
  "isNotFoundKube e = (case e of NotFound _ \<Rightarrow> True | _ \<Rightarrow> False)"

definition isNoMatchError :: "kubeError \<Rightarrow> bool" where
  "isNoMatchError e = (case e of NoMatch _ \<Rightarrow> True | _ \<Rightarrow> False)"

definition apierrorsIsNotFound :: "goerr \<Rightarrow> bool" where
  "apierrorsIsNotFound e = errorsIs (\<lambda>x. case x of Kube k \<Rightarrow> isNotFoundKube k | _ \<Rightarrow> False) e"

definition ignoreNotFound :: "kubeError \<Rightarrow> goerr option" where
  \<comment> \<open>\<^verbatim>\<open>client.IgnoreNotFound\<close>\<close>
  "ignoreNotFound e = (if isNotFoundKube e then None else Some (Kube e))"

lemma apierrorsIsNotFound_simps [simp]:
  "apierrorsIsNotFound (Kube k) = isNotFoundKube k"
  "apierrorsIsNotFound (Errorf s) = False"
  by (simp_all add: apierrorsIsNotFound_def)

end
