(* ===== verification/Effects.thy ===== *)
theory Effects
  imports ApiTypes
begin

text \<open>
  The outside world. An \<open>event\<close> is one call of the program with the answer it got, and
  a \<open>world\<close> answers every call as a function of the history of events. Nothing is assumed of it:
  the Kubernetes API server may return stale, changed or no objects, other writers may act
  between any two calls, and every call may fail. Each operation of the clients the program uses
  is then one \<open>call\<close> that records itself.

  \<^verbatim>\<open>controllerutil.CreateOrPatch\<close> is third-party code that calls back into the program: it
  hands an object to the callback (the present one, or the blank one if there is none) and, if
  the callback succeeds, stores what the callback made of it. The world has one answer for
  each of these two steps; when the callback fails nothing is stored and its error is returned.
\<close>

type_synonym namespacedName = "string \<times> string"

datatype childKind = DeploymentKind | SecretKind | DNSEndpointKind

section \<open>Cloudflare's client interface\<close>

datatype (plugins only: code) event =
    GetBinding namespacedName "kubeError + cloudflareTunnelBinding"
  | GetProvider string "kubeError + clusterCloudflareProvider"
  | GetPrivateRouteObject namespacedName "kubeError + cloudflareTunnelPrivateRoute"
  | GetNamespace string "kubeError + namespaceObj"
  | GetGateway namespacedName "kubeError + gateway"
  | GetGatewayClass string "kubeError + gatewayClass"
  | GetService namespacedName "kubeError + service"
  | GetSecret namespacedName "kubeError + secret"
  | GetChild childKind namespacedName "kubeError + objectMeta"
  | ListBindings "string option" "kubeError + cloudflareTunnelBinding list"
  | ListPrivateRouteObjects "kubeError + cloudflareTunnelPrivateRoute list"
  | ListHTTPRoutes string "kubeError + httpRoute list"
  | ListReferenceGrants string "kubeError + referenceGrant list"
  | RESTMapping "kubeError option"
  | UpdateBinding cloudflareTunnelBinding "kubeError option"
  | UpdateProvider clusterCloudflareProvider "kubeError option"
  | UpdatePrivateRoute cloudflareTunnelPrivateRoute "kubeError option"
  | PatchBindingStatus cloudflareTunnelBinding cloudflareTunnelBinding
      "kubeError + cloudflareTunnelBinding"
  | PatchProviderStatus clusterCloudflareProvider clusterCloudflareProvider
      "kubeError + clusterCloudflareProvider"
  | PatchPrivateRouteStatus cloudflareTunnelPrivateRoute cloudflareTunnelPrivateRoute
      "kubeError + cloudflareTunnelPrivateRoute"
  | FetchSecret namespacedName "kubeError + secret"
  | StoreSecret secret secret "kubeError option"
  | FetchDeployment namespacedName "kubeError + deployment"
  | StoreDeployment deployment deployment "kubeError + deployment"
  | FetchDNSEndpoint namespacedName "kubeError + dnsEndpoint"
  | StoreDNSEndpoint dnsEndpoint dnsEndpoint "kubeError option"
  | DeleteChild childKind objectMeta "kubeError option"
  | RecordEvent string string string
  | NewCloudflareClient string string
  | CfValidate "goerr option"
  | CfFindTunnelByName string "goerr + tunnel option"
  | CfGetTunnel string "goerr + tunnel option"
  | CfCreateTunnel string "goerr + tunnel"
  | CfGetConfiguration string "goerr + ingressRule list"
  | CfUpdateConfiguration string "ingressRule list" "goerr option"
  | CfGetToken string "goerr + string"
  | CfDeleteTunnel string "goerr option"
  | CfListPrivateRoutes string "privateRoute list \<times> goerr option"
  | CfGetPrivateRoute string "goerr + privateRoute option"
  | CfCreatePrivateRoute string string string "goerr + privateRoute option"
  | CfDeletePrivateRoute string "goerr option"

type_synonym history = "event list"
type_synonym 'a io = "(history, 'a) state"

text \<open>The calls that change something other than the status of the object at hand or the
  event log.\<close>

fun mutates :: "event \<Rightarrow> bool" where
  "mutates (UpdateBinding b e) = True"
| "mutates (UpdateProvider p e) = True"
| "mutates (UpdatePrivateRoute r e) = True"
| "mutates (StoreSecret current new e) = True"
| "mutates (StoreDeployment current new e) = True"
| "mutates (StoreDNSEndpoint current new e) = True"
| "mutates (DeleteChild kind child e) = True"
| "mutates (CfCreateTunnel n t) = True"
| "mutates (CfUpdateConfiguration i rules e) = True"
| "mutates (CfDeleteTunnel i e) = True"
| "mutates (CfCreatePrivateRoute n t c x) = True"
| "mutates (CfDeletePrivateRoute i e) = True"
| "mutates e = False"

text \<open>The calls that change no object at all.\<close>

fun readOnly :: "event \<Rightarrow> bool" where
  "readOnly (PatchBindingStatus b0 b1 x) = False"
| "readOnly (PatchPrivateRouteStatus r0 r1 x) = False"
| "readOnly (PatchProviderStatus p0 p1 x) = False"
| "readOnly e = (\<not> mutates e)"

text \<open>The interface \<^verbatim>\<open>cloudflare.Client\<close>. A Go result \<^verbatim>\<open>(*T, error)\<close> whose pointer
  may be nil without an error is \<open>goerr + T option\<close>; \<^verbatim>\<open>ListPrivateRoutes\<close> returns the
  routes read so far together with its error.\<close>

record cfClient =
  cl_Validate :: "history \<Rightarrow> goerr option"
  cl_FindTunnelByName :: "history \<Rightarrow> string \<Rightarrow> goerr + tunnel option"
  cl_GetTunnel :: "history \<Rightarrow> string \<Rightarrow> goerr + tunnel option"
  cl_CreateTunnel :: "history \<Rightarrow> string \<Rightarrow> goerr + tunnel"
  cl_GetConfiguration :: "history \<Rightarrow> string \<Rightarrow> goerr + ingressRule list"
  cl_UpdateConfiguration :: "history \<Rightarrow> string \<Rightarrow> ingressRule list \<Rightarrow> goerr option"
  cl_GetToken :: "history \<Rightarrow> string \<Rightarrow> goerr + string"
  cl_DeleteTunnel :: "history \<Rightarrow> string \<Rightarrow> goerr option"
  cl_ListPrivateRoutes :: "history \<Rightarrow> string \<Rightarrow> privateRoute list \<times> goerr option"
  cl_GetPrivateRoute :: "history \<Rightarrow> string \<Rightarrow> goerr + privateRoute option"
  cl_CreatePrivateRoute :: "history \<Rightarrow> string \<Rightarrow> string \<Rightarrow> string \<Rightarrow> goerr + privateRoute option"
  cl_DeletePrivateRoute :: "history \<Rightarrow> string \<Rightarrow> goerr option"

type_synonym cfFactory = "string \<Rightarrow> string \<Rightarrow> cfClient"

definition cfValidate :: "cfClient \<Rightarrow> goerr option io" where
  "cfValidate api = call (cl_Validate api) CfValidate"
definition cfFindTunnelByName :: "cfClient \<Rightarrow> string \<Rightarrow> (goerr + tunnel option) io" where
  "cfFindTunnelByName api n = call (\<lambda>h. cl_FindTunnelByName api h n) (CfFindTunnelByName n)"
definition cfGetTunnel :: "cfClient \<Rightarrow> string \<Rightarrow> (goerr + tunnel option) io" where
  "cfGetTunnel api i = call (\<lambda>h. cl_GetTunnel api h i) (CfGetTunnel i)"
definition cfCreateTunnel :: "cfClient \<Rightarrow> string \<Rightarrow> (goerr + tunnel) io" where
  "cfCreateTunnel api n = call (\<lambda>h. cl_CreateTunnel api h n) (CfCreateTunnel n)"
definition cfGetConfiguration :: "cfClient \<Rightarrow> string \<Rightarrow> (goerr + ingressRule list) io" where
  "cfGetConfiguration api i = call (\<lambda>h. cl_GetConfiguration api h i) (CfGetConfiguration i)"
definition cfUpdateConfiguration :: "cfClient \<Rightarrow> string \<Rightarrow> ingressRule list \<Rightarrow> goerr option io" where
  "cfUpdateConfiguration api i rules =
     call (\<lambda>h. cl_UpdateConfiguration api h i rules) (CfUpdateConfiguration i rules)"
definition cfGetToken :: "cfClient \<Rightarrow> string \<Rightarrow> (goerr + string) io" where
  "cfGetToken api i = call (\<lambda>h. cl_GetToken api h i) (CfGetToken i)"
definition cfDeleteTunnel :: "cfClient \<Rightarrow> string \<Rightarrow> goerr option io" where
  "cfDeleteTunnel api i = call (\<lambda>h. cl_DeleteTunnel api h i) (CfDeleteTunnel i)"
definition cfListPrivateRoutes :: "cfClient \<Rightarrow> string \<Rightarrow> (privateRoute list \<times> goerr option) io" where
  "cfListPrivateRoutes api n = call (\<lambda>h. cl_ListPrivateRoutes api h n) (CfListPrivateRoutes n)"
definition cfGetPrivateRoute :: "cfClient \<Rightarrow> string \<Rightarrow> (goerr + privateRoute option) io" where
  "cfGetPrivateRoute api i = call (\<lambda>h. cl_GetPrivateRoute api h i) (CfGetPrivateRoute i)"
definition cfCreatePrivateRoute ::
  "cfClient \<Rightarrow> string \<Rightarrow> string \<Rightarrow> string \<Rightarrow> (goerr + privateRoute option) io" where
  "cfCreatePrivateRoute api n t c =
     call (\<lambda>h. cl_CreatePrivateRoute api h n t c) (CfCreatePrivateRoute n t c)"
definition cfDeletePrivateRoute :: "cfClient \<Rightarrow> string \<Rightarrow> goerr option io" where
  "cfDeletePrivateRoute api i = call (\<lambda>h. cl_DeletePrivateRoute api h i) (CfDeletePrivateRoute i)"

lemmas cf_call_defs = cfValidate_def cfFindTunnelByName_def cfGetTunnel_def cfCreateTunnel_def
  cfGetConfiguration_def cfUpdateConfiguration_def cfGetToken_def cfDeleteTunnel_def
  cfListPrivateRoutes_def cfGetPrivateRoute_def cfCreatePrivateRoute_def cfDeletePrivateRoute_def

lemma cf_extends [extends_rules]:
  "extends (cfValidate api)"
  "extends (cfFindTunnelByName api n)"
  "extends (cfGetTunnel api i)"
  "extends (cfCreateTunnel api n)"
  "extends (cfGetConfiguration api i)"
  "extends (cfUpdateConfiguration api i rules)"
  "extends (cfGetToken api i)"
  "extends (cfDeleteTunnel api i)"
  "extends (cfListPrivateRoutes api n)"
  "extends (cfGetPrivateRoute api i)"
  "extends (cfCreatePrivateRoute api n t c)"
  "extends (cfDeletePrivateRoute api i)"
  by (simp_all add: cf_call_defs extends_call)

section \<open>The Cloudflare SDK, third-party\<close>

record sdkTunnel =
  st_ID :: string
  st_Name :: string
  st_ConfigSrc :: string
  st_Status :: string

record sdkIngress =
  si_Hostname :: string
  si_Service :: string
  si_Path :: string

text \<open>Request parameters the code may leave unset are options.\<close>

record sdkIngressParam =
  sip_Service :: string
  sip_Hostname :: "string option"
  sip_Path :: "string option"

record sdkRoute =
  sr_ID :: string
  sr_Network :: string
  sr_TunnelID :: string
  sr_Comment :: string
  sr_VirtualNetworkID :: string
  sr_DeletedAt :: int

text \<open>The SDK's services the program calls, each with the account identifier and the
  parameters the program sets. \<open>sdk_TunnelsList\<close> gets the name filter (none when
  validating), the page size and the filter \<^verbatim>\<open>IsDeleted\<close>; \<open>sdk_RoutesListAutoPaging\<close> gets the
  network and \<^verbatim>\<open>IsDeleted\<close>, and gives the elements its pager delivers and the pager's error.\<close>

record sdkApi =
  sdk_TunnelsList :: "history \<Rightarrow> string \<Rightarrow> string option \<Rightarrow> nat \<Rightarrow> bool \<Rightarrow> sdkError + sdkTunnel list"
  sdk_TunnelsGet :: "history \<Rightarrow> string \<Rightarrow> string \<Rightarrow> sdkError + sdkTunnel"
  sdk_TunnelsNew :: "history \<Rightarrow> string \<Rightarrow> string \<Rightarrow> string \<Rightarrow> sdkError + sdkTunnel"
  sdk_TunnelsDelete :: "history \<Rightarrow> string \<Rightarrow> string \<Rightarrow> sdkError option"
  sdk_ConfigurationsGet :: "history \<Rightarrow> string \<Rightarrow> string \<Rightarrow> sdkError + sdkIngress list"
  sdk_ConfigurationsUpdate :: "history \<Rightarrow> string \<Rightarrow> string \<Rightarrow> sdkIngressParam list \<Rightarrow> sdkError option"
  sdk_TokenGet :: "history \<Rightarrow> string \<Rightarrow> string \<Rightarrow> sdkError + string option"
  sdk_RoutesListAutoPaging :: "history \<Rightarrow> string \<Rightarrow> string \<Rightarrow> bool \<Rightarrow> sdkRoute list \<times> sdkError option"
  sdk_RoutesGet :: "history \<Rightarrow> string \<Rightarrow> string \<Rightarrow> sdkError + sdkRoute"
  sdk_RoutesNew :: "history \<Rightarrow> string \<Rightarrow> string \<Rightarrow> string \<Rightarrow> string option \<Rightarrow> sdkError + sdkRoute"
  sdk_RoutesDelete :: "history \<Rightarrow> string \<Rightarrow> string \<Rightarrow> sdkError option"

end
