(* ===== verification/World.thy ===== *)
theory World
  imports Effects
begin

text \<open>
  The answers of the world, and the operations of \<^verbatim>\<open>client.Client\<close>, the REST mapper
  and the event recorder that the controllers call, each one \<open>call\<close> of the history. A status
  patch gets the object before and after the change, as \<^verbatim>\<open>client.MergeFrom\<close> does, and
  answers with the object the server holds afterwards, which the client writes back into the
  caller's object; when it fails, the caller's object keeps its local changes.
\<close>

record world =
  w_getBinding :: "history \<Rightarrow> namespacedName \<Rightarrow> kubeError + cloudflareTunnelBinding"
  w_getProvider :: "history \<Rightarrow> string \<Rightarrow> kubeError + clusterCloudflareProvider"
  w_getPrivateRouteObject :: "history \<Rightarrow> namespacedName \<Rightarrow> kubeError + cloudflareTunnelPrivateRoute"
  w_getNamespace :: "history \<Rightarrow> string \<Rightarrow> kubeError + namespaceObj"
  w_getGateway :: "history \<Rightarrow> namespacedName \<Rightarrow> kubeError + gateway"
  w_getGatewayClass :: "history \<Rightarrow> string \<Rightarrow> kubeError + gatewayClass"
  w_getService :: "history \<Rightarrow> namespacedName \<Rightarrow> kubeError + service"
  w_getSecret :: "history \<Rightarrow> namespacedName \<Rightarrow> kubeError + secret"
  w_getChild :: "history \<Rightarrow> childKind \<Rightarrow> namespacedName \<Rightarrow> kubeError + objectMeta"
  w_listBindings :: "history \<Rightarrow> (string option) \<Rightarrow> kubeError + cloudflareTunnelBinding list"
  w_listPrivateRouteObjects :: "history \<Rightarrow> kubeError + cloudflareTunnelPrivateRoute list"
  w_listHTTPRoutes :: "history \<Rightarrow> string \<Rightarrow> kubeError + httpRoute list"
  w_listReferenceGrants :: "history \<Rightarrow> string \<Rightarrow> kubeError + referenceGrant list"
  w_restMapping :: "history \<Rightarrow> kubeError option"
  w_updateBinding :: "history \<Rightarrow> cloudflareTunnelBinding \<Rightarrow> kubeError option"
  w_updateProvider :: "history \<Rightarrow> clusterCloudflareProvider \<Rightarrow> kubeError option"
  w_updatePrivateRoute :: "history \<Rightarrow> cloudflareTunnelPrivateRoute \<Rightarrow> kubeError option"
  w_patchBindingStatus :: "history \<Rightarrow> cloudflareTunnelBinding \<Rightarrow> cloudflareTunnelBinding \<Rightarrow> kubeError + cloudflareTunnelBinding"
  w_patchProviderStatus :: "history \<Rightarrow> clusterCloudflareProvider \<Rightarrow> clusterCloudflareProvider \<Rightarrow> kubeError + clusterCloudflareProvider"
  w_patchPrivateRouteStatus :: "history \<Rightarrow> cloudflareTunnelPrivateRoute \<Rightarrow> cloudflareTunnelPrivateRoute \<Rightarrow> kubeError + cloudflareTunnelPrivateRoute"
  w_fetchSecret :: "history \<Rightarrow> namespacedName \<Rightarrow> kubeError + secret"
  w_storeSecret :: "history \<Rightarrow> secret \<Rightarrow> secret \<Rightarrow> kubeError option"
  w_fetchDeployment :: "history \<Rightarrow> namespacedName \<Rightarrow> kubeError + deployment"
  w_storeDeployment :: "history \<Rightarrow> deployment \<Rightarrow> deployment \<Rightarrow> kubeError + deployment"
  w_fetchDNSEndpoint :: "history \<Rightarrow> namespacedName \<Rightarrow> kubeError + dnsEndpoint"
  w_storeDNSEndpoint :: "history \<Rightarrow> dnsEndpoint \<Rightarrow> dnsEndpoint \<Rightarrow> kubeError option"
  w_deleteChild :: "history \<Rightarrow> childKind \<Rightarrow> objectMeta \<Rightarrow> kubeError option"
  w_sdk :: "string \<Rightarrow> sdkApi"

definition k8s_getBinding :: "world \<Rightarrow> namespacedName \<Rightarrow> (kubeError + cloudflareTunnelBinding) io" where
  "k8s_getBinding w a = call (\<lambda>h. w_getBinding w h a) (GetBinding a)"
definition k8s_getProvider :: "world \<Rightarrow> string \<Rightarrow> (kubeError + clusterCloudflareProvider) io" where
  "k8s_getProvider w a = call (\<lambda>h. w_getProvider w h a) (GetProvider a)"
definition k8s_getPrivateRouteObject :: "world \<Rightarrow> namespacedName \<Rightarrow> (kubeError + cloudflareTunnelPrivateRoute) io" where
  "k8s_getPrivateRouteObject w a = call (\<lambda>h. w_getPrivateRouteObject w h a) (GetPrivateRouteObject a)"
definition k8s_getNamespace :: "world \<Rightarrow> string \<Rightarrow> (kubeError + namespaceObj) io" where
  "k8s_getNamespace w a = call (\<lambda>h. w_getNamespace w h a) (GetNamespace a)"
definition k8s_getGateway :: "world \<Rightarrow> namespacedName \<Rightarrow> (kubeError + gateway) io" where
  "k8s_getGateway w a = call (\<lambda>h. w_getGateway w h a) (GetGateway a)"
definition k8s_getGatewayClass :: "world \<Rightarrow> string \<Rightarrow> (kubeError + gatewayClass) io" where
  "k8s_getGatewayClass w a = call (\<lambda>h. w_getGatewayClass w h a) (GetGatewayClass a)"
definition k8s_getService :: "world \<Rightarrow> namespacedName \<Rightarrow> (kubeError + service) io" where
  "k8s_getService w a = call (\<lambda>h. w_getService w h a) (GetService a)"
definition k8s_getSecret :: "world \<Rightarrow> namespacedName \<Rightarrow> (kubeError + secret) io" where
  "k8s_getSecret w a = call (\<lambda>h. w_getSecret w h a) (GetSecret a)"
definition k8s_getChild :: "world \<Rightarrow> childKind \<Rightarrow> namespacedName \<Rightarrow> (kubeError + objectMeta) io" where
  "k8s_getChild w a b = call (\<lambda>h. w_getChild w h a b) (GetChild a b)"
definition k8s_listBindings :: "world \<Rightarrow> (string option) \<Rightarrow> (kubeError + cloudflareTunnelBinding list) io" where
  "k8s_listBindings w a = call (\<lambda>h. w_listBindings w h a) (ListBindings a)"
definition k8s_listPrivateRouteObjects :: "world \<Rightarrow> (kubeError + cloudflareTunnelPrivateRoute list) io" where
  "k8s_listPrivateRouteObjects w = call (w_listPrivateRouteObjects w) (ListPrivateRouteObjects)"
definition k8s_listHTTPRoutes :: "world \<Rightarrow> string \<Rightarrow> (kubeError + httpRoute list) io" where
  "k8s_listHTTPRoutes w a = call (\<lambda>h. w_listHTTPRoutes w h a) (ListHTTPRoutes a)"
definition k8s_listReferenceGrants :: "world \<Rightarrow> string \<Rightarrow> (kubeError + referenceGrant list) io" where
  "k8s_listReferenceGrants w a = call (\<lambda>h. w_listReferenceGrants w h a) (ListReferenceGrants a)"
definition k8s_restMapping :: "world \<Rightarrow> (kubeError option) io" where
  "k8s_restMapping w = call (w_restMapping w) (RESTMapping)"
definition k8s_updateBinding :: "world \<Rightarrow> cloudflareTunnelBinding \<Rightarrow> (kubeError option) io" where
  "k8s_updateBinding w a = call (\<lambda>h. w_updateBinding w h a) (UpdateBinding a)"
definition k8s_updateProvider :: "world \<Rightarrow> clusterCloudflareProvider \<Rightarrow> (kubeError option) io" where
  "k8s_updateProvider w a = call (\<lambda>h. w_updateProvider w h a) (UpdateProvider a)"
definition k8s_updatePrivateRoute :: "world \<Rightarrow> cloudflareTunnelPrivateRoute \<Rightarrow> (kubeError option) io" where
  "k8s_updatePrivateRoute w a = call (\<lambda>h. w_updatePrivateRoute w h a) (UpdatePrivateRoute a)"
definition k8s_patchBindingStatus :: "world \<Rightarrow> cloudflareTunnelBinding \<Rightarrow> cloudflareTunnelBinding \<Rightarrow> (kubeError + cloudflareTunnelBinding) io" where
  "k8s_patchBindingStatus w a b = call (\<lambda>h. w_patchBindingStatus w h a b) (PatchBindingStatus a b)"
definition k8s_patchProviderStatus :: "world \<Rightarrow> clusterCloudflareProvider \<Rightarrow> clusterCloudflareProvider \<Rightarrow> (kubeError + clusterCloudflareProvider) io" where
  "k8s_patchProviderStatus w a b = call (\<lambda>h. w_patchProviderStatus w h a b) (PatchProviderStatus a b)"
definition k8s_patchPrivateRouteStatus :: "world \<Rightarrow> cloudflareTunnelPrivateRoute \<Rightarrow> cloudflareTunnelPrivateRoute \<Rightarrow> (kubeError + cloudflareTunnelPrivateRoute) io" where
  "k8s_patchPrivateRouteStatus w a b = call (\<lambda>h. w_patchPrivateRouteStatus w h a b) (PatchPrivateRouteStatus a b)"
definition k8s_fetchSecret :: "world \<Rightarrow> namespacedName \<Rightarrow> (kubeError + secret) io" where
  "k8s_fetchSecret w a = call (\<lambda>h. w_fetchSecret w h a) (FetchSecret a)"
definition k8s_storeSecret :: "world \<Rightarrow> secret \<Rightarrow> secret \<Rightarrow> (kubeError option) io" where
  "k8s_storeSecret w a b = call (\<lambda>h. w_storeSecret w h a b) (StoreSecret a b)"
definition k8s_fetchDeployment :: "world \<Rightarrow> namespacedName \<Rightarrow> (kubeError + deployment) io" where
  "k8s_fetchDeployment w a = call (\<lambda>h. w_fetchDeployment w h a) (FetchDeployment a)"
definition k8s_storeDeployment :: "world \<Rightarrow> deployment \<Rightarrow> deployment \<Rightarrow> (kubeError + deployment) io" where
  "k8s_storeDeployment w a b = call (\<lambda>h. w_storeDeployment w h a b) (StoreDeployment a b)"
definition k8s_fetchDNSEndpoint :: "world \<Rightarrow> namespacedName \<Rightarrow> (kubeError + dnsEndpoint) io" where
  "k8s_fetchDNSEndpoint w a = call (\<lambda>h. w_fetchDNSEndpoint w h a) (FetchDNSEndpoint a)"
definition k8s_storeDNSEndpoint :: "world \<Rightarrow> dnsEndpoint \<Rightarrow> dnsEndpoint \<Rightarrow> (kubeError option) io" where
  "k8s_storeDNSEndpoint w a b = call (\<lambda>h. w_storeDNSEndpoint w h a b) (StoreDNSEndpoint a b)"
definition k8s_deleteChild :: "world \<Rightarrow> childKind \<Rightarrow> objectMeta \<Rightarrow> (kubeError option) io" where
  "k8s_deleteChild w a b = call (\<lambda>h. w_deleteChild w h a b) (DeleteChild a b)"

definition recordEvent :: "string \<Rightarrow> string \<Rightarrow> string \<Rightarrow> unit io" where
  "recordEvent eventType reason message = call (\<lambda>_. ()) (\<lambda>_. RecordEvent eventType reason message)"

lemmas k8s_call_defs =
  k8s_getBinding_def k8s_getProvider_def k8s_getPrivateRouteObject_def k8s_getNamespace_def
  k8s_getGateway_def k8s_getGatewayClass_def k8s_getService_def k8s_getSecret_def
  k8s_getChild_def k8s_listBindings_def k8s_listPrivateRouteObjects_def k8s_listHTTPRoutes_def
  k8s_listReferenceGrants_def k8s_restMapping_def k8s_updateBinding_def k8s_updateProvider_def
  k8s_updatePrivateRoute_def k8s_patchBindingStatus_def k8s_patchProviderStatus_def
  k8s_patchPrivateRouteStatus_def k8s_fetchSecret_def k8s_storeSecret_def k8s_fetchDeployment_def
  k8s_storeDeployment_def k8s_fetchDNSEndpoint_def k8s_storeDNSEndpoint_def k8s_deleteChild_def
  recordEvent_def

lemma k8s_extends [extends_rules]:
  "extends (k8s_getBinding w a1)"
  "extends (k8s_getProvider w a2)"
  "extends (k8s_getPrivateRouteObject w a3)"
  "extends (k8s_getNamespace w a4)"
  "extends (k8s_getGateway w a5)"
  "extends (k8s_getGatewayClass w a6)"
  "extends (k8s_getService w a7)"
  "extends (k8s_getSecret w a8)"
  "extends (k8s_getChild w a9 b9)"
  "extends (k8s_listBindings w a10)"
  "extends (k8s_listPrivateRouteObjects w)"
  "extends (k8s_listHTTPRoutes w a12)"
  "extends (k8s_listReferenceGrants w a13)"
  "extends (k8s_restMapping w)"
  "extends (k8s_updateBinding w a15)"
  "extends (k8s_updateProvider w a16)"
  "extends (k8s_updatePrivateRoute w a17)"
  "extends (k8s_patchBindingStatus w a18 b18)"
  "extends (k8s_patchProviderStatus w a19 b19)"
  "extends (k8s_patchPrivateRouteStatus w a20 b20)"
  "extends (k8s_fetchSecret w a21)"
  "extends (k8s_storeSecret w a22 b22)"
  "extends (k8s_fetchDeployment w a23)"
  "extends (k8s_storeDeployment w a24 b24)"
  "extends (k8s_fetchDNSEndpoint w a25)"
  "extends (k8s_storeDNSEndpoint w a26 b26)"
  "extends (k8s_deleteChild w a27 b27)"
  "extends (recordEvent eventType reason message)"
  by (simp_all add: k8s_call_defs extends_call)

section \<open>CreateOrPatch\<close>

definition createOrPatchSecret ::
  "world \<Rightarrow> namespacedName \<Rightarrow> (secret \<Rightarrow> goerr + secret) \<Rightarrow> goerr option io" where
  "createOrPatchSecret w key mutate = do {
     r \<leftarrow> k8s_fetchSecret w key;
     case r of
       Inl e \<Rightarrow> ret (Some (Kube e))
     | Inr current \<Rightarrow>
         (case mutate current of
            Inl e \<Rightarrow> ret (Some e)
          | Inr new \<Rightarrow> do {
              e \<leftarrow> k8s_storeSecret w current new;
              ret (map_option Kube e) }) }"

definition createOrPatchDeployment ::
  "world \<Rightarrow> namespacedName \<Rightarrow> (deployment \<Rightarrow> goerr + deployment) \<Rightarrow> (goerr + deployment) io" where
  "createOrPatchDeployment w key mutate = do {
     r \<leftarrow> k8s_fetchDeployment w key;
     case r of
       Inl e \<Rightarrow> ret (Inl (Kube e))
     | Inr current \<Rightarrow>
         (case mutate current of
            Inl e \<Rightarrow> ret (Inl e)
          | Inr new \<Rightarrow> do {
              s \<leftarrow> k8s_storeDeployment w current new;
              ret (map_sum Kube id s) }) }"

definition createOrPatchDNSEndpoint ::
  "world \<Rightarrow> namespacedName \<Rightarrow> (dnsEndpoint \<Rightarrow> goerr + dnsEndpoint) \<Rightarrow> goerr option io" where
  "createOrPatchDNSEndpoint w key mutate = do {
     r \<leftarrow> k8s_fetchDNSEndpoint w key;
     case r of
       Inl e \<Rightarrow> ret (Some (Kube e))
     | Inr current \<Rightarrow>
         (case mutate current of
            Inl e \<Rightarrow> ret (Some e)
          | Inr new \<Rightarrow> do {
              e \<leftarrow> k8s_storeDNSEndpoint w current new;
              ret (map_option Kube e) }) }"

lemma createOrPatchSecret_yields [yields_rules]:
  assumes "\<And>e. P (Some (Kube e)) [FetchSecret key (Inl e)]"
    and "\<And>c e. mutate c = Inl e \<Longrightarrow> P (Some e) [FetchSecret key (Inr c)]"
    and "\<And>c n e. mutate c = Inr n \<Longrightarrow>
      P (map_option Kube e) [FetchSecret key (Inr c), StoreSecret c n e]"
  shows "yields (createOrPatchSecret w key mutate) P"
  unfolding createOrPatchSecret_def k8s_call_defs
  by (auto intro!: yields_rules assms split: sum.split)

lemma createOrPatchDeployment_yields [yields_rules]:
  assumes "\<And>e. P (Inl (Kube e)) [FetchDeployment key (Inl e)]"
    and "\<And>c e. mutate c = Inl e \<Longrightarrow> P (Inl e) [FetchDeployment key (Inr c)]"
    and "\<And>c n s. mutate c = Inr n \<Longrightarrow>
      P (map_sum Kube id s) [FetchDeployment key (Inr c), StoreDeployment c n s]"
  shows "yields (createOrPatchDeployment w key mutate) P"
  unfolding createOrPatchDeployment_def k8s_call_defs
  by (auto intro!: yields_rules assms split: sum.split)

lemma createOrPatchDNSEndpoint_yields [yields_rules]:
  assumes "\<And>e. P (Some (Kube e)) [FetchDNSEndpoint key (Inl e)]"
    and "\<And>c e. mutate c = Inl e \<Longrightarrow> P (Some e) [FetchDNSEndpoint key (Inr c)]"
    and "\<And>c n e. mutate c = Inr n \<Longrightarrow>
      P (map_option Kube e) [FetchDNSEndpoint key (Inr c), StoreDNSEndpoint c n e]"
  shows "yields (createOrPatchDNSEndpoint w key mutate) P"
  unfolding createOrPatchDNSEndpoint_def k8s_call_defs
  by (auto intro!: yields_rules assms split: sum.split)

lemma createOrPatch_extends [extends_rules]:
  "extends (createOrPatchSecret w key ms)"
  "extends (createOrPatchDeployment w key md)"
  "extends (createOrPatchDNSEndpoint w key me)"
  unfolding extends_def by (auto intro!: yields_rules)

end
