(* ===== verification/CloudflareSDK.thy ===== *)
theory CloudflareSDK
  imports World
begin

text \<open>
  \<^verbatim>\<open>internal/cloudflare\<close>: the client that the controllers use, built on the official
  SDK. The locale \<open>cloudflare_client\<close> is the part of the \<^verbatim>\<open>Client\<close> interface's contract that
  the controllers rely on beyond its types; the interpretation shows that the SDK client keeps
  it whatever the SDK answers.
\<close>

section \<open>Errors\<close>

definition isNotFound :: "sdkError option \<Rightarrow> bool" where
  "isNotFound err = (case err of Some (APIError statusCode _) \<Rightarrow> statusCode = 404 | _ \<Rightarrow> False)"

definition isCredentialRejection :: "sdkError option \<Rightarrow> bool" where
  "isCredentialRejection err =
     (case err of Some (APIError statusCode _) \<Rightarrow> statusCode = 401 \<or> statusCode = 403 | _ \<Rightarrow> False)"

definition IsCredentialRejected :: "goerr \<Rightarrow> bool" where
  "IsCredentialRejected err = errorsIs (\<lambda>e. e = ErrCredentialsRejected) err"

section \<open>The SDK client\<close>

definition fromSdkTunnel :: "sdkTunnel \<Rightarrow> tunnel" where
  "fromSdkTunnel t = \<lparr>tn_id = st_ID t, tn_name = st_Name t, tn_configSource = st_ConfigSrc t,
     tn_status = st_Status t\<rparr>"

definition fromSdkRoute :: "sdkRoute \<Rightarrow> privateRoute" where
  "fromSdkRoute r = \<lparr>pr_id = sr_ID r, pr_network = sr_Network r, pr_tunnelID = sr_TunnelID r,
     pr_comment = sr_Comment r, pr_virtualNetworkID = sr_VirtualNetworkID r\<rparr>"

definition sdkValidate :: "sdkApi \<Rightarrow> string \<Rightarrow> history \<Rightarrow> goerr option" where
  "sdkValidate S accountID h =
     (let err = (case sdk_TunnelsList S h accountID None 1 False of Inl e \<Rightarrow> Some e | Inr _ \<Rightarrow> None) in
      if isCredentialRejection err then errorsJoin [Some ErrCredentialsRejected, map_option SDK err]
      else map_option SDK err)"

definition sdkFindTunnelByName :: "sdkApi \<Rightarrow> string \<Rightarrow> history \<Rightarrow> string \<Rightarrow> goerr + tunnel option" where
  "sdkFindTunnelByName S accountID h name =
     (case sdk_TunnelsList S h accountID (Some name) 100 False of
        Inl err \<Rightarrow> Inl (SDK err)
      | Inr page \<Rightarrow>
          (case List.find (\<lambda>candidate. st_Name candidate = name) page of
             Some candidate \<Rightarrow> Inr (Some (fromSdkTunnel candidate))
           | None \<Rightarrow> Inr None))"

definition sdkGetTunnel :: "sdkApi \<Rightarrow> string \<Rightarrow> history \<Rightarrow> string \<Rightarrow> goerr + tunnel option" where
  "sdkGetTunnel S accountID h ident =
     (case sdk_TunnelsGet S h accountID ident of
        Inl err \<Rightarrow> if isNotFound (Some err) then Inr None else Inl (SDK err)
      | Inr result \<Rightarrow> Inr (Some (fromSdkTunnel result)))"

definition sdkCreateTunnel :: "sdkApi \<Rightarrow> string \<Rightarrow> history \<Rightarrow> string \<Rightarrow> goerr + tunnel" where
  "sdkCreateTunnel S accountID h name =
     (case sdk_TunnelsNew S h accountID name ConfigSourceCloudflare of
        Inl err \<Rightarrow> Inl (SDK err)
      | Inr result \<Rightarrow> Inr (fromSdkTunnel result))"

definition fromSdkIngress :: "sdkIngress \<Rightarrow> ingressRule" where
  "fromSdkIngress rule =
     \<lparr>ir_hostname = si_Hostname rule, ir_service = si_Service rule, ir_path = si_Path rule\<rparr>"

definition sdkGetConfiguration ::
  "sdkApi \<Rightarrow> string \<Rightarrow> history \<Rightarrow> string \<Rightarrow> goerr + ingressRule list" where
  "sdkGetConfiguration S accountID h ident =
     (case sdk_ConfigurationsGet S h accountID ident of
        Inl err \<Rightarrow> Inl (SDK err)
      | Inr ingress \<Rightarrow> Inr (map fromSdkIngress ingress))"

definition toSdkIngress :: "ingressRule \<Rightarrow> sdkIngressParam" where
  "toSdkIngress rule =
     \<lparr>sip_Service = ir_service rule,
      sip_Hostname = (if ir_hostname rule \<noteq> '''' then Some (ir_hostname rule) else None),
      sip_Path = (if ir_path rule \<noteq> '''' then Some (ir_path rule) else None)\<rparr>"

definition sdkUpdateConfiguration ::
  "sdkApi \<Rightarrow> string \<Rightarrow> history \<Rightarrow> string \<Rightarrow> ingressRule list \<Rightarrow> goerr option" where
  "sdkUpdateConfiguration S accountID h ident rules =
     map_option SDK (sdk_ConfigurationsUpdate S h accountID ident (map toSdkIngress rules))"

definition sdkGetToken :: "sdkApi \<Rightarrow> string \<Rightarrow> history \<Rightarrow> string \<Rightarrow> goerr + string" where
  "sdkGetToken S accountID h ident =
     (case sdk_TokenGet S h accountID ident of
        Inl err \<Rightarrow> Inl (SDK err)
      | Inr result \<Rightarrow>
          if result = None \<or> result = Some ''''
          then Inl (Errorf ''cloudflare returned an empty tunnel token'')
          else Inr (the result))"

definition sdkDeleteTunnel :: "sdkApi \<Rightarrow> string \<Rightarrow> history \<Rightarrow> string \<Rightarrow> goerr option" where
  "sdkDeleteTunnel S accountID h ident =
     (let err = sdk_TunnelsDelete S h accountID ident in
      if isNotFound err then None else map_option SDK err)"

definition sdkListPrivateRoutes ::
  "sdkApi \<Rightarrow> string \<Rightarrow> history \<Rightarrow> string \<Rightarrow> privateRoute list \<times> goerr option" where
  "sdkListPrivateRoutes S accountID h network =
     (let (candidates, err) = sdk_RoutesListAutoPaging S h accountID network False in
      (map fromSdkRoute
         (filter (\<lambda>candidate. sr_Network candidate = network \<and> sr_DeletedAt candidate = 0) candidates),
       map_option SDK err))"

definition sdkGetPrivateRoute :: "sdkApi \<Rightarrow> string \<Rightarrow> history \<Rightarrow> string \<Rightarrow> goerr + privateRoute option" where
  "sdkGetPrivateRoute S accountID h ident =
     (case sdk_RoutesGet S h accountID ident of
        Inl err \<Rightarrow> if isNotFound (Some err) then Inr None else Inl (SDK err)
      | Inr result \<Rightarrow> if sr_DeletedAt result \<noteq> 0 then Inr None else Inr (Some (fromSdkRoute result)))"

definition sdkCreatePrivateRoute ::
  "sdkApi \<Rightarrow> string \<Rightarrow> history \<Rightarrow> string \<Rightarrow> string \<Rightarrow> string \<Rightarrow> goerr + privateRoute option" where
  "sdkCreatePrivateRoute S accountID h network tunnelID comment =
     (case sdk_RoutesNew S h accountID network tunnelID (if comment \<noteq> '''' then Some comment else None) of
        Inl err \<Rightarrow> Inl (SDK err)
      | Inr result \<Rightarrow> Inr (Some (fromSdkRoute result)))"

definition sdkDeletePrivateRoute :: "sdkApi \<Rightarrow> string \<Rightarrow> history \<Rightarrow> string \<Rightarrow> goerr option" where
  "sdkDeletePrivateRoute S accountID h ident =
     (let err = sdk_RoutesDelete S h accountID ident in
      if isNotFound err then None else map_option SDK err)"

definition sdkClient :: "sdkApi \<Rightarrow> string \<Rightarrow> cfClient" where
  "sdkClient S accountID = \<lparr>
     cl_Validate = sdkValidate S accountID,
     cl_FindTunnelByName = sdkFindTunnelByName S accountID,
     cl_GetTunnel = sdkGetTunnel S accountID,
     cl_CreateTunnel = sdkCreateTunnel S accountID,
     cl_GetConfiguration = sdkGetConfiguration S accountID,
     cl_UpdateConfiguration = sdkUpdateConfiguration S accountID,
     cl_GetToken = sdkGetToken S accountID,
     cl_DeleteTunnel = sdkDeleteTunnel S accountID,
     cl_ListPrivateRoutes = sdkListPrivateRoutes S accountID,
     cl_GetPrivateRoute = sdkGetPrivateRoute S accountID,
     cl_CreatePrivateRoute = sdkCreatePrivateRoute S accountID,
     cl_DeletePrivateRoute = sdkDeletePrivateRoute S accountID\<rparr>"

definition SDKFactory_New :: "world \<Rightarrow> cfFactory" where
  "SDKFactory_New w apiToken accountID = sdkClient (w_sdk w apiToken) accountID"

definition newClient :: "world \<Rightarrow> cfFactory option \<Rightarrow> string \<Rightarrow> string \<Rightarrow> cfClient io" where
  \<comment> \<open>\<^verbatim>\<open>r.cloudflare().New(apiToken, accountID)\<close>: the configured factory, or the SDK's.\<close>
  "newClient w factory apiToken accountID =
     call (\<lambda>_. (case factory of None \<Rightarrow> SDKFactory_New w | Some f \<Rightarrow> f) apiToken accountID)
          (\<lambda>_. NewCloudflareClient apiToken accountID)"

lemma newClient_extends [extends_rules]: "extends (newClient w factory apiToken accountID)"
  by (simp add: newClient_def extends_call)

section \<open>What the client promises\<close>

locale cloudflare_client =
  fixes api :: cfClient
  assumes found_named: "cl_FindTunnelByName api h n = Inr (Some t) \<Longrightarrow> tn_name t = n"
    and token_nonempty: "cl_GetToken api h i = Inr tok \<Longrightarrow> tok \<noteq> ''''"
    and listed_network: "cl_ListPrivateRoutes api h n = (rs, e) \<Longrightarrow> r \<in> set rs \<Longrightarrow> pr_network r = n"
begin

lemma found_asked: "case cl_FindTunnelByName api h n of Inr (Some t) \<Rightarrow> tn_name t = n | _ \<Rightarrow> True"
  using found_named by (auto split: sum.split option.split)

lemma listed_asked: "list_all (\<lambda>r. pr_network r = n) (fst (cl_ListPrivateRoutes api h n))"
  using listed_network by (cases "cl_ListPrivateRoutes api h n") (auto simp: list_all_iff)

end

interpretation sdk: cloudflare_client "sdkClient S accountID" for S accountID
proof unfold_locales
  fix h n t
  assume "cl_FindTunnelByName (sdkClient S accountID) h n = Inr (Some t)"
  then show "tn_name t = n"
    by (auto simp: sdkClient_def sdkFindTunnelByName_def fromSdkTunnel_def find_Some_iff
        split: sum.splits option.splits)
next
  fix h i tok
  assume "cl_GetToken (sdkClient S accountID) h i = Inr tok"
  then show "tok \<noteq> ''''"
    by (auto simp: sdkClient_def sdkGetToken_def split: sum.splits if_splits)
next
  fix h n rs e r
  assume "cl_ListPrivateRoutes (sdkClient S accountID) h n = (rs, e)" "r \<in> set rs"
  then show "pr_network r = n"
    by (auto simp: sdkClient_def sdkListPrivateRoutes_def fromSdkRoute_def Let_def split: prod.splits)
qed

end
