(* ===== verification/Conditions.thy ===== *)
theory Conditions
  imports World
begin

text \<open>
  \<^verbatim>\<open>internal/controller/conditions.go\<close>: the status conditions of a resource. A condition
  counts as true only for the generation it was observed at.
\<close>

definition setCondition ::
  "lib \<Rightarrow> condition list \<Rightarrow> int \<Rightarrow> string \<Rightarrow> conditionStatus \<Rightarrow> string \<Rightarrow> string \<Rightarrow> condition list" where
  "setCondition L conditions generation conditionType status reason message =
     lib_setStatusCondition L conditions
       \<lparr>cond_type = conditionType, cond_status = status, cond_observedGeneration = generation,
        cond_reason = reason, cond_message = message\<rparr>"

definition conditionTrue :: "lib \<Rightarrow> condition list \<Rightarrow> int \<Rightarrow> string \<Rightarrow> bool" where
  "conditionTrue L conditions generation conditionType =
     (case lib_findStatusCondition L conditions conditionType of
        None \<Rightarrow> False
      | Some condition \<Rightarrow> cond_status condition = ConditionTrue
          \<and> cond_observedGeneration condition = generation)"

text \<open>A sequence of condition updates, and what is found afterwards.\<close>

lemma find_setCondition [simp]:
  "condition_laws L \<Longrightarrow> lib_findStatusCondition L (setCondition L cs g t s rs m) t' =
     (if t' = t then Some \<lparr>cond_type = t, cond_status = s, cond_observedGeneration = g,
        cond_reason = rs, cond_message = m\<rparr> else lib_findStatusCondition L cs t')"
  by (simp add: setCondition_def)

lemma conditionTrue_setCondition [simp]:
  "condition_laws L \<Longrightarrow> conditionTrue L (setCondition L cs g t s rs m) g' t' =
     (if t' = t then s = ConditionTrue \<and> g = g' else conditionTrue L cs g' t')"
  by (simp add: conditionTrue_def)

lemma conditionTrue_stale:
  "condition_laws L \<Longrightarrow> g \<noteq> g' \<Longrightarrow>
     \<not> conditionTrue L (setCondition L cs g t s rs m) g' t"
  by simp

section \<open>Resources that report conditions\<close>

text \<open>The three custom resources keep their conditions in the same way: a report writes one condition
  at the object's present generation. What holds afterwards is proved once for all of them.\<close>

locale reporting =
  fixes conditions :: "'o \<Rightarrow> condition list" and generation :: "'o \<Rightarrow> int"
    and report :: "lib \<Rightarrow> string \<Rightarrow> conditionStatus \<Rightarrow> string \<Rightarrow> string \<Rightarrow> 'o \<Rightarrow> 'o"
  assumes report_conditions:
      "conditions (report L t s reason message x) = setCondition L (conditions x) (generation x) t s reason message"
    and report_generation: "generation (report L t s reason message x) = generation x"
begin

lemma find_report:
  "condition_laws L \<Longrightarrow> lib_findStatusCondition L (conditions (report L t s reason message x)) t' =
     (if t' = t then Some \<lparr>cond_type = t, cond_status = s, cond_observedGeneration = generation x,
        cond_reason = reason, cond_message = message\<rparr> else lib_findStatusCondition L (conditions x) t')"
  by (simp add: report_conditions)

lemma holds_report:
  "condition_laws L \<Longrightarrow>
     conditionTrue L (conditions (report L t s reason message x)) (generation (report L t s reason message x)) t' =
       (if t' = t then s = ConditionTrue else conditionTrue L (conditions x) (generation x) t')"
  by (simp add: report_conditions report_generation)

end

end
