(* ===== verification/Planner.thy ===== *)
theory Planner
  imports ApiTypes
begin

text \<open>
  \<^verbatim>\<open>internal/planner/planner.go\<close>: canonical DNS zones and hostnames, tunnel ingress
  rules, tunnel names and the order that decides between conflicting bindings. A Go
  \<^verbatim>\<open>map[string]struct{}\<close> is a set of strings kept as a list without repetitions;
  the code sorts its keys before anything sees them, so the order of the list is never seen.
\<close>

section \<open>Zones and hostnames\<close>

definition maxTunnelNameLength :: nat where
  "maxTunnelNameLength = 100"

definition canonicalName :: "string \<Rightarrow> string" where
  "canonicalName s = to_lower (trim_suffix (trim_space s) ''.'')"

definition concreteName :: "lib \<Rightarrow> string \<Rightarrow> bool" where
  "concreteName L s \<longleftrightarrow> s \<noteq> '''' \<and> \<not> has_prefix s ''*.'' \<and>
     length (lib_isDNS1123Subdomain L s) = 0"

definition sortedKeys :: "string list \<Rightarrow> string list" where
  "sortedKeys vals = sort vals"

fun normalizeZonesLoop :: "lib \<Rightarrow> string list \<Rightarrow> string list \<Rightarrow> goerr + string list" where
  "normalizeZonesLoop L [] unique = Inr unique"
| "normalizeZonesLoop L (z # zs) unique =
     (let zone = canonicalName z in
      if \<not> concreteName L zone then Inl (Errorf (quote zone @ '' is not a concrete DNS zone''))
      else normalizeZonesLoop L zs (List.insert zone unique))"

definition NormalizeZones :: "lib \<Rightarrow> string list \<Rightarrow> goerr + string list" where
  "NormalizeZones L zones =
     (case normalizeZonesLoop L zones [] of
        Inl e \<Rightarrow> Inl e
      | Inr unique \<Rightarrow> Inr (sort unique))"

definition withinZone :: "string \<Rightarrow> string \<Rightarrow> bool" where
  "withinZone hostname zone \<longleftrightarrow> hostname = zone \<or> has_suffix hostname (''.'' @ zone)"

definition hostnameValid :: "lib \<Rightarrow> string list \<Rightarrow> string \<Rightarrow> bool" where
  "hostnameValid L zones hostname \<longleftrightarrow>
     concreteName L hostname \<and> list_ex (withinZone hostname) zones"

fun normalizeHostnamesLoop ::
  "lib \<Rightarrow> string list \<Rightarrow> string list \<Rightarrow> string list \<Rightarrow> string list \<Rightarrow> string list \<times> string list" where
  "normalizeHostnamesLoop L zones [] allowed rejected = (allowed, rejected)"
| "normalizeHostnamesLoop L zones (n # ns) allowed rejected =
     (let hostname = canonicalName n in
      if hostnameValid L zones hostname then
        normalizeHostnamesLoop L zones ns (List.insert hostname allowed) rejected
      else if hostname \<noteq> '''' then
        normalizeHostnamesLoop L zones ns allowed (List.insert hostname rejected)
      else normalizeHostnamesLoop L zones ns allowed rejected)"

definition NormalizeHostnames :: "lib \<Rightarrow> string list \<Rightarrow> string list \<Rightarrow> string list \<times> string list" where
  "NormalizeHostnames L hostnames zones =
     (let (allowed, rejected) = normalizeHostnamesLoop L zones hostnames [] []
      in (sortedKeys allowed, sortedKeys rejected))"

section \<open>Ingress rules\<close>

definition IngressRules :: "string list \<Rightarrow> string \<Rightarrow> ingressRule list" where
  "IngressRules hostnames originService =
     map (\<lambda>hostname. \<lparr>ir_hostname = hostname, ir_service = originService, ir_path = ''''\<rparr>) hostnames
     @ [\<lparr>ir_hostname = '''', ir_service = ''http_status:404'', ir_path = ''''\<rparr>]"

fun equalFrom :: "ingressRule list \<Rightarrow> ingressRule list \<Rightarrow> bool" where
  "equalFrom (l # ls) (r # rs) = (if l \<noteq> r then False else equalFrom ls rs)"
| "equalFrom ls rs = True"

definition EqualIngress :: "ingressRule list \<Rightarrow> ingressRule list \<Rightarrow> bool" where
  "EqualIngress left right = (if length left \<noteq> length right then False else equalFrom left right)"

section \<open>Tunnel names\<close>

definition compactID :: "string \<Rightarrow> nat \<Rightarrow> string" where
  "compactID val limit =
     (let v = remove_dashes val in
      if length v > limit then take limit v
      else if v = '''' then ''unknown''
      else v)"

definition sanitizeChar :: "char \<Rightarrow> char" where
  "sanitizeChar c = (if is_letter c \<or> is_digit c \<or> c = dash then c else dash)"

definition sanitize :: "string \<Rightarrow> nat \<Rightarrow> string" where
  "sanitize val limit =
     (let result = map sanitizeChar (to_lower val);
          clean = trim_dashes result;
          clean = (if clean = '''' then ''unknown'' else clean)
      in if length clean > limit then trim_right_dashes (take limit clean) else clean)"

definition TunnelName :: "string \<Rightarrow> cloudflareTunnelBinding \<Rightarrow> string" where
  "TunnelName clusterUID binding =
     (let cluster = compactID clusterUID 8;
          namespace = sanitize (b_namespace binding) 14;
          gateway = sanitize (gr_name (bs_gatewayRef (b_spec binding))) 14;
          uid = sanitize (b_uid binding) 36;
          name = ''kflared-'' @ cluster @ ''-'' @ namespace @ ''-'' @ gateway @ ''-'' @ uid
      in if length name > maxTunnelNameLength then take maxTunnelNameLength name else name)"

section \<open>Precedence\<close>

definition bindingKey :: "cloudflareTunnelBinding \<Rightarrow> string" where
  "bindingKey b = b_namespace b @ ''/'' @ b_name b @ ''/'' @ b_uid b"

definition BindingPrecedes :: "cloudflareTunnelBinding \<Rightarrow> cloudflareTunnelBinding \<Rightarrow> bool" where
  "BindingPrecedes left right =
     (if om_creationTimestamp (b_meta left) \<noteq> om_creationTimestamp (b_meta right)
      then om_creationTimestamp (b_meta left) < om_creationTimestamp (b_meta right)
      else bindingKey left < bindingKey right)"

end
