(* ===== verification/Precedence.thy ===== *)
theory Precedence
  imports Planner
begin

text \<open>
  The order by which conflicting claims are decided. Both controllers let several resources
  name the same thing (a Gateway, a hostname, a private network) and keep the claim of exactly
  one of them: the one no other claimant precedes. The locale states what they need of the
  order, the lemma in it says that one claimant wins, and the code's
  \<^verbatim>\<open>planner.BindingPrecedes\<close> is shown to be such an order.
\<close>

locale claim_order =
  fixes precedes :: "'a \<Rightarrow> 'a \<Rightarrow> bool"
    and ident :: "'a \<Rightarrow> 'k"
    and wellformed :: "'a \<Rightarrow> bool"
  assumes irrefl: "\<not> precedes a a"
    and trans: "precedes a b \<Longrightarrow> precedes b c \<Longrightarrow> precedes a c"
    and total: "wellformed a \<Longrightarrow> wellformed b \<Longrightarrow> ident a \<noteq> ident b \<Longrightarrow>
      precedes a b \<or> precedes b a"
begin

lemma asym: "precedes a b \<Longrightarrow> \<not> precedes b a"
  using irrefl trans by blast

text \<open>A claimant loses if another one, with another identity, precedes it.\<close>

definition beaten :: "'a set \<Rightarrow> 'a \<Rightarrow> bool" where
  "beaten A a \<longleftrightarrow> (\<exists>b \<in> A. ident b \<noteq> ident a \<and> precedes b a)"

lemma first_exists:
  assumes "finite A" "A \<noteq> {}"
  shows "\<exists>a \<in> A. \<not> beaten A a"
proof -
  have "\<exists>a \<in> A. \<forall>b \<in> A. \<not> precedes b a"
    using assms
  proof (induction A rule: finite_ne_induct)
    case (singleton x)
    then show ?case using irrefl by auto
  next
    case (insert x F)
    then obtain a where a: "a \<in> F" "\<forall>b \<in> F. \<not> precedes b a" by blast
    show ?case
    proof (cases "precedes x a")
      case True
      then have "\<forall>b \<in> insert x F. \<not> precedes b x"
        using a irrefl trans by (metis insert_iff)
      then show ?thesis by blast
    next
      case False
      with a show ?thesis by auto
    qed
  qed
  then show ?thesis by (auto simp: beaten_def)
qed

lemma winner_unique:
  assumes "a \<in> A" "b \<in> A" "wellformed a" "wellformed b"
    and "\<not> beaten A a" "\<not> beaten A b"
  shows "ident a = ident b"
  using assms total by (metis beaten_def)

lemma one_winner:
  assumes "finite A" "A \<noteq> {}" "\<And>a. a \<in> A \<Longrightarrow> wellformed a" "inj_on ident A"
  shows "\<exists>!a. a \<in> A \<and> \<not> beaten A a"
proof -
  obtain a where "a \<in> A" "\<not> beaten A a"
    using first_exists [OF assms(1,2)] by blast
  moreover have "b = a" if "b \<in> A" "\<not> beaten A b" for b
    using winner_unique [OF that(1) \<open>a \<in> A\<close> assms(3) assms(3)] that calculation assms(4)
    by (auto dest: inj_onD)
  ultimately show ?thesis by blast
qed

end

section \<open>Bindings\<close>

text \<open>Namespaces and names of Kubernetes objects contain no slash, so the joined key
  determines its parts.\<close>

definition slashFree :: "string \<Rightarrow> bool" where
  "slashFree s \<longleftrightarrow> CHR ''/'' \<notin> set s"

definition bindingNamed :: "cloudflareTunnelBinding \<Rightarrow> bool" where
  "bindingNamed b \<longleftrightarrow> slashFree (b_namespace b) \<and> slashFree (b_name b)"

lemma split_at_slash:
  assumes "a @ CHR ''/'' # x = b @ CHR ''/'' # y" "slashFree a" "slashFree b"
  shows "a = b \<and> x = y"
  using assms
proof (induction a arbitrary: b)
  case Nil
  then show ?case by (cases b) (auto simp: slashFree_def)
next
  case (Cons c a)
  then show ?case by (cases b) (auto simp: slashFree_def)
qed

lemma bindingKey_inj:
  assumes "bindingKey a = bindingKey b" "bindingNamed a" "bindingNamed b"
  shows "b_namespace a = b_namespace b \<and> b_name a = b_name b \<and> b_uid a = b_uid b"
proof -
  have "b_namespace a = b_namespace b \<and> b_name a @ ''/'' @ b_uid a = b_name b @ ''/'' @ b_uid b"
    using assms by (auto simp: bindingKey_def bindingNamed_def dest!: split_at_slash)
  moreover from this have "b_name a = b_name b \<and> b_uid a = b_uid b"
    using assms by (auto simp: bindingNamed_def dest!: split_at_slash)
  ultimately show ?thesis by simp
qed

interpretation binding_order: claim_order BindingPrecedes "\<lambda>b. om_uid (b_meta b)" bindingNamed
proof unfold_locales
  fix a :: cloudflareTunnelBinding
  show "\<not> BindingPrecedes a a" by (simp add: BindingPrecedes_def)
next
  fix a b c
  assume "BindingPrecedes a b" "BindingPrecedes b c"
  then show "BindingPrecedes a c"
    by (auto simp: BindingPrecedes_def split: if_splits)
next
  fix a b
  assume n: "bindingNamed a" "bindingNamed b" and u: "b_uid a \<noteq> b_uid b"
  then have "bindingKey a \<noteq> bindingKey b" using bindingKey_inj by blast
  then show "BindingPrecedes a b \<or> BindingPrecedes b a"
    by (auto simp: BindingPrecedes_def)
qed

end
