(* ===== verification/BindingCore.thy ===== *)
theory BindingCore
  imports CloudflareSDK Conditions Precedence
begin

text \<open>
  \<^verbatim>\<open>internal/controller/cloudflaretunnelbinding_controller.go\<close>, the functions without
  effects: constants, defaults, reference checks, child ownership and the connector pod.
\<close>

section \<open>Constants and the reconciler\<close>

definition bindingFinalizer :: string where
  "bindingFinalizer = ''kflared.kodeblox.com/tunnel-cleanup''"
definition traefikControllerName :: string where
  "traefikControllerName = ''traefik.io/gateway-controller''"
definition defaultCloudflaredImage :: string where
  "defaultCloudflaredImage = ''cloudflare/cloudflared:2026.8.3''"
definition ownerUIDLabel :: string where
  "ownerUIDLabel = ''kflared.kodeblox.com/binding-uid''"
definition managedByLabel :: string where
  "managedByLabel = ''app.kubernetes.io/managed-by''"
definition managedByValue :: string where
  "managedByValue = ''kflared''"
definition cloudflareProxiedProperty :: string where
  "cloudflareProxiedProperty = ''cloudflare/proxied''"
definition tunnelCNAMEZone :: string where
  "tunnelCNAMEZone = ''cfargotunnel.com''"
definition defaultConnectorReplicas :: int where
  "defaultConnectorReplicas = 1"
definition maxConnectorReplicas :: int where
  "maxConnectorReplicas = 10"
definition providerControllerClassMismatch :: string where
  "providerControllerClassMismatch = ''ProviderControllerClassMismatch''"
definition defaultSystemNamespace :: string where
  "defaultSystemNamespace = ''kflared''"

text \<open>The configuration of \<^verbatim>\<open>CloudflareTunnelBindingReconciler\<close>; its client is the world.
  The REST mapper and the recorder are interfaces that may be nil.\<close>

record bindingReconciler =
  br_hasRESTMapper :: bool
  br_hasRecorder :: bool
  br_cloudflare :: "cfFactory option"
  br_systemNamespace :: string
  br_cloudflaredImage :: string
  br_controllerClass :: string

text \<open>\<^verbatim>\<open>ctrl.Result\<close> is its \<^verbatim>\<open>RequeueAfter\<close> in seconds, 0 for the empty result.\<close>

type_synonym ctrlResult = int

definition systemNamespace :: "bindingReconciler \<Rightarrow> string" where
  "systemNamespace r =
     (if br_systemNamespace r = '''' then defaultSystemNamespace else br_systemNamespace r)"

definition cloudflaredImage :: "bindingReconciler \<Rightarrow> string" where
  "cloudflaredImage r =
     (if br_cloudflaredImage r = '''' then defaultCloudflaredImage else br_cloudflaredImage r)"

definition owns :: "bindingReconciler \<Rightarrow> string \<Rightarrow> bool" where
  "owns r controllerClass \<longleftrightarrow> br_controllerClass r \<noteq> '''' \<and> controllerClass = br_controllerClass r"

definition bindingClassPredicate :: "string \<Rightarrow> cloudflareTunnelBinding option \<Rightarrow> bool" where
  \<comment> \<open>The argument is the watched object, \<open>None\<close> if it is not a binding.\<close>
  "bindingClassPredicate controllerClass object =
     (case object of
        None \<Rightarrow> False
      | Some binding \<Rightarrow> controllerClass \<noteq> '''' \<and> bs_controller (b_spec binding) = controllerClass)"

section \<open>Defaults and names\<close>

definition bindingDNSAutomationEnabled :: "cloudflareTunnelBinding \<Rightarrow> bool" where
  "bindingDNSAutomationEnabled binding =
     (case bs_dnsAutomationEnabled (b_spec binding) of None \<Rightarrow> True | Some b \<Rightarrow> b)"

definition effectiveOriginServiceNamespace :: "cloudflareTunnelBinding \<Rightarrow> string" where
  "effectiveOriginServiceNamespace binding =
     (if osr_namespace (bs_originServiceRef (b_spec binding)) \<noteq> ''''
      then osr_namespace (bs_originServiceRef (b_spec binding))
      else b_namespace binding)"

definition effectiveReplicas :: "int \<Rightarrow> int" where
  "effectiveReplicas v =
     (if v < defaultConnectorReplicas then defaultConnectorReplicas
      else if v > maxConnectorReplicas then maxConnectorReplicas
      else v)"

definition connectorResourceName :: "string \<Rightarrow> string" where
  "connectorResourceName uid =
     (let v = remove_dashes uid;
          v = (if length v > 12 then take 12 v else v);
          v = (if v = '''' then ''pending'' else v)
      in ''kflared-'' @ v)"

definition managedLabels :: "cloudflareTunnelBinding \<Rightarrow> labels" where
  "managedLabels binding = [managedByLabel \<mapsto> managedByValue, ownerUIDLabel \<mapsto> b_uid binding]"

section \<open>Gateway, Service and route checks\<close>

definition validHTTPListener :: "gateway \<Rightarrow> string \<Rightarrow> bool" where
  "validHTTPListener gw sectionName =
     list_ex (\<lambda>l. li_name l = sectionName \<and> li_protocol l = HTTPProtocolType) (gw_listeners gw)"

fun resolvePortLoop :: "servicePort list \<Rightarrow> intOrString \<Rightarrow> int option" where
  "resolvePortLoop [] requested = None"
| "resolvePortLoop (port # ports) requested =
     (case requested of
        StrVal s \<Rightarrow> if sp_name port = s then Some (sp_port port) else resolvePortLoop ports requested
      | IntVal i \<Rightarrow> if sp_port port = i then Some (sp_port port) else resolvePortLoop ports requested)"

definition resolveServicePort :: "lib \<Rightarrow> service \<Rightarrow> intOrString \<Rightarrow> string + int" where
  "resolveServicePort L svc requested =
     (case resolvePortLoop (svc_ports svc) requested of
        Some p \<Rightarrow> Inr p
      | None \<Rightarrow> Inl (''origin Service port '' @ quote (lib_intOrStringString L requested)
          @ '' was not found''))"

definition referenceGrantPermitsOrigin :: "referenceGrant \<Rightarrow> cloudflareTunnelBinding \<Rightarrow> bool" where
  "referenceGrantPermitsOrigin grant binding =
     (if \<not> list_ex (\<lambda>from. gf_group from = GroupVersion_Group
             \<and> gf_kind from = ''CloudflareTunnelBinding''
             \<and> gf_namespace from = b_namespace binding) (rg_from grant)
      then False
      else list_ex (\<lambda>to. gt_group to = '''' \<and> gt_kind to = ''Service'' \<and>
             (case gt_name to of None \<Rightarrow> True
              | Some n \<Rightarrow> n = osr_name (bs_originServiceRef (b_spec binding)))) (rg_to grant))"

definition parentReferenceTargetsGateway ::
  "parentReference \<Rightarrow> string \<Rightarrow> cloudflareTunnelBinding \<Rightarrow> bool" where
  "parentReferenceTargetsGateway parent routeNamespace binding =
     (let group = (case pref_group parent of None \<Rightarrow> GatewayGroupName | Some g \<Rightarrow> g);
          kind = (case pref_kind parent of None \<Rightarrow> ''Gateway'' | Some k \<Rightarrow> k);
          namespace = (case pref_namespace parent of None \<Rightarrow> routeNamespace | Some n \<Rightarrow> n)
      in group = GatewayGroupName \<and> kind = ''Gateway'' \<and> namespace = b_namespace binding
         \<and> pref_name parent = gr_name (bs_gatewayRef (b_spec binding))
         \<and> pref_sectionName parent = Some (gr_sectionName (bs_gatewayRef (b_spec binding))))"

definition routeTargetsBinding :: "httpRoute \<Rightarrow> cloudflareTunnelBinding \<Rightarrow> bool" where
  "routeTargetsBinding route binding =
     list_ex (\<lambda>parent. parentReferenceTargetsGateway parent (om_namespace (hr_meta route)) binding)
       (hr_parentRefs route)"

definition routeAccepted :: "lib \<Rightarrow> httpRoute \<Rightarrow> cloudflareTunnelBinding \<Rightarrow> bool" where
  "routeAccepted L route binding =
     list_ex (\<lambda>parent. rps_controllerName parent = traefikControllerName
         \<and> parentReferenceTargetsGateway (rps_parentRef parent) (om_namespace (hr_meta route)) binding
         \<and> conditionTrue L (rps_conditions parent) (om_generation (hr_meta route)) ''Accepted''
         \<and> conditionTrue L (rps_conditions parent) (om_generation (hr_meta route)) ''ResolvedRefs'')
       (hr_parents route)"

section \<open>Ownership of children\<close>

definition verifyChildOwnership :: "cloudflareTunnelBinding \<Rightarrow> objectMeta \<Rightarrow> goerr option" where
  "verifyChildOwnership binding child =
     (let ownerUID = labelValue (om_labels child) ownerUIDLabel in
      if ownerUID \<noteq> '''' \<and> ownerUID \<noteq> b_uid binding then
        Some (Errorf (''refusing to manage child '' @ om_namespace child @ ''/'' @ om_name child
          @ '' owned by binding UID '' @ ownerUID))
      else if om_uid child \<noteq> '''' \<and> ownerUID \<noteq> b_uid binding then
        Some (Errorf (''refusing to adopt existing child '' @ om_namespace child @ ''/'' @ om_name child
          @ '' without this binding ownership label''))
      else None)"

section \<open>The connector pod\<close>

definition connectorPodSpec :: "lib \<Rightarrow> string \<Rightarrow> string \<Rightarrow> podSpec" where
  "connectorPodSpec L secretName img =
     \<lparr>pod_automountServiceAccountToken = Some False,
      pod_securityContext = Some
        \<lparr>psc_runAsNonRoot = Some True, psc_runAsUser = Some 65532, psc_runAsGroup = Some 65532,
         psc_fsGroup = Some 65532, psc_seccompProfile = Some ''RuntimeDefault''\<rparr>,
      pod_containers =
        [\<lparr>ct_name = ''cloudflared'',
          ct_image = img,
          ct_args = [''tunnel'', ''--no-autoupdate'', ''--metrics'', ''0.0.0.0:2000'', ''run'',
            ''--token-file'', ''/etc/cloudflared/token''],
          ct_env = [],
          ct_ports = [\<lparr>cp_name = ''metrics'', cp_containerPort = 2000, cp_protocol = ''TCP''\<rparr>],
          ct_volumeMounts =
            [\<lparr>vm_name = ''tunnel-token'', vm_mountPath = ''/etc/cloudflared'', vm_readOnly = True\<rparr>],
          ct_securityContext = Some
            \<lparr>sc_allowPrivilegeEscalation = Some False, sc_readOnlyRootFilesystem = Some True,
             sc_runAsNonRoot = Some True, sc_capabilitiesDrop = [''ALL''], sc_capabilitiesAdd = []\<rparr>,
          ct_readinessProbe = Some
            \<lparr>prb_path = ''/ready'', prb_port = StrVal ''metrics'', prb_initialDelaySeconds = 0,
             prb_periodSeconds = 10, prb_failureThreshold = 3\<rparr>,
          ct_livenessProbe = Some
            \<lparr>prb_path = ''/healthcheck'', prb_port = StrVal ''metrics'', prb_initialDelaySeconds = 10,
             prb_periodSeconds = 20, prb_failureThreshold = 3\<rparr>,
          ct_requests = [(''cpu'', lib_mustParse L ''50m''), (''memory'', lib_mustParse L ''64Mi'')],
          ct_limits = [(''cpu'', lib_mustParse L ''500m''), (''memory'', lib_mustParse L ''256Mi'')]\<rparr>],
      pod_volumes =
        [\<lparr>vol_name = ''tunnel-token'', vol_secretName = secretName, vol_defaultMode = Some 288\<rparr>]\<rparr>"

end
