(* ===== verification/BindingValidate.thy ===== *)
theory BindingValidate
  imports BindingCore
begin

text \<open>
  The validation half of the binding controller: \<^verbatim>\<open>validateAndPlan\<close> and what it calls.
  Every step may continue with a value, reject the binding (which writes its status and asks
  for a later retry) or fail with an error. A rejection changes the binding in memory, so each
  step also returns the binding.
\<close>

datatype 'a outcome =
    Continue 'a
  | Reject ctrlResult "goerr option"
  | Fail goerr

section \<open>Writing status\<close>

definition patchBinding ::
  "world \<Rightarrow> cloudflareTunnelBinding \<Rightarrow> cloudflareTunnelBinding \<Rightarrow>
     (cloudflareTunnelBinding \<times> goerr option) io" where
  "patchBinding w base binding = do {
     p \<leftarrow> k8s_patchBindingStatus w base binding;
     ret (case p of
            Inl e \<Rightarrow> (binding, Some (Kube e))
          | Inr server \<Rightarrow> (server, None)) }"

definition setBindingCondition ::
  "lib \<Rightarrow> string \<Rightarrow> conditionStatus \<Rightarrow> string \<Rightarrow> string \<Rightarrow> cloudflareTunnelBinding \<Rightarrow>
     cloudflareTunnelBinding" where
  "setBindingCondition L conditionType status reason message binding =
     binding\<lparr>b_status := (b_status binding)\<lparr>bst_conditions :=
       setCondition L (bst_conditions (b_status binding)) (b_generation binding)
         conditionType status reason message\<rparr>\<rparr>"

definition rejectedStatus ::
  "lib \<Rightarrow> cloudflareTunnelBinding \<Rightarrow> string \<Rightarrow> string \<Rightarrow> cloudflareTunnelBinding" where
  "rejectedStatus L binding reason message =
     (let s = b_status binding;
          b = binding\<lparr>b_status := s\<lparr>
                bst_observedGeneration := b_generation binding,
                bst_publishedHostnames := [],
                bst_dnsRecords := [],
                bst_resources := (bst_resources s)\<lparr>crn_dnsEndpoint := ''''\<rparr>\<rparr>\<rparr>;
          b = setBindingCondition L BindingConditionAccepted ConditionFalse reason message b;
          b = setBindingCondition L BindingConditionProgrammed ConditionFalse
                ''NotAccepted'' ''Binding is not accepted'' b;
          b = setBindingCondition L BindingConditionDNSAutomationReady ConditionFalse
                ''NotAccepted'' ''Binding is not accepted'' b
      in setBindingCondition L BindingConditionReady ConditionFalse
           ''NotAccepted'' ''Binding is not accepted'' b)"

definition rejected ::
  "lib \<Rightarrow> world \<Rightarrow> cloudflareTunnelBinding \<Rightarrow> string \<Rightarrow> string \<Rightarrow> goerr option \<Rightarrow>
     (cloudflareTunnelBinding \<times> 'a outcome) io" where
  "rejected L w binding reason message cause = do {
     (b, patchErr) \<leftarrow> patchBinding w binding (rejectedStatus L binding reason message);
     ret (b, Reject 300 (errorsJoin [cause, patchErr])) }"

section \<open>Owners of Gateways and hostnames\<close>

definition gatewayWinner ::
  "world \<Rightarrow> bindingReconciler \<Rightarrow> cloudflareTunnelBinding \<Rightarrow>
     (goerr + cloudflareTunnelBinding option) io" where
  "gatewayWinner w r binding = do {
     l \<leftarrow> k8s_listBindings w (Some (b_namespace binding));
     ret (case l of
            Inl e \<Rightarrow> Inl (Kube e)
          | Inr bindings \<Rightarrow> Inr (List.find (\<lambda>other.
              bs_controller (b_spec other) = br_controllerClass r
              \<and> timeIsZero (om_deletionTimestamp (b_meta other))
              \<and> b_uid other \<noteq> b_uid binding
              \<and> gr_name (bs_gatewayRef (b_spec other)) = gr_name (bs_gatewayRef (b_spec binding))
              \<and> BindingPrecedes other binding) bindings)) }"

definition acceptedHostnames :: "lib \<Rightarrow> cloudflareTunnelBinding \<Rightarrow> httpRoute list \<Rightarrow> string list" where
  "acceptedHostnames L binding routes =
     concat (map hr_hostnames
       (filter (\<lambda>route. routeTargetsBinding route binding \<and> routeAccepted L route binding) routes))"

definition acceptedRouteHostnames ::
  "lib \<Rightarrow> world \<Rightarrow> cloudflareTunnelBinding \<Rightarrow> (goerr + string list) io" where
  "acceptedRouteHostnames L w binding = do {
     l \<leftarrow> k8s_listHTTPRoutes w (b_namespace binding);
     ret (case l of
            Inl e \<Rightarrow> Inl (Kube e)
          | Inr routes \<Rightarrow> Inr (acceptedHostnames L binding routes)) }"

definition otherBindingHostnames :: "lib \<Rightarrow> world \<Rightarrow> cloudflareTunnelBinding \<Rightarrow> string list io" where
  \<comment> \<open>Lines 689 to 698: what another binding publishes, as far as it can be told.\<close>
  "otherBindingHostnames L w other = do {
     g \<leftarrow> k8s_getProvider w (bs_providerRef (b_spec other));
     case g of
       Inl _ \<Rightarrow> ret (bst_publishedHostnames (b_status other))
     | Inr provider \<Rightarrow>
         if conditionTrue L (pst_conditions (p_status provider)) (p_generation provider)
              ProviderConditionAccepted
         then do {
           c \<leftarrow> acceptedRouteHostnames L w other;
           ret (case c of
                  Inl _ \<Rightarrow> bst_publishedHostnames (b_status other)
                | Inr candidates \<Rightarrow>
                    (case NormalizeZones L (ps_allowedDNSZones (p_spec provider)) of
                       Inl _ \<Rightarrow> bst_publishedHostnames (b_status other)
                     | Inr zones \<Rightarrow> fst (NormalizeHostnames L candidates zones))) }
         else ret (bst_publishedHostnames (b_status other)) }"

fun hostnameWinnerLoop ::
  "lib \<Rightarrow> world \<Rightarrow> cloudflareTunnelBinding \<Rightarrow> string list \<Rightarrow> cloudflareTunnelBinding list \<Rightarrow>
     (cloudflareTunnelBinding \<times> string) option io" where
  "hostnameWinnerLoop L w binding hostnames [] = ret None"
| "hostnameWinnerLoop L w binding hostnames (other # others) =
     (if \<not> timeIsZero (om_deletionTimestamp (b_meta other)) \<or> b_uid other = b_uid binding
         \<or> \<not> BindingPrecedes other binding
      then hostnameWinnerLoop L w binding hostnames others
      else do {
        otherHostnames \<leftarrow> otherBindingHostnames L w other;
        case List.find (\<lambda>hostname. List.member otherHostnames hostname) hostnames of
          Some hostname \<Rightarrow> ret (Some (other, hostname))
        | None \<Rightarrow> hostnameWinnerLoop L w binding hostnames others })"

definition hostnameWinner ::
  "lib \<Rightarrow> world \<Rightarrow> cloudflareTunnelBinding \<Rightarrow> string list \<Rightarrow>
     (goerr + (cloudflareTunnelBinding \<times> string) option) io" where
  "hostnameWinner L w binding hostnames = do {
     l \<leftarrow> k8s_listBindings w None;
     case l of
       Inl e \<Rightarrow> ret (Inl (Kube e))
     | Inr bindings \<Rightarrow> do {
         winner \<leftarrow> hostnameWinnerLoop L w binding hostnames bindings;
         ret (Inr winner) } }"

section \<open>The provider\<close>

definition conditionCurrent :: "condition option \<Rightarrow> int \<Rightarrow> bool" where
  "conditionCurrent c generation =
     (case c of None \<Rightarrow> False | Some d \<Rightarrow> cond_observedGeneration d = generation)"

definition conditionHas :: "condition option \<Rightarrow> conditionStatus \<Rightarrow> bool" where
  "conditionHas c status = (case c of None \<Rightarrow> False | Some d \<Rightarrow> cond_status d = status)"

definition namespaceSelected :: "lib \<Rightarrow> clusterCloudflareProvider \<Rightarrow> namespaceObj \<Rightarrow> bool" where
  "namespaceSelected L provider namespace =
     (case lib_labelSelectorAsSelector L (ps_bindingNamespaceSelector (p_spec provider)) of
        Inl _ \<Rightarrow> False
      | Inr selector \<Rightarrow> selector (om_labels (ns_meta namespace)))"

definition validateClusterProvider ::
  "lib \<Rightarrow> world \<Rightarrow> bindingReconciler \<Rightarrow> cloudflareTunnelBinding \<Rightarrow>
     (cloudflareTunnelBinding \<times> clusterCloudflareProvider outcome) io" where
  "validateClusterProvider L w r binding = do {
     g \<leftarrow> k8s_getProvider w (bs_providerRef (b_spec binding));
     case g of
       Inl err \<Rightarrow> rejected L w binding ''ProviderNotFound''
         ''The referenced ClusterCloudflareProvider was not found'' (ignoreNotFound err)
     | Inr provider \<Rightarrow>
         if ps_controller (p_spec provider) \<noteq> bs_controller (b_spec binding) then
           rejected L w binding providerControllerClassMismatch
             ''The referenced ClusterCloudflareProvider belongs to a different controller class'' None
         else
           let conditions = pst_conditions (p_status provider);
               accepted = lib_findStatusCondition L conditions ProviderConditionAccepted;
               credentialsValid = lib_findStatusCondition L conditions ProviderConditionCredentialsValid;
               acceptedCurrent = conditionCurrent accepted (p_generation provider);
               credentialsCurrent = conditionCurrent credentialsValid (p_generation provider)
           in if (acceptedCurrent \<and> conditionHas accepted ConditionFalse)
                 \<or> (credentialsCurrent \<and> conditionHas credentialsValid ConditionFalse) then
                rejected L w binding ''ProviderNotReady''
                  ''The referenced ClusterCloudflareProvider is not ready'' None
              else if \<not> acceptedCurrent \<or> \<not> conditionHas accepted ConditionTrue
                 \<or> \<not> credentialsCurrent \<or> \<not> conditionHas credentialsValid ConditionTrue then
                ret (binding, Fail (Framed '''' ErrClusterProviderStatusUnknown ('': '' @ quote (p_name provider))))
              else do {
                n \<leftarrow> k8s_getNamespace w (b_namespace binding);
                case n of
                  Inl err \<Rightarrow> ret (binding, Fail (Kube err))
                | Inr namespace \<Rightarrow>
                    if \<not> namespaceSelected L provider namespace then
                      rejected L w binding ''NamespaceNotAllowed''
                        ''The provider does not allow bindings from this namespace'' None
                    else do {
                      gw \<leftarrow> gatewayWinner w r binding;
                      case gw of
                        Inl err \<Rightarrow> ret (binding, Fail err)
                      | Inr (Some winner) \<Rightarrow> rejected L w binding ''GatewayConflict''
                          (''Gateway is already owned by '' @ b_namespace winner @ ''/'' @ b_name winner)
                          None
                      | Inr None \<Rightarrow> ret (binding, Continue provider) } } }"

section \<open>The origin Service\<close>

definition originReferencePermitted ::
  "world \<Rightarrow> cloudflareTunnelBinding \<Rightarrow> string \<Rightarrow> (goerr + bool) io" where
  "originReferencePermitted w binding originNamespace = do {
     l \<leftarrow> k8s_listReferenceGrants w originNamespace;
     ret (case l of
            Inl err \<Rightarrow> Inl (Wrap ''list ReferenceGrants in origin Service namespace'' (Kube err))
          | Inr grants \<Rightarrow> Inr (list_ex (\<lambda>g. referenceGrantPermitsOrigin g binding) grants)) }"

definition validateService ::
  "lib \<Rightarrow> world \<Rightarrow> cloudflareTunnelBinding \<Rightarrow> string \<Rightarrow>
     (cloudflareTunnelBinding \<times> string outcome) io" where
  \<comment> \<open>Lines 303 to 326 of \<^verbatim>\<open>validateOriginService\<close>.\<close>
  "validateService L w binding originNamespace = do {
     let serviceKey = (originNamespace, osr_name (bs_originServiceRef (b_spec binding)));
     s \<leftarrow> k8s_getService w serviceKey;
     case s of
       Inl err \<Rightarrow>
         if \<not> isNotFoundKube err then ret (binding, Fail (Kube err))
         else rejected L w binding ''ServiceNotFound''
           (''The referenced origin Service '' @ fst serviceKey @ ''/'' @ snd serviceKey
             @ '' was not found'') None
     | Inr svc \<Rightarrow>
         if svc_type svc \<noteq> '''' \<and> svc_type svc \<noteq> ServiceTypeClusterIP then
           rejected L w binding ''InvalidService''
             (''The origin Service must use type ClusterIP; '' @ svc_type svc @ '' is not supported'') None
         else if svc_clusterIP svc = '''' \<or> svc_clusterIP svc = ClusterIPNone then
           rejected L w binding ''InvalidService''
             ''The origin Service must be a non-headless ClusterIP Service'' None
         else
           (case resolveServicePort L svc (osr_port (bs_originServiceRef (b_spec binding))) of
              Inl err \<Rightarrow> rejected L w binding ''ServicePortNotFound'' err None
            | Inr port \<Rightarrow> ret (binding, Continue (''http://'' @ om_name (svc_meta svc) @ ''.''
                @ om_namespace (svc_meta svc) @ ''.svc.cluster.local:'' @ int_to_dec port))) }"

definition validateOriginService ::
  "lib \<Rightarrow> world \<Rightarrow> cloudflareTunnelBinding \<Rightarrow> (cloudflareTunnelBinding \<times> string outcome) io" where
  "validateOriginService L w binding = do {
     g \<leftarrow> k8s_getGateway w (b_namespace binding, gr_name (bs_gatewayRef (b_spec binding)));
     case g of
       Inl err \<Rightarrow> rejected L w binding ''GatewayNotFound''
         ''The referenced Gateway was not found'' (ignoreNotFound err)
     | Inr gw \<Rightarrow> do {
         c \<leftarrow> k8s_getGatewayClass w (gw_className gw);
         case c of
           Inl err \<Rightarrow> rejected L w binding ''GatewayClassNotFound''
             ''The GatewayClass referenced by the Gateway was not found'' (ignoreNotFound err)
         | Inr cls \<Rightarrow>
             if gc_controllerName cls \<noteq> traefikControllerName then
               rejected L w binding ''UnsupportedGatewayClass''
                 ''The MVP supports only Traefik-managed Gateways'' None
             else if \<not> conditionTrue L (gw_conditions gw) (om_generation (gw_meta gw)) ''Accepted''
                   \<or> \<not> conditionTrue L (gw_conditions gw) (om_generation (gw_meta gw)) ''Programmed'' then
               rejected L w binding ''GatewayNotReady''
                 ''The Gateway must report current Accepted and Programmed conditions'' None
             else if \<not> validHTTPListener gw (gr_sectionName (bs_gatewayRef (b_spec binding))) then
               rejected L w binding ''ListenerInvalid''
                 ''The selected Gateway listener must exist and use HTTP'' None
             else
               let originNamespace = effectiveOriginServiceNamespace binding in
               if originNamespace \<noteq> b_namespace binding then do {
                 p \<leftarrow> originReferencePermitted w binding originNamespace;
                 case p of
                   Inl err \<Rightarrow> ret (binding, Fail err)
                 | Inr permitted \<Rightarrow>
                     if \<not> permitted then
                       rejected L w binding ''RefNotPermitted''
                         (''No ReferenceGrant in namespace '' @ quote originNamespace
                           @ '' permits CloudflareTunnelBinding objects from namespace ''
                           @ quote (b_namespace binding) @ '' to reference core Service ''
                           @ quote (osr_name (bs_originServiceRef (b_spec binding)))) None
                     else validateService L w binding originNamespace }
               else validateService L w binding originNamespace } }"

section \<open>The plan\<close>

definition planHostnames ::
  "lib \<Rightarrow> world \<Rightarrow> cloudflareTunnelBinding \<Rightarrow> clusterCloudflareProvider \<Rightarrow> string \<Rightarrow> string list \<Rightarrow>
     (cloudflareTunnelBinding \<times> (clusterCloudflareProvider \<times> string list \<times> string) outcome) io" where
  \<comment> \<open>The end of \<^verbatim>\<open>validateAndPlan\<close>, from the provider's zones on.\<close>
  "planHostnames L w binding provider origin routeHostnames =
     (case NormalizeZones L (ps_allowedDNSZones (p_spec provider)) of
        Inl err \<Rightarrow> rejected L w binding ''ProviderInvalid'' (errorText err) None
      | Inr zones \<Rightarrow>
          let hostnames = fst (NormalizeHostnames L routeHostnames zones) in
          if hostnames = [] then
            if bst_tunnelID (b_status binding) = '''' then
              rejected L w binding ''NoEligibleHostnames''
                ''No accepted same-namespace HTTPRoute has a concrete hostname in an allowed DNS zone'' None
            else ret (binding, Continue (provider, [], origin))
          else do {
            hw \<leftarrow> hostnameWinner L w binding hostnames;
            case hw of
              Inl err \<Rightarrow> ret (binding, Fail err)
            | Inr (Some (winner, hostname)) \<Rightarrow> rejected L w binding ''HostnameConflict''
                (''Hostname '' @ hostname @ '' is already owned by '' @ b_namespace winner
                  @ ''/'' @ b_name winner) None
            | Inr None \<Rightarrow> ret (binding, Continue (provider, hostnames, origin)) })"

definition validateAndPlan ::
  "lib \<Rightarrow> world \<Rightarrow> bindingReconciler \<Rightarrow> cloudflareTunnelBinding \<Rightarrow>
     (cloudflareTunnelBinding \<times> (clusterCloudflareProvider \<times> string list \<times> string) outcome) io" where
  "validateAndPlan L w r binding = do {
     (binding, pr) \<leftarrow> validateClusterProvider L w r binding;
     case pr of
       Reject result err \<Rightarrow> ret (binding, Reject result err)
     | Fail err \<Rightarrow> ret (binding, Fail err)
     | Continue provider \<Rightarrow> do {
         (binding, og) \<leftarrow> validateOriginService L w binding;
         case og of
           Reject result err \<Rightarrow> ret (binding, Reject result err)
         | Fail err \<Rightarrow> ret (binding, Fail err)
         | Continue origin \<Rightarrow> do {
             rh \<leftarrow> acceptedRouteHostnames L w binding;
             case rh of
               Inl err \<Rightarrow> ret (binding, Fail err)
             | Inr routeHostnames \<Rightarrow> planHostnames L w binding provider origin routeHostnames } } }"

section \<open>The history only grows\<close>

lemma extends_case_outcome [extends_rules]:
  "(\<And>a. extends (f a)) \<Longrightarrow> (\<And>x e. extends (g x e)) \<Longrightarrow> (\<And>e. extends (k e)) \<Longrightarrow>
     extends (case_outcome f g k s)"
  by (simp split: outcome.split)

lemma patchBinding_extends [extends_rules]: "extends (patchBinding w base binding)"
  unfolding patchBinding_def by (intro extends_rules)

lemma rejected_extends [extends_rules]: "extends (rejected L w binding reason message cause)"
  unfolding rejected_def by (intro extends_rules)

lemma gatewayWinner_extends [extends_rules]: "extends (gatewayWinner w r binding)"
  unfolding gatewayWinner_def by (intro extends_rules)

lemma acceptedRouteHostnames_extends [extends_rules]: "extends (acceptedRouteHostnames L w binding)"
  unfolding acceptedRouteHostnames_def by (intro extends_rules)

lemma otherBindingHostnames_extends [extends_rules]: "extends (otherBindingHostnames L w other)"
  unfolding otherBindingHostnames_def by (intro extends_rules)

lemma hostnameWinnerLoop_extends [extends_rules]:
  "extends (hostnameWinnerLoop L w binding hostnames others)"
  by (induction others) (auto intro!: extends_rules simp: otherBindingHostnames_extends)

lemma hostnameWinner_extends [extends_rules]: "extends (hostnameWinner L w binding hostnames)"
  unfolding hostnameWinner_def by (intro extends_rules)

lemma validateClusterProvider_extends [extends_rules]:
  "extends (validateClusterProvider L w r binding)"
  unfolding validateClusterProvider_def by (intro extends_rules)

lemma originReferencePermitted_extends [extends_rules]:
  "extends (originReferencePermitted w binding originNamespace)"
  unfolding originReferencePermitted_def by (intro extends_rules)

lemma validateService_extends [extends_rules]:
  "extends (validateService L w binding originNamespace)"
  unfolding validateService_def by (intro extends_rules)

lemma validateOriginService_extends [extends_rules]: "extends (validateOriginService L w binding)"
  unfolding validateOriginService_def by (intro extends_rules)

lemma planHostnames_extends [extends_rules]:
  "extends (planHostnames L w binding provider origin routeHostnames)"
  unfolding planHostnames_def by (intro extends_rules)

lemma validateAndPlan_extends [extends_rules]: "extends (validateAndPlan L w r binding)"
  unfolding validateAndPlan_def by (intro extends_rules)

end
