(* ===== verification/BindingReconcile.thy ===== *)
theory BindingReconcile
  imports BindingValidate
begin

text \<open>
  The acting half of the binding controller: the tunnel, the connector's Secret and
  Deployment, the ExternalDNS endpoint, the status, the withdrawal of an invalid binding, the
  finalizer, and \<^verbatim>\<open>Reconcile\<close>, which composes them with the validation.
\<close>

section \<open>Credentials\<close>

definition readAPIToken ::
  "world \<Rightarrow> bindingReconciler \<Rightarrow> clusterCloudflareProvider \<Rightarrow> (goerr + string) io" where
  "readAPIToken w r provider = do {
     s \<leftarrow> k8s_getSecret w (systemNamespace r, skr_name (ps_apiTokenSecretRef (p_spec provider)));
     ret (case s of
            Inl err \<Rightarrow> Inl (Kube err)
          | Inr sec \<Rightarrow>
              (let token = trim_space (labelValue (sec_data sec)
                     (skr_key (ps_apiTokenSecretRef (p_spec provider)))) in
               if token = '''' then Inl (Errorf ''cloudflare API token secret key is missing or empty'')
               else Inr token)) }"

section \<open>The tunnel\<close>

definition tunnelPatched :: "cloudflareTunnelBinding \<Rightarrow> tunnel \<Rightarrow> cloudflareTunnelBinding" where
  "tunnelPatched binding tun =
     binding\<lparr>b_status := (b_status binding)\<lparr>
       bst_tunnelID := tn_id tun, bst_tunnelName := tn_name tun,
       bst_tunnelCNAME := tn_id tun @ ''.'' @ tunnelCNAMEZone\<rparr>\<rparr>"

definition persistTunnel ::
  "world \<Rightarrow> cloudflareTunnelBinding \<Rightarrow> tunnel \<Rightarrow> (cloudflareTunnelBinding \<times> (goerr + tunnel)) io" where
  \<comment> \<open>Lines 387 to 394 of \<^verbatim>\<open>ensureTunnel\<close>.\<close>
  "persistTunnel w binding tun = do {
     (b, err) \<leftarrow> patchBinding w binding (tunnelPatched binding tun);
     ret (b, case err of Some e \<Rightarrow> Inl e | None \<Rightarrow> Inr tun) }"

definition findOrCreateTunnel ::
  "world \<Rightarrow> cfClient \<Rightarrow> cloudflareTunnelBinding \<Rightarrow> string \<Rightarrow>
     (cloudflareTunnelBinding \<times> (goerr + tunnel)) io" where
  \<comment> \<open>Lines 373 to 394 of \<^verbatim>\<open>ensureTunnel\<close>.\<close>
  "findOrCreateTunnel w api binding name = do {
     f \<leftarrow> cfFindTunnelByName api name;
     case f of
       Inl err \<Rightarrow> ret (binding, Inl (Wrap ''find Cloudflare Tunnel'' err))
     | Inr (Some tun) \<Rightarrow>
         if tn_configSource tun \<noteq> ConfigSourceCloudflare \<or> tn_name tun \<noteq> name then
           ret (binding, Inl (Errorf ''refusing to adopt Cloudflare Tunnel with incompatible identity''))
         else persistTunnel w binding tun
     | Inr None \<Rightarrow> do {
         c \<leftarrow> cfCreateTunnel api name;
         case c of
           Inl err \<Rightarrow> ret (binding, Inl (Wrap ''create Cloudflare Tunnel'' err))
         | Inr tun \<Rightarrow> persistTunnel w binding tun } }"

definition ensureTunnel ::
  "world \<Rightarrow> cfClient \<Rightarrow> cloudflareTunnelBinding \<Rightarrow> string \<Rightarrow>
     (cloudflareTunnelBinding \<times> (goerr + tunnel)) io" where
  "ensureTunnel w api binding name =
     (if bst_tunnelID (b_status binding) \<noteq> '''' then do {
        g \<leftarrow> cfGetTunnel api (bst_tunnelID (b_status binding));
        case g of
          Inl err \<Rightarrow> ret (binding, Inl (Wrap ''get owned Cloudflare Tunnel'' err))
        | Inr (Some tun) \<Rightarrow>
            if tn_name tun \<noteq> name \<or> tn_configSource tun \<noteq> ConfigSourceCloudflare then
              ret (binding, Inl (Errorf ''owned Cloudflare Tunnel identity does not match binding''))
            else ret (binding, Inr tun)
        | Inr None \<Rightarrow> findOrCreateTunnel w api binding name }
      else findOrCreateTunnel w api binding name)"

section \<open>The connector\<close>

definition mutateConnectorSecret ::
  "cloudflareTunnelBinding \<Rightarrow> string \<Rightarrow> secret \<Rightarrow> goerr + secret" where
  "mutateConnectorSecret binding token sec =
     (case verifyChildOwnership binding (sec_meta sec) of
        Some err \<Rightarrow> Inl err
      | None \<Rightarrow> Inr (sec\<lparr>sec_meta := (sec_meta sec)\<lparr>om_labels := managedLabels binding\<rparr>,
          sec_type := SecretTypeOpaque, sec_data := [''token'' \<mapsto> token]\<rparr>))"

definition reconcileConnectorSecret ::
  "world \<Rightarrow> bindingReconciler \<Rightarrow> cloudflareTunnelBinding \<Rightarrow> string \<Rightarrow> string \<Rightarrow> goerr option io" where
  "reconcileConnectorSecret w r binding name token =
     createOrPatchSecret w (systemNamespace r, name) (mutateConnectorSecret binding token)"

definition mutateConnectorDeployment ::
  "lib \<Rightarrow> bindingReconciler \<Rightarrow> cloudflareTunnelBinding \<Rightarrow> string \<Rightarrow> deployment \<Rightarrow> goerr + deployment" where
  "mutateConnectorDeployment L r binding name dep =
     (let replicas = effectiveReplicas (bs_connectorReplicas (b_spec binding)) in
      case verifyChildOwnership binding (dep_meta dep) of
        Some err \<Rightarrow> Inl err
      | None \<Rightarrow>
          let resourceLabels = managedLabels binding in
          Inr (dep\<lparr>dep_meta := (dep_meta dep)\<lparr>om_labels := resourceLabels\<rparr>,
            dep_replicas := Some replicas, dep_selector := resourceLabels,
            dep_strategy := ''RollingUpdate'', dep_templateLabels := resourceLabels,
            dep_templateSpec := connectorPodSpec L name (cloudflaredImage r)\<rparr>))"

definition reconcileConnectorDeployment ::
  "lib \<Rightarrow> world \<Rightarrow> bindingReconciler \<Rightarrow> cloudflareTunnelBinding \<Rightarrow> string \<Rightarrow> (goerr + deployment) io" where
  "reconcileConnectorDeployment L w r binding name =
     createOrPatchDeployment w (systemNamespace r, name) (mutateConnectorDeployment L r binding name)"

section \<open>Deleting children\<close>

definition deleteDNSEndpoint ::
  "world \<Rightarrow> bindingReconciler \<Rightarrow> cloudflareTunnelBinding \<Rightarrow> string \<Rightarrow> goerr option io" where
  "deleteDNSEndpoint w r binding name =
     (if \<not> br_hasRESTMapper r then ret None
      else do {
        m \<leftarrow> k8s_restMapping w;
        case m of
          Some err \<Rightarrow> if isNoMatchError err then ret None else ret (Some (Kube err))
        | None \<Rightarrow> do {
            g \<leftarrow> k8s_getChild w DNSEndpointKind (b_namespace binding, name);
            case g of
              Inl err \<Rightarrow> if isNotFoundKube err then ret None else ret (Some (Kube err))
            | Inr current \<Rightarrow>
                if labelValue (om_labels current) ownerUIDLabel \<noteq> b_uid binding then
                  ret (Some (Errorf (''refusing to delete DNSEndpoint '' @ b_namespace binding @ ''/''
                    @ name @ '' not owned by this binding'')))
                else do {
                  d \<leftarrow> k8s_deleteChild w DNSEndpointKind current;
                  ret (Option.bind d ignoreNotFound) } } })"

definition deleteOwnedChild ::
  "world \<Rightarrow> cloudflareTunnelBinding \<Rightarrow> childKind \<Rightarrow> namespacedName \<Rightarrow> goerr option io" where
  "deleteOwnedChild w binding kind key = do {
     g \<leftarrow> k8s_getChild w kind key;
     case g of
       Inl err \<Rightarrow> ret (Some (Kube err))
     | Inr current \<Rightarrow>
         if labelValue (om_labels current) ownerUIDLabel \<noteq> b_uid binding then
           ret (Some (Errorf (''refusing to delete child '' @ fst key @ ''/'' @ snd key
             @ '' not owned by this binding'')))
         else do {
           d \<leftarrow> k8s_deleteChild w kind current;
           ret (map_option Kube d) } }"

fun deleteOwnedChildren ::
  "world \<Rightarrow> cloudflareTunnelBinding \<Rightarrow> namespacedName \<Rightarrow> childKind list \<Rightarrow> goerr option io" where
  \<comment> \<open>The loop of lines 595 to 599.\<close>
  "deleteOwnedChildren w binding key [] = ret None"
| "deleteOwnedChildren w binding key (kind # kinds) = do {
     err \<leftarrow> deleteOwnedChild w binding kind key;
     case err of
       Some e \<Rightarrow> if \<not> apierrorsIsNotFound e then ret (Some e)
                 else deleteOwnedChildren w binding key kinds
     | None \<Rightarrow> deleteOwnedChildren w binding key kinds }"

section \<open>ExternalDNS\<close>

definition dnsEndpointItems :: "string list \<Rightarrow> string \<Rightarrow> dnsEndpointItem list" where
  "dnsEndpointItems hostnames target =
     map (\<lambda>hostname. \<lparr>dei_dnsName = hostname, dei_recordType = ''CNAME'', dei_targets = [target],
       dei_providerSpecific = [(cloudflareProxiedProperty, ''true'')]\<rparr>) hostnames"

definition mutateDNSEndpoint ::
  "lib \<Rightarrow> cloudflareTunnelBinding \<Rightarrow> string list \<Rightarrow> string \<Rightarrow> dnsEndpoint \<Rightarrow> goerr + dnsEndpoint" where
  "mutateDNSEndpoint L binding hostnames target endpoint =
     (case verifyChildOwnership binding (de_meta endpoint) of
        Some err \<Rightarrow> Inl err
      | None \<Rightarrow>
          (case lib_setControllerReference L (b_meta binding)
                  (endpoint\<lparr>de_meta := (de_meta endpoint)\<lparr>om_labels := managedLabels binding\<rparr>\<rparr>) of
             Inl err \<Rightarrow> Inl (Errorf err)
           | Inr e \<Rightarrow> Inr (e\<lparr>de_endpoints := dnsEndpointItems hostnames target\<rparr>)))"

definition reconcileDNSEndpoint ::
  "lib \<Rightarrow> world \<Rightarrow> bindingReconciler \<Rightarrow> cloudflareTunnelBinding \<Rightarrow> string \<Rightarrow> string list \<Rightarrow> string \<Rightarrow>
     bool \<Rightarrow> (bool \<times> goerr option) io" where
  "reconcileDNSEndpoint L w r binding name hostnames target enabled =
     (if \<not> enabled then do {
        err \<leftarrow> deleteDNSEndpoint w r binding name;
        ret (False, err) }
      else if \<not> br_hasRESTMapper r then ret (False, None)
      else do {
        m \<leftarrow> k8s_restMapping w;
        case m of
          Some err \<Rightarrow> if isNoMatchError err then ret (False, None) else ret (False, Some (Kube err))
        | None \<Rightarrow>
            if hostnames = [] then do {
              err \<leftarrow> deleteDNSEndpoint w r binding name;
              ret (False, err) }
            else do {
              err \<leftarrow> createOrPatchDNSEndpoint w (b_namespace binding, name)
                       (mutateDNSEndpoint L binding hostnames target);
              ret (err = None, err) } })"

section \<open>Status\<close>

definition readyStatus ::
  "lib \<Rightarrow> cloudflareTunnelBinding \<Rightarrow> tunnel \<Rightarrow> string \<Rightarrow> string \<Rightarrow> string list \<Rightarrow> bool \<Rightarrow> bool \<Rightarrow> bool \<Rightarrow>
     cloudflareTunnelBinding" where
  "readyStatus L binding tun cname resourceName hostnames connectorReady dnsAutomationEnabled dnsAutomated =
     (let b = binding\<lparr>b_status := (b_status binding)\<lparr>
            bst_observedGeneration := b_generation binding,
            bst_tunnelID := tn_id tun,
            bst_tunnelName := tn_name tun,
            bst_tunnelCNAME := cname,
            bst_publishedHostnames := hostnames,
            bst_dnsRecords := (if dnsAutomationEnabled
              then map (\<lambda>hostname. \<lparr>dr_hostname = hostname, dr_type = ''CNAME'', dr_target = cname\<rparr>) hostnames
              else []),
            bst_resources := \<lparr>crn_deployment = resourceName, crn_secret = resourceName,
              crn_dnsEndpoint = ''''\<rparr>\<rparr>\<rparr>;
          b = setBindingCondition L BindingConditionAccepted ConditionTrue ''Accepted''
                ''Binding configuration and ownership are valid'' b;
          b = (if hostnames \<noteq> [] then
                 setBindingCondition L BindingConditionProgrammed ConditionTrue ''Programmed''
                   ''Cloudflare Tunnel configuration matches accepted HTTPRoute hostnames'' b
               else
                 setBindingCondition L BindingConditionProgrammed ConditionFalse ''NoEligibleHostnames''
                   ''The tunnel was deprogrammed because no eligible hostname remains'' b);
          b = (if connectorReady then
                 setBindingCondition L BindingConditionConnectorReady ConditionTrue ''ConnectorReady''
                   ''All desired cloudflared connector replicas are available'' b
               else
                 setBindingCondition L BindingConditionConnectorReady ConditionFalse ''ConnectorProgressing''
                   ''Waiting for cloudflared connector replicas'' b);
          b = (if \<not> dnsAutomationEnabled then
                 setBindingCondition L BindingConditionDNSAutomationReady ConditionTrue
                   ''DNSAutomationDisabled'' ''ExternalDNS DNSEndpoint automation is disabled by spec'' b
               else if dnsAutomated then
                 setBindingCondition L BindingConditionDNSAutomationReady ConditionTrue
                   ''DNSEndpointCreated'' ''ExternalDNS automation resource is present''
                   (b\<lparr>b_status := (b_status b)\<lparr>bst_resources :=
                     (bst_resources (b_status b))\<lparr>crn_dnsEndpoint := resourceName\<rparr>\<rparr>\<rparr>)
               else
                 setBindingCondition L BindingConditionDNSAutomationReady ConditionFalse
                   ''ManualConfigurationRequired'' ''Create the CNAME records listed in status.dnsRecords'' b)
      in if hostnames \<noteq> [] \<and> connectorReady \<and> (dnsAutomated \<or> \<not> dnsAutomationEnabled) then
           setBindingCondition L BindingConditionReady ConditionTrue ''Ready''
             ''Tunnel and connectors are ready'' b
         else
           setBindingCondition L BindingConditionReady ConditionFalse ''DependenciesNotReady''
             ''Connector availability or DNS automation is incomplete'' b)"

definition setReadyStatus ::
  "lib \<Rightarrow> world \<Rightarrow> cloudflareTunnelBinding \<Rightarrow> tunnel \<Rightarrow> string \<Rightarrow> string \<Rightarrow> string list \<Rightarrow> bool \<Rightarrow> bool \<Rightarrow> bool \<Rightarrow>
     goerr option io" where
  "setReadyStatus L w binding tun cname resourceName hostnames connectorReady dnsAutomationEnabled dnsAutomated = do {
     (b, err) \<leftarrow> patchBinding w binding
       (readyStatus L binding tun cname resourceName hostnames connectorReady dnsAutomationEnabled dnsAutomated);
     ret err }"

definition failureStatus ::
  "lib \<Rightarrow> cloudflareTunnelBinding \<Rightarrow> string \<Rightarrow> string \<Rightarrow> string \<Rightarrow> cloudflareTunnelBinding" where
  "failureStatus L binding failedCondition reason message =
     (let b = binding\<lparr>b_status := (b_status binding)\<lparr>bst_observedGeneration := b_generation binding\<rparr>\<rparr>;
          b = setBindingCondition L failedCondition ConditionUnknown reason message b
      in if failedCondition \<noteq> BindingConditionReady
         then setBindingCondition L BindingConditionReady ConditionUnknown reason message b
         else b)"

definition reportOperationalFailure ::
  "lib \<Rightarrow> world \<Rightarrow> cloudflareTunnelBinding \<Rightarrow> string \<Rightarrow> string \<Rightarrow> string \<Rightarrow> goerr \<Rightarrow> goerr option io" where
  "reportOperationalFailure L w binding failedCondition reason message cause = do {
     (b, patchErr) \<leftarrow> patchBinding w binding (failureStatus L binding failedCondition reason message);
     ret (errorsJoin [Some cause, patchErr]) }"

section \<open>Withdrawing an invalid binding\<close>

definition withdrawDNS ::
  "world \<Rightarrow> bindingReconciler \<Rightarrow> cloudflareTunnelBinding \<Rightarrow> goerr option io" where
  \<comment> \<open>Lines 568 to 571 of \<^verbatim>\<open>deprogramTunnel\<close>.\<close>
  "withdrawDNS w r binding = do {
     err \<leftarrow> deleteDNSEndpoint w r binding (connectorResourceName (b_uid binding));
     ret (map_option (Wrap ''delete DNS automation for invalid binding'') err) }"

definition deprogramTunnel ::
  "world \<Rightarrow> bindingReconciler \<Rightarrow> cloudflareTunnelBinding \<Rightarrow> goerr option io" where
  "deprogramTunnel w r binding = do {
     g \<leftarrow> k8s_getProvider w (bs_providerRef (b_spec binding));
     case g of
       Inl err \<Rightarrow> ret (Some (Wrap ''read provider while deprogramming tunnel'' (Kube err)))
     | Inr provider \<Rightarrow> do {
         t \<leftarrow> readAPIToken w r provider;
         case t of
           Inl err \<Rightarrow> ret (Some (Wrap ''read API token while deprogramming tunnel'' err))
         | Inr token \<Rightarrow> do {
             api \<leftarrow> newClient w (br_cloudflare r) token (ps_accountID (p_spec provider));
             gt \<leftarrow> cfGetTunnel api (bst_tunnelID (b_status binding));
             case gt of
               Inl err \<Rightarrow> ret (Some (Wrap ''read tunnel while deprogramming invalid binding'' err))
             | Inr None \<Rightarrow> withdrawDNS w r binding
             | Inr (Some tun) \<Rightarrow> do {
                 let desired = IngressRules [] '''';
                 c \<leftarrow> cfGetConfiguration api (bst_tunnelID (b_status binding));
                 if (case c of Inl _ \<Rightarrow> True | Inr current \<Rightarrow> \<not> EqualIngress current desired) then do {
                   u \<leftarrow> cfUpdateConfiguration api (bst_tunnelID (b_status binding)) desired;
                   case u of
                     Some err \<Rightarrow> ret (Some (Wrap ''deprogram invalid binding tunnel'' err))
                   | None \<Rightarrow> withdrawDNS w r binding }
                 else withdrawDNS w r binding } } } }"

section \<open>The finalizer\<close>

definition eventB :: "bindingReconciler \<Rightarrow> string \<Rightarrow> string \<Rightarrow> string \<Rightarrow> unit io" where
  "eventB r eventType reason message =
     (if br_hasRecorder r then recordEvent eventType reason message else ret ())"

definition retained :: "cloudflareTunnelBinding \<Rightarrow> bool" where
  "retained binding \<longleftrightarrow> bs_deletionPolicy (b_spec binding) = DeletionPolicyRetain"

definition removeBindingFinalizer ::
  "lib \<Rightarrow> world \<Rightarrow> bindingReconciler \<Rightarrow> cloudflareTunnelBinding \<Rightarrow> (ctrlResult \<times> goerr option) io" where
  \<comment> \<open>Lines 618 to 622 of \<^verbatim>\<open>finalize\<close>.\<close>
  "removeBindingFinalizer L w r binding = do {
     (case lib_findStatusCondition L (bst_conditions (b_status binding)) BindingConditionDNSAutomationReady of
        Some condition \<Rightarrow>
          if cond_reason condition = ''ManualConfigurationRequired'' then
            eventB r ''Warning'' ''ManualDNSRetained''
              ''Manual DNS records were not removed and may return Cloudflare error 1016''
          else ret ()
      | None \<Rightarrow> ret ());
     e \<leftarrow> k8s_updateBinding w (binding\<lparr>b_meta := (b_meta binding)\<lparr>om_finalizers :=
            lib_removeFinalizer L (om_finalizers (b_meta binding)) bindingFinalizer\<rparr>\<rparr>);
     ret (0, map_option Kube e) }"

definition finalizeProvider ::
  "world \<Rightarrow> cloudflareTunnelBinding \<Rightarrow> (goerr + clusterCloudflareProvider option) io" where
  \<comment> \<open>Lines 578 to 589 of \<^verbatim>\<open>finalize\<close>.\<close>
  "finalizeProvider w binding =
     (if bst_tunnelID (b_status binding) \<noteq> '''' then do {
        g \<leftarrow> k8s_getProvider w (bs_providerRef (b_spec binding));
        ret (case g of
               Inl err \<Rightarrow> if \<not> retained binding \<or> \<not> isNotFoundKube err then Inl (Kube err) else Inr None
             | Inr provider \<Rightarrow>
                 if ps_controller (p_spec provider) \<noteq> bs_controller (b_spec binding) then
                   Inl (Errorf (''refusing to finalize binding: referenced ClusterCloudflareProvider belongs to controller class ''
                     @ quote (ps_controller (p_spec provider))))
                 else Inr (Some provider)) }
      else ret (Inr None))"

definition finalizeTunnel ::
  "lib \<Rightarrow> world \<Rightarrow> bindingReconciler \<Rightarrow> cloudflareTunnelBinding \<Rightarrow> clusterCloudflareProvider option \<Rightarrow>
     (ctrlResult \<times> goerr option) io" where
  \<comment> \<open>Lines 603 to 622 of \<^verbatim>\<open>finalize\<close>.\<close>
  "finalizeTunnel L w r binding provider =
     (if \<not> retained binding \<and> bst_tunnelID (b_status binding) \<noteq> '''' then
        (case provider of
           None \<Rightarrow> ret (0, Some (Errorf ''referenced ClusterCloudflareProvider is unavailable''))
         | Some p \<Rightarrow> do {
             t \<leftarrow> readAPIToken w r p;
             case t of
               Inl err \<Rightarrow> ret (0, Some err)
             | Inr token \<Rightarrow> do {
                 api \<leftarrow> newClient w (br_cloudflare r) token (ps_accountID (p_spec p));
                 d \<leftarrow> cfDeleteTunnel api (bst_tunnelID (b_status binding));
                 case d of
                   Some err \<Rightarrow> ret (0, Some (Wrap ''delete Cloudflare Tunnel'' err))
                 | None \<Rightarrow> do {
                     eventB r ''Normal'' ''TunnelDeleted'' ''Deleted the owned Cloudflare Tunnel'';
                     removeBindingFinalizer L w r binding } } })
      else if retained binding then do {
        eventB r ''Normal'' ''TunnelRetained''
          ''Retained the remote Cloudflare Tunnel and removed Kubernetes connector resources'';
        removeBindingFinalizer L w r binding }
      else removeBindingFinalizer L w r binding)"

definition finalize ::
  "lib \<Rightarrow> world \<Rightarrow> bindingReconciler \<Rightarrow> cloudflareTunnelBinding \<Rightarrow> (ctrlResult \<times> goerr option) io" where
  "finalize L w r binding =
     (if \<not> lib_containsFinalizer L (om_finalizers (b_meta binding)) bindingFinalizer then ret (0, None)
      else do {
        p \<leftarrow> finalizeProvider w binding;
        case p of
          Inl err \<Rightarrow> ret (0, Some err)
        | Inr provider \<Rightarrow> do {
            let name = connectorResourceName (b_uid binding);
            c \<leftarrow> deleteOwnedChildren w binding (systemNamespace r, name) [DeploymentKind, SecretKind];
            case c of
              Some err \<Rightarrow> ret (0, Some err)
            | None \<Rightarrow> do {
                d \<leftarrow> deleteDNSEndpoint w r binding name;
                case d of
                  Some err \<Rightarrow> ret (0, Some err)
                | None \<Rightarrow> finalizeTunnel L w r binding provider } } })"

section \<open>The history only grows\<close>

lemma readAPIToken_extends [extends_rules]: "extends (readAPIToken w r provider)"
  unfolding readAPIToken_def by (intro extends_rules)

lemma persistTunnel_extends [extends_rules]: "extends (persistTunnel w binding tun)"
  unfolding persistTunnel_def by (intro extends_rules)

lemma findOrCreateTunnel_extends [extends_rules]: "extends (findOrCreateTunnel w api binding name)"
  unfolding findOrCreateTunnel_def by (intro extends_rules)

lemma ensureTunnel_extends [extends_rules]: "extends (ensureTunnel w api binding name)"
  unfolding ensureTunnel_def by (intro extends_rules)

lemma reconcileConnectorSecret_extends [extends_rules]:
  "extends (reconcileConnectorSecret w r binding name token)"
  unfolding reconcileConnectorSecret_def by (intro extends_rules)

lemma reconcileConnectorDeployment_extends [extends_rules]:
  "extends (reconcileConnectorDeployment L w r binding name)"
  unfolding reconcileConnectorDeployment_def by (intro extends_rules)

lemma deleteDNSEndpoint_extends [extends_rules]: "extends (deleteDNSEndpoint w r binding name)"
  unfolding deleteDNSEndpoint_def by (intro extends_rules)

lemma deleteOwnedChild_extends [extends_rules]: "extends (deleteOwnedChild w binding kind key)"
  unfolding deleteOwnedChild_def by (intro extends_rules)

lemma deleteOwnedChildren_extends [extends_rules]:
  "extends (deleteOwnedChildren w binding key kinds)"
  by (induction kinds) (auto intro!: extends_rules)

lemma reconcileDNSEndpoint_extends [extends_rules]:
  "extends (reconcileDNSEndpoint L w r binding name hostnames target enabled)"
  unfolding reconcileDNSEndpoint_def by (intro extends_rules)

lemma setReadyStatus_extends [extends_rules]:
  "extends (setReadyStatus L w binding tun cname resourceName hostnames connectorReady dnsAutomationEnabled dnsAutomated)"
  unfolding setReadyStatus_def by (intro extends_rules)

lemma reportOperationalFailure_extends [extends_rules]:
  "extends (reportOperationalFailure L w binding failedCondition reason message cause)"
  unfolding reportOperationalFailure_def by (intro extends_rules)

lemma withdrawDNS_extends [extends_rules]: "extends (withdrawDNS w r binding)"
  unfolding withdrawDNS_def by (intro extends_rules)

lemma deprogramTunnel_extends [extends_rules]: "extends (deprogramTunnel w r binding)"
  unfolding deprogramTunnel_def by (intro extends_rules)

lemma eventB_extends [extends_rules]: "extends (eventB r eventType reason message)"
  unfolding eventB_def by (intro extends_rules)

lemma removeBindingFinalizer_extends [extends_rules]:
  "extends (removeBindingFinalizer L w r binding)"
  unfolding removeBindingFinalizer_def by (intro extends_rules)

lemma finalizeProvider_extends [extends_rules]: "extends (finalizeProvider w binding)"
  unfolding finalizeProvider_def by (intro extends_rules)

lemma finalizeTunnel_extends [extends_rules]: "extends (finalizeTunnel L w r binding provider)"
  unfolding finalizeTunnel_def by (intro extends_rules)

lemma finalize_extends [extends_rules]: "extends (finalize L w r binding)"
  unfolding finalize_def by (intro extends_rules)

end
