(* ===== verification/BindingController.thy ===== *)
theory BindingController
  imports BindingReconcile
begin

text \<open>
  \<^verbatim>\<open>CloudflareTunnelBindingReconciler.Reconcile\<close>, cut into consecutive stages, and the map
  from watched objects to the bindings they concern.
\<close>

section \<open>Reconcile\<close>

definition failTunnel :: "lib \<Rightarrow> world \<Rightarrow> cloudflareTunnelBinding \<Rightarrow> goerr \<Rightarrow> (ctrlResult \<times> goerr option) io" where
  "failTunnel L w binding cause = do {
     err \<leftarrow> reportOperationalFailure L w binding BindingConditionProgrammed
       ''TunnelReconciliationFailed'' ''Tunnel reconciliation could not complete'' cause;
     ret (0, err) }"

definition failConnector :: "lib \<Rightarrow> world \<Rightarrow> cloudflareTunnelBinding \<Rightarrow> goerr \<Rightarrow> (ctrlResult \<times> goerr option) io" where
  "failConnector L w binding cause = do {
     err \<leftarrow> reportOperationalFailure L w binding BindingConditionConnectorReady
       ''ConnectorReconciliationFailed'' ''Connector reconciliation could not complete'' cause;
     ret (0, err) }"

definition failDNS :: "lib \<Rightarrow> world \<Rightarrow> cloudflareTunnelBinding \<Rightarrow> goerr \<Rightarrow> (ctrlResult \<times> goerr option) io" where
  "failDNS L w binding cause = do {
     err \<leftarrow> reportOperationalFailure L w binding BindingConditionDNSAutomationReady
       ''DNSReconciliationFailed'' ''DNS automation reconciliation could not complete'' cause;
     ret (0, err) }"

definition finishReconcile ::
  "lib \<Rightarrow> world \<Rightarrow> bindingReconciler \<Rightarrow> cloudflareTunnelBinding \<Rightarrow> tunnel \<Rightarrow> string list \<Rightarrow> string \<Rightarrow>
     (ctrlResult \<times> goerr option) io" where
  \<comment> \<open>Lines 167 to 185: the connector, DNS and the final status.\<close>
  "finishReconcile L w r binding tun hostnames token = do {
     let resourceName = connectorResourceName (b_uid binding);
     s \<leftarrow> reconcileConnectorSecret w r binding resourceName token;
     case s of
       Some err \<Rightarrow> failConnector L w binding err
     | None \<Rightarrow> do {
         d \<leftarrow> reconcileConnectorDeployment L w r binding resourceName;
         case d of
           Inl err \<Rightarrow> failConnector L w binding err
         | Inr deployment \<Rightarrow> do {
             let tunnelCNAME = tn_id tun @ ''.'' @ tunnelCNAMEZone;
             let dnsAutomationEnabled = bindingDNSAutomationEnabled binding;
             (dnsAutomated, e) \<leftarrow> reconcileDNSEndpoint L w r binding resourceName hostnames tunnelCNAME
                                  dnsAutomationEnabled;
             case e of
               Some err \<Rightarrow> failDNS L w binding err
             | None \<Rightarrow> do {
                 let connectorReady = dep_availableReplicas deployment
                       \<ge> effectiveReplicas (bs_connectorReplicas (b_spec binding));
                 st \<leftarrow> setReadyStatus L w binding tun tunnelCNAME resourceName hostnames connectorReady
                        dnsAutomationEnabled dnsAutomated;
                 case st of
                   Some err \<Rightarrow> ret (0, Some err)
                 | None \<Rightarrow> ret (120, None) } } } }"

definition issueToken ::
  "lib \<Rightarrow> world \<Rightarrow> bindingReconciler \<Rightarrow> cfClient \<Rightarrow> cloudflareTunnelBinding \<Rightarrow> tunnel \<Rightarrow> string list \<Rightarrow>
     (ctrlResult \<times> goerr option) io" where
  \<comment> \<open>Lines 162 to 166.\<close>
  "issueToken L w r api binding tun hostnames = do {
     t \<leftarrow> cfGetToken api (tn_id tun);
     case t of
       Inl err \<Rightarrow> failConnector L w binding (Wrap ''retrieve Cloudflare Tunnel token'' err)
     | Inr token \<Rightarrow> finishReconcile L w r binding tun hostnames token }"

definition programIngress ::
  "lib \<Rightarrow> world \<Rightarrow> bindingReconciler \<Rightarrow> cfClient \<Rightarrow> cloudflareTunnelBinding \<Rightarrow> tunnel \<Rightarrow> string list \<Rightarrow>
     string \<Rightarrow> (ctrlResult \<times> goerr option) io" where
  \<comment> \<open>Lines 149 to 160: repair the tunnel's ingress configuration.\<close>
  "programIngress L w r api binding tun hostnames origin = do {
     let desiredIngress = IngressRules hostnames origin;
     c \<leftarrow> cfGetConfiguration api (tn_id tun);
     case c of
       Inl err \<Rightarrow> failTunnel L w binding (Wrap ''get Cloudflare Tunnel configuration'' err)
     | Inr currentIngress \<Rightarrow>
         if \<not> EqualIngress currentIngress desiredIngress then do {
           u \<leftarrow> cfUpdateConfiguration api (tn_id tun) desiredIngress;
           case u of
             Some updateErr \<Rightarrow> failTunnel L w binding (Wrap ''update Cloudflare Tunnel configuration'' updateErr)
           | None \<Rightarrow> issueToken L w r api binding tun hostnames }
         else issueToken L w r api binding tun hostnames }"

definition reconcileTunnel ::
  "lib \<Rightarrow> world \<Rightarrow> bindingReconciler \<Rightarrow> cloudflareTunnelBinding \<Rightarrow> clusterCloudflareProvider \<Rightarrow>
     string list \<Rightarrow> string \<Rightarrow> (ctrlResult \<times> goerr option) io" where
  \<comment> \<open>Lines 132 to 147: credentials, cluster identity and the tunnel.\<close>
  "reconcileTunnel L w r binding provider hostnames origin = do {
     t \<leftarrow> readAPIToken w r provider;
     case t of
       Inl err \<Rightarrow> failConnector L w binding err
     | Inr apiToken \<Rightarrow> do {
         api \<leftarrow> newClient w (br_cloudflare r) apiToken (ps_accountID (p_spec provider));
         n \<leftarrow> k8s_getNamespace w NamespaceSystem;
         case n of
           Inl err \<Rightarrow> failTunnel L w binding (Wrap ''read cluster identity'' (Kube err))
         | Inr clusterNamespace \<Rightarrow> do {
             let tunnelName = TunnelName (om_uid (ns_meta clusterNamespace)) binding;
             (binding, et) \<leftarrow> ensureTunnel w api binding tunnelName;
             case et of
               Inl err \<Rightarrow> failTunnel L w binding err
             | Inr tun \<Rightarrow> programIngress L w r api binding tun hostnames origin } } }"

definition addBindingFinalizer ::
  "lib \<Rightarrow> world \<Rightarrow> cloudflareTunnelBinding \<Rightarrow> (ctrlResult \<times> goerr option) io" where
  "addBindingFinalizer L w binding = do {
     e \<leftarrow> k8s_updateBinding w (binding\<lparr>b_meta := (b_meta binding)\<lparr>om_finalizers :=
            lib_addFinalizer L (om_finalizers (b_meta binding)) bindingFinalizer\<rparr>\<rparr>);
     ret (0, map_option Kube e) }"

definition handleRejection ::
  "lib \<Rightarrow> world \<Rightarrow> bindingReconciler \<Rightarrow> cloudflareTunnelBinding \<Rightarrow> ctrlResult \<Rightarrow> goerr option \<Rightarrow>
     (ctrlResult \<times> goerr option) io" where
  \<comment> \<open>Lines 107 to 117.\<close>
  "handleRejection L w r binding result err =
     (if (case lib_findStatusCondition L (bst_conditions (b_status binding)) BindingConditionAccepted of
            Some accepted \<Rightarrow> cond_reason accepted = providerControllerClassMismatch
          | None \<Rightarrow> False)
      then ret (result, err)
      else if bst_tunnelID (b_status binding) \<noteq> '''' then do {
        d \<leftarrow> deprogramTunnel w r binding;
        case d of
          Some deprogramErr \<Rightarrow> ret (result, errorsJoin [err, Some deprogramErr])
        | None \<Rightarrow> ret (result, err) }
      else ret (result, err))"

definition handleFailure ::
  "lib \<Rightarrow> world \<Rightarrow> cloudflareTunnelBinding \<Rightarrow> goerr \<Rightarrow> (ctrlResult \<times> goerr option) io" where
  \<comment> \<open>Lines 118 to 121.\<close>
  "handleFailure L w binding err =
     (if errorsIs (\<lambda>e. e = ErrClusterProviderStatusUnknown) err then do {
        e \<leftarrow> reportOperationalFailure L w binding BindingConditionReady ''ProviderStatusUnknown''
          ''The referenced ClusterCloudflareProvider status is not currently known'' err;
        ret (0, e) }
      else failTunnel L w binding err)"

definition reconcileLive ::
  "lib \<Rightarrow> world \<Rightarrow> bindingReconciler \<Rightarrow> cloudflareTunnelBinding \<Rightarrow> (ctrlResult \<times> goerr option) io" where
  \<comment> \<open>Lines 105 to 130: a binding of this controller's class that is not being deleted.\<close>
  "reconcileLive L w r binding = do {
     (binding, plan) \<leftarrow> validateAndPlan L w r binding;
     case plan of
       Reject result err \<Rightarrow> handleRejection L w r binding result err
     | Fail err \<Rightarrow> handleFailure L w binding err
     | Continue (provider, hostnames, origin) \<Rightarrow>
         if \<not> lib_containsFinalizer L (om_finalizers (b_meta binding)) bindingFinalizer
         then addBindingFinalizer L w binding
         else reconcileTunnel L w r binding provider hostnames origin }"

definition Reconcile ::
  "lib \<Rightarrow> world \<Rightarrow> bindingReconciler \<Rightarrow> namespacedName \<Rightarrow> (ctrlResult \<times> goerr option) io" where
  "Reconcile L w r req = do {
     g \<leftarrow> k8s_getBinding w req;
     case g of
       Inl err \<Rightarrow> ret (0, ignoreNotFound err)
     | Inr binding \<Rightarrow>
         if \<not> owns r (bs_controller (b_spec binding)) then ret (0, None)
         else if \<not> timeIsZero (om_deletionTimestamp (b_meta binding)) then finalize L w r binding
         else reconcileLive L w r binding }"

section \<open>Watches\<close>

datatype watchedObject =
    WatchedProvider clusterCloudflareProvider
  | WatchedGatewayClass gatewayClass
  | WatchedGateway gateway
  | WatchedHTTPRoute httpRoute
  | WatchedReferenceGrant referenceGrant
  | WatchedService service
  | WatchedNamespace namespaceObj

definition bindingMatches :: "watchedObject \<Rightarrow> cloudflareTunnelBinding \<Rightarrow> bool" where
  "bindingMatches object binding =
     (case object of
        WatchedProvider changed \<Rightarrow> bs_providerRef (b_spec binding) = p_name changed
      | WatchedGatewayClass _ \<Rightarrow> True
      | WatchedGateway changed \<Rightarrow> b_namespace binding = om_namespace (gw_meta changed)
          \<and> gr_name (bs_gatewayRef (b_spec binding)) = om_name (gw_meta changed)
      | WatchedHTTPRoute changed \<Rightarrow> b_namespace binding = om_namespace (hr_meta changed)
          \<and> routeTargetsBinding changed binding
      | WatchedReferenceGrant changed \<Rightarrow>
          (let originNamespace = effectiveOriginServiceNamespace binding in
           originNamespace \<noteq> b_namespace binding \<and> originNamespace = om_namespace (rg_meta changed))
      | WatchedService changed \<Rightarrow>
          effectiveOriginServiceNamespace binding = om_namespace (svc_meta changed)
          \<and> osr_name (bs_originServiceRef (b_spec binding)) = om_name (svc_meta changed)
      | WatchedNamespace changed \<Rightarrow> b_namespace binding = om_name (ns_meta changed))"

definition bindingsForObject ::
  "world \<Rightarrow> bindingReconciler \<Rightarrow> watchedObject \<Rightarrow> namespacedName list io" where
  "bindingsForObject w r object = do {
     l \<leftarrow> k8s_listBindings w None;
     ret (case l of
            Inl _ \<Rightarrow> []
          | Inr bindings \<Rightarrow>
              map (\<lambda>binding. (b_namespace binding, b_name binding))
                (filter (\<lambda>binding. owns r (bs_controller (b_spec binding)) \<and> bindingMatches object binding)
                  bindings)) }"

section \<open>The history only grows\<close>

lemma failTunnel_extends [extends_rules]: "extends (failTunnel L w binding cause)"
  unfolding failTunnel_def by (intro extends_rules)

lemma failConnector_extends [extends_rules]: "extends (failConnector L w binding cause)"
  unfolding failConnector_def by (intro extends_rules)

lemma failDNS_extends [extends_rules]: "extends (failDNS L w binding cause)"
  unfolding failDNS_def by (intro extends_rules)

lemma finishReconcile_extends [extends_rules]:
  "extends (finishReconcile L w r binding tun hostnames token)"
  unfolding finishReconcile_def by (intro extends_rules)

lemma issueToken_extends [extends_rules]: "extends (issueToken L w r api binding tun hostnames)"
  unfolding issueToken_def by (intro extends_rules)

lemma programIngress_extends [extends_rules]:
  "extends (programIngress L w r api binding tun hostnames origin)"
  unfolding programIngress_def by (intro extends_rules)

lemma reconcileTunnel_extends [extends_rules]:
  "extends (reconcileTunnel L w r binding provider hostnames origin)"
  unfolding reconcileTunnel_def by (intro extends_rules)

lemma addBindingFinalizer_extends [extends_rules]: "extends (addBindingFinalizer L w binding)"
  unfolding addBindingFinalizer_def by (intro extends_rules)

lemma handleRejection_extends [extends_rules]: "extends (handleRejection L w r binding result err)"
  unfolding handleRejection_def by (intro extends_rules)

lemma handleFailure_extends [extends_rules]: "extends (handleFailure L w binding err)"
  unfolding handleFailure_def by (intro extends_rules)

lemma reconcileLive_extends [extends_rules]: "extends (reconcileLive L w r binding)"
  unfolding reconcileLive_def by (intro extends_rules)

lemma Reconcile_extends [extends_rules]: "extends (Reconcile L w r req)"
  unfolding Reconcile_def by (intro extends_rules)

lemma bindingsForObject_extends [extends_rules]: "extends (bindingsForObject w r object)"
  unfolding bindingsForObject_def by (intro extends_rules)

end
