(* ===== verification/ReferenceLib.thy ===== *)
theory ReferenceLib
  imports Planner
begin

text \<open>
  One concrete instance of the third-party parameters. Nothing is proved about it except that
  it satisfies the documented laws: it shows that they can hold together, and the witnesses
  evaluate the model with it.
\<close>

fun replaceCondition :: "condition list \<Rightarrow> condition \<Rightarrow> condition list" where
  "replaceCondition [] c = [c]"
| "replaceCondition (d # ds) c = (if cond_type d = cond_type c then c # ds else d # replaceCondition ds c)"

definition findCondition :: "condition list \<Rightarrow> string \<Rightarrow> condition option" where
  "findCondition cs t = List.find (\<lambda>c. cond_type c = t) cs"

definition dnsSubdomain :: "string \<Rightarrow> string list" where
  "dnsSubdomain s =
     (if s \<noteq> [] \<and> length s \<le> 253 \<and> list_all dns_char s \<and> dns_end (hd s) \<and> dns_end (last s)
      then [] else [''not a subdomain''])"

definition refLib :: lib where
  "refLib = \<lparr>
     lib_isDNS1123Subdomain = dnsSubdomain,
     lib_setStatusCondition = replaceCondition,
     lib_findStatusCondition = findCondition,
     lib_containsFinalizer = (\<lambda>fs f. List.member fs f),
     lib_addFinalizer = (\<lambda>fs f. List.insert f fs),
     lib_removeFinalizer = (\<lambda>fs f. filter (\<lambda>g. g \<noteq> f) fs),
     lib_labelSelectorAsSelector =
       (\<lambda>s. Inr (\<lambda>ls. list_all (\<lambda>(k, v). ls k = Some v) (sel_matchLabels s))),
     lib_intOrStringString = (\<lambda>p. case p of IntVal i \<Rightarrow> int_to_dec i | StrVal s \<Rightarrow> s),
     lib_mustParse = (\<lambda>s. int (length s)),
     lib_setControllerReference = (\<lambda>owner e. Inr (e\<lparr>de_controllerUID := Some (om_uid owner)\<rparr>))\<rparr>"

lemma find_replaceCondition:
  "findCondition (replaceCondition cs c) t = (if t = cond_type c then Some c else findCondition cs t)"
  by (induction cs) (auto simp: findCondition_def)

lemma refLib_conditions: "condition_laws refLib"
  by (simp add: condition_laws_def refLib_def find_replaceCondition)

lemma refLib_finalizers: "finalizer_laws refLib"
  by (auto simp: finalizer_laws_def refLib_def)

lemma refLib_dns: "dns_laws refLib"
  by (auto simp: dns_laws_def refLib_def dnsSubdomain_def split: if_splits)

end
