(* ===== verification/Demo.thy ===== *)
theory Demo
  imports BindingController ReferenceLib
begin

text \<open>
  One concrete cluster, on which the witnesses evaluate the model: a provider, a binding with
  its Gateway, route and Service, and a Cloudflare account without tunnels. Every call of the
  world succeeds; a status patch stores what it is given.
\<close>

definition demoMeta :: "string \<Rightarrow> string \<Rightarrow> string \<Rightarrow> int \<Rightarrow> objectMeta" where
  "demoMeta ns n uid created = \<lparr>om_name = n, om_namespace = ns, om_uid = uid, om_generation = 1,
     om_creationTimestamp = created, om_deletionTimestamp = None, om_finalizers = [],
     om_labels = Map.empty\<rparr>"

definition demoTrue :: "string \<Rightarrow> condition" where
  "demoTrue t = \<lparr>cond_type = t, cond_status = ConditionTrue, cond_observedGeneration = 1,
     cond_reason = t, cond_message = ''''\<rparr>"

definition demoProvider :: clusterCloudflareProvider where
  "demoProvider = \<lparr>p_meta = demoMeta '''' ''main'' ''p1'' 5,
     p_spec = \<lparr>ps_controller = ''class'', ps_accountID = ''acct'',
       ps_apiTokenSecretRef = \<lparr>skr_name = ''cf'', skr_key = ''token''\<rparr>,
       ps_allowedDNSZones = [''example.org''],
       ps_bindingNamespaceSelector = \<lparr>sel_matchLabels = [], sel_matchExpressions = []\<rparr>\<rparr>,
     p_status = \<lparr>pst_observedGeneration = 1,
       pst_conditions = [demoTrue ''Accepted'', demoTrue ''CredentialsValid'']\<rparr>\<rparr>"

definition demoBinding :: cloudflareTunnelBinding where
  "demoBinding = \<lparr>b_meta = (demoMeta ''apps'' ''web'' ''b1'' 10)\<lparr>om_finalizers := [bindingFinalizer]\<rparr>,
     b_spec = \<lparr>bs_controller = ''class'', bs_providerRef = ''main'',
       bs_gatewayRef = \<lparr>gr_name = ''gw'', gr_sectionName = ''http''\<rparr>,
       bs_originServiceRef = \<lparr>osr_name = ''traefik'', osr_namespace = '''', osr_port = StrVal ''http''\<rparr>,
       bs_connectorReplicas = 2, bs_deletionPolicy = DeletionPolicyDelete,
       bs_dnsAutomationEnabled = Some True\<rparr>,
     b_status = \<lparr>bst_observedGeneration = 0, bst_tunnelID = '''', bst_tunnelName = '''',
       bst_tunnelCNAME = '''', bst_publishedHostnames = [], bst_dnsRecords = [],
       bst_resources = \<lparr>crn_deployment = '''', crn_secret = '''', crn_dnsEndpoint = ''''\<rparr>,
       bst_conditions = []\<rparr>\<rparr>"

definition laterBinding :: cloudflareTunnelBinding where
  \<comment> \<open>A second binding for the same Gateway, created later.\<close>
  "laterBinding = demoBinding\<lparr>b_meta := demoMeta ''apps'' ''web2'' ''b2'' 11\<rparr>"

definition demoTunnel :: tunnel where
  "demoTunnel = \<lparr>tn_id = ''tid'', tn_name = ''t'', tn_configSource = ConfigSourceCloudflare, tn_status = ''''\<rparr>"

definition demoParent :: parentReference where
  "demoParent = \<lparr>pref_group = None, pref_kind = None, pref_namespace = None, pref_name = ''gw'',
     pref_sectionName = Some ''http''\<rparr>"

definition demoRoute :: httpRoute where
  "demoRoute = \<lparr>hr_meta = demoMeta ''apps'' ''route'' ''h1'' 7, hr_parentRefs = [demoParent],
     hr_hostnames = [''A.example.org.'', ''b.example.com''],
     hr_parents = [\<lparr>rps_parentRef = demoParent, rps_controllerName = traefikControllerName,
       rps_conditions = [demoTrue ''Accepted'', demoTrue ''ResolvedRefs'']\<rparr>]\<rparr>"

definition demoGateway :: gateway where
  "demoGateway = \<lparr>gw_meta = demoMeta ''apps'' ''gw'' ''g1'' 6, gw_className = ''traefik'',
     gw_listeners = [\<lparr>li_name = ''http'', li_protocol = HTTPProtocolType\<rparr>],
     gw_conditions = [demoTrue ''Accepted'', demoTrue ''Programmed'']\<rparr>"

definition demoService :: service where
  "demoService = \<lparr>svc_meta = demoMeta ''apps'' ''traefik'' ''s1'' 6, svc_type = ''ClusterIP'',
     svc_clusterIP = ''10.0.0.7'', svc_ports = [\<lparr>sp_name = ''http'', sp_port = 80\<rparr>]\<rparr>"

definition demoPod :: podSpec where
  "demoPod = \<lparr>pod_automountServiceAccountToken = None, pod_securityContext = None,
     pod_containers = [], pod_volumes = []\<rparr>"

definition demoWorld :: world where
  "demoWorld = \<lparr>
     w_getBinding = (\<lambda>h k. Inr demoBinding),
     w_getProvider = (\<lambda>h k. Inr demoProvider),
     w_getPrivateRouteObject = (\<lambda>h k. Inl (NotFound '''')),
     w_getNamespace = (\<lambda>h k. Inr \<lparr>ns_meta = demoMeta '''' k ''cluster'' 1\<rparr>),
     w_getGateway = (\<lambda>h k. Inr demoGateway),
     w_getGatewayClass = (\<lambda>h k. Inr \<lparr>gc_meta = demoMeta '''' k ''c1'' 1,
       gc_controllerName = traefikControllerName\<rparr>),
     w_getService = (\<lambda>h k. Inr demoService),
     w_getSecret = (\<lambda>h k. Inr \<lparr>sec_meta = demoMeta (fst k) (snd k) ''t1'' 1, sec_type = '''',
       sec_data = [''token'' \<mapsto> '' abc '']\<rparr>),
     w_getChild = (\<lambda>h kind k. Inl (NotFound '''')),
     w_listBindings = (\<lambda>h ns. Inr [demoBinding, laterBinding]),
     w_listPrivateRouteObjects = (\<lambda>h. Inr []),
     w_listHTTPRoutes = (\<lambda>h ns. Inr [demoRoute]),
     w_listReferenceGrants = (\<lambda>h ns. Inr []),
     w_restMapping = (\<lambda>h. None),
     w_updateBinding = (\<lambda>h b. None),
     w_updateProvider = (\<lambda>h b. None),
     w_updatePrivateRoute = (\<lambda>h b. None),
     w_patchBindingStatus = (\<lambda>h b0 b. Inr b),
     w_patchProviderStatus = (\<lambda>h b0 b. Inr b),
     w_patchPrivateRouteStatus = (\<lambda>h b0 b. Inr b),
     w_fetchSecret = (\<lambda>h k. Inr \<lparr>sec_meta = newObject (fst k) (snd k), sec_type = '''',
       sec_data = Map.empty\<rparr>),
     w_storeSecret = (\<lambda>h s0 s. None),
     w_fetchDeployment = (\<lambda>h k. Inr \<lparr>dep_meta = newObject (fst k) (snd k), dep_replicas = None,
       dep_selector = Map.empty, dep_strategy = '''', dep_templateLabels = Map.empty,
       dep_templateSpec = demoPod, dep_availableReplicas = 0, dep_observedGeneration = 0\<rparr>),
     w_storeDeployment = (\<lambda>h s0 s. Inr (s\<lparr>dep_availableReplicas := 2\<rparr>)),
     w_fetchDNSEndpoint = (\<lambda>h k. Inr \<lparr>de_meta = newObject (fst k) (snd k), de_controllerUID = None,
       de_endpoints = []\<rparr>),
     w_storeDNSEndpoint = (\<lambda>h s0 s. None),
     w_deleteChild = (\<lambda>h kind m. None),
     w_sdk = (\<lambda>token. undefined)\<rparr>"

definition demoCloudflare :: cfClient where
  "demoCloudflare = \<lparr>
     cl_Validate = (\<lambda>h. None),
     cl_FindTunnelByName = (\<lambda>h n. Inr None),
     cl_GetTunnel = (\<lambda>h i. Inr (Some \<lparr>tn_id = i, tn_name = ''other'', tn_configSource = '''', tn_status = ''''\<rparr>)),
     cl_CreateTunnel = (\<lambda>h n. Inr \<lparr>tn_id = ''tid'', tn_name = n,
       tn_configSource = ConfigSourceCloudflare, tn_status = ''''\<rparr>),
     cl_GetConfiguration = (\<lambda>h i. Inr []),
     cl_UpdateConfiguration = (\<lambda>h i rules. None),
     cl_GetToken = (\<lambda>h i. Inr ''connector''),
     cl_DeleteTunnel = (\<lambda>h i. None),
     cl_ListPrivateRoutes = (\<lambda>h n. ([], None)),
     cl_GetPrivateRoute = (\<lambda>h i. Inr None),
     cl_CreatePrivateRoute = (\<lambda>h n t c. Inr (Some \<lparr>pr_id = ''rid'', pr_network = n, pr_tunnelID = t,
       pr_comment = c, pr_virtualNetworkID = ''''\<rparr>)),
     cl_DeletePrivateRoute = (\<lambda>h i. None)\<rparr>"

definition demoReconciler :: bindingReconciler where
  "demoReconciler = \<lparr>br_hasRESTMapper = True, br_hasRecorder = False,
     br_cloudflare = Some (\<lambda>token account. demoCloudflare), br_systemNamespace = '''',
     br_cloudflaredImage = '''', br_controllerClass = ''class''\<rparr>"

section \<open>The demo binding is published\<close>

fun effect :: "event \<Rightarrow> string" where
  \<comment> \<open>A short name for each change, to state what a run did.\<close>
  "effect (CfCreateTunnel n t) = ''create tunnel''"
| "effect (CfUpdateConfiguration i rules x) = concat (''route to '' # map ir_hostname rules)"
| "effect (StoreSecret current new e) = ''secret''"
| "effect (StoreDeployment current new e) = ''deployment''"
| "effect (StoreDNSEndpoint current new e) = ''dns''"
| "effect e = ''other''"

definition demoRun :: "(ctrlResult \<times> goerr option) \<times> history" where
  "demoRun = run_state (Reconcile refLib demoWorld demoReconciler (''apps'', ''web'')) []"

lemma demo_publishes:
  "fst demoRun = (120, None)
   \<and> map effect (filter mutates (snd demoRun)) =
      [''create tunnel'', ''route to a.example.org'', ''secret'', ''deployment'', ''dns'']"
  by code_simp

end
