(* ===== verification/BindingStatus.thy ===== *)
theory BindingStatus
  imports BindingController Demo
begin

text \<open>
  What the binding controller writes into a binding's status: only the status, and which
  conditions with which values.
\<close>

section \<open>Only the status changes\<close>

lemma setBindingCondition_keeps [simp]:
  "b_meta (setBindingCondition L t s reason message b) = b_meta b"
  "b_spec (setBindingCondition L t s reason message b) = b_spec b"
  by (simp_all add: setBindingCondition_def)

lemma status_keeps [simp]:
  "b_meta (rejectedStatus L b reason message) = b_meta b"
  "b_meta (failureStatus L b c reason message) = b_meta b"
  "b_meta (readyStatus L b tun cname n hs cr de da) = b_meta b"
  "b_meta (tunnelPatched b tun) = b_meta b"
  "b_spec (rejectedStatus L b reason message) = b_spec b"
  "b_spec (failureStatus L b c reason message) = b_spec b"
  "b_spec (readyStatus L b tun cname n hs cr de da) = b_spec b"
  "b_spec (tunnelPatched b tun) = b_spec b"
  by (simp_all add: rejectedStatus_def failureStatus_def readyStatus_def tunnelPatched_def Let_def)

section \<open>Which conditions are true\<close>

text \<open>\<open>holds L b t\<close>: condition \<open>t\<close> of the binding is true for its present generation.\<close>

definition holds :: "lib \<Rightarrow> cloudflareTunnelBinding \<Rightarrow> string \<Rightarrow> bool" where
  "holds L b t \<longleftrightarrow> conditionTrue L (bst_conditions (b_status b)) (b_generation b) t"

interpretation binding_report: reporting "\<lambda>b. bst_conditions (b_status b)" b_generation setBindingCondition
  by unfold_locales (simp_all add: setBindingCondition_def)

lemma holds_setBindingCondition:
  "condition_laws L \<Longrightarrow>
     holds L (setBindingCondition L t s reason message b) t' =
       (if t' = t then s = ConditionTrue else holds L b t')"
  unfolding holds_def by (rule binding_report.holds_report)

lemma conditionNames:
  "BindingConditionAccepted \<noteq> BindingConditionProgrammed"
  "BindingConditionAccepted \<noteq> BindingConditionConnectorReady"
  "BindingConditionAccepted \<noteq> BindingConditionDNSAutomationReady"
  "BindingConditionAccepted \<noteq> BindingConditionReady"
  "BindingConditionProgrammed \<noteq> BindingConditionConnectorReady"
  "BindingConditionProgrammed \<noteq> BindingConditionDNSAutomationReady"
  "BindingConditionProgrammed \<noteq> BindingConditionReady"
  "BindingConditionConnectorReady \<noteq> BindingConditionDNSAutomationReady"
  "BindingConditionConnectorReady \<noteq> BindingConditionReady"
  "BindingConditionDNSAutomationReady \<noteq> BindingConditionReady"
  by code_simp+

lemmas status_simps = holds_setBindingCondition conditionNames conditionNames [symmetric]

text \<open>C10: What a completed reconciliation reports. Accepted is true; Programmed is true exactly if a
  hostname is published, ConnectorReady exactly if the connector is available,
  DNSAutomationReady exactly if the records are automated or automation is off; and Ready
  exactly if all of these are.\<close>

theorem readyStatus_conditions:
  assumes "condition_laws L"
  shows "let b' = readyStatus L b tun cname n hs connectorReady enabled automated in
    holds L b' BindingConditionAccepted
    \<and> holds L b' BindingConditionProgrammed = (hs \<noteq> [])
    \<and> holds L b' BindingConditionConnectorReady = connectorReady
    \<and> holds L b' BindingConditionDNSAutomationReady = (automated \<or> \<not> enabled)
    \<and> holds L b' BindingConditionReady =
        (hs \<noteq> [] \<and> connectorReady \<and> (automated \<or> \<not> enabled))"
proof -
  have "holds L (b\<lparr>b_status := (b_status b)\<lparr>bst_resources := x\<rparr>\<rparr>) t = holds L b t" for b x t
    by (simp add: holds_def)
  with assms show ?thesis
    unfolding readyStatus_def Let_def
    by (cases "hs = []"; cases connectorReady; cases enabled; cases automated)
       (simp add: status_simps)+
qed

lemma readyStatus_conditions_witness:
  "condition_laws refLib \<and>
   holds refLib (readyStatus refLib demoBinding demoTunnel ''tid.cfargotunnel.com'' ''kflared-b1''
     [''a.example.org''] True False False) BindingConditionReady"
  using readyStatus_conditions [OF refLib_conditions, of demoBinding demoTunnel "''tid.cfargotunnel.com''"
      "''kflared-b1''" "[''a.example.org'']" True False False]
    refLib_conditions by (simp add: Let_def)

text \<open>C11: What a rejected binding reports. None of Accepted, Programmed, DNSAutomationReady and Ready
  is true, no hostname and no DNS record is published any more, so that its claim on hostnames
  ends; the tunnel stays recorded and the connector's condition is kept.\<close>

theorem rejectedStatus_withdraws:
  assumes "condition_laws L"
  shows "let b' = rejectedStatus L b reason message in
    list_all (\<lambda>t. \<not> holds L b' t)
      [BindingConditionAccepted, BindingConditionProgrammed,
       BindingConditionDNSAutomationReady, BindingConditionReady]
    \<and> bst_publishedHostnames (b_status b') = [] \<and> bst_dnsRecords (b_status b') = []
    \<and> bst_tunnelID (b_status b') = bst_tunnelID (b_status b)
    \<and> holds L b' BindingConditionConnectorReady = holds L b BindingConditionConnectorReady"
proof -
  have keep: "holds L (b\<lparr>b_status := (b_status b)\<lparr>bst_observedGeneration := g, bst_publishedHostnames := hs,
      bst_dnsRecords := ds, bst_resources := x\<rparr>\<rparr>) t = holds L b t" for b g hs ds x t
    by (simp add: holds_def)
  have "bst_publishedHostnames (b_status (setBindingCondition L t s m n c)) = bst_publishedHostnames (b_status c)"
    "bst_dnsRecords (b_status (setBindingCondition L t s m n c)) = bst_dnsRecords (b_status c)"
    "bst_tunnelID (b_status (setBindingCondition L t s m n c)) = bst_tunnelID (b_status c)" for t s m n c
    by (simp_all add: setBindingCondition_def)
  with assms keep show ?thesis
    unfolding rejectedStatus_def Let_def by (simp add: status_simps)
qed

lemma rejectedStatus_withdraws_witness:
  "condition_laws refLib
   \<and> bst_publishedHostnames (b_status (rejectedStatus refLib demoBinding ''HostnameConflict'' ''taken'')) = []"
  using rejectedStatus_withdraws [OF refLib_conditions, of demoBinding "''HostnameConflict''" "''taken''"]
    refLib_conditions by (simp add: Let_def)

text \<open>C12: What an operational failure reports. The failed condition and Ready become Unknown, for the
  present generation and with the given reason and message; every other condition, the published
  hostnames, the DNS records, the recorded tunnel and everything else of the binding stay as
  they were, so that a temporary failure does not give up the binding's claims.\<close>

theorem failureStatus_keeps_publication:
  assumes "condition_laws L"
  shows "let b' = failureStatus L b c reason message;
      found = (\<lambda>d. lib_findStatusCondition L (bst_conditions (b_status d)))
    in (\<forall>t. found b' t =
          (if t = c \<or> t = BindingConditionReady
           then Some \<lparr>cond_type = t, cond_status = ConditionUnknown, cond_observedGeneration = b_generation b,
             cond_reason = reason, cond_message = message\<rparr>
           else found b t))
      \<and> b' = b\<lparr>b_status := (b_status b)\<lparr>bst_observedGeneration := b_generation b,
            bst_conditions := bst_conditions (b_status b')\<rparr>\<rparr>"
  using assms unfolding failureStatus_def Let_def
  by (auto simp: setBindingCondition_def setCondition_def)

lemma failureStatus_keeps_publication_witness:
  "condition_laws refLib
   \<and> conditionHas (lib_findStatusCondition refLib (bst_conditions (b_status
        (failureStatus refLib demoBinding BindingConditionProgrammed ''Failed'' ''down''))) BindingConditionReady)
       ConditionUnknown"
  using failureStatus_keeps_publication [OF refLib_conditions, of demoBinding BindingConditionProgrammed "''Failed''" "''down''"]
    refLib_conditions by (simp add: Let_def conditionHas_def)

end
