(* ===== verification/BindingPlan.thy ===== *)
theory BindingPlan
  imports BindingStatus
begin

text \<open>
  Validation as complete mediation. \<open>validateAndPlan\<close> continues only after every check of
  the design has been made on an answer the API server gave in this reconciliation; the
  predicates below name, check by check, the answers that have to be in the history.
  Validation itself changes nothing but the binding's status.
\<close>

section \<open>Evidence\<close>

definition competes :: "bindingReconciler \<Rightarrow> cloudflareTunnelBinding \<Rightarrow> cloudflareTunnelBinding \<Rightarrow> bool" where
  \<comment> \<open>\<open>other\<close> contends with \<open>b\<close> for its Gateway and has the better claim.\<close>
  "competes r b other \<longleftrightarrow> bs_controller (b_spec other) = br_controllerClass r
     \<and> timeIsZero (om_deletionTimestamp (b_meta other)) \<and> b_uid other \<noteq> b_uid b
     \<and> gr_name (bs_gatewayRef (b_spec other)) = gr_name (bs_gatewayRef (b_spec b))
     \<and> BindingPrecedes other b"

definition providerEvidence ::
  "lib \<Rightarrow> bindingReconciler \<Rightarrow> cloudflareTunnelBinding \<Rightarrow> clusterCloudflareProvider \<Rightarrow> history \<Rightarrow> bool" where
  "providerEvidence L r b p es \<longleftrightarrow>
     GetProvider (bs_providerRef (b_spec b)) (Inr p) \<in> set es
     \<and> ps_controller (p_spec p) = bs_controller (b_spec b)
     \<and> conditionTrue L (pst_conditions (p_status p)) (p_generation p) ProviderConditionAccepted
     \<and> conditionTrue L (pst_conditions (p_status p)) (p_generation p) ProviderConditionCredentialsValid
     \<and> (\<exists>ns. GetNamespace (b_namespace b) (Inr ns) \<in> set es \<and> namespaceSelected L p ns)
     \<and> (\<exists>bs. ListBindings (Some (b_namespace b)) (Inr bs) \<in> set es \<and> \<not> list_ex (competes r b) bs)"

definition gatewayEvidence :: "lib \<Rightarrow> cloudflareTunnelBinding \<Rightarrow> history \<Rightarrow> bool" where
  "gatewayEvidence L b es \<longleftrightarrow>
     (\<exists>gw cls. GetGateway (b_namespace b, gr_name (bs_gatewayRef (b_spec b))) (Inr gw) \<in> set es
       \<and> GetGatewayClass (gw_className gw) (Inr cls) \<in> set es
       \<and> gc_controllerName cls = traefikControllerName
       \<and> conditionTrue L (gw_conditions gw) (om_generation (gw_meta gw)) ''Accepted''
       \<and> conditionTrue L (gw_conditions gw) (om_generation (gw_meta gw)) ''Programmed''
       \<and> validHTTPListener gw (gr_sectionName (bs_gatewayRef (b_spec b))))"

definition serviceEvidence :: "lib \<Rightarrow> cloudflareTunnelBinding \<Rightarrow> string \<Rightarrow> history \<Rightarrow> bool" where
  "serviceEvidence L b origin es \<longleftrightarrow>
     (\<exists>svc port. GetService (effectiveOriginServiceNamespace b, osr_name (bs_originServiceRef (b_spec b)))
           (Inr svc) \<in> set es
       \<and> svc_type svc \<in> {'''', ServiceTypeClusterIP} \<and> svc_clusterIP svc \<notin> {'''', ClusterIPNone}
       \<and> resolveServicePort L svc (osr_port (bs_originServiceRef (b_spec b))) = Inr port
       \<and> origin = ''http://'' @ om_name (svc_meta svc) @ ''.'' @ om_namespace (svc_meta svc)
           @ ''.svc.cluster.local:'' @ int_to_dec port)"

definition grantEvidence :: "cloudflareTunnelBinding \<Rightarrow> history \<Rightarrow> bool" where
  "grantEvidence b es \<longleftrightarrow> effectiveOriginServiceNamespace b = b_namespace b
     \<or> (\<exists>grants. ListReferenceGrants (effectiveOriginServiceNamespace b) (Inr grants) \<in> set es
         \<and> list_ex (\<lambda>g. referenceGrantPermitsOrigin g b) grants)"

definition consultsRoutes :: "lib \<Rightarrow> kubeError + clusterCloudflareProvider \<Rightarrow> bool" where
  "consultsRoutes L g =
     (case g of
        Inl _ \<Rightarrow> False
      | Inr p \<Rightarrow> conditionTrue L (pst_conditions (p_status p)) (p_generation p)
          ProviderConditionAccepted)"

definition publishedBy ::
  "lib \<Rightarrow> cloudflareTunnelBinding \<Rightarrow> kubeError + clusterCloudflareProvider \<Rightarrow>
     kubeError + httpRoute list \<Rightarrow> string list" where
  \<comment> \<open>What \<open>other\<close> publishes, given the answers about its provider and its namespace's routes.\<close>
  "publishedBy L other g l =
     (case (g, l) of
        (Inr p, Inr routes) \<Rightarrow>
          if consultsRoutes L g
          then (case NormalizeZones L (ps_allowedDNSZones (p_spec p)) of
                  Inl _ \<Rightarrow> bst_publishedHostnames (b_status other)
                | Inr zones \<Rightarrow> fst (NormalizeHostnames L (acceptedHostnames L other routes) zones))
          else bst_publishedHostnames (b_status other)
      | _ \<Rightarrow> bst_publishedHostnames (b_status other))"

definition contender :: "cloudflareTunnelBinding \<Rightarrow> cloudflareTunnelBinding \<Rightarrow> bool" where
  "contender b other \<longleftrightarrow> timeIsZero (om_deletionTimestamp (b_meta other)) \<and> b_uid other \<noteq> b_uid b
     \<and> BindingPrecedes other b"

definition unclaimedBy ::
  "lib \<Rightarrow> history \<Rightarrow> string list \<Rightarrow> cloudflareTunnelBinding \<Rightarrow> bool" where
  "unclaimedBy L es hs other \<longleftrightarrow>
     (\<exists>g l. GetProvider (bs_providerRef (b_spec other)) g \<in> set es
       \<and> (consultsRoutes L g \<longrightarrow> ListHTTPRoutes (b_namespace other) l \<in> set es)
       \<and> set hs \<inter> set (publishedBy L other g l) = {})"

definition hostnameEvidence ::
  "lib \<Rightarrow> cloudflareTunnelBinding \<Rightarrow> clusterCloudflareProvider \<Rightarrow> string list \<Rightarrow> history \<Rightarrow> bool" where
  "hostnameEvidence L b p hs es \<longleftrightarrow>
     (\<exists>routes zones. ListHTTPRoutes (b_namespace b) (Inr routes) \<in> set es
       \<and> NormalizeZones L (ps_allowedDNSZones (p_spec p)) = Inr zones
       \<and> hs = fst (NormalizeHostnames L (acceptedHostnames L b routes) zones))
     \<and> (if hs = [] then bst_tunnelID (b_status b) \<noteq> ''''
        else \<exists>bs. ListBindings None (Inr bs) \<in> set es
          \<and> list_all (\<lambda>other. contender b other \<longrightarrow> unclaimedBy L es hs other) bs)"

definition planned ::
  "lib \<Rightarrow> bindingReconciler \<Rightarrow> cloudflareTunnelBinding \<Rightarrow> history \<Rightarrow>
     clusterCloudflareProvider \<times> string list \<times> string \<Rightarrow> bool" where
  "planned L r b es plan \<longleftrightarrow>
     (case plan of (p, hs, origin) \<Rightarrow>
        providerEvidence L r b p es \<and> gatewayEvidence L b es \<and> grantEvidence b es
        \<and> serviceEvidence L b origin es \<and> hostnameEvidence L b p hs es)"

section \<open>Each step gathers its evidence\<close>

definition continues ::
  "cloudflareTunnelBinding \<Rightarrow> ('a \<Rightarrow> bool) \<Rightarrow> cloudflareTunnelBinding \<times> 'a outcome \<Rightarrow> bool" where
  "continues b Q x \<longleftrightarrow> (case snd x of Continue a \<Rightarrow> fst x = b \<and> Q a | _ \<Rightarrow> True)"

lemma continues_simps [simp]:
  "continues b Q (c, Continue a) = (c = b \<and> Q a)"
  "continues b Q (c, Reject x e)"
  "continues b Q (c, Fail err)"
  by (simp_all add: continues_def)

lemma rejected_yields [yields_rules]:
  assumes "\<And>c x p. P (c, Reject 300 x) [PatchBindingStatus b (rejectedStatus L b reason message) p]"
  shows "yields (rejected L w b reason message cause) P"
  unfolding rejected_def patchBinding_def k8s_call_defs
  using assms by (auto intro!: yields_rules split: sum.split)

lemma gatewayWinner_yields [yields_rules]:
  assumes "\<And>e. P (Inl (Kube e)) [ListBindings (Some (b_namespace b)) (Inl e)]"
    and "\<And>bs c. P (Inr (Some c)) [ListBindings (Some (b_namespace b)) (Inr bs)]"
    and "\<And>bs. \<not> list_ex (competes r b) bs \<Longrightarrow>
      P (Inr None) [ListBindings (Some (b_namespace b)) (Inr bs)]"
  shows "yields (gatewayWinner w r b) P"
proof -
  have "P (Inr (List.find (competes r b) bs)) [ListBindings (Some (b_namespace b)) (Inr bs)]" for bs
  proof (cases "List.find (competes r b) bs")
    case None
    then have "\<not> list_ex (competes r b) bs"
      by (simp add: find_None_iff list_ex_iff)
    with None assms(3) show ?thesis by simp
  qed (simp add: assms(2))
  then show ?thesis
    using assms(1) unfolding gatewayWinner_def k8s_call_defs competes_def
    by (auto intro!: yields_rules split: sum.split)
qed

lemma validateClusterProvider_evidence:
  "yields (validateClusterProvider L w r b) (\<lambda>x es. continues b (\<lambda>p. providerEvidence L r b p es) x)"
  unfolding validateClusterProvider_def k8s_call_defs Let_def
  by (auto intro!: yields_rules simp: providerEvidence_def conditionTrue_def conditionCurrent_def
      conditionHas_def split: sum.split option.splits)

lemma validateService_evidence:
  "n = effectiveOriginServiceNamespace b \<Longrightarrow> yields (validateService L w b n)
     (\<lambda>x es. continues b (\<lambda>origin. serviceEvidence L b origin es) x)"
  unfolding validateService_def k8s_call_defs Let_def
  by (auto intro!: yields_rules simp: serviceEvidence_def split: sum.split)

lemma evidence_mono:
  "serviceEvidence L b origin es \<Longrightarrow> set es \<subseteq> set es' \<Longrightarrow> serviceEvidence L b origin es'"
  "gatewayEvidence L b es \<Longrightarrow> set es \<subseteq> set es' \<Longrightarrow> gatewayEvidence L b es'"
  "grantEvidence b es \<Longrightarrow> set es \<subseteq> set es' \<Longrightarrow> grantEvidence b es'"
  "providerEvidence L r b p es \<Longrightarrow> set es \<subseteq> set es' \<Longrightarrow> providerEvidence L r b p es'"
  unfolding serviceEvidence_def gatewayEvidence_def grantEvidence_def providerEvidence_def
  by blast+

lemma evidence_append:
  "serviceEvidence L b origin es \<Longrightarrow> serviceEvidence L b origin (es0 @ es)"
  "gatewayEvidence L b es \<Longrightarrow> gatewayEvidence L b (es0 @ es)"
  "grantEvidence b es \<Longrightarrow> grantEvidence b (es0 @ es)"
  "providerEvidence L r b p es0 \<Longrightarrow> providerEvidence L r b p (es0 @ es)"
  by (auto elim: evidence_mono)

lemma continues_mono: "continues b Q x \<Longrightarrow> (\<And>a. Q a \<Longrightarrow> Q' a) \<Longrightarrow> continues b Q' x"
  by (auto simp: continues_def split: outcome.splits)

lemma yields_continues:
  assumes "yields m (\<lambda>x es. continues b (\<lambda>a. Q a es) x)"
    and "\<And>x es. continues b (\<lambda>a. Q a es) x \<Longrightarrow> P x es"
  shows "yields m P"
  using assms by (rule yields_mono)

lemma gatewayEvidenceI:
  assumes "gc_controllerName cls = traefikControllerName"
    and "conditionTrue L (gw_conditions gw) (om_generation (gw_meta gw)) ''Accepted''"
    and "conditionTrue L (gw_conditions gw) (om_generation (gw_meta gw)) ''Programmed''"
    and "validHTTPListener gw (gr_sectionName (bs_gatewayRef (b_spec b)))"
  shows "gatewayEvidence L b
    (GetGateway (b_namespace b, gr_name (bs_gatewayRef (b_spec b))) (Inr gw)
      # GetGatewayClass (gw_className gw) (Inr cls) # es)"
  using assms unfolding gatewayEvidence_def by auto

lemma grantEvidenceI:
  "list_ex (\<lambda>g. referenceGrantPermitsOrigin g b) grants \<Longrightarrow>
     grantEvidence b (e # e' # ListReferenceGrants (effectiveOriginServiceNamespace b) (Inr grants) # es)"
  unfolding grantEvidence_def by auto

lemma grantEvidence_local [simp]:
  "effectiveOriginServiceNamespace b = b_namespace b \<Longrightarrow> grantEvidence b es"
  by (simp add: grantEvidence_def)

lemma serviceEvidence_Cons: "serviceEvidence L b origin es \<Longrightarrow> serviceEvidence L b origin (e # es)"
  by (erule evidence_mono) auto

lemma validateOriginService_evidence:
  "yields (validateOriginService L w b)
     (\<lambda>x es. continues b (\<lambda>origin. gatewayEvidence L b es \<and> grantEvidence b es
        \<and> serviceEvidence L b origin es) x)"
  unfolding validateOriginService_def originReferencePermitted_def k8s_call_defs Let_def
  by (auto intro!: yields_rules yields_continues [OF validateService_evidence [OF sym]]
      yields_continues [OF validateService_evidence [OF refl]] gatewayEvidenceI grantEvidenceI
        serviceEvidence_Cons elim!: continues_mono split: sum.split)

lemma publishedBy_cases:
  "publishedBy L other (Inl e) l = bst_publishedHostnames (b_status other)"
  "publishedBy L other g (Inl e) = bst_publishedHostnames (b_status other)"
  "\<not> consultsRoutes L g \<Longrightarrow> publishedBy L other g l = bst_publishedHostnames (b_status other)"
  by (auto simp: publishedBy_def split: sum.split)

lemma otherBindingHostnames_eq:
  "otherBindingHostnames L w other = do {
     g \<leftarrow> k8s_getProvider w (bs_providerRef (b_spec other));
     if consultsRoutes L g then do {
       l \<leftarrow> k8s_listHTTPRoutes w (b_namespace other);
       ret (publishedBy L other g l) }
     else ret (bst_publishedHostnames (b_status other)) }"
  unfolding otherBindingHostnames_def acceptedRouteHostnames_def publishedBy_def consultsRoutes_def
    k8s_call_defs
  by (rule state_ext) (simp split: sum.split)

lemma otherBindingHostnames_yields:
  assumes "\<And>g l es. GetProvider (bs_providerRef (b_spec other)) g \<in> set es \<Longrightarrow>
      (consultsRoutes L g \<longrightarrow> ListHTTPRoutes (b_namespace other) l \<in> set es) \<Longrightarrow>
      P (publishedBy L other g l) es"
  shows "yields (otherBindingHostnames L w other) P"
proof -
  let ?key = "bs_providerRef (b_spec other)"
  have "P (bst_publishedHostnames (b_status other)) [GetProvider ?key g]" if "\<not> consultsRoutes L g" for g
    using assms [of g "[GetProvider ?key g]" undefined] that by (simp add: publishedBy_cases)
  moreover have "P (publishedBy L other g l) [GetProvider ?key g, ListHTTPRoutes (b_namespace other) l]"
    for g l by (rule assms) simp_all
  ultimately show ?thesis
    unfolding otherBindingHostnames_eq k8s_call_defs
    by (auto intro!: yields_rules)
qed

lemma unclaimedBy_append:
  "unclaimedBy L es hs other \<Longrightarrow> unclaimedBy L (es @ es') hs other"
  "unclaimedBy L es' hs other \<Longrightarrow> unclaimedBy L (es @ es') hs other"
  unfolding unclaimedBy_def by auto

lemma hostnameWinnerLoop_evidence:
  "yields (hostnameWinnerLoop L w b hs others)
     (\<lambda>x es. x = None \<longrightarrow> list_all (\<lambda>other. contender b other \<longrightarrow> unclaimedBy L es hs other) others)"
proof (induction others)
  case Nil
  show ?case by (simp add: yields_ret)
next
  case (Cons other others)
  have "yields (otherBindingHostnames L w other) (\<lambda>r es.
      List.find (List.member r) hs = None \<longrightarrow> unclaimedBy L es hs other)"
    by (rule otherBindingHostnames_yields)
       (auto simp: unclaimedBy_def find_None_iff)
  note look = yields_bind_mono [OF this]
  show ?case
  proof (cases "contender b other")
    case False
    with Cons.IH show ?thesis
      by (auto simp: contender_def [of b other] list_all_iff elim!: yields_mono)
  next
    case True
    then have eq: "hostnameWinnerLoop L w b hs (other # others) = do {
        hostnames \<leftarrow> otherBindingHostnames L w other;
        case List.find (List.member hostnames) hs of
          Some hostname \<Rightarrow> ret (Some (other, hostname))
        | None \<Rightarrow> hostnameWinnerLoop L w b hs others }"
      by (simp add: contender_def)
    show ?thesis unfolding eq
      by (auto simp: list_all_iff unclaimedBy_append intro!: look yields_ret yields_mono [OF Cons.IH]
          split: option.split)
  qed
qed

lemma acceptedRouteHostnames_evidence:
  "yields (acceptedRouteHostnames L w b) (\<lambda>x es. case x of Inl _ \<Rightarrow> True
     | Inr hs \<Rightarrow> \<exists>routes. es = [ListHTTPRoutes (b_namespace b) (Inr routes)]
         \<and> hs = acceptedHostnames L b routes)"
  unfolding acceptedRouteHostnames_def k8s_call_defs
  by (auto intro!: yields_rules split: sum.splits)

lemma hostnameWinner_evidence:
  "yields (hostnameWinner L w b hs) (\<lambda>x es. x = Inr None \<longrightarrow>
     (\<exists>bs. ListBindings None (Inr bs) \<in> set es
        \<and> list_all (\<lambda>other. contender b other \<longrightarrow> unclaimedBy L es hs other) bs))"
proof -
  have "yields (do { winner \<leftarrow> hostnameWinnerLoop L w b hs bs; ret (Inr winner) })
      (\<lambda>x es. x = Inr None \<longrightarrow>
        list_all (\<lambda>other. contender b other \<longrightarrow> unclaimedBy L (ListBindings None (Inr bs) # es) hs other) bs)"
    for bs
    by (rule yields_bind_mono [OF hostnameWinnerLoop_evidence])
       (auto intro!: yields_ret simp: list_all_iff
         unclaimedBy_append(2) [where es = "[ListBindings None (Inr bs)]", simplified])
  note conflicts = yields_mono [OF this]
  show ?thesis
    unfolding hostnameWinner_def k8s_call_defs
    by (rule yields_bind, rule yields_call)
       (auto intro!: yields_ret conflicts split: sum.split)
qed

lemma planHostnames_evidence:
  assumes "ListHTTPRoutes (b_namespace b) (Inr routes) \<in> set es0"
  shows "yields (planHostnames L w b p origin (acceptedHostnames L b routes))
    (\<lambda>x es. continues b (\<lambda>(p', hs, origin'). p' = p \<and> origin' = origin
       \<and> hostnameEvidence L b p hs (es0 @ es)) x)"
proof (cases "NormalizeZones L (ps_allowedDNSZones (p_spec p))")
  case (Inl err)
  then show ?thesis by (auto simp: planHostnames_def intro!: yields_rules)
next
  case (Inr zones)
  let ?hs = "fst (NormalizeHostnames L (acceptedHostnames L b routes) zones)"
  note look = yields_bind_mono [OF hostnameWinner_evidence [of L w b ?hs]]
  have none: "hostnameEvidence L b p [] es0" if "?hs = []" "bst_tunnelID (b_status b) \<noteq> ''''"
    using that assms Inr unfolding hostnameEvidence_def by auto
  have some: "hostnameEvidence L b p ?hs (es0 @ es)"
    if "?hs \<noteq> []" "ListBindings None (Inr bs) \<in> set es"
      "list_all (\<lambda>other. contender b other \<longrightarrow> unclaimedBy L es ?hs other) bs" for es bs
    using that assms Inr unfolding hostnameEvidence_def
    by (auto simp: list_all_iff unclaimedBy_append)
  show ?thesis
    unfolding planHostnames_def Let_def
    by (auto simp: Inr none intro!: look rejected_yields yields_ret split: sum.split option.split)
       (metis some)+
qed

lemma planRoutes_evidence:
  assumes "providerEvidence L r b p es0"
    and "gatewayEvidence L b es0 \<and> grantEvidence b es0 \<and> serviceEvidence L b origin es0"
  shows "yields (acceptedRouteHostnames L w b \<bind> (\<lambda>rh. case rh of
       Inl err \<Rightarrow> ret (b, Fail err)
     | Inr routeHostnames \<Rightarrow> planHostnames L w b p origin routeHostnames))
     (\<lambda>x es. continues b (planned L r b (es0 @ es)) x)"
proof (rule yields_bind_mono [OF acceptedRouteHostnames_evidence])
  fix rh :: "goerr + string list" and es
  assume ev: "case rh of Inl _ \<Rightarrow> True | Inr hs \<Rightarrow> \<exists>routes.
      es = [ListHTTPRoutes (b_namespace b) (Inr routes)] \<and> hs = acceptedHostnames L b routes"
  show "yields (case rh of Inl err \<Rightarrow> ret (b, Fail err)
        | Inr routeHostnames \<Rightarrow> planHostnames L w b p origin routeHostnames)
      (\<lambda>x es'. continues b (planned L r b (es0 @ es @ es')) x)"
  proof (cases rh)
    case (Inr hs)
    with ev obtain routes where es: "es = [ListHTTPRoutes (b_namespace b) (Inr routes)]"
      and hs: "hs = acceptedHostnames L b routes" by auto
    have "yields (planHostnames L w b p origin hs) (\<lambda>x es'. continues b
        (\<lambda>(p', hs, origin'). p' = p \<and> origin' = origin \<and> hostnameEvidence L b p hs ((es0 @ es) @ es')) x)"
      unfolding hs by (rule planHostnames_evidence) (simp add: es)
    with assms show ?thesis
      unfolding Inr sum.case planned_def
      by (elim yields_mono continues_mono) (auto elim: evidence_mono)
  qed (simp add: yields_ret)
qed

lemma validateAndPlan_planned:
  "yields (validateAndPlan L w r b) (\<lambda>x es. continues b (planned L r b es) x)"
proof -
  have origin: "yields (validateOriginService L w b \<bind> (\<lambda>(binding, og). case og of
       Continue origin \<Rightarrow> acceptedRouteHostnames L w binding \<bind> (\<lambda>rh. case rh of
           Inl err \<Rightarrow> ret (binding, Fail err)
         | Inr routeHostnames \<Rightarrow> planHostnames L w binding p origin routeHostnames)
     | Reject result err \<Rightarrow> ret (binding, Reject result err)
     | Fail err \<Rightarrow> ret (binding, Fail err)))
     (\<lambda>x es. continues b (planned L r b (es0 @ es)) x)"
    if "providerEvidence L r b p es0" for p es0
    using that
    by (intro yields_bind_mono [OF validateOriginService_evidence])
       (auto intro!: yields_ret planRoutes_evidence [of L r b p "es0 @ es" for es, simplified]
         simp: evidence_append split: outcome.split)
  show ?thesis
    unfolding validateAndPlan_def
    by (rule yields_bind_mono [OF validateClusterProvider_evidence])
       (auto intro!: yields_ret origin split: outcome.split)
qed

text \<open>C1: Validation is complete mediation. The plan a binding is reconciled with (its provider, its
  hostnames and its origin) is only produced after every check succeeded on what the API server
  answered: the provider is of the same controller class and its Accepted and CredentialsValid
  conditions are true for its present generation, the provider's selector selects the binding's
  namespace, no binding with a better claim uses the same Gateway, the Gateway belongs to
  Traefik and is accepted and programmed with the HTTP listener, a Service in another namespace
  is permitted by a ReferenceGrant there, the Service is a non-headless ClusterIP Service with
  the port, the hostnames are those of accepted routes in the provider's zones, and no binding
  with a better claim publishes any of them.\<close>

theorem validateAndPlan_mediates:
  "yields (validateAndPlan L w r b) (\<lambda>x es. continues b (planned L r b es) x)"
  by (rule validateAndPlan_planned)

end
