(* ===== verification/BindingActs.thy ===== *)
theory BindingActs
  imports BindingPlan
begin

text \<open>
  What a live binding's reconciliation does to the world. Validation changes nothing but the
  status, and its outcome decides the rest: with a plan, only what the plan says, and on success
  all of it; a rejection is withdrawn; a failure is reported.
\<close>

section \<open>The two policies\<close>

fun inPlan :: "bindingReconciler \<Rightarrow> clusterCloudflareProvider \<times> string list \<times> string \<Rightarrow> event \<Rightarrow> bool" where
  "inPlan r (p, hs, origin) (CfUpdateConfiguration i rules e) = (rules = IngressRules hs origin)"
| "inPlan r (p, hs, origin) (StoreDNSEndpoint current new e) =
     (hs \<noteq> [] \<and> map dei_dnsName (de_endpoints new) = hs
      \<and> list_all (\<lambda>item. dei_recordType item = ''CNAME'') (de_endpoints new))"
| "inPlan r (p, hs, origin) (DeleteChild kind child e) = (kind = DNSEndpointKind)"
| "inPlan r (p, hs, origin) (GetSecret key s) =
     (key = (systemNamespace r, skr_name (ps_apiTokenSecretRef (p_spec p))))"
| "inPlan r (p, hs, origin) (NewCloudflareClient token account) = (account = ps_accountID (p_spec p))"
| "inPlan r plan (CfCreateTunnel n t) = True"
| "inPlan r plan (StoreSecret current new e) = True"
| "inPlan r plan (StoreDeployment current new e) =
     (case dep_replicas new of None \<Rightarrow> False | Some n \<Rightarrow> 1 \<le> n \<and> n \<le> 10)"
| "inPlan r plan e = (\<not> mutates e)"

fun withdraws :: "event \<Rightarrow> bool" where
  "withdraws (CfUpdateConfiguration i rules e) = (rules = IngressRules [] '''')"
| "withdraws (DeleteChild kind child e) = (kind = DNSEndpointKind)"
| "withdraws e = (\<not> mutates e)"

abbreviation does :: "(event \<Rightarrow> bool) \<Rightarrow> ('a \<Rightarrow> bool) \<Rightarrow> 'a io \<Rightarrow> bool" where
  "does \<equiv> emits (\<lambda>_. True)"

abbreviation idle :: "event \<Rightarrow> bool" where
  "idle e \<equiv> \<not> mutates e"

section \<open>Validation is idle\<close>

lemma patchBinding_does [emits_rules]:
  "(\<And>x. G (PatchBindingStatus b0 b x)) \<Longrightarrow> (\<And>x. R x) \<Longrightarrow> does G R (patchBinding w b0 b)"
  unfolding patchBinding_def k8s_call_defs by (auto intro!: emits_rules extends_rules split: sum.split)

lemma rejected_idle [emits_rules]:
  "(\<And>x. R x) \<Longrightarrow> does idle R (rejected L w b reason message cause)"
  unfolding rejected_def by (auto intro!: emits_rules extends_rules)

lemma hostnameWinnerLoop_idle [emits_rules]:
  "(\<And>x. R x) \<Longrightarrow> does idle R (hostnameWinnerLoop L w b hs others)"
  by (induction others)
     (auto intro!: emits_rules extends_rules split: option.split sum.split
       simp: otherBindingHostnames_eq k8s_call_defs)

lemma validateClusterProvider_idle [emits_rules]:
  "(\<And>x. R x) \<Longrightarrow> does idle R (validateClusterProvider L w r b)"
  unfolding validateClusterProvider_def gatewayWinner_def k8s_call_defs
  by (auto intro!: emits_rules extends_rules simp: Let_def split: sum.split option.split)

lemma validateService_idle [emits_rules]:
  "(\<And>x. R x) \<Longrightarrow> does idle R (validateService L w b n)"
  unfolding validateService_def k8s_call_defs
  by (auto intro!: emits_rules extends_rules simp: Let_def split: sum.split option.split)

lemma validateOriginService_idle [emits_rules]:
  "(\<And>x. R x) \<Longrightarrow> does idle R (validateOriginService L w b)"
  unfolding validateOriginService_def originReferencePermitted_def k8s_call_defs
  by (auto intro!: emits_rules extends_rules simp: Let_def split: sum.split option.split)

lemma planHostnames_idle [emits_rules]:
  "(\<And>x. R x) \<Longrightarrow> does idle R (planHostnames L w b p origin hs)"
  unfolding planHostnames_def hostnameWinner_def k8s_call_defs
  by (auto intro!: emits_rules extends_rules simp: Let_def split: sum.split option.split)

lemma validateAndPlan_idle:
  "does idle (\<lambda>_. True) (validateAndPlan L w r b)"
  unfolding validateAndPlan_def acceptedRouteHostnames_def k8s_call_defs
  by (auto intro!: emits_rules extends_rules split: sum.split outcome.split prod.split)

section \<open>Acting within the plan\<close>

text \<open>Functions whose calls are the same under both policies.\<close>

lemma reportOperationalFailure_does [emits_rules]:
  "(\<And>c d x. G (PatchBindingStatus c d x)) \<Longrightarrow> (\<And>x. R x) \<Longrightarrow>
     does G R (reportOperationalFailure L w b c reason message cause)"
  unfolding reportOperationalFailure_def by (auto intro!: emits_rules extends_rules)

lemma fail_does [emits_rules]:
  assumes "\<And>c d x. G (PatchBindingStatus c d x)" "\<And>x. R x"
  shows "does G R (failTunnel L w b cause)" "does G R (failConnector L w b cause)"
    "does G R (failDNS L w b cause)"
  unfolding failTunnel_def failConnector_def failDNS_def
  by (auto intro!: emits_rules extends_rules assms)

lemma deleteDNSEndpoint_does [emits_rules]:
  "(\<And>x. G (RESTMapping x)) \<Longrightarrow> (\<And>k x. G (GetChild DNSEndpointKind k x)) \<Longrightarrow>
   (\<And>c x. labelValue (om_labels c) ownerUIDLabel = b_uid b \<Longrightarrow> G (DeleteChild DNSEndpointKind c x)) \<Longrightarrow>
   (\<And>x. R x) \<Longrightarrow> does G R (deleteDNSEndpoint w r b n)"
  unfolding deleteDNSEndpoint_def k8s_call_defs
  by (auto intro!: emits_rules extends_rules split: sum.split option.split)

lemma readAPIToken_does [emits_rules]:
  "(\<And>x. G (GetSecret (systemNamespace r, skr_name (ps_apiTokenSecretRef (p_spec p))) x)) \<Longrightarrow>
   (\<And>x. R x) \<Longrightarrow> does G R (readAPIToken w r p)"
  unfolding readAPIToken_def k8s_call_defs by (auto intro!: emits_rules extends_rules)

lemma newClient_does [emits_rules]:
  "G (NewCloudflareClient t a) \<Longrightarrow> (\<And>x. R x) \<Longrightarrow> does G R (newClient w f t a)"
  by (simp add: newClient_def emits_call)

lemma ensureTunnel_inPlan [emits_rules]:
  "(\<And>x. R x) \<Longrightarrow> does (inPlan r plan) R (ensureTunnel w api b n)"
  unfolding ensureTunnel_def findOrCreateTunnel_def persistTunnel_def cf_call_defs
  by (auto intro!: emits_rules extends_rules split: sum.split option.split)

lemma effectiveReplicas_bounds: "1 \<le> effectiveReplicas v" "effectiveReplicas v \<le> 10"
  by (simp_all add: effectiveReplicas_def defaultConnectorReplicas_def maxConnectorReplicas_def)

lemma createOrPatch_does:
  "(\<And>x. G (FetchSecret key x)) \<Longrightarrow> (\<And>c n x. ms c = Inr n \<Longrightarrow> G (StoreSecret c n x)) \<Longrightarrow> (\<And>x. R x) \<Longrightarrow>
     does G R (createOrPatchSecret w key ms)"
  "(\<And>x. G (FetchDeployment key x)) \<Longrightarrow> (\<And>c n x. md c = Inr n \<Longrightarrow> G (StoreDeployment c n x)) \<Longrightarrow>
     (\<And>x. R' x) \<Longrightarrow> does G R' (createOrPatchDeployment w key md)"
  "(\<And>x. G (FetchDNSEndpoint key x)) \<Longrightarrow> (\<And>c n x. me c = Inr n \<Longrightarrow> G (StoreDNSEndpoint c n x)) \<Longrightarrow>
     (\<And>x. R x) \<Longrightarrow> does G R (createOrPatchDNSEndpoint w key me)"
  unfolding emits_def by (auto intro!: createOrPatchSecret_yields createOrPatchDeployment_yields
    createOrPatchDNSEndpoint_yields)

lemma connector_inPlan [emits_rules]:
  "(\<And>x. R x) \<Longrightarrow> does (inPlan r plan) R (reconcileConnectorSecret w r' b n t)"
  "(\<And>x. R' x) \<Longrightarrow> does (inPlan r plan) R' (reconcileConnectorDeployment L w r' b n)"
  unfolding reconcileConnectorSecret_def reconcileConnectorDeployment_def
  by (auto intro!: createOrPatch_does simp: mutateConnectorDeployment_def Let_def effectiveReplicas_bounds
      split: option.splits)

lemma dnsEndpointItems_simps [simp]:
  "map dei_dnsName (dnsEndpointItems hs t) = hs"
  "list_all (\<lambda>item. dei_recordType item = ''CNAME'') (dnsEndpointItems hs t)"
  by (simp_all add: dnsEndpointItems_def comp_def list_all_iff)

lemma reconcileDNSEndpoint_inPlan [emits_rules]:
  "(\<And>x. R x) \<Longrightarrow> does (inPlan r (p, hs, origin)) R (reconcileDNSEndpoint L w r' b n hs t enabled)"
  unfolding reconcileDNSEndpoint_def k8s_call_defs
  by (auto intro!: emits_rules extends_rules createOrPatch_does simp: mutateDNSEndpoint_def
      split: option.splits sum.splits)

lemma finishReconcile_inPlan [emits_rules]:
  "(\<And>x. R x) \<Longrightarrow> does (inPlan r (p, hs, origin)) R (finishReconcile L w r b tun hs token)"
  unfolding finishReconcile_def setReadyStatus_def
  by (auto intro!: emits_rules extends_rules simp: Let_def split: sum.split option.split)

lemma programIngress_inPlan [emits_rules]:
  "(\<And>x. R x) \<Longrightarrow> does (inPlan r (p, hs, origin)) R (programIngress L w r api b tun hs origin)"
  unfolding programIngress_def issueToken_def cf_call_defs
  by (auto intro!: emits_rules extends_rules simp: Let_def split: sum.split option.split)

lemma reconcileTunnel_inPlan:
  "does (inPlan r (p, hs, origin)) (\<lambda>_. True) (reconcileTunnel L w r b p hs origin)"
  unfolding reconcileTunnel_def k8s_call_defs
  by (auto intro!: emits_rules extends_rules simp: Let_def split: sum.split option.split)

section \<open>Withdrawing\<close>

lemma deprogramTunnel_withdraws [emits_rules]:
  "(\<And>x. R x) \<Longrightarrow> does withdraws R (deprogramTunnel w r b)"
  unfolding deprogramTunnel_def withdrawDNS_def k8s_call_defs cf_call_defs
  by (auto intro!: emits_rules extends_rules simp: Let_def split: sum.split option.split)

lemma handleRejection_withdraws: "does withdraws (\<lambda>_. True) (handleRejection L w r b x e)"
  unfolding handleRejection_def
  by (auto intro!: emits_rules extends_rules split: option.split)

lemma handleFailure_idle: "does idle (\<lambda>_. True) (handleFailure L w b e)"
  unfolding handleFailure_def
  by (auto intro!: emits_rules extends_rules)

section \<open>What success means\<close>

fun configures :: "string \<Rightarrow> ingressRule list \<Rightarrow> event \<Rightarrow> bool" where
  \<comment> \<open>Cloudflare answers with the rules as the tunnel's configuration, or accepts them.\<close>
  "configures i rules (CfGetConfiguration j (Inr current)) = (j = i \<and> EqualIngress current rules)"
| "configures i rules (CfUpdateConfiguration j new None) = (j = i \<and> new = rules)"
| "configures i rules e = False"

fun storesToken :: "string \<Rightarrow> event \<Rightarrow> bool" where
  "storesToken token (StoreSecret current new None) = (sec_data new = [''token'' \<mapsto> token])"
| "storesToken token e = False"

fun storesDeployment :: "event \<Rightarrow> bool" where
  "storesDeployment (StoreDeployment current new (Inr stored)) = True"
| "storesDeployment e = False"

fun reportsHostnames :: "string list \<Rightarrow> event \<Rightarrow> bool" where
  "reportsHostnames hs (PatchBindingStatus b0 b1 (Inr b2)) = (bst_publishedHostnames (b_status b1) = hs)"
| "reportsHostnames hs e = False"

fun storesDNS :: "string list \<Rightarrow> event \<Rightarrow> bool" where
  "storesDNS hs (StoreDNSEndpoint current new None) = (map dei_dnsName (de_endpoints new) = hs)"
| "storesDNS hs e = False"

definition childRemoved :: "childKind \<Rightarrow> namespacedName \<Rightarrow> cloudflareTunnelBinding \<Rightarrow> history \<Rightarrow> bool" where
  \<comment> \<open>The child was not found, or it was found to be the binding's own and then its deletion was accepted
    or found it missing.\<close>
  "childRemoved kind key b es \<longleftrightarrow>
     (\<exists>e. GetChild kind key (Inl e) \<in> set es \<and> isNotFoundKube e)
     \<or> (\<exists>child d. GetChild kind key (Inr child) \<in> set es \<and> labelValue (om_labels child) ownerUIDLabel = b_uid b
          \<and> DeleteChild kind child d \<in> set es \<and> (case d of None \<Rightarrow> True | Some e \<Rightarrow> isNotFoundKube e))"

definition dnsRemoved :: "bindingReconciler \<Rightarrow> cloudflareTunnelBinding \<Rightarrow> history \<Rightarrow> bool" where
  \<comment> \<open>There is no DNSEndpoint of the binding: the kind is not installed, or the object was removed.\<close>
  "dnsRemoved r b es \<longleftrightarrow> \<not> br_hasRESTMapper r
     \<or> (\<exists>e. RESTMapping (Some e) \<in> set es \<and> isNoMatchError e)
     \<or> childRemoved DNSEndpointKind (b_namespace b, connectorResourceName (b_uid b)) b es"

definition dnsSettled :: "bindingReconciler \<Rightarrow> cloudflareTunnelBinding \<Rightarrow> string list \<Rightarrow> history \<Rightarrow> bool" where
  \<comment> \<open>The hostnames are in the binding's DNSEndpoint, as far as the kind is installed; without automation or
    hostnames there is no DNSEndpoint of the binding.\<close>
  "dnsSettled r b hs es \<longleftrightarrow>
     (if bindingDNSAutomationEnabled b \<and> hs \<noteq> []
      then \<not> br_hasRESTMapper r \<or> (\<exists>e. RESTMapping (Some e) \<in> set es \<and> isNoMatchError e)
        \<or> list_ex (storesDNS hs) es
      else dnsRemoved r b es)"

definition connected ::
  "bindingReconciler \<Rightarrow> cloudflareTunnelBinding \<Rightarrow> string list \<Rightarrow> string \<Rightarrow> ctrlResult \<times> goerr option \<Rightarrow> history \<Rightarrow> bool" where
  \<comment> \<open>The token and the Deployment are stored, DNS is settled, the status with the hostnames is accepted, and
    the binding is looked at again after two minutes.\<close>
  "connected r b hs token x es \<longleftrightarrow> fst x = 120 \<and> list_ex (storesToken token) es
     \<and> list_ex storesDeployment es \<and> dnsSettled r b hs es \<and> list_ex (reportsHostnames hs) es"

definition present :: "cloudflareTunnelBinding \<Rightarrow> history \<Rightarrow> cloudflareTunnelBinding \<Rightarrow> bool" where
  \<comment> \<open>\<open>c\<close> is the binding, or what the server answered to a patch of its status.\<close>
  "present b es c \<longleftrightarrow> c = b \<or> (\<exists>b0 b1. PatchBindingStatus b0 b1 (Inr c) \<in> set es)"

definition published ::
  "bindingReconciler \<Rightarrow> cloudflareTunnelBinding \<Rightarrow> clusterCloudflareProvider \<times> string list \<times> string \<Rightarrow>
     ctrlResult \<times> goerr option \<Rightarrow> history \<Rightarrow> bool" where
  \<comment> \<open>A tunnel has the planned configuration and its connector is connected.\<close>
  "published r b plan x es \<longleftrightarrow> (case plan of (p, hs, origin) \<Rightarrow>
     \<exists>i token c. list_ex (configures i (IngressRules hs origin)) es
       \<and> CfGetToken i (Inr token) \<in> set es \<and> present b es c \<and> connected r c hs token x es)"

definition withdrawn :: "bindingReconciler \<Rightarrow> cloudflareTunnelBinding \<Rightarrow> history \<Rightarrow> bool" where
  "withdrawn r b es \<longleftrightarrow>
     (CfGetTunnel (bst_tunnelID (b_status b)) (Inr None) \<in> set es
      \<or> list_ex (configures (bst_tunnelID (b_status b)) (IngressRules [] '''')) es)
     \<and> dnsRemoved r b es"

lemma dnsRemoved_events:
  "\<not> br_hasRESTMapper r \<Longrightarrow> dnsRemoved r b es"
  "isNoMatchError e \<Longrightarrow> dnsRemoved r b [RESTMapping (Some e)]"
  "childRemoved DNSEndpointKind (b_namespace b, connectorResourceName (b_uid b)) b es \<Longrightarrow> dnsRemoved r b (RESTMapping None # es)"
  unfolding dnsRemoved_def childRemoved_def by auto

lemma childRemoved_events:
  "isNotFoundKube e \<Longrightarrow> childRemoved kind key b [GetChild kind key (Inl e)]"
  "\<lbrakk>labelValue (om_labels child) ownerUIDLabel = b_uid b; case d of None \<Rightarrow> True | Some e \<Rightarrow> isNotFoundKube e\<rbrakk> \<Longrightarrow>
     childRemoved kind key b [GetChild kind key (Inr child), DeleteChild kind child d]"
  unfolding childRemoved_def by auto

lemma removed_grows:
  "childRemoved kind key b es \<Longrightarrow> childRemoved kind key b (es @ es')"
  "childRemoved kind key b es' \<Longrightarrow> childRemoved kind key b (es @ es')"
  "dnsRemoved r b es \<Longrightarrow> dnsRemoved r b (es @ es')"
  "dnsRemoved r b es' \<Longrightarrow> dnsRemoved r b (es @ es')"
  "dnsRemoved r b es \<Longrightarrow> dnsRemoved r b (e # es)"
  unfolding childRemoved_def dnsRemoved_def by auto

lemma errorsJoin_not_None [simp]: "errorsJoin (Some e # es) = Some (Joined (e # List.map_filter id es))"
  by (simp add: errorsJoin_def List.map_filter_def)

lemma errorsJoin_second [simp]: "errorsJoin [err, Some e] \<noteq> None"
  by (cases err) (simp_all add: errorsJoin_def List.map_filter_def)

lemma ignored_iff [simp]:
  "Option.bind d ignoreNotFound = None \<longleftrightarrow> (case d of None \<Rightarrow> True | Some e \<Rightarrow> isNotFoundKube e)"
  by (auto simp: ignoreNotFound_def bind_eq_None_conv split: option.splits)

lemma deleteDNSEndpoint_removes:
  "yields (deleteDNSEndpoint w r b (connectorResourceName (b_uid b))) (\<lambda>x es. x = None \<longrightarrow> dnsRemoved r b es)"
  unfolding deleteDNSEndpoint_def k8s_call_defs
  by (auto intro!: yields_rules dnsRemoved_events childRemoved_events split: sum.split option.split)

lemma withdrawDNS_withdraws:
  "yields (withdrawDNS w r b) (\<lambda>x es. x = None \<longrightarrow> dnsRemoved r b es)"
  unfolding withdrawDNS_def
  by (rule yields_bind_mono [OF deleteDNSEndpoint_removes]) (auto intro!: yields_ret)

lemma deprogramTunnel_withdrawn:
  "yields (deprogramTunnel w r b) (\<lambda>x es. x = None \<longrightarrow> withdrawn r b es)"
proof -
  have token: "yields (readAPIToken w r p) (\<lambda>_ _. True)" for p
    by (rule yields_whatever [OF readAPIToken_extends TrueI])
  show ?thesis
    unfolding deprogramTunnel_def k8s_call_defs cf_call_defs newClient_def Let_def
    by (auto intro!: yields_bind yields_call yields_ret yields_mono [OF token] yields_mono [OF withdrawDNS_withdraws]
        removed_grows(4,5) simp: withdrawn_def split: sum.split option.split)
qed

section \<open>Success of a plan\<close>

lemma fails_not_None:
  "yields (reportOperationalFailure L w b c reason message cause) (\<lambda>x es. x \<noteq> None)"
  unfolding reportOperationalFailure_def patchBinding_def k8s_call_defs
  by (auto intro!: yields_rules split: sum.split)

lemma fail_not_None:
  assumes "\<And>x es. snd x \<noteq> None \<Longrightarrow> P x es"
  shows "yields (failTunnel L w b cause) P" "yields (failConnector L w b cause) P" "yields (failDNS L w b cause) P"
  unfolding failTunnel_def failConnector_def failDNS_def
  by (auto intro!: yields_bind_mono [OF fails_not_None] yields_ret assms)

lemma connectorSecret_stores:
  "yields (reconcileConnectorSecret w r b n token) (\<lambda>x es. x = None \<longrightarrow> list_ex (storesToken token) es)"
  unfolding reconcileConnectorSecret_def
  by (auto intro!: createOrPatchSecret_yields simp: mutateConnectorSecret_def split: option.splits)

lemma connectorDeployment_stores:
  "yields (reconcileConnectorDeployment L w r b n)
     (\<lambda>x es. case x of Inl _ \<Rightarrow> True | Inr d \<Rightarrow> list_ex storesDeployment es)"
  unfolding reconcileConnectorDeployment_def
  by (auto intro!: createOrPatchDeployment_yields simp: map_sum_def split: sum.splits)

lemma setReadyStatus_accepted:
  "yields (setReadyStatus L w b tun cname n hs cr de da) (\<lambda>x es. x = None \<longrightarrow> list_ex (reportsHostnames hs) es)"
proof -
  have "bst_publishedHostnames (b_status (readyStatus L b tun cname n hs cr de da)) = hs"
    by (simp add: readyStatus_def Let_def setBindingCondition_def)
  then show ?thesis
    unfolding setReadyStatus_def patchBinding_def k8s_call_defs
    by (auto intro!: yields_rules split: sum.split)
qed

lemma reconcileDNSEndpoint_settles:
  "yields (reconcileDNSEndpoint L w r b (connectorResourceName (b_uid b)) hs cname (bindingDNSAutomationEnabled b))
     (\<lambda>x es. snd x = None \<longrightarrow> dnsSettled r b hs es)"
  unfolding reconcileDNSEndpoint_def k8s_call_defs
  by (auto intro!: yields_bind yields_call yields_ret createOrPatchDNSEndpoint_yields
      yields_mono [OF deleteDNSEndpoint_removes]
      simp: dnsSettled_def mutateDNSEndpoint_def split: option.splits sum.splits)
    (auto intro: removed_grows dnsRemoved_events)

lemma finishReconcile_connects:
  "yields (finishReconcile L w r b tun hs token) (\<lambda>x es. snd x = None \<longrightarrow> connected r b hs token x es)"
proof -
  have grows: "dnsSettled r b hs (es @ es' @ es'')" if "dnsSettled r b hs es'" for es es' es''
    using that by (auto simp: dnsSettled_def intro: removed_grows split: if_splits)
  note steps = yields_bind_mono [OF connectorSecret_stores] yields_bind_mono [OF connectorDeployment_stores]
    yields_bind_mono [OF setReadyStatus_accepted] yields_bind_mono [OF reconcileDNSEndpoint_settles]
  show ?thesis
    unfolding finishReconcile_def Let_def
    by (auto intro!: steps yields_ret fail_not_None grows [of _ "es1 @ es2" for es1 es2, simplified]
        simp: connected_def split: sum.splits option.split)
qed

lemma ensureTunnel_present:
  "yields (ensureTunnel w api b n) (\<lambda>x es. case snd x of Inl _ \<Rightarrow> True | Inr _ \<Rightarrow> present b es (fst x))"
  unfolding ensureTunnel_def findOrCreateTunnel_def persistTunnel_def patchBinding_def k8s_call_defs cf_call_defs
  by (auto intro!: yields_rules simp: present_def split: sum.split option.split)

lemma reconcileTunnel_publishes:
  "yields (reconcileTunnel L w r b p hs origin) (\<lambda>x es. snd x = None \<longrightarrow> published r b (p, hs, origin) x es)"
proof -
  have published: "published r b (p, hs, origin) x (es @ es')"
    if "connected r c hs token x es'" "present b es c" "list_ex (configures i (IngressRules hs origin)) es"
      "CfGetToken i (Inr token) \<in> set es" for x es es' i token c
  proof -
    have "connected r c hs token x (es @ es')"
      using that(1) by (auto simp: connected_def dnsSettled_def intro: removed_grows split: if_splits)
    moreover have "present b (es @ es') c" using that(2) by (auto simp: present_def)
    ultimately show ?thesis using that(3,4) unfolding published_def by fastforce
  qed
  have issue: "yields (issueToken L w r api c tun hs) (\<lambda>x es'. snd x = None \<longrightarrow> published r b (p, hs, origin) x (es @ es'))"
    if "list_ex (configures (tn_id tun) (IngressRules hs origin)) es" "present b es c" for api c tun es
  proof -
    have "yields (finishReconcile L w r c tun hs token) (\<lambda>x es'. snd x = None \<longrightarrow>
        published r b (p, hs, origin) x ((es @ [CfGetToken (tn_id tun) (Inr token)]) @ es'))" for token
      by (rule yields_mono [OF finishReconcile_connects])
         (use that in \<open>auto intro!: published [where i = "tn_id tun" and token = token and c = c] simp: present_def simp del: append_assoc\<close>)
    then show ?thesis
      unfolding issueToken_def cf_call_defs
      by (auto intro!: yields_bind yields_call fail_not_None split: sum.split)
  qed
  have program: "yields (programIngress L w r api c tun hs origin)
      (\<lambda>x es'. snd x = None \<longrightarrow> published r b (p, hs, origin) x (es @ es'))" if "present b es c" for api c tun es
  proof -
    have "present b (es @ es') c" for es'
      using that by (auto simp: present_def)
    note later = issue [OF _ this, of tun]
    have "yields (issueToken L w r api c tun hs) (\<lambda>x es'. snd x = None \<longrightarrow>
        published r b (p, hs, origin) x (es @ CfGetConfiguration (tn_id tun) (Inr current) # es'))"
      if "EqualIngress current (IngressRules hs origin)" for current
      using later [of "[CfGetConfiguration (tn_id tun) (Inr current)]"] that by simp
    moreover have "yields (issueToken L w r api c tun hs) (\<lambda>x es'. snd x = None \<longrightarrow>
        published r b (p, hs, origin) x (es @ g # CfUpdateConfiguration (tn_id tun) (IngressRules hs origin) None # es'))" for g
      using later [of "[g, CfUpdateConfiguration (tn_id tun) (IngressRules hs origin) None]"] by simp
    ultimately show ?thesis
      unfolding programIngress_def cf_call_defs Let_def
      by (auto intro!: yields_bind yields_call fail_not_None split: sum.split option.split)
  qed
  have "yields (readAPIToken w r p) (\<lambda>_ _. True)"
    by (rule yields_whatever [OF readAPIToken_extends TrueI])
  note token = this [THEN yields_mono]
  have after: "present b (es1 @ [e1, e2] @ es2) c" if "present b es2 c" for es1 e1 e2 es2 c
    using that by (auto simp: present_def)
  show ?thesis
    unfolding reconcileTunnel_def newClient_def k8s_call_defs Let_def
    using program [OF after]
    by (auto intro!: yields_bind yields_call fail_not_None token yields_mono [OF ensureTunnel_present] split: sum.splits)
qed

section \<open>The outcome of validation\<close>

text \<open>A rejection ends with the status patch that reports it, and leaves in memory what the server
  answered; without a rejection nothing at all was changed.\<close>

fun settled ::
  "lib \<Rightarrow> cloudflareTunnelBinding \<Rightarrow> cloudflareTunnelBinding \<times> 'a outcome \<Rightarrow> history \<Rightarrow> bool" where
  "settled L b (c, Reject result err) es \<longleftrightarrow> result = 300 \<and>
     (\<exists>pre reason message answer. es = pre @ [PatchBindingStatus b (rejectedStatus L b reason message) answer]
        \<and> list_all readOnly pre
        \<and> c = (case answer of Inl e \<Rightarrow> rejectedStatus L b reason message | Inr server \<Rightarrow> server))"
| "settled L b (c, Continue a) es \<longleftrightarrow> c = b \<and> list_all readOnly es"
| "settled L b (c, Fail err) es \<longleftrightarrow> c = b \<and> list_all readOnly es"

lemma settled_append:
  assumes "settled L b x es" and quiet: "list_all readOnly es0"
  shows "settled L b x (es0 @ es)"
proof (cases x)
  case (Pair c y)
  show ?thesis
  proof (cases y)
    case (Reject result err)
    with assms(1) Pair obtain pre reason message answer where
      es: "es = pre @ [PatchBindingStatus b (rejectedStatus L b reason message) answer]" "list_all readOnly pre"
      and rest: "result = 300" "c = (case answer of Inl e \<Rightarrow> rejectedStatus L b reason message | Inr server \<Rightarrow> server)"
      by auto
    from es quiet have "es0 @ es = (es0 @ pre) @ [PatchBindingStatus b (rejectedStatus L b reason message) answer]"
      "list_all readOnly (es0 @ pre)" by simp_all
    with rest show ?thesis unfolding Pair Reject settled.simps by blast
  qed (use assms Pair in auto)
qed

lemma stop_settled:
  "settled L b (c, Reject x e :: 'a outcome) es \<Longrightarrow>
     yields (ret (c, Reject x e :: 'b outcome)) (\<lambda>z es'. settled L b z (es @ es'))"
  "settled L b (c, Fail err :: 'a outcome) es \<Longrightarrow>
     yields (ret (c, Fail err :: 'b outcome)) (\<lambda>z es'. settled L b z (es @ es'))"
  by (rule yields_ret, simp)+

lemma settled_Cons: "settled L b x es \<Longrightarrow> readOnly e \<Longrightarrow> settled L b x (e # es)"
  using settled_append [of L b x es "[e]"] by simp

lemma rejected_settled: "yields (rejected L w b reason message cause) (settled L b)"
proof -
  have "settled L b (case answer of Inl e \<Rightarrow> rejectedStatus L b reason message | Inr server \<Rightarrow> server, Reject 300 err)
      [PatchBindingStatus b (rejectedStatus L b reason message) answer]" for answer err
    by auto
  from this [of "Inl _"] this [of "Inr _"] show ?thesis
    unfolding rejected_def patchBinding_def k8s_call_defs
    by (auto intro!: yields_bind yields_call yields_ret split: sum.split simp del: settled.simps)
qed

lemma rejected_after:
  "(\<And>x es. settled L b x es \<Longrightarrow> P x es) \<Longrightarrow> yields (rejected L w b reason message cause) P"
  by (rule yields_mono [OF rejected_settled])

lemmas settled_rules = yields_bind yields_call yields_ret rejected_after settled_Cons

lemma validateClusterProvider_settled:
  "yields (validateClusterProvider L w r b) (settled L b)"
  unfolding validateClusterProvider_def gatewayWinner_def k8s_call_defs Let_def
  by (auto intro!: settled_rules split: sum.split option.split)

lemma validateService_settled: "yields (validateService L w b n) (settled L b)"
  unfolding validateService_def k8s_call_defs Let_def
  by (auto intro!: settled_rules split: sum.split option.split)

lemma validateOriginService_settled: "yields (validateOriginService L w b) (settled L b)"
  unfolding validateOriginService_def originReferencePermitted_def k8s_call_defs Let_def
  by (auto intro!: settled_rules yields_mono [OF validateService_settled] split: sum.split option.split)

lemma hostnameWinner_reads: "yields (hostnameWinner L w b hs) (\<lambda>_. list_all readOnly)"
proof -
  have "yields (hostnameWinnerLoop L w b hs others) (\<lambda>_. list_all readOnly)" for others
    by (induction others)
       (auto intro!: yields_bind yields_call yields_ret elim!: yields_mono split: option.split
         simp: otherBindingHostnames_eq k8s_call_defs)
  note loop = yields_bind_mono [OF this]
  show ?thesis
    unfolding hostnameWinner_def k8s_call_defs
    by (auto intro!: yields_bind [of "call _ _"] yields_call yields_ret loop split: sum.split)
qed

lemma planHostnames_settled: "yields (planHostnames L w b p origin hs) (settled L b)"
  unfolding planHostnames_def Let_def
  by (auto intro!: yields_bind_mono [OF hostnameWinner_reads] yields_ret rejected_after settled_append
      split: sum.split option.split)

lemma validateAndPlan_settled: "yields (validateAndPlan L w r b) (settled L b)"
proof -
  have routes: "yields (acceptedRouteHostnames L w b) (\<lambda>_. list_all readOnly)"
    unfolding acceptedRouteHostnames_def k8s_call_defs by (auto intro!: yields_rules)
  have continue: "yields (do { rh \<leftarrow> acceptedRouteHostnames L w b;
       case rh of Inl err \<Rightarrow> ret (b, Fail err) | Inr hs \<Rightarrow> planHostnames L w b p origin hs }) (settled L b)"
    for p origin
    by (auto intro!: yields_bind_mono [OF routes] yields_ret yields_mono [OF planHostnames_settled]
        settled_append split: sum.split)
  have origin: "yields (do { (binding, og) \<leftarrow> validateOriginService L w b; case og of
         Reject result err \<Rightarrow> ret (binding, Reject result err)
       | Fail err \<Rightarrow> ret (binding, Fail err)
       | Continue origin \<Rightarrow> do { rh \<leftarrow> acceptedRouteHostnames L w binding;
           case rh of Inl err \<Rightarrow> ret (binding, Fail err)
                    | Inr hs \<Rightarrow> planHostnames L w binding p origin hs } }) (settled L b)" for p
    by (auto intro!: yields_bind_mono [OF validateOriginService_settled] stop_settled
        yields_mono [OF continue] settled_append simp del: settled.simps(1) split: outcome.split)
  show ?thesis
    unfolding validateAndPlan_def
    by (auto intro!: yields_bind_mono [OF validateClusterProvider_settled] stop_settled
        yields_mono [OF origin] settled_append simp del: settled.simps(1) split: outcome.split)
qed

section \<open>A live binding\<close>

definition classMismatch :: "lib \<Rightarrow> cloudflareTunnelBinding \<Rightarrow> bool" where
  \<comment> \<open>The binding was rejected because its provider belongs to another controller class.\<close>
  "classMismatch L b \<longleftrightarrow>
     (case lib_findStatusCondition L (bst_conditions (b_status b)) BindingConditionAccepted of
        Some accepted \<Rightarrow> cond_reason accepted = providerControllerClassMismatch | None \<Rightarrow> False)"

fun carriesOut ::
  "lib \<Rightarrow> bindingReconciler \<Rightarrow> cloudflareTunnelBinding \<Rightarrow> history \<Rightarrow>
     cloudflareTunnelBinding \<times> (clusterCloudflareProvider \<times> string list \<times> string) outcome \<Rightarrow>
     ctrlResult \<times> goerr option \<Rightarrow> history \<Rightarrow> bool" where
  \<comment> \<open>Validation made the calls \<open>es1\<close> and gave the outcome; then the calls \<open>es2\<close> were made, with result \<open>x\<close>.\<close>
  "carriesOut L r b es1 (c, Continue plan) x es2 \<longleftrightarrow>
     planned L r b es1 plan
     \<and> (if lib_containsFinalizer L (om_finalizers (b_meta b)) bindingFinalizer
        then list_all (inPlan r plan) es2 \<and> (case snd x of None \<Rightarrow> published r b plan x es2 | Some _ \<Rightarrow> True)
        else \<exists>e. x = (0, map_option Kube e)
          \<and> es2 = [UpdateBinding (b\<lparr>b_meta := (b_meta b)\<lparr>om_finalizers :=
                lib_addFinalizer L (om_finalizers (b_meta b)) bindingFinalizer\<rparr>\<rparr>) e])"
| "carriesOut L r b es1 (c, Reject result err) x es2 \<longleftrightarrow>
     fst x = result
     \<and> (if classMismatch L c \<or> bst_tunnelID (b_status c) = '''' then es2 = [] \<and> snd x = err
        else list_all withdraws es2 \<and> (case snd x of None \<Rightarrow> withdrawn r c es2 | Some _ \<Rightarrow> True))"
| "carriesOut L r b es1 (c, Fail err) x es2 \<longleftrightarrow>
     fst x = 0 \<and> snd x \<noteq> None
     \<and> (\<exists>message answer. es2 = [PatchBindingStatus b
          (if errorsIs (\<lambda>e. e = ErrClusterProviderStatusUnknown) err
           then failureStatus L b BindingConditionReady ''ProviderStatusUnknown'' message
           else failureStatus L b BindingConditionProgrammed ''TunnelReconciliationFailed'' message) answer])"

definition actsAsPlanned ::
  "lib \<Rightarrow> bindingReconciler \<Rightarrow> cloudflareTunnelBinding \<Rightarrow> ctrlResult \<times> goerr option \<Rightarrow> history \<Rightarrow> bool" where
  "actsAsPlanned L r b x es \<longleftrightarrow>
     (\<exists>es1 es2 outcome. es = es1 @ es2 \<and> list_all idle es1 \<and> settled L b outcome es1
        \<and> carriesOut L r b es1 outcome x es2)"

lemma handleRejection_carriesOut:
  "yields (handleRejection L w r c result err) (carriesOut L r b es1 (c, Reject result err))"
proof -
  have withdraw: "yields (deprogramTunnel w r c) (\<lambda>x es. list_all withdraws es \<and> (x = None \<longrightarrow> withdrawn r c es))"
    using yields_conj [OF emits_yields [OF deprogramTunnel_withdraws [where R = "\<lambda>_. True"]] deprogramTunnel_withdrawn]
    by (rule yields_mono) (auto simp: list_all_iff)
  show ?thesis
    unfolding handleRejection_def classMismatch_def [symmetric]
    by (auto intro!: yields_ret yields_bind_mono [OF withdraw] split: option.split)
qed

lemma handleFailure_carriesOut:
  "yields (handleFailure L w b err) (carriesOut L r b es1 (b, Fail err))"
  unfolding handleFailure_def failTunnel_def reportOperationalFailure_def patchBinding_def k8s_call_defs
  by (auto intro!: yields_bind yields_call yields_ret split: sum.split)

lemma planned_carriesOut:
  assumes "planned L r b es1 (p, hs, origin)"
  shows "yields (if \<not> lib_containsFinalizer L (om_finalizers (b_meta b)) bindingFinalizer
      then addBindingFinalizer L w b else reconcileTunnel L w r b p hs origin)
    (carriesOut L r b es1 (b, Continue (p, hs, origin)))"
proof -
  have "yields (reconcileTunnel L w r b p hs origin) (\<lambda>x es. list_all (inPlan r (p, hs, origin)) es
      \<and> (snd x = None \<longrightarrow> published r b (p, hs, origin) x es))"
    using yields_conj [OF emits_yields [OF reconcileTunnel_inPlan] reconcileTunnel_publishes]
    by (rule yields_mono) (auto simp: list_all_iff)
  note tunnel = yields_mono [OF this]
  show ?thesis
    using assms unfolding addBindingFinalizer_def k8s_call_defs
    by (auto intro!: yields_bind yields_call yields_ret tunnel split: option.split)
qed

lemma reconcileLive_split:
  obtains es1 es2 outcome x where "run_state (validateAndPlan L w r b) h = (outcome, h @ es1)"
    and "run_state (reconcileLive L w r b) h = (x, h @ es1 @ es2)"
    and "list_all idle es1" and "settled L b outcome es1" and "carriesOut L r b es1 outcome x es2"
proof -
  have "yields (validateAndPlan L w r b) (\<lambda>x es. (continues b (planned L r b es) x \<and> settled L b x es)
      \<and> (list_all (\<lambda>_. True) es \<longrightarrow> True \<and> list_all idle es))"
    by (intro yields_conj validateAndPlan_planned validateAndPlan_settled emits_yields [OF validateAndPlan_idle])
  then obtain outcome es1 where run: "run_state (validateAndPlan L w r b) h = (outcome, h @ es1)"
    and plan: "continues b (planned L r b es1) outcome" "settled L b outcome es1" "list_all idle es1"
    by (rule yieldsE) (auto simp: list_all_iff)
  obtain c y where outcome: "outcome = (c, y)" by fastforce
  let ?rest = "case y of Continue (p, hs, origin) \<Rightarrow>
       if \<not> lib_containsFinalizer L (om_finalizers (b_meta c)) bindingFinalizer
       then addBindingFinalizer L w c else reconcileTunnel L w r c p hs origin
     | Reject result err \<Rightarrow> handleRejection L w r c result err | Fail err \<Rightarrow> handleFailure L w c err"
  have "yields ?rest (carriesOut L r b es1 outcome)"
  proof (cases y)
    case (Continue a)
    obtain p hs origin where "a = (p, hs, origin)" by (cases a)
    with plan outcome Continue have "c = b" and plan: "planned L r b es1 (p, hs, origin)" by simp_all
    show ?thesis
      unfolding outcome Continue \<open>a = (p, hs, origin)\<close> \<open>c = b\<close> outcome.case prod.case
      using plan by (rule planned_carriesOut)
  next
    case (Reject result err)
    with outcome handleRejection_carriesOut [of L w r c result err b es1] show ?thesis
      by (simp del: carriesOut.simps)
  next
    case (Fail err)
    with plan outcome handleFailure_carriesOut [of L w b err r es1] show ?thesis
      by (simp del: carriesOut.simps)
  qed
  then obtain x es2 where "run_state ?rest (h @ es1) = (x, (h @ es1) @ es2)" "carriesOut L r b es1 outcome x es2"
    by (rule yieldsE)
  with run plan show ?thesis
    by (intro that [of outcome es1 x es2]) (simp_all add: reconcileLive_def outcome)
qed

lemma reconcileLive_planned: "yields (reconcileLive L w r b) (actsAsPlanned L r b)"
proof (rule yieldsI)
  fix h
  show "\<exists>x es. run_state (reconcileLive L w r b) h = (x, h @ es) \<and> actsAsPlanned L r b x es"
    by (rule reconcileLive_split [of L w r b h]) (fastforce simp: actsAsPlanned_def)
qed

text \<open>C4: A live binding. Its reconciliation first validates it, which changes nothing but the
  binding's status, and then does what the outcome of this validation says and nothing else.
  With a plan, and the finalizer in place, every call stays within the plan: credentials are
  read from the provider's Secret in the system namespace only, the client is made for the
  provider's account, the configuration sent is the ingress of the planned hostnames and origin,
  DNS records are those hostnames, replicas are between 1 and 10, no tunnel is deleted; and if
  no error is returned, the tunnel has the planned configuration, its token and the Deployment
  are stored, DNS is settled and the status publishes the planned hostnames. If the finalizer is
  missing, the only call is the update that adds it. Only after a rejection, which is then in
  the status, is anything withdrawn: nothing if the provider is of another class or there is no
  tunnel; otherwise the only changes are emptying the ingress and deleting the DNSEndpoint, and
  without an error both are done. Any other failure is only reported, as an error and in the
  status.\<close>

theorem reconcileLive_acts_as_planned:
  "\<exists>es1 es2 outcome x. run_state (validateAndPlan L w r b) h = (outcome, h @ es1)
     \<and> run_state (reconcileLive L w r b) h = (x, h @ es1 @ es2)
     \<and> list_all idle es1 \<and> settled L b outcome es1 \<and> carriesOut L r b es1 outcome x es2"
  by (rule reconcileLive_split [of L w r b h]) blast

end
