(* ===== verification/PlannerProps.thy ===== *)
theory PlannerProps
  imports Precedence ReferenceLib
begin

text \<open>
  Properties of the planner: what the normalised zones and hostnames are, that normalising is
  idempotent and respects label boundaries, that the comparison of ingress configurations is
  equality, and that tunnel names stay inside their bound and identify the binding.
\<close>

section \<open>Normalised zones\<close>

definition badZone :: "lib \<Rightarrow> string \<Rightarrow> bool" where
  "badZone L z \<longleftrightarrow> \<not> concreteName L (canonicalName z)"

lemma normalizeZonesLoop_find:
  "normalizeZonesLoop L zs u =
     (case List.find (badZone L) zs of
        Some z \<Rightarrow> Inl (Errorf (quote (canonicalName z) @ '' is not a concrete DNS zone''))
      | None \<Rightarrow> Inr (fold (\<lambda>z. List.insert (canonicalName z)) zs u))"
  by (induction zs arbitrary: u) (auto simp: Let_def badZone_def split: option.split)

lemma fold_insert_keys:
  "set (fold (\<lambda>z. List.insert (f z)) zs u) = set u \<union> f ` set zs
   \<and> (distinct u \<longrightarrow> distinct (fold (\<lambda>z. List.insert (f z)) zs u))"
  by (induction zs arbitrary: u) auto

text \<open>C15: \<open>NormalizeZones\<close> succeeds exactly when every entry is, in canonical form, a
  concrete DNS name; the result is then the sorted list of those canonical names, each once.
  Otherwise the error quotes the canonical form of the first entry that is not concrete.\<close>

theorem NormalizeZones_spec:
  "case List.find (\<lambda>z. \<not> concreteName L (canonicalName z)) zones of
     None \<Rightarrow> (\<exists>zs. NormalizeZones L zones = Inr zs \<and> sorted zs \<and> distinct zs
       \<and> set zs = canonicalName ` set zones)
   | Some z \<Rightarrow> NormalizeZones L zones
       = Inl (Errorf (quote (canonicalName z) @ '' is not a concrete DNS zone''))"
proof -
  have "badZone L = (\<lambda>z. \<not> concreteName L (canonicalName z))"
    by (simp add: badZone_def fun_eq_iff)
  then show ?thesis
    by (auto simp: NormalizeZones_def normalizeZonesLoop_find fold_insert_keys split: option.splits)
qed

lemma NormalizeZones_Inr:
  assumes "NormalizeZones L zones = Inr zs"
  shows "sorted zs \<and> distinct zs \<and> set zs = canonicalName ` set zones
    \<and> (\<forall>z \<in> set zones. concreteName L (canonicalName z))"
  using assms
  by (auto simp: NormalizeZones_def normalizeZonesLoop_find fold_insert_keys find_None_iff badZone_def
      split: option.splits)

lemma NormalizeZones_total:
  assumes "\<And>z. z \<in> set zones \<Longrightarrow> concreteName L (canonicalName z)"
  shows "\<exists>zs. NormalizeZones L zones = Inr zs"
proof -
  have "List.find (badZone L) zones = None"
    using assms by (auto simp: find_None_iff badZone_def)
  then show ?thesis by (simp add: NormalizeZones_def normalizeZonesLoop_find)
qed

section \<open>Canonical names\<close>

lemma dns_char_facts:
  "dns_char c \<Longrightarrow> \<not> is_space c" "dns_char c \<Longrightarrow> \<not> is_upper c"
  "dns_end c \<Longrightarrow> c \<noteq> CHR ''.''"
  using code_dash
  by (auto simp: dns_char_def dns_end_def is_space_def is_upper_def is_lower_def is_digit_def code_def)

lemma canonicalName_fixed:
  assumes "s \<noteq> []" "list_all dns_char s" "dns_end (last s)"
  shows "canonicalName s = s"
proof -
  have "\<not> is_space (hd s)" "\<not> is_space (last s)"
    using assms by (auto simp: list_all_iff dns_char_facts)
  then have 1: "trim_space s = s" using assms(1) by (simp add: trim_space_def trim_by_id)
  have "\<not> has_suffix s ''.''"
    using dns_char_facts(3) [OF assms(3)] by (auto simp: has_suffix_iff)
  then have 2: "trim_suffix s ''.'' = s" by (simp add: trim_suffix_def)
  have "to_lower s = s"
    using assms(2) by (simp add: to_lower_def list_all_iff map_idI lower_id dns_char_facts)
  with 1 2 show ?thesis by (simp add: canonicalName_def)
qed

lemma canonicalName_concrete:
  assumes "dns_laws L" "concreteName L s"
  shows "canonicalName s = s"
  using assms by (intro canonicalName_fixed) (auto simp: dns_laws_def concreteName_def)

lemma concrete_image_fixed:
  assumes "dns_laws L" "\<And>x. x \<in> A \<Longrightarrow> concreteName L (canonicalName x)"
  shows "canonicalName ` canonicalName ` A = canonicalName ` A"
  using assms canonicalName_concrete by (force simp: image_image)

text \<open>Normalising an allow-list a second time changes nothing.\<close>

theorem NormalizeZones_idempotent:
  assumes "dns_laws L" and "NormalizeZones L zones = Inr zs"
  shows "NormalizeZones L zs = Inr zs"
proof -
  from NormalizeZones_Inr [OF assms(2)]
  have zs: "sorted zs" "distinct zs" "set zs = canonicalName ` set zones"
    and conc: "\<And>z. z \<in> set zones \<Longrightarrow> concreteName L (canonicalName z)"
    by auto
  then have img: "canonicalName ` set zs = set zs"
    using concrete_image_fixed [OF assms(1), of "set zones"] by simp
  have "concreteName L (canonicalName z)" if "z \<in> set zs" for z
    using that zs(3) conc canonicalName_concrete [OF assms(1)] by auto
  then obtain us where us: "NormalizeZones L zs = Inr us"
    using NormalizeZones_total by blast
  from NormalizeZones_Inr [OF us] zs img have "us = zs"
    by (auto intro: sorted_distinct_set_unique)
  with us show ?thesis by simp
qed

theorem NormalizeZones_idempotent_witness:
  "NormalizeZones refLib [''a.io'', ''b.io''] = Inr [''a.io'', ''b.io'']"
proof -
  have "NormalizeZones refLib ['' B.io.'', ''a.io'', ''b.io''] = Inr [''a.io'', ''b.io'']"
    by code_simp
  then show ?thesis by (rule NormalizeZones_idempotent [OF refLib_dns])
qed

section \<open>Normalised hostnames\<close>

lemma normalizeHostnamesLoop_sets:
  "normalizeHostnamesLoop L zones ns a r = (a', r') \<Longrightarrow>
     set a' = set a \<union> {h \<in> canonicalName ` set ns. hostnameValid L zones h}
     \<and> set r' = set r \<union> {h \<in> canonicalName ` set ns. h \<noteq> [] \<and> \<not> hostnameValid L zones h}
     \<and> (distinct a \<longrightarrow> distinct a') \<and> (distinct r \<longrightarrow> distinct r')"
proof (induction L zones ns a r rule: normalizeHostnamesLoop.induct)
  case (2 L zones n ns allowed rejected)
  show ?case
  proof (cases "hostnameValid L zones (canonicalName n)")
    case True
    with 2 show ?thesis by (auto simp: Let_def)
  next
    case False
    with 2 show ?thesis by (cases "canonicalName n = []") (auto simp: Let_def)
  qed
qed auto

text \<open>C13: The two lists \<open>NormalizeHostnames\<close> returns are sorted and without repetitions.
  The first holds exactly the canonical names that are concrete and lie in an allowed zone, the
  second every other canonical name but the empty one. So nothing outside the allow-list, no
  wildcard and nothing malformed is ever accepted, and nothing that qualifies is lost.\<close>

theorem NormalizeHostnames_spec:
  "case NormalizeHostnames L hostnames zones of (allowed, rejected) \<Rightarrow>
     sorted allowed \<and> distinct allowed \<and> sorted rejected \<and> distinct rejected
     \<and> set allowed = {h \<in> canonicalName ` set hostnames.
          concreteName L h \<and> list_ex (withinZone h) zones}
     \<and> set rejected = {h \<in> canonicalName ` set hostnames. h \<noteq> []} - set allowed"
proof -
  obtain a r where loop: "normalizeHostnamesLoop L zones hostnames [] [] = (a, r)"
    by (cases "normalizeHostnamesLoop L zones hostnames [] []")
  from normalizeHostnamesLoop_sets [OF loop] show ?thesis
    by (auto simp: NormalizeHostnames_def sortedKeys_def loop hostnameValid_def)
qed

lemma NormalizeHostnames_member:
  "h \<in> set (fst (NormalizeHostnames L hostnames zones)) \<longleftrightarrow>
     h \<in> canonicalName ` set hostnames \<and> concreteName L h \<and> list_ex (withinZone h) zones"
  using NormalizeHostnames_spec [where L = L and hostnames = hostnames and zones = zones]
  by (auto split: prod.splits)

subsection \<open>Zones end at label boundaries\<close>

fun dnsLabels :: "string \<Rightarrow> string list" where
  "dnsLabels [] = [[]]"
| "dnsLabels (c # s) =
     (if c = CHR ''.'' then [] # dnsLabels s
      else (case dnsLabels s of l # ls \<Rightarrow> (c # l) # ls | [] \<Rightarrow> [[c]]))"

fun joinLabels :: "string list \<Rightarrow> string" where
  "joinLabels [] = []"
| "joinLabels [l] = l"
| "joinLabels (l # ls) = l @ CHR ''.'' # joinLabels ls"

lemma dnsLabels_not_Nil [simp]: "dnsLabels s \<noteq> []"
  by (induction s) (auto split: list.splits)

lemma joinLabels_Cons: "ls \<noteq> [] \<Longrightarrow> joinLabels (l # ls) = l @ CHR ''.'' # joinLabels ls"
  by (cases ls) auto

lemma join_dnsLabels: "joinLabels (dnsLabels s) = s"
proof (induction s)
  case (Cons c s)
  then obtain l ls where ls: "dnsLabels s = l # ls" by (cases "dnsLabels s") auto
  with Cons show ?case by (cases ls) (auto simp: joinLabels_Cons)
qed simp

lemma dnsLabels_append: "dnsLabels (s @ CHR ''.'' # t) = dnsLabels s @ dnsLabels t"
proof (induction s)
  case (Cons c s)
  obtain l ls where "dnsLabels s = l # ls" by (cases "dnsLabels s") auto
  with Cons show ?case by auto
qed simp

lemma joinLabels_append:
  "ls \<noteq> [] \<Longrightarrow> ms \<noteq> [] \<Longrightarrow> joinLabels (ls @ ms) = joinLabels ls @ CHR ''.'' # joinLabels ms"
  by (induction ls rule: joinLabels.induct) (auto simp: joinLabels_Cons)

text \<open>C14: A hostname lies in a zone exactly when the zone's DNS labels are the last labels of the
  hostname; the suffix test on strings never cuts a label in two.\<close>

theorem withinZone_labels:
  "withinZone hostname zone \<longleftrightarrow> (\<exists>sub. dnsLabels hostname = sub @ dnsLabels zone)"
proof
  assume "withinZone hostname zone"
  then consider "hostname = zone" | q where "hostname = q @ CHR ''.'' # zone"
    by (auto simp: withinZone_def has_suffix_iff)
  then show "\<exists>sub. dnsLabels hostname = sub @ dnsLabels zone"
    by cases (auto simp: dnsLabels_append)
next
  assume "\<exists>sub. dnsLabels hostname = sub @ dnsLabels zone"
  then obtain sub where sub: "dnsLabels hostname = sub @ dnsLabels zone" ..
  show "withinZone hostname zone"
  proof (cases "sub = []")
    case True
    with sub show ?thesis by (metis append_Nil join_dnsLabels withinZone_def)
  next
    case False
    then have "hostname = joinLabels sub @ CHR ''.'' # zone"
      using sub by (metis dnsLabels_not_Nil joinLabels_append join_dnsLabels)
    then show ?thesis by (auto simp: withinZone_def has_suffix_iff)
  qed
qed

section \<open>Ingress rules\<close>

lemma equalFrom_eq: "length ls = length rs \<Longrightarrow> equalFrom ls rs \<longleftrightarrow> ls = rs"
  by (induction ls rs rule: list_induct2) auto

lemma EqualIngress_eq [simp]: "EqualIngress left right \<longleftrightarrow> left = right"
  by (auto simp: EqualIngress_def equalFrom_eq)

lemma map_rule_inj:
  "map (\<lambda>h. \<lparr>ir_hostname = h, ir_service = o1, ir_path = p\<rparr>) hs
     = map (\<lambda>h. \<lparr>ir_hostname = h, ir_service = o2, ir_path = p\<rparr>) gs
   \<Longrightarrow> hs = gs \<and> (hs = [] \<or> o1 = o2)"
  by (induction hs gs rule: list_induct2') auto

text \<open>C17: The loop of \<open>EqualIngress\<close> compares configurations faithfully: it reports two
  lists of rules equal exactly when they are the same rules, paths included, in the same order;
  so two planned configurations exactly when they publish the same hostnames in the same order
  and, if they publish any, send them to the same origin.\<close>

theorem EqualIngress_IngressRules:
  "(EqualIngress left right \<longleftrightarrow> left = right)
   \<and> (EqualIngress (IngressRules hs o1) (IngressRules gs o2) \<longleftrightarrow> hs = gs \<and> (hs = [] \<or> o1 = o2))"
  by (auto simp: IngressRules_def dest: map_rule_inj)

text \<open>C16: A planned configuration, served first match first, sends a published hostname to the origin
  and answers every other hostname with status 404: the catch-all comes last and exists always.\<close>

theorem IngressRules_first_match:
  "'''' \<notin> set hs \<Longrightarrow>
     List.find (\<lambda>r. ir_hostname r = '''' \<or> ir_hostname r = request) (IngressRules hs origin)
       = Some \<lparr>ir_hostname = (if request \<in> set hs then request else ''''),
               ir_service = (if request \<in> set hs then origin else ''http_status:404''),
               ir_path = ''''\<rparr>"
  by (induction hs) (auto simp: IngressRules_def)

theorem IngressRules_first_match_witness:
  "List.find (\<lambda>r. ir_hostname r = '''' \<or> ir_hostname r = ''b.io'') (IngressRules [''a.io'', ''b.io''] ''http://x:80'')
     = Some \<lparr>ir_hostname = ''b.io'', ir_service = ''http://x:80'', ir_path = ''''\<rparr>"
  using IngressRules_first_match [of "[''a.io'', ''b.io'']" "''b.io''" "''http://x:80''"] by simp

section \<open>Tunnel names\<close>

lemma compactID_length: "n \<ge> 7 \<Longrightarrow> length (compactID v n) \<le> n"
  by (simp add: compactID_def Let_def)

lemma trim_right_dashes_take: "length (trim_right_dashes (take n s)) \<le> n"
  using length_trim_right_by [of "\<lambda>c. c = dash" "take n s"] by (simp add: trim_right_dashes_def)

lemma sanitize_length: "n \<ge> 7 \<Longrightarrow> length (sanitize v n) \<le> n"
  by (simp add: sanitize_def Let_def trim_right_dashes_take)

lemma TunnelName_parts:
  "TunnelName c b = ''kflared-'' @ compactID c 8 @ ''-'' @ sanitize (b_namespace b) 14 @ ''-''
     @ sanitize (gr_name (bs_gatewayRef (b_spec b))) 14 @ ''-'' @ sanitize (b_uid b) 36"
  and TunnelName_length: "length (TunnelName c b) \<le> 83"
proof -
  let ?n = "''kflared-'' @ compactID c 8 @ ''-'' @ sanitize (b_namespace b) 14 @ ''-''
     @ sanitize (gr_name (bs_gatewayRef (b_spec b))) 14 @ ''-'' @ sanitize (b_uid b) 36"
  have "length ?n \<le> 83"
    using compactID_length [of 8 c] sanitize_length [of 14 "b_namespace b"]
      sanitize_length [of 14 "gr_name (bs_gatewayRef (b_spec b))"] sanitize_length [of 36 "b_uid b"]
    by simp
  moreover from this show "TunnelName c b = ?n"
    by (simp add: TunnelName_def Let_def maxTunnelNameLength_def)
  ultimately show "length (TunnelName c b) \<le> 83" by simp
qed

text \<open>Kubernetes gives every object a UUID as its UID: 36 characters, lower-case hexadecimal
  digits and dashes, a digit at either end.\<close>

definition uuidText :: "string \<Rightarrow> bool" where
  "uuidText u \<longleftrightarrow> length u = 36 \<and> list_all (\<lambda>c. is_digit c \<or> is_lower c \<or> c = dash) u
     \<and> hd u \<noteq> dash \<and> last u \<noteq> dash"

lemma sanitizeChar_id: "is_digit c \<or> is_lower c \<or> c = dash \<Longrightarrow> sanitizeChar (lower c) = c"
  using code_dash
  by (auto simp: sanitizeChar_def lower_def is_letter_def is_upper_def is_lower_def is_digit_def)

lemma sanitize_uuid:
  assumes "uuidText u"
  shows "sanitize u 36 = u"
proof -
  from assms have "map sanitizeChar (to_lower u) = u"
    by (simp add: uuidText_def to_lower_def list_all_iff map_idI sanitizeChar_id)
  moreover have "trim_dashes u = u"
    using assms by (simp add: trim_dashes_def trim_by_id uuidText_def)
  ultimately show ?thesis using assms by (auto simp: sanitize_def uuidText_def)
qed

lemma TunnelName_suffix:
  assumes "uuidText (b_uid b)"
  shows "\<exists>q. TunnelName c b = q @ dash # b_uid b"
  by (rule exI [of _ "''kflared-'' @ compactID c 8 @ ''-'' @ sanitize (b_namespace b) 14 @ ''-''
     @ sanitize (gr_name (bs_gatewayRef (b_spec b))) 14"])
    (simp add: TunnelName_parts sanitize_uuid [OF assms] dash_def)

text \<open>C18: A tunnel name never reaches Cloudflare's limit, so the final truncation never happens, and
  it ends in the complete UID of its binding.\<close>

theorem TunnelName_bounded_and_complete:
  assumes "uuidText (b_uid binding)"
  shows "length (TunnelName clusterUID binding) < maxTunnelNameLength
    \<and> has_prefix (TunnelName clusterUID binding) (''kflared-'' @ compactID clusterUID 8 @ ''-'')
    \<and> has_suffix (TunnelName clusterUID binding) (''-'' @ b_uid binding)"
proof (intro conjI)
  show "length (TunnelName clusterUID binding) < maxTunnelNameLength"
    using TunnelName_length [of clusterUID binding] by (simp add: maxTunnelNameLength_def)
  show "has_prefix (TunnelName clusterUID binding) (''kflared-'' @ compactID clusterUID 8 @ ''-'')"
    by (auto simp: TunnelName_parts has_prefix_iff)
  show "has_suffix (TunnelName clusterUID binding) (''-'' @ b_uid binding)"
    using TunnelName_suffix [OF assms] by (simp add: has_suffix_iff dash_def)
qed

definition sampleBinding :: "string \<Rightarrow> string \<Rightarrow> cloudflareTunnelBinding" where
  "sampleBinding n uid = \<lparr>b_meta = (newObject ''apps'' n)\<lparr>om_uid := uid\<rparr>,
     b_spec = \<lparr>bs_controller = ''class'', bs_providerRef = ''main'',
       bs_gatewayRef = \<lparr>gr_name = ''gw'', gr_sectionName = ''http''\<rparr>,
       bs_originServiceRef = \<lparr>osr_name = ''traefik'', osr_namespace = '''', osr_port = IntVal 80\<rparr>,
       bs_connectorReplicas = 1, bs_deletionPolicy = DeletionPolicyDelete,
       bs_dnsAutomationEnabled = None\<rparr>,
     b_status = \<lparr>bst_observedGeneration = 0, bst_tunnelID = '''', bst_tunnelName = '''',
       bst_tunnelCNAME = '''', bst_publishedHostnames = [], bst_dnsRecords = [],
       bst_resources = \<lparr>crn_deployment = '''', crn_secret = '''', crn_dnsEndpoint = ''''\<rparr>,
       bst_conditions = []\<rparr>\<rparr>"

lemma sampleBinding_uid [simp]: "b_uid (sampleBinding n uid) = uid"
  by (simp add: sampleBinding_def)

lemma sample_uuid: "uuidText ''0a1b2c3d-0000-4000-8000-00000000abcd''"
  by code_simp

theorem TunnelName_bounded_and_complete_witness:
  "has_suffix (TunnelName ''c0ffee00-0000'' (sampleBinding ''web'' ''0a1b2c3d-0000-4000-8000-00000000abcd''))
     ''-0a1b2c3d-0000-4000-8000-00000000abcd''"
  using TunnelName_bounded_and_complete
    [of "sampleBinding ''web'' ''0a1b2c3d-0000-4000-8000-00000000abcd''" "''c0ffee00-0000''"]
  by (simp add: sample_uuid)

text \<open>C19: Two bindings with the same tunnel name are the same Kubernetes object, so a retry can only
  recover the tunnel made for it.\<close>

theorem TunnelName_identifies_binding:
  assumes "uuidText (b_uid a)" "uuidText (b_uid b)"
    and "TunnelName c a = TunnelName c' b"
  shows "b_uid a = b_uid b"
proof -
  obtain q q' where "TunnelName c a = q @ dash # b_uid a" "TunnelName c' b = q' @ dash # b_uid b"
    using TunnelName_suffix assms(1,2) by meson
  with assms(3) have "q @ dash # b_uid a = q' @ dash # b_uid b" by simp
  moreover have "length (b_uid a) = length (b_uid b)" using assms by (simp add: uuidText_def)
  ultimately show ?thesis using append_same_length_suffix [of q "dash # b_uid a" q' "dash # b_uid b"] by simp
qed

text \<open>The names agree for two objects that share the UID, seen in clusters that share the digits
  the name shows.\<close>

theorem TunnelName_identifies_binding_witness:
  "sampleBinding ''web'' ''0a1b2c3d-0000-4000-8000-00000000abcd'' \<noteq> sampleBinding ''site'' ''0a1b2c3d-0000-4000-8000-00000000abcd''
   \<and> b_uid (sampleBinding ''web'' ''0a1b2c3d-0000-4000-8000-00000000abcd'')
       = b_uid (sampleBinding ''site'' ''0a1b2c3d-0000-4000-8000-00000000abcd'')"
proof
  let ?u = "''0a1b2c3d-0000-4000-8000-00000000abcd''"
  show "sampleBinding ''web'' ?u \<noteq> sampleBinding ''site'' ?u"
    by (simp add: sampleBinding_def newObject_def)
  show "b_uid (sampleBinding ''web'' ?u) = b_uid (sampleBinding ''site'' ?u)"
  proof (rule TunnelName_identifies_binding)
    show "TunnelName ''c0ffee00-1111'' (sampleBinding ''web'' ?u) = TunnelName ''c0ffee00-2222'' (sampleBinding ''site'' ?u)"
      by code_simp
  qed (simp_all add: sample_uuid)
qed

end
