(* ===== verification/BindingTunnel.thy ===== *)
theory BindingTunnel
  imports BindingActs PlannerProps
begin

text \<open>
  The order of effects on the tunnel: which tunnel is used and when it is created, that it is
  recorded before it is configured, that the configuration is written only when it differs,
  and the order of deletion.
\<close>

section \<open>Finding or creating the tunnel\<close>

definition hasIdentity :: "string \<Rightarrow> tunnel \<Rightarrow> bool" where
  "hasIdentity name tun \<longleftrightarrow> tn_name tun = name \<and> tn_configSource tun = ConfigSourceCloudflare"

definition adopted :: "cloudflareTunnelBinding \<Rightarrow> string \<Rightarrow> tunnel \<Rightarrow> history \<Rightarrow> bool" where
  \<comment> \<open>\<open>tun\<close> was found by name, or it was not there and was created, and then recorded.\<close>
  "adopted b name tun es \<longleftrightarrow>
     (\<exists>b'. es = [CfFindTunnelByName name (Inr (Some tun)),
              PatchBindingStatus b (tunnelPatched b tun) (Inr b')] \<and> hasIdentity name tun
         \<or> es = [CfFindTunnelByName name (Inr None), CfCreateTunnel name (Inr tun),
              PatchBindingStatus b (tunnelPatched b tun) (Inr b')])"

definition ensured :: "cloudflareTunnelBinding \<Rightarrow> string \<Rightarrow> tunnel \<Rightarrow> history \<Rightarrow> bool" where
  "ensured b name tun es \<longleftrightarrow>
     (let i = bst_tunnelID (b_status b) in
      if i = '''' then adopted b name tun es
      else es = [CfGetTunnel i (Inr (Some tun))] \<and> hasIdentity name tun
           \<or> hd es = CfGetTunnel i (Inr None) \<and> adopted b name tun (tl es))"

primrec createsAfter :: "event option \<Rightarrow> string \<Rightarrow> history \<Rightarrow> bool" where
  \<comment> \<open>A tunnel is created only under this name, and right after the lookup found none.\<close>
  "createsAfter before name [] = True"
| "createsAfter before name (e # es) =
     ((case e of
         CfCreateTunnel n t \<Rightarrow> n = name \<and> before = Some (CfFindTunnelByName name (Inr None))
       | _ \<Rightarrow> True)
      \<and> createsAfter (Some e) name es)"

abbreviation createsMissing :: "string \<Rightarrow> history \<Rightarrow> bool" where
  "createsMissing \<equiv> createsAfter None"

lemma findOrCreateTunnel_adopts:
  "yields (findOrCreateTunnel w api b name) (\<lambda>(b', x) es. createsAfter before name es
     \<and> (case x of Inl _ \<Rightarrow> True | Inr tun \<Rightarrow> adopted b name tun es))"
  unfolding findOrCreateTunnel_def persistTunnel_def patchBinding_def cf_call_defs k8s_call_defs
  by (auto intro!: yields_rules simp: adopted_def hasIdentity_def split: sum.splits option.splits)

lemma ensureTunnel_ensured:
  "yields (ensureTunnel w api b name) (\<lambda>(b', x) es. createsMissing name es
     \<and> (case x of Inl _ \<Rightarrow> True | Inr tun \<Rightarrow> ensured b name tun es))"
proof -
  note search = yields_mono [OF findOrCreateTunnel_adopts]
  show ?thesis
    unfolding ensureTunnel_def cf_call_defs
    by (auto intro!: yields_bind yields_call yields_ret search simp: ensured_def hasIdentity_def Let_def
        split: sum.splits option.splits)
qed

text \<open>C7: The tunnel a binding uses is the one its status records, if that exists with the binding's
  tunnel name and remote configuration, or else the one found under that name with remote
  configuration, or else a new one; a found or new tunnel is recorded in the status before it is
  used. A tunnel is created only under the binding's name and right after the lookup by that
  name found none.\<close>

theorem ensureTunnel_identity:
  "yields (ensureTunnel w api b name) (\<lambda>(b', x) es. createsMissing name es
     \<and> (case x of Inl _ \<Rightarrow> True | Inr tun \<Rightarrow> ensured b name tun es))"
  by (rule ensureTunnel_ensured)

section \<open>Writing the configuration\<close>

fun updates :: "event \<Rightarrow> bool" where
  "updates (CfUpdateConfiguration i rules x) = True"
| "updates e = False"

definition noUpdate :: "history \<Rightarrow> bool" where
  "noUpdate es \<longleftrightarrow> list_all (\<lambda>e. \<not> updates e) es"

lemma noUpdate_simps [simp]:
  "noUpdate []" "noUpdate (e # es) = (\<not> updates e \<and> noUpdate es)"
  "noUpdate (es @ es') = (noUpdate es \<and> noUpdate es')"
  by (simp_all add: noUpdate_def)

definition recorded :: "cloudflareTunnelBinding \<Rightarrow> string \<Rightarrow> history \<Rightarrow> bool" where
  \<comment> \<open>The tunnel is the one whose id the binding's status had, or its id was written there.\<close>
  "recorded b i es \<longleftrightarrow>
     (\<exists>tun. CfGetTunnel (bst_tunnelID (b_status b)) (Inr (Some tun)) \<in> set es \<and> tn_id tun = i)
     \<or> (\<exists>b0 b1 b2. PatchBindingStatus b0 b1 (Inr b2) \<in> set es \<and> bst_tunnelID (b_status b1) = i)"

definition writesOnce :: "cloudflareTunnelBinding \<Rightarrow> ingressRule list \<Rightarrow> history \<Rightarrow> bool" where
  "writesOnce b rules es \<longleftrightarrow> noUpdate es
     \<or> (\<exists>pre i current u post. es = pre @ [CfGetConfiguration i (Inr current), CfUpdateConfiguration i rules u] @ post
         \<and> noUpdate pre \<and> noUpdate post \<and> current \<noteq> rules \<and> recorded b i pre)"

lemma writesOnce_none: "noUpdate es \<Longrightarrow> writesOnce b rules es"
  by (simp add: writesOnce_def)

text \<open>Everything around the write of the configuration does not write it.\<close>

abbreviation keepsConfig :: "('a \<Rightarrow> bool) \<Rightarrow> 'a io \<Rightarrow> bool" where
  "keepsConfig \<equiv> does (\<lambda>e. \<not> updates e)"

lemma keepsConfig_yields:
  "keepsConfig R m \<Longrightarrow> yields m (\<lambda>x es. noUpdate es \<and> R x)"
  unfolding emits_def noUpdate_def by (erule yields_mono) (simp add: list_all_iff)

lemma finishReconcile_keepsConfig [emits_rules]:
  "(\<And>x. R x) \<Longrightarrow> keepsConfig R (finishReconcile L w r b tun hs token)"
  unfolding finishReconcile_def setReadyStatus_def reconcileConnectorSecret_def
    reconcileConnectorDeployment_def reconcileDNSEndpoint_def k8s_call_defs
  by (auto intro!: emits_rules extends_rules createOrPatch_does simp: Let_def split: sum.split option.split)

lemma issueToken_keepsConfig [emits_rules]:
  "(\<And>x. R x) \<Longrightarrow> keepsConfig R (issueToken L w r api b tun hs)"
  unfolding issueToken_def cf_call_defs
  by (auto intro!: emits_rules extends_rules split: sum.split)

lemma programIngress_writes:
  assumes "recorded b (tn_id tun) pre" "noUpdate pre"
  shows "yields (programIngress L w r api b' tun hs origin)
    (\<lambda>_ es. writesOnce b (IngressRules hs origin) (pre @ es))"
proof -
  let ?rules = "IngressRules hs origin"
  have changed: "writesOnce b ?rules (pre @ CfGetConfiguration (tn_id tun) (Inr c)
      # CfUpdateConfiguration (tn_id tun) ?rules u # post)"
    if "c \<noteq> ?rules" "noUpdate post" for c u post
    unfolding writesOnce_def
    by (intro disjI2 exI [of _ pre] exI [of _ "tn_id tun"] exI [of _ c] exI [of _ u] exI [of _ post])
       (simp add: that assms)
  have skip: "writesOnce b ?rules (pre @ CfGetConfiguration (tn_id tun) c # post)"
    if "noUpdate post" for c post
    using that assms by (simp add: writesOnce_none)
  have quiet: "yields (issueToken L w r api b' tun hs) (\<lambda>_. noUpdate)"
    "yields (failTunnel L w b' e) (\<lambda>_. noUpdate)" for e
    by (auto intro!: yields_mono [OF keepsConfig_yields [where R = "\<lambda>_. True"]] emits_rules)
  show ?thesis
    unfolding programIngress_def cf_call_defs Let_def
    by (auto intro!: yields_bind yields_call yields_mono [OF quiet(1)] yields_mono [OF quiet(2)]
        simp: changed skip split: sum.split option.split)
qed

lemma recorded_patch:
  "PatchBindingStatus b0 b1 (Inr b2) \<in> set es \<Longrightarrow> bst_tunnelID (b_status b1) = i \<Longrightarrow> recorded b i es"
  unfolding recorded_def by blast

lemma adopted_recorded: "adopted b name tun es \<Longrightarrow> recorded b (tn_id tun) (es0 @ es)"
  unfolding adopted_def
  by (elim exE disjE conjE; rule recorded_patch [of b "tunnelPatched b tun"]) (auto simp: tunnelPatched_def)

lemma ensured_recorded:
  assumes "ensured b name tun es" shows "recorded b (tn_id tun) (es0 @ es)"
proof -
  have "recorded b (tn_id tun) (es0 @ es)" if "adopted b name tun (tl es)"
    using adopted_recorded [OF that, of "es0 @ [hd es]"] that by (cases es) (auto simp: adopted_def)
  moreover have "recorded b (tn_id tun) (es0 @ [CfGetTunnel (bst_tunnelID (b_status b)) (Inr (Some tun))])"
    by (auto simp: recorded_def)
  ultimately show ?thesis
    using assms adopted_recorded by (auto simp: ensured_def Let_def split: if_splits)
qed

lemma ensureTunnel_keepsConfig [emits_rules]:
  "(\<And>x. R x) \<Longrightarrow> keepsConfig R (ensureTunnel w api b name)"
  unfolding ensureTunnel_def findOrCreateTunnel_def persistTunnel_def cf_call_defs
  by (auto intro!: emits_rules extends_rules split: sum.split option.split)

text \<open>C6: The ingress configuration of a tunnel is written at most once in a reconciliation,
  immediately after it was read and found different from the desired one, and only on a tunnel
  whose id the binding's status had, or was written to its status before. A configuration that
  already matches is left alone.\<close>

theorem reconcileTunnel_writes_once:
  "yields (reconcileTunnel L w r b p hs origin) (\<lambda>_. writesOnce b (IngressRules hs origin))"
proof -
  have quiet: "yields (failTunnel L w b' e) (\<lambda>_. noUpdate)" "yields (failConnector L w b' e) (\<lambda>_. noUpdate)"
     "yields (readAPIToken w r p) (\<lambda>_. noUpdate)" "yields (newClient w f t a) (\<lambda>_. noUpdate)" for b' e f t a
    by (auto intro!: yields_mono [OF keepsConfig_yields [where R = "\<lambda>_. True"]] emits_rules)
  have act: "yields (ensureTunnel w api b name \<bind> (\<lambda>(binding, et). case et of
       Inl err \<Rightarrow> failTunnel L w binding err
     | Inr tun \<Rightarrow> programIngress L w r api binding tun hs origin))
     (\<lambda>_ es. writesOnce b (IngressRules hs origin) (pre @ es))" if "noUpdate pre" for api name pre
    using that
    by (intro yields_bind_mono [OF yields_conj [OF ensureTunnel_ensured
          keepsConfig_yields [OF ensureTunnel_keepsConfig [where R = "\<lambda>_. True"]]]])
       (auto intro!: yields_mono [OF quiet(1)] programIngress_writes [of b _ "pre @ es" for es, simplified]
         ensured_recorded writesOnce_none split: sum.splits)
  show ?thesis
    unfolding reconcileTunnel_def k8s_call_defs Let_def
    by (auto intro!: yields_bind yields_call yields_mono [OF quiet(1)] yields_mono [OF quiet(2)]
       yields_mono [OF quiet(3)] yields_mono [OF quiet(4)] act [of "es @ es' @ [e]" for es es' e, simplified]
        simp: writesOnce_none split: sum.split)
qed

end
