(* ===== verification/BindingFinalize.thy ===== *)
theory BindingFinalize
  imports BindingTunnel
begin

text \<open>
  Deletion of a binding. The finalizer is removed last, by the last call, and only when the
  connector's children are gone, the DNS endpoint was withdrawn and, unless the tunnel is
  retained, the recorded tunnel was deleted at Cloudflare.
\<close>

section \<open>The order of deletion\<close>

definition childrenGone :: "bindingReconciler \<Rightarrow> cloudflareTunnelBinding \<Rightarrow> history \<Rightarrow> bool" where
  \<comment> \<open>The connector's Deployment and Secret and the DNSEndpoint are removed.\<close>
  "childrenGone r b es \<longleftrightarrow>
     list_all (\<lambda>kind. childRemoved kind (systemNamespace r, connectorResourceName (b_uid b)) b es)
       [DeploymentKind, SecretKind]
     \<and> dnsRemoved r b es"

definition accountChecked :: "cloudflareTunnelBinding \<Rightarrow> history \<Rightarrow> bool" where
  \<comment> \<open>The client in use is for the account of the binding's provider, which is of the binding's class.\<close>
  "accountChecked b es \<longleftrightarrow>
     (\<exists>p token. GetProvider (bs_providerRef (b_spec b)) (Inr p) \<in> set es
        \<and> ps_controller (p_spec p) = bs_controller (b_spec b)
        \<and> NewCloudflareClient token (ps_accountID (p_spec p)) \<in> set es)"

fun deletesChild :: "event \<Rightarrow> bool" where
  "deletesChild (DeleteChild kind child e) = True"
| "deletesChild e = False"

definition unfinalized :: "lib \<Rightarrow> cloudflareTunnelBinding \<Rightarrow> cloudflareTunnelBinding" where
  "unfinalized L b = b\<lparr>b_meta := (b_meta b)\<lparr>om_finalizers :=
     lib_removeFinalizer L (om_finalizers (b_meta b)) bindingFinalizer\<rparr>\<rparr>"

definition removal :: "lib \<Rightarrow> cloudflareTunnelBinding \<Rightarrow> goerr option \<Rightarrow> history \<Rightarrow> bool" where
  \<comment> \<open>The calls end with the update that removes the finalizer, whose answer is the result.\<close>
  "removal L b res es \<longleftrightarrow>
     (\<exists>pre e. es = pre @ [UpdateBinding (unfinalized L b) e] \<and> list_all idle pre \<and> res = map_option Kube e)"

definition finalized ::
  "lib \<Rightarrow> bindingReconciler \<Rightarrow> cloudflareTunnelBinding \<Rightarrow> goerr option \<Rightarrow> history \<Rightarrow> bool" where
  "finalized L r b res es \<longleftrightarrow>
     (\<exists>pre post. es = pre @ post \<and> list_all (\<lambda>e. idle e \<or> deletesChild e) pre
       \<and> (post = [] \<and> res \<noteq> None
          \<or> childrenGone r b pre \<and>
             (if retained b \<or> bst_tunnelID (b_status b) = '''' then removal L b res post
              else accountChecked b pre
                \<and> (\<exists>d rest. post = CfDeleteTunnel (bst_tunnelID (b_status b)) d # rest
                     \<and> (if d = None then removal L b res rest else rest = [] \<and> res \<noteq> None)))))"

lemma childrenGone_append: "childrenGone r b es \<Longrightarrow> childrenGone r b (es @ es')"
  by (auto simp: childrenGone_def intro: removed_grows)

lemma eventB_idle: "does idle (\<lambda>_. True) (eventB r t n m)"
  unfolding eventB_def k8s_call_defs by (auto intro!: emits_rules)

lemma idle_yields: "does G (\<lambda>_. True) m \<Longrightarrow> yields m (\<lambda>_. list_all G)"
  unfolding emits_def by (erule yields_mono) (simp add: list_all_iff)

lemma removeBindingFinalizer_removal:
  "yields (removeBindingFinalizer L w r b) (\<lambda>x. removal L b (snd x))"
proof -
  have last: "removal L b (map_option Kube e) (pre @ [UpdateBinding (unfinalized L b) e])"
    if "list_all idle pre" for pre e
    using that by (auto simp: removal_def)
  show ?thesis
    unfolding removeBindingFinalizer_def k8s_call_defs
    by (rule yields_bind_mono [where Q = "\<lambda>_. list_all idle"])
       (auto intro!: yields_mono [OF idle_yields [OF eventB_idle]] yields_ret yields_bind yields_call
         last [unfolded unfinalized_def] split: option.split)
qed

abbreviation deleting :: "event \<Rightarrow> bool" where
  "deleting e \<equiv> idle e \<or> deletesChild e"

lemma deleteOwnedChild_gone:
  "yields (deleteOwnedChild w b kind key) (\<lambda>x es. list_all deleting es
     \<and> ((case x of Some e \<Rightarrow> apierrorsIsNotFound e | None \<Rightarrow> True) \<longrightarrow> childRemoved kind key b es))"
  unfolding deleteOwnedChild_def k8s_call_defs
  by (auto intro!: yields_rules childRemoved_events simp: apierrorsIsNotFound_def split: sum.split option.split)

lemma deleteOwnedChildren_gone:
  "yields (deleteOwnedChildren w b key kinds) (\<lambda>x es. list_all deleting es
     \<and> (x = None \<longrightarrow> list_all (\<lambda>kind. childRemoved kind key b es) kinds))"
proof (induction kinds)
  case Nil
  show ?case by (simp add: yields_ret)
next
  case (Cons kind kinds)
  note rest = yields_mono [OF Cons.IH]
  show ?case
    by (simp, rule yields_bind_mono [OF deleteOwnedChild_gone])
       (auto intro!: yields_ret rest intro: removed_grows simp: list_all_iff split: option.splits)
qed

lemma deleteDNSEndpoint_gone:
  "yields (deleteDNSEndpoint w r b (connectorResourceName (b_uid b)))
     (\<lambda>x es. list_all deleting es \<and> (x = None \<longrightarrow> dnsRemoved r b es))"
proof -
  have "does deleting (\<lambda>_. True) (deleteDNSEndpoint w r b n)" for n
    by (auto intro!: emits_rules)
  from yields_conj [OF idle_yields [OF this] deleteDNSEndpoint_removes] show ?thesis .
qed

definition providerRead ::
  "cloudflareTunnelBinding \<Rightarrow> clusterCloudflareProvider option \<Rightarrow> history \<Rightarrow> bool" where
  \<comment> \<open>The provider, if there is one, was answered for the binding's reference and has its class.\<close>
  "providerRead b p es \<longleftrightarrow> (case p of None \<Rightarrow> True
     | Some q \<Rightarrow> GetProvider (bs_providerRef (b_spec b)) (Inr q) \<in> set es
         \<and> ps_controller (p_spec q) = bs_controller (b_spec b))"

lemma providerRead_append: "providerRead b p es \<Longrightarrow> providerRead b p (es @ es')"
  by (auto simp: providerRead_def split: option.splits)

lemma finalizeProvider_reads:
  "yields (finalizeProvider w b) (\<lambda>x es. list_all idle es
     \<and> (case x of Inl _ \<Rightarrow> True | Inr p \<Rightarrow> providerRead b p es))"
  unfolding finalizeProvider_def k8s_call_defs
  by (auto intro!: yields_rules simp: providerRead_def split: sum.splits if_splits)

lemma finalized_stop: "list_all deleting es \<Longrightarrow> res \<noteq> None \<Longrightarrow> finalized L r b res es"
  unfolding finalized_def by (intro exI [of _ es] exI [of _ "[]"]) simp

lemma finalizedI:
  assumes "list_all deleting pre" "childrenGone r b pre"
    and "if retained b \<or> bst_tunnelID (b_status b) = '''' then removal L b res post
      else accountChecked b pre
        \<and> (\<exists>d rest. post = CfDeleteTunnel (bst_tunnelID (b_status b)) d # rest
             \<and> (if d = None then removal L b res rest else rest = [] \<and> res \<noteq> None))"
  shows "finalized L r b res (pre @ post)"
  unfolding finalized_def using assms by blast

lemma removal_idle:
  assumes "removal L b res es" "list_all idle es0" shows "removal L b res (es0 @ es)"
proof -
  obtain pre e where "es = pre @ [UpdateBinding (unfinalized L b) e]" "list_all idle pre"
    "res = map_option Kube e"
    using assms(1) unfolding removal_def by blast
  then show ?thesis
    using assms(2) unfolding removal_def by (intro exI [of _ "es0 @ pre"] exI [of _ e]) simp
qed

lemma finalizeTunnel_finalizes:
  assumes "list_all deleting pre" "childrenGone r b pre" "providerRead b p pre"
  shows "yields (finalizeTunnel L w r b p) (\<lambda>x es. finalized L r b (snd x) (pre @ es))"
proof (cases "retained b \<or> bst_tunnelID (b_status b) = ''''")
  case True
  have "yields (finalizeTunnel L w r b p) (\<lambda>x. removal L b (snd x))"
    using True unfolding finalizeTunnel_def
    by (auto intro!: yields_bind_mono [OF idle_yields [OF eventB_idle]] removal_idle
        yields_mono [OF removeBindingFinalizer_removal])
  then show ?thesis
    by (rule yields_mono) (use True assms in \<open>auto intro!: finalizedI\<close>)
next
  case False
  then have live: "\<not> retained b" "bst_tunnelID (b_status b) \<noteq> ''''" by auto
  let ?del = "CfDeleteTunnel (bst_tunnelID (b_status b))"
  have fin: "finalized L r b res (pre @ es @ NewCloudflareClient token (ps_accountID (p_spec q)) # ?del d # rest)"
    if "p = Some q \<and> list_all idle es" "if d = None then removal L b res rest else rest = [] \<and> res \<noteq> None"
    for es res d rest token q
  proof -
    let ?pre = "pre @ es @ [NewCloudflareClient token (ps_accountID (p_spec q))]"
    have "accountChecked b ?pre"
      using that(1) assms(3) by (auto simp: accountChecked_def providerRead_def)
    then have "finalized L r b res (?pre @ ?del d # rest)"
      by (intro finalizedI childrenGone_append assms(2)) (use assms(1) live that in \<open>auto simp: list_all_iff\<close>)
    then show ?thesis by simp
  qed
  have "list_all deleting (pre @ es)" if "list_all idle es" for es
    using that assms by (auto simp: list_all_iff)
  note stop = finalized_stop [OF this]
  have token: "yields (readAPIToken w r q) (\<lambda>_. list_all idle)" for q
    by (rule idle_yields) (auto intro!: emits_rules)
  show ?thesis
  proof (cases p)
    case None
    with live stop [of "[]"] show ?thesis
      by (simp add: finalizeTunnel_def yields_ret)
  next
    case (Some q)
    with live show ?thesis
      unfolding finalizeTunnel_def newClient_def cf_call_defs
      apply (simp, intro yields_bind_mono [OF token])
      by (auto intro!: yields_bind yields_call yields_ret stop fin removal_idle
           yields_mono [OF idle_yields [OF eventB_idle]] yields_mono [OF removeBindingFinalizer_removal]
           split: sum.split option.split)
  qed
qed

lemma finalize_ordered:
  "yields (finalize L w r b) (\<lambda>x es.
     if lib_containsFinalizer L (om_finalizers (b_meta b)) bindingFinalizer
     then finalized L r b (snd x) es
     else es = [] \<and> x = (0, None))"
proof (cases "lib_containsFinalizer L (om_finalizers (b_meta b)) bindingFinalizer")
  case True
  have finish: "yields (finalizeTunnel L w r b p) (\<lambda>x es. finalized L r b (snd x) (es1 @ es2 @ es3 @ es))"
    if "list_all idle es1" "list_all deleting es2" "list_all deleting es3" "providerRead b p es1"
      "list_all (\<lambda>kind. childRemoved kind (systemNamespace r, connectorResourceName (b_uid b)) b es2)
         [DeploymentKind, SecretKind]" "dnsRemoved r b es3" for p es1 es2 es3
  proof -
    have "list_all deleting (es1 @ es2 @ es3)" "childrenGone r b (es1 @ es2 @ es3)"
      "providerRead b p (es1 @ es2 @ es3)"
      using that by (auto simp: list_all_iff childrenGone_def intro: removed_grows providerRead_append)
    from finalizeTunnel_finalizes [OF this] show ?thesis by simp
  qed
  note steps = yields_bind_mono [OF finalizeProvider_reads]
    yields_bind_mono [OF deleteOwnedChildren_gone] yields_bind_mono [OF deleteDNSEndpoint_gone]
  show ?thesis
    unfolding finalize_def
    by (auto simp: True Let_def list_all_iff simp del: deleteOwnedChildren.simps
        intro!: steps yields_ret finalized_stop finish split: sum.split option.split)
qed (simp add: finalize_def yields_ret)

text \<open>C5: Deletion is ordered. The update that removes the finalizer is the last call of
  \<open>finalize\<close>, and it is only made after the Deployment, the Secret and the
  DNSEndpoint were each found missing or were deleted as the binding's own (or DNSEndpoints are
  not installed), and, unless the tunnel is retained or none is recorded, after Cloudflare
  confirmed the deletion of the recorded tunnel, asked through a client for the account of a
  provider of the binding's class. When anything before fails, an error is returned and the
  finalizer stays. A retained tunnel is never deleted, and without the finalizer nothing is
  called at all.\<close>

theorem finalize_order:
  "yields (finalize L w r b) (\<lambda>x es.
     if lib_containsFinalizer L (om_finalizers (b_meta b)) bindingFinalizer
     then finalized L r b (snd x) es
     else es = [] \<and> x = (0, None))"
  by (rule finalize_ordered)

end
