(* ===== verification/BindingSafety.thy ===== *)
theory BindingSafety
  imports BindingStatus
begin

text \<open>
  What a run of the binding controller may change. Whatever the world answers, it overwrites or
  deletes only connector Secrets, Deployments and DNSEndpoints that carry the owner label of a
  binding the API server returned under the request's name (or, for overwriting, that are new
  and unlabelled), what it writes carries that label, and the only objects of the API it changes
  are such bindings. The rules are stated for a set \<open>U\<close> of identities, pairs of a UID
  and a controller class, and the rely that every status patch of such an object answers with an object whose
  identity is in \<open>U\<close>; the property then takes for \<open>U\<close> what was seen in the history.
\<close>

section \<open>Ownership of children\<close>

type_synonym identity = "string \<times> string"

definition bindingID :: "cloudflareTunnelBinding \<Rightarrow> identity" where
  "bindingID b = (b_uid b, bs_controller (b_spec b))"

definition ownedBy :: "identity set \<Rightarrow> objectMeta \<Rightarrow> bool" where
  "ownedBy U child \<longleftrightarrow> labelValue (om_labels child) ownerUIDLabel \<in> fst ` U"

definition manageable :: "identity set \<Rightarrow> objectMeta \<Rightarrow> bool" where
  "manageable U child \<longleftrightarrow> ownedBy U child
     \<or> (om_uid child = '''' \<and> labelValue (om_labels child) ownerUIDLabel = '''')"

fun childSafe :: "identity set \<Rightarrow> event \<Rightarrow> bool" where
  "childSafe U (StoreSecret current new e) =
     (manageable U (sec_meta current) \<and> ownedBy U (sec_meta new))"
| "childSafe U (StoreDeployment current new e) =
     (manageable U (dep_meta current) \<and> ownedBy U (dep_meta new))"
| "childSafe U (StoreDNSEndpoint current new e) = manageable U (de_meta current)"
| "childSafe U (DeleteChild kind child e) = ownedBy U child"
| "childSafe U (UpdateBinding b e) = (bindingID b \<in> U)"
| "childSafe U (PatchBindingStatus b b' x) =
     (bindingID b \<in> U \<and> b_meta b' = b_meta b \<and> b_spec b' = b_spec b)"
| "childSafe U (UpdateProvider p e) = False"
| "childSafe U (PatchProviderStatus p p' x) = False"
| "childSafe U (UpdatePrivateRoute r e) = False"
| "childSafe U (PatchPrivateRouteStatus r r' x) = False"
| "childSafe U (CfCreatePrivateRoute n t c x) = False"
| "childSafe U (CfDeletePrivateRoute i e) = False"
| "childSafe U e = True"

fun seen :: "event \<Rightarrow> identity set" where
  "seen (GetBinding key (Inr b)) = {bindingID b}"
| "seen (PatchBindingStatus b0 b1 (Inr b)) = {bindingID b}"
| "seen e = {}"

definition idsSeen :: "history \<Rightarrow> identity set" where
  "idsSeen es = (\<Union>e \<in> set es. seen e)"

fun patchedIn :: "identity set \<Rightarrow> event \<Rightarrow> bool" where
  \<comment> \<open>The rely: a status patch of an object of \<open>U\<close> answers with one of \<open>U\<close>.\<close>
  "patchedIn U (PatchBindingStatus b0 b1 (Inr b)) = (bindingID b0 \<in> U \<longrightarrow> bindingID b \<in> U)"
| "patchedIn U e = True"

lemma list_all_patchedIn: "idsSeen es \<subseteq> U \<Longrightarrow> list_all (patchedIn U) es"
proof -
  have "seen e \<subseteq> U \<Longrightarrow> patchedIn U e" for e
    by (cases "(U, e)" rule: patchedIn.cases) auto
  then show "idsSeen es \<subseteq> U \<Longrightarrow> list_all (patchedIn U) es"
    by (fastforce simp: list_all_iff idsSeen_def)
qed

lemma managedLabels_owner [simp]: "labelValue (managedLabels b) ownerUIDLabel = b_uid b"
  by (simp add: managedLabels_def labelValue_def)

lemma uid_known: "bindingID b \<in> U \<Longrightarrow> b_uid b \<in> fst ` U"
  by (metis bindingID_def fst_conv imageI)

lemma ownedBy_managed [simp]:
  "bindingID b \<in> U \<Longrightarrow> ownedBy U (m\<lparr>om_labels := managedLabels b\<rparr>)"
  by (simp add: ownedBy_def uid_known)

lemma ownedBy_label:
  "bindingID b \<in> U \<Longrightarrow> labelValue (om_labels child) ownerUIDLabel = b_uid b \<Longrightarrow> ownedBy U child"
  by (simp add: ownedBy_def uid_known)

lemma verify_manageable:
  "verifyChildOwnership b c = None \<Longrightarrow> bindingID b \<in> U \<Longrightarrow> manageable U c"
  using ownedBy_label [of b U c]
  by (auto simp: verifyChildOwnership_def manageable_def Let_def split: if_splits)

lemma bindingID_cong: "b_meta b' = b_meta b \<Longrightarrow> b_spec b' = b_spec b \<Longrightarrow> bindingID b' = bindingID b"
  by (simp add: bindingID_def)

lemma bindingID_update [simp]:
  "bindingID (b\<lparr>b_status := s\<rparr>) = bindingID b"
  "bindingID (b\<lparr>b_meta := (b_meta b)\<lparr>om_finalizers := fs\<rparr>\<rparr>) = bindingID b"
  by (simp_all add: bindingID_def)

section \<open>One rule per function\<close>

text \<open>\<open>safe U R m\<close> is the judgement of this theory.\<close>

abbreviation safe :: "identity set \<Rightarrow> ('a \<Rightarrow> bool) \<Rightarrow> 'a io \<Rightarrow> bool" where
  "safe U \<equiv> emits (patchedIn U) (childSafe U)"

lemma createOrPatchSecret_safe:
  assumes "\<And>c n. mutate c = Inr n \<Longrightarrow> manageable U (sec_meta c) \<and> ownedBy U (sec_meta n)"
    and "\<And>r. R r"
  shows "safe U R (createOrPatchSecret w key mutate)"
  by (rule yields_emits [OF createOrPatchSecret_yields [where P = "\<lambda>_. list_all (childSafe U)"]])
     (simp_all add: assms)

lemma createOrPatchDeployment_safe:
  assumes "\<And>c n. mutate c = Inr n \<Longrightarrow> manageable U (dep_meta c) \<and> ownedBy U (dep_meta n)"
    and "\<And>r. R r"
  shows "safe U R (createOrPatchDeployment w key mutate)"
  by (rule yields_emits [OF createOrPatchDeployment_yields [where P = "\<lambda>_. list_all (childSafe U)"]])
     (simp_all add: assms)

lemma createOrPatchDNSEndpoint_safe:
  assumes "\<And>c n. mutate c = Inr n \<Longrightarrow> manageable U (de_meta c)"
    and "\<And>r. R r"
  shows "safe U R (createOrPatchDNSEndpoint w key mutate)"
  by (rule yields_emits [OF createOrPatchDNSEndpoint_yields [where P = "\<lambda>_. list_all (childSafe U)"]])
     (simp_all add: assms)

lemma reconcileConnectorSecret_safe [emits_rules]:
  "bindingID b \<in> U \<Longrightarrow> (\<And>x. R x) \<Longrightarrow> safe U R (reconcileConnectorSecret w r b n token)"
  unfolding reconcileConnectorSecret_def
  by (rule createOrPatchSecret_safe)
     (auto simp: mutateConnectorSecret_def verify_manageable split: option.splits)

lemma reconcileConnectorDeployment_safe [emits_rules]:
  "bindingID b \<in> U \<Longrightarrow> (\<And>x. R x) \<Longrightarrow> safe U R (reconcileConnectorDeployment L w r b n)"
  unfolding reconcileConnectorDeployment_def
  by (rule createOrPatchDeployment_safe)
     (auto simp: mutateConnectorDeployment_def Let_def verify_manageable split: option.splits)

lemma patchBinding_safe [emits_rules]:
  "bindingID b0 \<in> U \<Longrightarrow> b_meta b = b_meta b0 \<Longrightarrow> b_spec b = b_spec b0 \<Longrightarrow>
     (\<And>c e. bindingID c \<in> U \<Longrightarrow> R (c, e)) \<Longrightarrow> safe U R (patchBinding w b0 b)"
  unfolding patchBinding_def k8s_call_defs
  using bindingID_cong [of b b0]
  by (auto intro!: emits_rules extends_rules split: sum.split)

lemma deleteDNSEndpoint_safe [emits_rules]:
  "bindingID b \<in> U \<Longrightarrow> (\<And>x. R x) \<Longrightarrow> safe U R (deleteDNSEndpoint w r b n)"
  unfolding deleteDNSEndpoint_def k8s_call_defs
  by (auto intro!: emits_rules extends_rules simp: ownedBy_label split: sum.split option.split)

lemma reconcileDNSEndpoint_safe [emits_rules]:
  "bindingID b \<in> U \<Longrightarrow> (\<And>x. R x) \<Longrightarrow> safe U R (reconcileDNSEndpoint L w r b n hs t enabled)"
  unfolding reconcileDNSEndpoint_def k8s_call_defs
  by (auto intro!: emits_rules extends_rules createOrPatchDNSEndpoint_safe
      simp: mutateDNSEndpoint_def verify_manageable split: sum.splits option.splits)

lemma setReadyStatus_safe [emits_rules]:
  "bindingID b \<in> U \<Longrightarrow> (\<And>x. R x) \<Longrightarrow> safe U R (setReadyStatus L w b tun cname n hs c d a)"
  unfolding setReadyStatus_def
  by (auto intro!: emits_rules extends_rules)

lemma reportOperationalFailure_safe [emits_rules]:
  "bindingID b \<in> U \<Longrightarrow> (\<And>x. R x) \<Longrightarrow> safe U R (reportOperationalFailure L w b c reason message cause)"
  unfolding reportOperationalFailure_def
  by (auto intro!: emits_rules extends_rules)

lemma fail_safe [emits_rules]:
  assumes "bindingID b \<in> U" "\<And>x. R x"
  shows "safe U R (failTunnel L w b cause)" "safe U R (failConnector L w b cause)"
    "safe U R (failDNS L w b cause)"
  unfolding failTunnel_def failConnector_def failDNS_def
  by (auto intro!: emits_rules extends_rules assms)

lemma rejected_safe [emits_rules]:
  "bindingID b \<in> U \<Longrightarrow> (\<And>c x e. bindingID c \<in> U \<Longrightarrow> R (c, Reject x e)) \<Longrightarrow>
     safe U R (rejected L w b reason message cause)"
  unfolding rejected_def
  by (auto intro!: emits_rules extends_rules)

subsection \<open>Validation\<close>

lemma hostnameWinnerLoop_safe [emits_rules]:
  "(\<And>x. R x) \<Longrightarrow> safe U R (hostnameWinnerLoop L w b hs others)"
  by (induction others)
     (auto intro!: emits_rules extends_rules split: option.split sum.split
       simp: otherBindingHostnames_def acceptedRouteHostnames_def k8s_call_defs)

lemma validateClusterProvider_safe [emits_rules]:
  "bindingID b \<in> U \<Longrightarrow> (\<And>c x. bindingID c \<in> U \<Longrightarrow> R (c, x)) \<Longrightarrow>
     safe U R (validateClusterProvider L w r b)"
  unfolding validateClusterProvider_def gatewayWinner_def k8s_call_defs
  by (auto intro!: emits_rules extends_rules simp: Let_def split: sum.split option.split)

lemma validateService_safe [emits_rules]:
  "bindingID b \<in> U \<Longrightarrow> (\<And>c x. bindingID c \<in> U \<Longrightarrow> R (c, x)) \<Longrightarrow>
     safe U R (validateService L w b n)"
  unfolding validateService_def k8s_call_defs
  by (auto intro!: emits_rules extends_rules simp: Let_def split: sum.split option.split)

lemma validateOriginService_safe [emits_rules]:
  "bindingID b \<in> U \<Longrightarrow> (\<And>c x. bindingID c \<in> U \<Longrightarrow> R (c, x)) \<Longrightarrow>
     safe U R (validateOriginService L w b)"
  unfolding validateOriginService_def originReferencePermitted_def k8s_call_defs
  by (auto intro!: emits_rules extends_rules simp: Let_def split: sum.split option.split)

lemma validateAndPlan_safe [emits_rules]:
  "bindingID b \<in> U \<Longrightarrow> (\<And>c x. bindingID c \<in> U \<Longrightarrow> R (c, x)) \<Longrightarrow>
     safe U R (validateAndPlan L w r b)"
  unfolding validateAndPlan_def planHostnames_def acceptedRouteHostnames_def hostnameWinner_def k8s_call_defs
  by (auto intro!: emits_rules extends_rules simp: Let_def
      split: sum.split option.split outcome.split prod.split)

subsection \<open>Action\<close>

lemma newClient_safe [emits_rules]: "(\<And>x. R x) \<Longrightarrow> safe U R (newClient w f t a)"
  by (simp add: newClient_def emits_call)

lemma readAPIToken_safe [emits_rules]: "(\<And>x. R x) \<Longrightarrow> safe U R (readAPIToken w r p)"
  unfolding readAPIToken_def k8s_call_defs
  by (auto intro!: emits_rules extends_rules)

lemma ensureTunnel_safe [emits_rules]:
  "bindingID b \<in> U \<Longrightarrow> (\<And>c x. bindingID c \<in> U \<Longrightarrow> R (c, x)) \<Longrightarrow> safe U R (ensureTunnel w api b n)"
  unfolding ensureTunnel_def findOrCreateTunnel_def persistTunnel_def cf_call_defs
  by (auto intro!: emits_rules extends_rules split: sum.split option.split)

lemma finishReconcile_safe [emits_rules]:
  "bindingID b \<in> U \<Longrightarrow> (\<And>x. R x) \<Longrightarrow> safe U R (finishReconcile L w r b tun hs token)"
  unfolding finishReconcile_def
  by (auto intro!: emits_rules extends_rules simp: Let_def split: sum.split option.split)

lemma programIngress_safe [emits_rules]:
  "bindingID b \<in> U \<Longrightarrow> (\<And>x. R x) \<Longrightarrow> safe U R (programIngress L w r api b tun hs origin)"
  unfolding programIngress_def issueToken_def cf_call_defs
  by (auto intro!: emits_rules extends_rules simp: Let_def split: sum.split option.split)

lemma reconcileTunnel_safe [emits_rules]:
  "bindingID b \<in> U \<Longrightarrow> (\<And>x. R x) \<Longrightarrow> safe U R (reconcileTunnel L w r b p hs origin)"
  unfolding reconcileTunnel_def k8s_call_defs
  by (auto intro!: emits_rules extends_rules simp: Let_def split: sum.split option.split)

lemma deprogramTunnel_safe [emits_rules]:
  "bindingID b \<in> U \<Longrightarrow> (\<And>x. R x) \<Longrightarrow> safe U R (deprogramTunnel w r b)"
  unfolding deprogramTunnel_def withdrawDNS_def k8s_call_defs cf_call_defs
  by (auto intro!: emits_rules extends_rules simp: Let_def split: sum.split option.split)

lemma reconcileLive_safe [emits_rules]:
  "bindingID b \<in> U \<Longrightarrow> (\<And>x. R x) \<Longrightarrow> safe U R (reconcileLive L w r b)"
  unfolding reconcileLive_def handleRejection_def handleFailure_def addBindingFinalizer_def k8s_call_defs
  by (auto intro!: emits_rules extends_rules split: option.split outcome.split)

subsection \<open>Finalization\<close>

lemma deleteOwnedChildren_safe [emits_rules]:
  "bindingID b \<in> U \<Longrightarrow> (\<And>x. R x) \<Longrightarrow> safe U R (deleteOwnedChildren w b key kinds)"
  by (induction kinds)
     (auto intro!: emits_rules extends_rules split: option.split sum.split
       simp: deleteOwnedChild_def k8s_call_defs ownedBy_label)

lemma eventB_safe [emits_rules]: "(\<And>x. R x) \<Longrightarrow> safe U R (eventB r t n m)"
  unfolding eventB_def k8s_call_defs by (auto intro!: emits_rules)

lemma removeBindingFinalizer_safe [emits_rules]:
  "bindingID b \<in> U \<Longrightarrow> (\<And>x. R x) \<Longrightarrow> safe U R (removeBindingFinalizer L w r b)"
  unfolding removeBindingFinalizer_def k8s_call_defs
  by (auto intro!: emits_rules extends_rules split: option.split)

lemma finalize_safe [emits_rules]:
  "bindingID b \<in> U \<Longrightarrow> (\<And>x. R x) \<Longrightarrow> safe U R (finalize L w r b)"
  unfolding finalize_def finalizeProvider_def finalizeTunnel_def k8s_call_defs cf_call_defs
  by (auto intro!: emits_rules extends_rules simp: Let_def
      simp del: deleteOwnedChildren.simps split: sum.split option.split)

fun bindingRun :: "bindingReconciler \<Rightarrow> namespacedName \<Rightarrow> history \<Rightarrow> bool" where
  \<comment> \<open>Nothing is done unless the requested binding is of the class; then everything is done in
    the name of that binding, as long as status patches answer with it.\<close>
  "bindingRun r req (GetBinding key (Inl err) # rest) = (key = req \<and> rest = [])"
| "bindingRun r req (GetBinding key (Inr b) # rest) = (key = req \<and>
     (if owns r (bs_controller (b_spec b))
      then \<forall>U. bindingID b \<in> U \<longrightarrow> list_all (patchedIn U) rest \<longrightarrow> list_all (childSafe U) rest
      else rest = []))"
| "bindingRun r req es = False"

lemma Reconcile_run: "yields (Reconcile L w r req) (\<lambda>_. bindingRun r req)"
proof -
  have "yields (finalize L w r b) (\<lambda>_ rest.
      \<forall>U. bindingID b \<in> U \<longrightarrow> list_all (patchedIn U) rest \<longrightarrow> list_all (childSafe U) rest)"
    "yields (reconcileLive L w r b) (\<lambda>_ rest.
      \<forall>U. bindingID b \<in> U \<longrightarrow> list_all (patchedIn U) rest \<longrightarrow> list_all (childSafe U) rest)" for b
    by (rule emits_forall, erule finalize_safe, simp_all add: finalize_extends,
        rule emits_forall, erule reconcileLive_safe, simp_all add: reconcileLive_extends)
  note runs = this [THEN yields_mono]
  show ?thesis
    unfolding Reconcile_def k8s_getBinding_def
    by (auto intro!: yields_bind yields_call yields_ret runs split: sum.split)
qed

text \<open>C3: A run is about one binding. In any reconciliation, whatever the world answers, a Secret,
  Deployment or DNSEndpoint is only overwritten if it carries the owner label of a binding the
  API server returned in this run, or is new and unlabelled; a Secret or Deployment that is
  stored carries that label; only a child with that label is deleted; of the objects of the API
  only such a binding is updated, and only its status is patched; no provider, private route or
  CIDR route is changed.\<close>

theorem binding_children_owned:
  "yields (Reconcile L w r req) (\<lambda>_ es. list_all (childSafe (idsSeen es)) es)"
proof (rule yields_mono [OF Reconcile_run])
  fix es
  assume run: "bindingRun r req es"
  then obtain a rest where es: "es = GetBinding req a # rest"
    by (cases "(r, req, es)" rule: bindingRun.cases) auto
  have "list_all (patchedIn (idsSeen es)) rest"
    by (rule list_all_patchedIn) (auto simp: es idsSeen_def)
  moreover have "bindingID b \<in> idsSeen es" if "a = Inr b" for b
    by (simp add: es that idsSeen_def)
  ultimately show "list_all (childSafe (idsSeen es)) es"
    using run by (cases a) (auto simp: es split: if_splits)
qed

end
