(* ===== verification/BindingProps.thy ===== *)
theory BindingProps
  imports BindingTunnel BindingFinalize BindingSafety
begin

text \<open>
  The binding controller as a whole: one reconciliation of a request, and the decision of
  conflicts between bindings.
\<close>

section \<open>One reconciliation\<close>

definition reconciled ::
  "lib \<Rightarrow> bindingReconciler \<Rightarrow> namespacedName \<Rightarrow> ctrlResult \<times> goerr option \<Rightarrow> history \<Rightarrow> bool" where
  "reconciled L r req x es \<longleftrightarrow>
     (case es of
        GetBinding key g # rest \<Rightarrow>
          key = req \<and>
          (case g of
             Inl e \<Rightarrow> rest = [] \<and> x = (0, ignoreNotFound e)
           | Inr b \<Rightarrow>
               if \<not> owns r (bs_controller (b_spec b)) then rest = [] \<and> x = (0, None)
               else if timeIsZero (om_deletionTimestamp (b_meta b)) then actsAsPlanned L r b x rest
               else if lib_containsFinalizer L (om_finalizers (b_meta b)) bindingFinalizer
               then finalized L r b (snd x) rest
               else rest = [] \<and> x = (0, None))
      | _ \<Rightarrow> False)"

text \<open>C2: One reconciliation of a request, whatever the world answers. It first reads the binding; if
  there is none, or it belongs to another controller class, nothing else is called. A binding
  that is not being deleted is validated, which changes nothing but its status, and then handled
  by the outcome: an admitted one within its plan, a rejected one by withdrawing what its tunnel
  publishes, any other failure by a report. A binding that is being deleted is finalized in
  order, and not touched without the finalizer.\<close>

theorem Reconcile_reconciles:
  "yields (Reconcile L w r req) (reconciled L r req)"
proof -
  note live = yields_mono [OF reconcileLive_planned] and deleted = yields_mono [OF finalize_ordered]
  show ?thesis
    unfolding Reconcile_def k8s_call_defs
    by (auto intro!: yields_bind yields_call yields_ret live deleted simp: reconciled_def
        split: sum.split if_splits)
qed

section \<open>Conflicts\<close>

text \<open>For conflicts, several bindings are looked at in the same state of the cluster: the world
  then answers the reads concerned the same way at any time.\<close>

definition steady :: "world \<Rightarrow> bool" where
  "steady w \<longleftrightarrow> (\<forall>h. w_listBindings w h = w_listBindings w []
     \<and> w_getProvider w h = w_getProvider w [] \<and> w_listHTTPRoutes w h = w_listHTTPRoutes w [])"

lemma steadyD:
  assumes "steady w"
  shows "w_listBindings w h = w_listBindings w []" "w_getProvider w h = w_getProvider w []"
    "w_listHTTPRoutes w h = w_listHTTPRoutes w []"
  using assms unfolding steady_def by blast+

definition gatewayFree :: "world \<Rightarrow> bindingReconciler \<Rightarrow> history \<Rightarrow> cloudflareTunnelBinding \<Rightarrow> bool" where
  "gatewayFree w r h b \<longleftrightarrow> fst (run_state (gatewayWinner w r b) h) = Inr None"

definition hostnameFree ::
  "lib \<Rightarrow> world \<Rightarrow> history \<Rightarrow> string \<Rightarrow> cloudflareTunnelBinding \<Rightarrow> bool" where
  "hostnameFree L w h x b \<longleftrightarrow> fst (run_state (hostnameWinner L w b [x]) h) = Inr None"

definition publishes :: "lib \<Rightarrow> world \<Rightarrow> cloudflareTunnelBinding \<Rightarrow> string list" where
  "publishes L w b = publishedBy L b (w_getProvider w [] (bs_providerRef (b_spec b)))
     (w_listHTTPRoutes w [] (b_namespace b))"

lemma gatewayFree_iff:
  assumes "w_listBindings w h (Some (b_namespace b)) = Inr bs"
  shows "gatewayFree w r h b = (\<not> list_ex (competes r b) bs)"
proof -
  have "List.find (competes r b) bs = None \<longleftrightarrow> \<not> list_ex (competes r b) bs"
    by (auto simp: find_None_iff list_ex_iff)
  with assms show ?thesis
    by (simp add: gatewayFree_def gatewayWinner_def k8s_call_defs competes_def [abs_def])
qed

text \<open>The live bindings of the class that reference the Gateway, and the live bindings that publish
  the hostname.\<close>

definition gatewayClaimants ::
  "bindingReconciler \<Rightarrow> string \<Rightarrow> cloudflareTunnelBinding list \<Rightarrow> cloudflareTunnelBinding list" where
  "gatewayClaimants r gw = filter (\<lambda>b. bs_controller (b_spec b) = br_controllerClass r
     \<and> timeIsZero (om_deletionTimestamp (b_meta b)) \<and> gr_name (bs_gatewayRef (b_spec b)) = gw)"

definition hostnameClaimants ::
  "lib \<Rightarrow> world \<Rightarrow> string \<Rightarrow> cloudflareTunnelBinding list \<Rightarrow> cloudflareTunnelBinding list" where
  "hostnameClaimants L w x = filter (\<lambda>b. timeIsZero (om_deletionTimestamp (b_meta b)) \<and> x \<in> set (publishes L w b))"

text \<open>C8: A Gateway has exactly one owner. Among the bindings listed in a namespace, whatever Gateways
  and classes they are of and whether or not some are being deleted, exactly one of those that
  reference the Gateway, have the class and are not being deleted finds no winner before it,
  whichever state the list is read in. The others do not stand in its way.\<close>

theorem gateway_has_one_owner:
  assumes "w_listBindings w h (Some ns) = Inr bs" "list_all (\<lambda>b. b_namespace b = ns) bs"
    and "gatewayClaimants r gw bs \<noteq> []" "list_all bindingNamed (gatewayClaimants r gw bs)"
    and "inj_on (\<lambda>b. b_uid b) (set (gatewayClaimants r gw bs))"
  shows "\<exists>!b. b \<in> set (gatewayClaimants r gw bs) \<and> gatewayFree w r h b"
proof -
  let ?claimants = "set (gatewayClaimants r gw bs)"
  have "gatewayFree w r h b = (\<not> binding_order.beaten ?claimants b)" if "b \<in> ?claimants" for b
    using assms(1,2) that gatewayFree_iff [of w h b bs r]
    by (auto simp: competes_def binding_order.beaten_def list_ex_iff list_all_iff gatewayClaimants_def)
  moreover have "\<exists>!b. b \<in> ?claimants \<and> \<not> binding_order.beaten ?claimants b"
    using assms(3-5) by (intro binding_order.one_winner) (auto simp: list_all_iff)
  ultimately show ?thesis by metis
qed

lemma otherBindingHostnames_steady:
  assumes "steady w"
  shows "fst (run_state (otherBindingHostnames L w other) h) = publishes L w other"
  using steadyD [OF assms, of h] steadyD [OF assms, of "h @ [e]" for e]
  by (auto simp: otherBindingHostnames_eq k8s_call_defs publishes_def publishedBy_cases)

lemma hostnameWinnerLoop_steady:
  assumes "steady w"
  shows "fst (run_state (hostnameWinnerLoop L w b [x] others) h) = None \<longleftrightarrow>
     list_all (\<lambda>other. contender b other \<longrightarrow> x \<notin> set (publishes L w other)) others"
proof (induction others arbitrary: h)
  case (Cons other others)
  show ?case
    using otherBindingHostnames_steady [OF assms, of L other h] Cons.IH
    by (auto simp: contender_def split: prod.split)
qed simp

text \<open>C9: A hostname has exactly one owner across all namespaces. In a given state of the cluster, of
  all listed bindings that publish the hostname and are not being deleted, exactly one finds it
  free, also when a binding that is being deleted still publishes it.\<close>

theorem hostname_has_one_owner:
  assumes "steady w" "w_listBindings w [] None = Inr bs"
    and "hostnameClaimants L w x bs \<noteq> []" "list_all bindingNamed (hostnameClaimants L w x bs)"
    and "inj_on (\<lambda>b. b_uid b) (set (hostnameClaimants L w x bs))"
  shows "\<exists>!b. b \<in> set (hostnameClaimants L w x bs) \<and> hostnameFree L w h x b"
proof -
  let ?claimants = "set (hostnameClaimants L w x bs)"
  have "hostnameFree L w h x b = (\<not> binding_order.beaten ?claimants b)" for b
  proof -
    have "hostnameFree L w h x b =
        list_all (\<lambda>other. contender b other \<longrightarrow> x \<notin> set (publishes L w other)) bs"
      using steadyD(1) [OF assms(1), of h] assms(2)
        hostnameWinnerLoop_steady [OF assms(1), of L b x bs "h @ [ListBindings None (Inr bs)]"]
      by (cases "run_state (hostnameWinnerLoop L w b [x] bs) (h @ [ListBindings None (Inr bs)])")
         (simp add: hostnameFree_def hostnameWinner_def k8s_call_defs)
    then show ?thesis
      by (auto simp: binding_order.beaten_def contender_def list_all_iff hostnameClaimants_def)
  qed
  moreover have "\<exists>!b. b \<in> ?claimants \<and> \<not> binding_order.beaten ?claimants b"
    using assms(3-5) by (intro binding_order.one_winner) (auto simp: list_all_iff)
  ultimately show ?thesis by simp
qed

text \<open>Two demo bindings use the same Gateway and would publish the same hostname. Listed with them
  are an older one that is being deleted, and one of another class, which takes part in the conflict
  about the hostname but not in the one about the Gateway.\<close>

definition deletedBinding :: cloudflareTunnelBinding where
  "deletedBinding = demoBinding\<lparr>b_meta := (b_meta demoBinding)\<lparr>om_uid := ''uid-0'', om_name := ''old'',
     om_creationTimestamp := 1, om_deletionTimestamp := Some 9\<rparr>\<rparr>"

definition foreignBinding :: cloudflareTunnelBinding where
  "foreignBinding = demoBinding\<lparr>b_meta := (b_meta demoBinding)\<lparr>om_uid := ''uid-f'', om_name := ''foreign'',
       om_creationTimestamp := 1\<rparr>,
     b_spec := (b_spec demoBinding)\<lparr>bs_controller := ''other/class'', bs_providerRef := ''none''\<rparr>\<rparr>"

abbreviation crowd :: "cloudflareTunnelBinding list" where
  "crowd \<equiv> [deletedBinding, foreignBinding, demoBinding, laterBinding]"

definition crowdWorld :: world where
  "crowdWorld = demoWorld\<lparr>w_listBindings := \<lambda>_ _. Inr crowd\<rparr>"

lemma crowd_named:
  "list_all bindingNamed [foreignBinding, demoBinding, laterBinding]"
  "inj_on (\<lambda>b. b_uid b) (set [foreignBinding, demoBinding, laterBinding])"
  by (code_simp, simp add: foreignBinding_def demoBinding_def laterBinding_def demoMeta_def)

lemma gateway_has_one_owner_witness:
  "\<exists>!b. b \<in> set [demoBinding, laterBinding] \<and> gatewayFree crowdWorld demoReconciler [] b"
proof -
  have claimants: "gatewayClaimants demoReconciler ''gw'' crowd = [demoBinding, laterBinding]"
    by (simp add: gatewayClaimants_def demoReconciler_def deletedBinding_def foreignBinding_def laterBinding_def
        demoBinding_def demoMeta_def timeIsZero_def)
  have "list_all (\<lambda>b. b_namespace b = ''apps'') crowd" by code_simp
  with gateway_has_one_owner [of crowdWorld "[]" "''apps''" crowd demoReconciler "''gw''"] crowd_named
  show ?thesis unfolding claimants by (simp add: crowdWorld_def)
qed

lemma hostname_has_one_owner_witness:
  "deletedBinding \<in> set crowd \<and> ''a.example.org'' \<in> set (publishes refLib crowdWorld deletedBinding)
   \<and> (\<exists>!b. b \<in> set [foreignBinding, demoBinding, laterBinding] \<and> hostnameFree refLib crowdWorld [] ''a.example.org'' b)"
proof -
  have "''a.example.org'' \<in> set (publishes refLib crowdWorld demoBinding)"
    "''a.example.org'' \<in> set (publishes refLib crowdWorld laterBinding)"
    "''a.example.org'' \<in> set (publishes refLib crowdWorld foreignBinding)"
    "\<not> timeIsZero (om_deletionTimestamp (b_meta deletedBinding))"
    "list_all (\<lambda>b. timeIsZero (om_deletionTimestamp (b_meta b))) [foreignBinding, demoBinding, laterBinding]"
    by code_simp+
  then have claimants: "hostnameClaimants refLib crowdWorld ''a.example.org'' crowd =
      [foreignBinding, demoBinding, laterBinding]"
    by (simp add: hostnameClaimants_def)
  have "''a.example.org'' \<in> set (publishes refLib crowdWorld deletedBinding)" by code_simp
  moreover have "steady crowdWorld" by (simp add: steady_def crowdWorld_def demoWorld_def)
  ultimately show ?thesis
    using hostname_has_one_owner [of crowdWorld crowd refLib "''a.example.org''" "[]"] crowd_named
    unfolding claimants by (simp add: crowdWorld_def)
qed

end
