(* ===== verification/SDKProps.thy ===== *)
theory SDKProps
  imports BindingTunnel Demo
begin

text \<open>
  The SDK client under the controllers: which API answers count as rejected credentials, as
  missing objects and as matching routes, and that a configuration survives the way through
  the SDK's parameters and back, so that a reconciled tunnel is not written again.
\<close>

section \<open>Errors\<close>

text \<open>C23: Which answers reject credentials. The SDK client accepts them exactly if a page of tunnels
  could be listed, and its error counts as a rejection exactly if the API answered 401 or 403.\<close>

theorem Validate_rejection:
  "case sdkValidate S accountID h of
     None \<Rightarrow> (\<exists>page. sdk_TunnelsList S h accountID None 1 False = Inr page)
   | Some err \<Rightarrow> IsCredentialRejected err =
       (\<exists>statusCode m. sdk_TunnelsList S h accountID None 1 False = Inl (APIError statusCode m)
          \<and> statusCode \<in> {401, 403})"
  by (auto simp: sdkValidate_def Let_def isCredentialRejection_def IsCredentialRejected_def
      errorsJoin_def split: sum.splits sdkError.splits option.splits)

fun usableToken :: "event \<Rightarrow> bool" where
  \<comment> \<open>A Secret that is stored holds a token that is not empty.\<close>
  "usableToken (StoreSecret current new e) =
     (case sec_data new ''token'' of None \<Rightarrow> False | Some token \<Rightarrow> token \<noteq> '''')"
| "usableToken e = True"

lemma finishReconcile_usable:
  assumes "token \<noteq> ''''"
  shows "does usableToken (\<lambda>_. True) (finishReconcile L w r b tun hs token)"
proof -
  have connector: "does usableToken (\<lambda>_. True) (reconcileConnectorSecret w r b n token)"
    "does usableToken (\<lambda>_. True) (reconcileConnectorDeployment L w r b n)" for n
    unfolding reconcileConnectorSecret_def reconcileConnectorDeployment_def
    using assms by (auto intro!: createOrPatch_does simp: mutateConnectorSecret_def split: option.splits)
  have dns: "does usableToken (\<lambda>_. True) (reconcileDNSEndpoint L w r b n hs t enabled)" for n t enabled
    unfolding reconcileDNSEndpoint_def deleteDNSEndpoint_def k8s_call_defs
    by (auto intro!: emits_rules extends_rules createOrPatch_does split: option.splits sum.splits)
  note parts = connector dns
  show ?thesis
    unfolding finishReconcile_def setReadyStatus_def failConnector_def failDNS_def reportOperationalFailure_def
    by (auto intro!: emits_rules extends_rules emits_mono [OF parts(1)] emits_mono [OF parts(2)]
        emits_mono [OF parts(3)] simp: Let_def split: sum.split option.split)
qed

context cloudflare_client
begin

lemma issueToken_usable: "yields (issueToken L w r api b tun hs) (\<lambda>_. list_all usableToken)"
  unfolding issueToken_def cfGetToken_def
proof (rule yields_bind, rule yields_call_known)
  fix h
  have fail: "yields (failConnector L w b err) (\<lambda>_. list_all usableToken)" for err
    unfolding failConnector_def reportOperationalFailure_def patchBinding_def k8s_call_defs
    by (auto intro!: yields_rules split: sum.split)
  have finish: "yields (finishReconcile L w r b tun hs token) (\<lambda>_. list_all usableToken)"
    if "cl_GetToken api h (tn_id tun) = Inr token" for token
    using emits_yields [OF finishReconcile_usable [OF token_nonempty [OF that]]]
    by (rule yields_mono) (simp add: list_all_iff)
  show "yields (case cl_GetToken api h (tn_id tun) of
        Inl err \<Rightarrow> failConnector L w b (Wrap ''retrieve Cloudflare Tunnel token'' err)
      | Inr token \<Rightarrow> finishReconcile L w r b tun hs token)
      (\<lambda>_ es. list_all usableToken ([CfGetToken (tn_id tun) (cl_GetToken api h (tn_id tun))] @ es))"
    by (auto intro!: fail finish split: sum.split)
qed

end

text \<open>C24: What the controllers can rely on. A tunnel is missing exactly if the API answered 404,
  never on another error; a deletion succeeds exactly if the API confirms it or answers 404, so
  deletions can be repeated; a tunnel found by name has that name, and the routes listed for a
  network are of that network; and a reconciliation of a binding never stores a connector Secret
  without a token.\<close>

theorem sdk_client_contract:
  "((sdkGetTunnel S accountID h i = Inr None) =
     (\<exists>m. sdk_TunnelsGet S h accountID i = Inl (APIError 404 m)))
   \<and> (sdkDeleteTunnel S accountID h i = None) =
     (case sdk_TunnelsDelete S h accountID i of None \<Rightarrow> True | Some e \<Rightarrow> \<exists>m. e = APIError 404 m)
   \<and> (sdkDeletePrivateRoute S accountID h i = None) =
     (case sdk_RoutesDelete S h accountID i of None \<Rightarrow> True | Some e \<Rightarrow> \<exists>m. e = APIError 404 m)
   \<and> (case cl_FindTunnelByName (sdkClient S accountID) h n of Inr (Some t) \<Rightarrow> tn_name t = n | _ \<Rightarrow> True)
   \<and> list_all (\<lambda>r. pr_network r = n) (fst (cl_ListPrivateRoutes (sdkClient S accountID) h n))
   \<and> yields (issueToken L w r (sdkClient S accountID) b tun hs) (\<lambda>_. list_all usableToken)"
proof (intro conjI sdk.found_asked sdk.listed_asked sdk.issueToken_usable)
qed (auto simp: sdkGetTunnel_def sdkDeleteTunnel_def sdkDeletePrivateRoute_def isNotFound_def Let_def
      split: sum.splits option.splits sdkError.splits)

section \<open>The configuration\<close>

text \<open>The API keeps the rules of an update as they were sent, and answers them with the fields that
  were not set empty. This is the documented behaviour of the service, not code of the repository;
  it only stands in the hypotheses of the two properties below.\<close>

definition storedIngress :: "sdkIngressParam \<Rightarrow> sdkIngress" where
  "storedIngress p =
     \<lparr>si_Hostname = (case sip_Hostname p of None \<Rightarrow> '''' | Some x \<Rightarrow> x),
      si_Service = sip_Service p,
      si_Path = (case sip_Path p of None \<Rightarrow> '''' | Some x \<Rightarrow> x)\<rparr>"

lemma stored_roundtrip: "fromSdkIngress (storedIngress (toSdkIngress rule)) = rule"
  by (simp add: fromSdkIngress_def storedIngress_def toSdkIngress_def)

text \<open>C25: A configuration survives the way to Cloudflare and back. For every list of rules there is a
  list of parameters such that, with any API and in any state, updating a tunnel's configuration
  with the rules is one update request with these parameters, whose error is the result; and
  whenever the API answers the configuration request of a tunnel with these parameters as it
  stores them, the client reads exactly the rules: none is lost, added, reordered or changed.\<close>

theorem configuration_roundtrip:
  "\<exists>params.
     (\<forall>S a h i. cl_UpdateConfiguration (sdkClient S a) h i rules
        = map_option SDK (sdk_ConfigurationsUpdate S h a i params))
     \<and> (\<forall>S a h i. sdk_ConfigurationsGet S h a i = Inr (map storedIngress params)
          \<longrightarrow> cl_GetConfiguration (sdkClient S a) h i = Inr rules)"
  by (rule exI [of _ "map toSdkIngress rules"])
    (simp add: sdkClient_def sdkUpdateConfiguration_def sdkGetConfiguration_def comp_def stored_roundtrip)

text \<open>C26: Reconciliation converges. Once the API holds the configuration of the planned hostnames,
  the tunnel's configuration is not written again, whatever else the world answers.\<close>

theorem converged_configuration_is_kept:
  assumes "\<forall>h. sdk_ConfigurationsGet S h accountID (tn_id tun)
     = Inr (map (storedIngress \<circ> toSdkIngress) (IngressRules hs origin))"
  shows "yields (programIngress L w r (sdkClient S accountID) b tun hs origin) (\<lambda>_. noUpdate)"
proof -
  have quiet: "yields (issueToken L w r api b tun hs) (\<lambda>_. noUpdate)" for api
    by (auto intro!: yields_mono [OF keepsConfig_yields [where R = "\<lambda>_. True"]] emits_rules)
  have "cl_GetConfiguration (sdkClient S accountID) h (tn_id tun) = Inr (IngressRules hs origin)" for h
    using assms by (simp add: sdkClient_def sdkGetConfiguration_def comp_def stored_roundtrip)
  then show ?thesis
    unfolding programIngress_def cfGetConfiguration_def Let_def
    by (auto intro!: yields_bind yields_call_known yields_mono [OF quiet])
qed

text \<open>An API that accepts one configuration and answers with it.\<close>

definition demoRules :: "ingressRule list" where
  "demoRules = IngressRules [''a.example.org''] ''http://traefik''"

definition demoSdk :: sdkApi where
  "demoSdk = \<lparr>
     sdk_TunnelsList = (\<lambda>h a n k d. Inr []),
     sdk_TunnelsGet = (\<lambda>h a i. Inl (APIError 404 '''')),
     sdk_TunnelsNew = (\<lambda>h a n c. Inl (TransportError '''')),
     sdk_TunnelsDelete = (\<lambda>h a i. None),
     sdk_ConfigurationsGet = (\<lambda>h a i. Inr (map (storedIngress \<circ> toSdkIngress) demoRules)),
     sdk_ConfigurationsUpdate = (\<lambda>h a i ps. if ps = map toSdkIngress demoRules then None
       else Some (TransportError '''')),
     sdk_TokenGet = (\<lambda>h a i. Inr (Some ''t'')),
     sdk_RoutesListAutoPaging = (\<lambda>h a n d. ([], None)),
     sdk_RoutesGet = (\<lambda>h a i. Inl (APIError 404 '''')),
     sdk_RoutesNew = (\<lambda>h a n t c. Inl (TransportError '''')),
     sdk_RoutesDelete = (\<lambda>h a i. None)\<rparr>"

lemma configuration_roundtrip_witness:
  "cl_UpdateConfiguration (sdkClient demoSdk ''acct'') [] ''tid'' demoRules = None
   \<and> cl_GetConfiguration (sdkClient demoSdk ''acct'') [] ''tid'' = Inr demoRules"
proof -
  obtain params where sent: "cl_UpdateConfiguration (sdkClient demoSdk ''acct'') [] ''tid'' demoRules
        = map_option SDK (sdk_ConfigurationsUpdate demoSdk [] ''acct'' ''tid'' params)"
    and read: "sdk_ConfigurationsGet demoSdk [] ''acct'' ''tid'' = Inr (map storedIngress params)
        \<longrightarrow> cl_GetConfiguration (sdkClient demoSdk ''acct'') [] ''tid'' = Inr demoRules"
    using configuration_roundtrip [of demoRules] by blast
  have accepted: "cl_UpdateConfiguration (sdkClient demoSdk ''acct'') [] ''tid'' demoRules = None"
    by (simp add: sdkClient_def sdkUpdateConfiguration_def demoSdk_def)
  with sent have "params = map toSdkIngress demoRules"
    by (simp add: demoSdk_def split: if_splits)
  with read accepted show ?thesis by (simp add: demoSdk_def)
qed

lemma converged_configuration_is_kept_witness:
  "yields (programIngress refLib demoWorld demoReconciler (sdkClient demoSdk ''acct'') demoBinding demoTunnel
     [''a.example.org''] ''http://traefik'') (\<lambda>_. noUpdate)"
  by (rule converged_configuration_is_kept) (simp add: demoSdk_def demoRules_def)

end
