(* ===== verification/SHA256.thy ===== *)
theory SHA256
  imports GoStrings "HOL-Library.Word"
begin

text \<open>
  The functions of Go's \<^verbatim>\<open>crypto/sha256\<close> and \<^verbatim>\<open>encoding/hex\<close> packages that derive names
  from a cluster's UID and a controller class: FIPS 180-4 on 32-bit words, whose addition wraps.
\<close>

unbundle bit_operations_syntax

type_synonym u8 = "8 word"
type_synonym u32 = "32 word"

section \<open>Bytes and words\<close>

definition bytesOf :: "string \<Rightarrow> u8 list" where
  "bytesOf s = map (\<lambda>c. word_of_nat (code c)) s"

definition wordOf :: "u8 list \<Rightarrow> u32" where
  \<comment> \<open>Four bytes, the most significant first.\<close>
  "wordOf bs = foldl (\<lambda>w b. push_bit 8 w OR ucast b) 0 bs"

definition bytesOfWord :: "u32 \<Rightarrow> u8 list" where
  "bytesOfWord w = map (\<lambda>n. ucast (drop_bit n w)) [24, 16, 8, 0]"

fun chunks :: "nat \<Rightarrow> nat \<Rightarrow> 'a list \<Rightarrow> 'a list list" where
  \<comment> \<open>The first \<open>k\<close> groups of \<open>n\<close> elements.\<close>
  "chunks n 0 xs = []"
| "chunks n (Suc k) xs = take n xs # chunks n k (drop n xs)"

definition padded :: "u8 list \<Rightarrow> u8 list" where
  \<comment> \<open>The message, a one bit, zeros, and the length in bits in 64 bits.\<close>
  "padded bs =
     (let n = length bs;
          zeros = (119 - n mod 64) mod 64
      in bs @ [0x80] @ replicate zeros 0
         @ map (\<lambda>k. ucast (drop_bit k (push_bit 3 (word_of_nat n :: 64 word)))) [56, 48, 40, 32, 24, 16, 8, 0])"

section \<open>The compression function\<close>

definition roundConstants :: "u32 list" where
  "roundConstants =
    [0x428a2f98, 0x71374491, 0xb5c0fbcf, 0xe9b5dba5, 0x3956c25b, 0x59f111f1, 0x923f82a4, 0xab1c5ed5,
     0xd807aa98, 0x12835b01, 0x243185be, 0x550c7dc3, 0x72be5d74, 0x80deb1fe, 0x9bdc06a7, 0xc19bf174,
     0xe49b69c1, 0xefbe4786, 0x0fc19dc6, 0x240ca1cc, 0x2de92c6f, 0x4a7484aa, 0x5cb0a9dc, 0x76f988da,
     0x983e5152, 0xa831c66d, 0xb00327c8, 0xbf597fc7, 0xc6e00bf3, 0xd5a79147, 0x06ca6351, 0x14292967,
     0x27b70a85, 0x2e1b2138, 0x4d2c6dfc, 0x53380d13, 0x650a7354, 0x766a0abb, 0x81c2c92e, 0x92722c85,
     0xa2bfe8a1, 0xa81a664b, 0xc24b8b70, 0xc76c51a3, 0xd192e819, 0xd6990624, 0xf40e3585, 0x106aa070,
     0x19a4c116, 0x1e376c08, 0x2748774c, 0x34b0bcb5, 0x391c0cb3, 0x4ed8aa4a, 0x5b9cca4f, 0x682e6ff3,
     0x748f82ee, 0x78a5636f, 0x84c87814, 0x8cc70208, 0x90befffa, 0xa4506ceb, 0xbef9a3f7, 0xc67178f2]"

definition initialHash :: "u32 list" where
  "initialHash = [0x6a09e667, 0xbb67ae85, 0x3c6ef372, 0xa54ff53a, 0x510e527f, 0x9b05688c, 0x1f83d9ab, 0x5be0cd19]"

definition rotr :: "nat \<Rightarrow> u32 \<Rightarrow> u32" where
  "rotr n w = drop_bit n w OR push_bit (32 - n) w"

definition scheduleStep :: "u32 list \<Rightarrow> u32" where
  \<comment> \<open>The next word of the message schedule; the latest word comes first in the list.\<close>
  "scheduleStep ws =
     (let v1 = ws ! 1; t1 = rotr 17 v1 XOR rotr 19 v1 XOR drop_bit 10 v1;
          v2 = ws ! 14; t2 = rotr 7 v2 XOR rotr 18 v2 XOR drop_bit 3 v2
      in t1 + ws ! 6 + t2 + ws ! 15)"

fun schedule :: "nat \<Rightarrow> u32 list \<Rightarrow> u32 list" where
  "schedule 0 ws = rev ws"
| "schedule (Suc n) ws = schedule n (scheduleStep ws # ws)"

fun roundStep :: "u32 list \<Rightarrow> u32 \<times> u32 \<Rightarrow> u32 list" where
  "roundStep [a, b, c, d, e, f, g, h] (k, w) =
     (let t1 = h + (rotr 6 e XOR rotr 11 e XOR rotr 25 e) + ((e AND f) XOR (NOT e AND g)) + k + w;
          t2 = (rotr 2 a XOR rotr 13 a XOR rotr 22 a) + ((a AND b) XOR (a AND c) XOR (b AND c))
      in [t1 + t2, a, b, c, d + t1, e, f, g])"
| "roundStep state kw = state"

definition compress :: "u32 list \<Rightarrow> u8 list \<Rightarrow> u32 list" where
  "compress state block =
     (let ws = schedule 48 (rev (map wordOf (chunks 4 16 block)))
      in map2 (+) state (foldl roundStep state (zip roundConstants ws)))"

definition Sum256 :: "string \<Rightarrow> u8 list" where
  "Sum256 s =
     (let bs = padded (bytesOf s)
      in concat (map bytesOfWord (foldl compress initialHash (chunks 64 (length bs div 64) bs))))"

section \<open>Hexadecimal text\<close>

definition hexEncodeToString :: "u8 list \<Rightarrow> string" where
  "hexEncodeToString bs =
     concat (map (\<lambda>b. [hex_digit (unat (drop_bit 4 b)), hex_digit (unat (b AND 15))]) bs)"

definition is_hex :: "char \<Rightarrow> bool" where
  "is_hex c \<longleftrightarrow> is_digit c \<or> (97 \<le> code c \<and> code c \<le> 102)"

lemma hex_digit_hex: "d < 16 \<Longrightarrow> is_hex (hex_digit d)"
  by (simp add: hex_digit_def is_hex_def is_digit_def code_def of_char_of)

lemma nibbles:
  fixes b :: u8
  shows "unat (drop_bit 4 b) < 16" "unat (b AND 15) < 16"
proof -
  have "unat b < 256" using unsigned_less [of b] by simp
  then show "unat (drop_bit 4 b) < 16" by (simp add: unat_drop_bit_eq) (simp add: drop_bit_eq_div)
  have "unat (take_bit 4 b) = unat b mod 16"
    by (simp add: unsigned_take_bit_eq) (simp add: take_bit_eq_mod)
  moreover have "b AND 15 = take_bit 4 b" by (simp add: take_bit_eq_mask mask_eq_exp_minus_1)
  ultimately have "unat (b AND 15) = unat b mod 16" by (simp only:)
  then show "unat (b AND 15) < 16" by simp
qed

lemma length_hexEncode [simp]: "length (hexEncodeToString bs) = 2 * length bs"
  by (induction bs) (auto simp: hexEncodeToString_def)

lemma hexEncode_hex: "list_all is_hex (hexEncodeToString bs)"
  by (induction bs) (auto simp: hexEncodeToString_def hex_digit_hex nibbles)

section \<open>The digest has 32 bytes\<close>

lemma length_roundStep [simp]: "length (roundStep st kw) = length st"
  by (cases "(st, kw)" rule: roundStep.cases) (auto simp: Let_def)

lemma length_rounds: "length (foldl roundStep st kws) = length st"
  by (induction kws arbitrary: st) auto

lemma length_compress [simp]: "length (compress st block) = length st"
  by (simp add: compress_def Let_def length_rounds)

lemma length_digest: "length (foldl compress st blocks) = length st"
  by (induction blocks arbitrary: st) auto

lemma length_Sum256 [simp]: "length (Sum256 s) = 32"
proof -
  have "length (concat (map bytesOfWord ws)) = 4 * length ws" for ws
    by (induction ws) (auto simp: bytesOfWord_def)
  then show ?thesis by (simp add: Sum256_def Let_def length_digest initialHash_def)
qed

end
