(* ===== verification/Netip.thy ===== *)
theory Netip
  imports GoStrings "HOL-Library.Word"
begin

text \<open>
  The functions of Go's \<^verbatim>\<open>net/netip\<close> package that the private route controller calls on a
  Service's cluster IP. The controller goes on only for IPv4 addresses, so \<open>ParseAddr4\<close> gives
  an address exactly where \<^verbatim>\<open>ParseAddr\<close> succeeds and \<^verbatim>\<open>Is4\<close> holds: an address with
  a colon is IPv6 or an error, and \<^verbatim>\<open>parseIPv4Fields\<close> rejects it as well.
\<close>

type_synonym addr4 = "8 word list" \<comment> \<open>four bytes\<close>

fun parseIPv4Fields :: "nat \<Rightarrow> nat \<Rightarrow> addr4 \<Rightarrow> string \<Rightarrow> addr4 option" where
  \<comment> \<open>The value and number of digits of the present octet, the octets before it, and the rest.\<close>
  "parseIPv4Fields val digLen fields [] =
     (if length fields < 3 then None else Some (fields @ [word_of_nat val]))"
| "parseIPv4Fields val digLen fields (c # s) =
     (if is_digit c then
        if digLen = 1 \<and> val = 0 then None
        else if val * 10 + (code c - 48) > 255 then None
        else parseIPv4Fields (val * 10 + (code c - 48)) (digLen + 1) fields s
      else if c = CHR ''.'' then
        if digLen = 0 \<or> s = [] then None
        else if length fields = 3 then None
        else parseIPv4Fields 0 0 (fields @ [word_of_nat val]) s
      else None)"

definition ParseAddr4 :: "string \<Rightarrow> addr4 option" where
  "ParseAddr4 s = parseIPv4Fields 0 0 [] s"

definition IsUnspecified :: "addr4 \<Rightarrow> bool" where
  "IsUnspecified ip \<longleftrightarrow> ip = [0, 0, 0, 0]"

definition appendDecimal :: "8 word \<Rightarrow> string" where
  "appendDecimal x =
     (if unat x \<ge> 100 then [digit_char (unat x div 100)] else [])
     @ (if unat x \<ge> 10 then [digit_char (unat x div 10 mod 10)] else [])
     @ [digit_char (unat x mod 10)]"

fun addrString :: "addr4 \<Rightarrow> string" where
  "addrString [] = ''''"
| "addrString [x] = appendDecimal x"
| "addrString (x # xs) = appendDecimal x @ ''.'' @ addrString xs"

definition prefixString :: "addr4 \<Rightarrow> nat \<Rightarrow> string" where
  \<comment> \<open>\<^verbatim>\<open>PrefixFrom(ip, bits).String()\<close>\<close>
  "prefixString ip bits = addrString ip @ ''/'' @ nat_to_dec bits"

section \<open>Parsing and printing are inverse\<close>

lemma is_digit_digit_char: "d < 10 \<Longrightarrow> is_digit (digit_char d) \<and> code (digit_char d) = 48 + d"
  by (simp add: digit_char_def is_digit_def code_def of_char_of)

lemma digit_char_code: "is_digit c \<Longrightarrow> digit_char (code c - 48) = c \<and> code c - 48 < 10"
  by (auto simp: digit_char_def is_digit_def code_def)

lemma unat_octet: "n \<le> 255 \<Longrightarrow> unat (word_of_nat n :: 8 word) = n"
  by (simp add: unat_of_nat)

lemma appendDecimal_nat:
  "n \<le> 255 \<Longrightarrow> appendDecimal (word_of_nat n) =
     (if n \<ge> 100 then [digit_char (n div 100)] else [])
     @ (if n \<ge> 10 then [digit_char (n div 10 mod 10)] else [])
     @ [digit_char (n mod 10)]"
  by (simp add: appendDecimal_def unat_octet)

lemma appendDecimal_step:
  assumes "val * 10 + d \<le> 255" "d < 10" "val \<noteq> 0"
  shows "appendDecimal (word_of_nat (val * 10 + d)) = appendDecimal (word_of_nat val) @ [digit_char d]"
proof -
  have "(val * 10 + d) div 100 = val div 10"
    using assms(2) div_mult2_eq [of "val * 10 + d" 10 10] by simp
  with assms show ?thesis
    unfolding appendDecimal_nat [OF assms(1)] by (subst appendDecimal_nat) auto
qed

lemma appendDecimal_digit: "d < 10 \<Longrightarrow> appendDecimal (word_of_nat d) = [digit_char d]"
  by (simp add: appendDecimal_def unat_octet)

lemma appendDecimal_nonempty [simp]: "appendDecimal x \<noteq> []"
  by (simp add: appendDecimal_def)

lemma addrString_Cons: "xs \<noteq> [] \<Longrightarrow> addrString (x # xs) = appendDecimal x @ ''.'' @ addrString xs"
  by (cases xs) auto

definition started :: "addr4 \<Rightarrow> string" where
  \<comment> \<open>The text of complete octets, each followed by a dot.\<close>
  "started fields = concat (map (\<lambda>x. appendDecimal x @ ''.'') fields)"

lemma addrString_started: "addrString (fields @ [x]) = started fields @ appendDecimal x"
  by (induction fields) (auto simp: started_def addrString_Cons)

lemma parse_print:
  assumes "parseIPv4Fields val n fields s = Some ip" "val \<le> 255"
    and "if n = 0 then val = 0 \<and> d = [] \<and> (s \<noteq> [] \<or> length fields < 3)
         else d = appendDecimal (word_of_nat val) \<and> (val = 0 \<longrightarrow> n = 1)"
  shows "addrString ip = started fields @ d @ s \<and> (\<exists>xs. ip = fields @ xs)"
  using assms
proof (induction s arbitrary: val n fields d)
  case Nil
  then show ?case by (auto simp: addrString_started split: if_splits)
next
  case (Cons c s)
  show ?case
  proof (cases "is_digit c")
    case True
    define e where "e = code c - 48"
    have e: "digit_char e = c" "e < 10" using digit_char_code [OF True] by (auto simp: e_def)
    have p: "parseIPv4Fields (val * 10 + e) (n + 1) fields s = Some ip" "val * 10 + e \<le> 255"
      "\<not> (n = 1 \<and> val = 0)"
      using Cons.prems(1) True by (auto simp: e_def split: if_splits)
    have "d @ [c] = appendDecimal (word_of_nat (val * 10 + e)) \<and> (val * 10 + e = 0 \<longrightarrow> n + 1 = 1)"
    proof (cases "val = 0")
      case True
      then have "n = 0" "d = []" using Cons.prems(3) p(3) by (auto split: if_splits)
      with True e show ?thesis by (simp add: appendDecimal_digit)
    next
      case False
      with Cons.prems(3) e p(2) show ?thesis
        by (auto simp: appendDecimal_step simp del: of_nat_add of_nat_mult split: if_splits)
    qed
    with Cons.IH [OF p(1,2), of "d @ [c]"] show ?thesis by simp
  next
    case False
    then have p: "c = CHR ''.''" "n \<noteq> 0" "s \<noteq> []" "length fields \<noteq> 3"
      "parseIPv4Fields 0 0 (fields @ [word_of_nat val]) s = Some ip"
      using Cons.prems(1) by (auto split: if_splits)
    have "addrString ip = started (fields @ [word_of_nat val]) @ [] @ s
        \<and> (\<exists>xs. ip = (fields @ [word_of_nat val]) @ xs)"
      by (rule Cons.IH [OF p(5)]) (use p in auto)
    with Cons.prems(3) p show ?thesis by (auto simp: started_def)
  qed
qed

lemma parse_length:
  "parseIPv4Fields val n fields s = Some ip \<Longrightarrow> length fields \<le> 3 \<Longrightarrow> length ip = 4"
  by (induction val n fields s rule: parseIPv4Fields.induct) (auto split: if_splits)

lemma ParseAddr4_String: "ParseAddr4 s = Some ip \<Longrightarrow> addrString ip = s \<and> length ip = 4"
  unfolding ParseAddr4_def
  by (auto dest: parse_length parse_print [where d = "[]"] simp: started_def)

lemma parse_digit:
  "d < 10 \<Longrightarrow> val * 10 + d \<le> 255 \<Longrightarrow> \<not> (n = 1 \<and> val = 0) \<Longrightarrow>
     parseIPv4Fields val n fields (digit_char d # s) = parseIPv4Fields (val * 10 + d) (n + 1) fields s"
  using is_digit_digit_char [of d] by auto

lemma parse_octet_nat:
  assumes "v < 256"
  shows "parseIPv4Fields 0 0 fields (((if v \<ge> 100 then [digit_char (v div 100)] else [])
      @ (if v \<ge> 10 then [digit_char (v div 10 mod 10)] else []) @ [digit_char (v mod 10)]) @ s) =
    parseIPv4Fields v (if v \<ge> 100 then Suc (Suc (Suc 0)) else if v \<ge> 10 then Suc (Suc 0) else Suc 0) fields s"
proof -
  define h t u where "h = v div 100" and "t = v div 10 mod 10" and "u = v mod 10"
  have v: "v = (h * 10 + t) * 10 + u" and b: "h < 10" "t < 10" "u < 10"
    using assms div_mult2_eq [of v 10 10] by (auto simp: h_def t_def u_def)
  consider "h \<noteq> 0" "v \<ge> 100" | "h = 0" "t \<noteq> 0" "v < 100" "v \<ge> 10" | "h = 0" "t = 0" "v < 10"
    using v b by (cases "h = 0"; cases "t = 0") auto
  then show ?thesis
    unfolding h_def [symmetric] t_def [symmetric] u_def [symmetric]
    by cases (use v b assms in \<open>simp_all add: parse_digit del: parseIPv4Fields.simps\<close>)
qed

lemma parse_octet:
  "parseIPv4Fields 0 0 fields (appendDecimal x @ s) =
     parseIPv4Fields (unat x) (length (appendDecimal x)) fields s"
proof -
  have "unat x < 256" using unsigned_less [of x] by simp
  from parse_octet_nat [OF this] show ?thesis
    by (auto simp: appendDecimal_def simp del: parseIPv4Fields.simps)
qed

lemma dot_not_digit [simp]: "\<not> is_digit CHR ''.''"
  by (simp add: is_digit_def code_def)

lemma parse_octet_dot:
  assumes "s \<noteq> []" "length fields \<noteq> 3"
  shows "parseIPv4Fields 0 0 fields (appendDecimal x @ CHR ''.'' # s) = parseIPv4Fields 0 0 (fields @ [x]) s"
  using assms by (simp add: parse_octet)

lemma parse_last_octet:
  "length fields = 3 \<Longrightarrow> parseIPv4Fields 0 0 fields (appendDecimal x) = Some (fields @ [x])"
  using parse_octet [of fields x "[]"] by simp

lemma ParseAddr4_addrString:
  assumes "length ip = 4" shows "ParseAddr4 (addrString ip) = Some ip"
proof -
  obtain a b c d where ip: "ip = [a, b, c, d]"
    using assms by (auto simp: length_Suc_conv eval_nat_numeral)
  show ?thesis
    unfolding ip ParseAddr4_def by (simp add: parse_octet_dot parse_last_octet del: parseIPv4Fields.simps)
qed

lemma ParseAddr4_iff: "ParseAddr4 s = Some ip \<longleftrightarrow> s = addrString ip \<and> length ip = 4"
  using ParseAddr4_String ParseAddr4_addrString by blast

end
