(* ===== verification/PrivateCore.thy ===== *)
theory PrivateCore
  imports BindingReconcile SHA256 Netip
begin

text \<open>
  \<^verbatim>\<open>internal/controller/cloudflaretunnelprivateroute_controller.go\<close>, the functions without
  effects: constants, names, the order of conflicting claims, reference grants, ownership of
  children and of Cloudflare's routes. The order is a second instance of the interface of
  claims.
\<close>

section \<open>Constants and the reconciler\<close>

definition privateFinalizer :: string where
  "privateFinalizer = ''kflared.kodeblox.com/private-route-cleanup''"

definition privateUIDLabel :: string where
  "privateUIDLabel = ''kflared.kodeblox.com/private-route-uid''"

record privateReconciler =
  vr_cloudflare :: "cfFactory option"
  vr_systemNamespace :: string
  vr_cloudflaredImage :: string
  vr_controllerClass :: string

definition privateSystemNamespace :: "privateReconciler \<Rightarrow> string" where
  "privateSystemNamespace r =
     (if vr_systemNamespace r \<noteq> '''' then vr_systemNamespace r else defaultSystemNamespace)"

definition privateCloudflaredImage :: "privateReconciler \<Rightarrow> string" where
  "privateCloudflaredImage r =
     (if vr_cloudflaredImage r \<noteq> '''' then vr_cloudflaredImage r else defaultCloudflaredImage)"

definition bindingHelper :: "privateReconciler \<Rightarrow> bindingReconciler" where
  "bindingHelper r = \<lparr>br_hasRESTMapper = False, br_hasRecorder = False, br_cloudflare = None,
     br_systemNamespace = vr_systemNamespace r, br_cloudflaredImage = '''', br_controllerClass = ''''\<rparr>"

definition privateClassPredicate :: "string \<Rightarrow> cloudflareTunnelPrivateRoute option \<Rightarrow> bool" where
  \<comment> \<open>The predicate of \<^verbatim>\<open>SetupWithManager\<close>; \<open>None\<close> is an object of another type.\<close>
  "privateClassPredicate controllerClass object =
     (case object of
        None \<Rightarrow> False
      | Some route \<Rightarrow> controllerClass \<noteq> '''' \<and> rs_controller (r_spec route) = controllerClass)"

section \<open>Names\<close>

definition privateServiceNamespace :: "cloudflareTunnelPrivateRoute \<Rightarrow> string" where
  "privateServiceNamespace route =
     (if prs_namespace (rs_serviceRef (r_spec route)) \<noteq> ''''
      then prs_namespace (rs_serviceRef (r_spec route))
      else r_namespace route)"

definition privateTunnelName :: "string \<Rightarrow> string \<Rightarrow> string" where
  "privateTunnelName clusterUID routeUID =
     (let digest = Sum256 clusterUID
      in ''kflared-private-'' @ hexEncodeToString (take 4 digest) @ ''-'' @ routeUID)"

definition privateComment :: "cloudflareTunnelPrivateRoute \<Rightarrow> string" where
  "privateComment route = ''kflared private route UID='' @ r_uid route"

definition privateResourceName :: "string \<Rightarrow> string" where
  "privateResourceName uid = ''kflared-private-'' @ trim_prefix (connectorResourceName uid) ''kflared-''"

definition privateLabels :: "cloudflareTunnelPrivateRoute \<Rightarrow> labels" where
  "privateLabels route = [managedByLabel \<mapsto> managedByValue, privateUIDLabel \<mapsto> r_uid route]"

section \<open>Which route precedes\<close>

definition privatePrecedes ::
  "cloudflareTunnelPrivateRoute \<Rightarrow> cloudflareTunnelPrivateRoute \<Rightarrow> bool" where
  "privatePrecedes a b =
     (if om_creationTimestamp (r_meta a) \<noteq> om_creationTimestamp (r_meta b)
      then om_creationTimestamp (r_meta a) < om_creationTimestamp (r_meta b)
      else if r_namespace a \<noteq> r_namespace b then r_namespace a < r_namespace b
      else if r_name a \<noteq> r_name b then r_name a < r_name b
      else r_uid a < r_uid b)"

interpretation private_order: claim_order privatePrecedes "\<lambda>r. om_uid (r_meta r)" "\<lambda>_. True"
  by unfold_locales (auto simp: privatePrecedes_def split: if_splits)

definition privateConflicting ::
  "cloudflareTunnelPrivateRoute \<Rightarrow> string \<Rightarrow> string \<Rightarrow> string \<Rightarrow> cloudflareTunnelPrivateRoute \<Rightarrow> bool" where
  \<comment> \<open>The body of the loop of \<^verbatim>\<open>privateRouteConflicts\<close>.\<close>
  "privateConflicting route targetNS serviceName network other =
     (if r_uid other = r_uid route \<or> \<not> timeIsZero (om_deletionTimestamp (r_meta other))
         \<or> rs_providerRef (r_spec other) \<noteq> rs_providerRef (r_spec route)
         \<or> rs_controller (r_spec other) \<noteq> rs_controller (r_spec route)
      then False
      else
        let otherNetwork = rst_network (r_status other);
            otherNetwork =
              (if otherNetwork = '''' \<and> privateServiceNamespace other = targetNS
                  \<and> prs_name (rs_serviceRef (r_spec other)) = serviceName
               then network else otherNetwork)
        in otherNetwork = network \<and> privatePrecedes other route)"

section \<open>Permission and ownership\<close>

definition privateGrantPermits :: "referenceGrant \<Rightarrow> cloudflareTunnelPrivateRoute \<Rightarrow> bool" where
  "privateGrantPermits grant route =
     (if \<not> list_ex (\<lambda>from. gf_group from = GroupVersion_Group
             \<and> gf_kind from = ''CloudflareTunnelPrivateRoute''
             \<and> gf_namespace from = r_namespace route) (rg_from grant)
      then False
      else list_ex (\<lambda>to. gt_group to = '''' \<and> gt_kind to = ''Service'' \<and>
             (case gt_name to of None \<Rightarrow> True
              | Some n \<Rightarrow> n = prs_name (rs_serviceRef (r_spec route)))) (rg_to grant))"

definition verifyPrivateChild :: "cloudflareTunnelPrivateRoute \<Rightarrow> objectMeta \<Rightarrow> goerr option" where
  "verifyPrivateChild route child =
     (if om_uid child \<noteq> '''' \<and> labelValue (om_labels child) privateUIDLabel \<noteq> r_uid route then
        Some (Errorf (''refusing to adopt unowned child '' @ om_namespace child @ ''/'' @ om_name child))
      else None)"

definition privateOwned :: "privateRoute \<Rightarrow> cloudflareTunnelPrivateRoute \<Rightarrow> bool" where
  \<comment> \<open>For a pointer that is not nil.\<close>
  "privateOwned current route \<longleftrightarrow>
     pr_id current \<noteq> '''' \<and> pr_comment current = privateComment route
     \<and> (rst_tunnelID (r_status route) = '''' \<or> pr_tunnelID current = rst_tunnelID (r_status route))"

section \<open>Changes of the status in memory\<close>

abbreviation updateRouteStatus ::
  "(cloudflareTunnelPrivateRouteStatus \<Rightarrow> cloudflareTunnelPrivateRouteStatus) \<Rightarrow>
     cloudflareTunnelPrivateRoute \<Rightarrow> cloudflareTunnelPrivateRoute" where
  "updateRouteStatus f route \<equiv> route\<lparr>r_status := f (r_status route)\<rparr>"

definition routeCleared :: "cloudflareTunnelPrivateRoute \<Rightarrow> cloudflareTunnelPrivateRoute" where
  "routeCleared = updateRouteStatus (\<lambda>s. s\<lparr>rst_routeID := '''', rst_network := ''''\<rparr>)"

definition tunnelCleared :: "cloudflareTunnelPrivateRoute \<Rightarrow> cloudflareTunnelPrivateRoute" where
  "tunnelCleared = updateRouteStatus (\<lambda>s. s\<lparr>rst_tunnelID := '''', rst_tunnelName := '''',
     rst_routeID := '''', rst_network := ''''\<rparr>)"

definition tunnelRecorded :: "tunnel \<Rightarrow> cloudflareTunnelPrivateRoute \<Rightarrow> cloudflareTunnelPrivateRoute" where
  "tunnelRecorded tun = updateRouteStatus (\<lambda>s. s\<lparr>rst_tunnelID := tn_id tun, rst_tunnelName := tn_name tun\<rparr>)"

definition networkRecorded :: "string \<Rightarrow> cloudflareTunnelPrivateRoute \<Rightarrow> cloudflareTunnelPrivateRoute" where
  "networkRecorded network = updateRouteStatus (\<lambda>s. s\<lparr>rst_network := network\<rparr>)"

definition routeRecorded ::
  "string \<Rightarrow> string \<Rightarrow> cloudflareTunnelPrivateRoute \<Rightarrow> cloudflareTunnelPrivateRoute" where
  "routeRecorded routeID network = updateRouteStatus (\<lambda>s. s\<lparr>rst_routeID := routeID, rst_network := network\<rparr>)"

definition connectorRecorded :: "string \<Rightarrow> cloudflareTunnelPrivateRoute \<Rightarrow> cloudflareTunnelPrivateRoute" where
  "connectorRecorded name = updateRouteStatus (\<lambda>s. s\<lparr>rst_resources :=
     \<lparr>crn_deployment = name, crn_secret = name, crn_dnsEndpoint = ''''\<rparr>\<rparr>)"

definition setRouteCondition ::
  "lib \<Rightarrow> string \<Rightarrow> conditionStatus \<Rightarrow> string \<Rightarrow> string \<Rightarrow> cloudflareTunnelPrivateRoute \<Rightarrow>
     cloudflareTunnelPrivateRoute" where
  "setRouteCondition L conditionType status reason message route =
     route\<lparr>r_status := (r_status route)\<lparr>rst_conditions :=
       setCondition L (rst_conditions (r_status route)) (r_generation route)
         conditionType status reason message\<rparr>\<rparr>"

definition boolCondition :: "bool \<Rightarrow> conditionStatus" where
  "boolCondition b = (if b then ConditionTrue else ConditionFalse)"

definition privateStatusOf ::
  "lib \<Rightarrow> bool \<Rightarrow> string \<Rightarrow> bool \<Rightarrow> cloudflareTunnelPrivateRoute \<Rightarrow> cloudflareTunnelPrivateRoute" where
  \<comment> \<open>The change that \<^verbatim>\<open>status\<close> makes.\<close>
  "privateStatusOf L accepted reason connectorReady route =
     (let route = updateRouteStatus (\<lambda>s. s\<lparr>rst_observedGeneration := r_generation route\<rparr>) route;
          route = setRouteCondition L PrivateRouteConditionAccepted (boolCondition accepted) reason reason route;
          programmed = boolCondition (rst_routeID (r_status route) \<noteq> '''');
          route = setRouteCondition L PrivateRouteConditionProgrammed programmed reason reason route;
          ready = boolCondition connectorReady;
          route = setRouteCondition L PrivateRouteConditionConnectorReady ready reason reason route;
          ready = (if \<not> accepted \<or> programmed \<noteq> ConditionTrue then ConditionFalse else ready)
      in setRouteCondition L PrivateRouteConditionReady ready reason reason route)"

definition privateFailureStatus :: "lib \<Rightarrow> cloudflareTunnelPrivateRoute \<Rightarrow> cloudflareTunnelPrivateRoute" where
  \<comment> \<open>Lines 73 to 75 of \<^verbatim>\<open>Reconcile\<close>.\<close>
  "privateFailureStatus L route =
     setRouteCondition L PrivateRouteConditionReady ConditionFalse ''ReconciliationFailed''
       ''Private route reconciliation could not complete''
     (setRouteCondition L PrivateRouteConditionConnectorReady ConditionUnknown ''ReconciliationFailed''
       ''Cloudflare connector reconciliation could not complete''
     (setRouteCondition L PrivateRouteConditionProgrammed ConditionUnknown ''ReconciliationFailed''
       ''Cloudflare private route reconciliation could not complete'' route))"

end
