(* ===== verification/PrivateReconcile.thy ===== *)
theory PrivateReconcile
  imports PrivateCore BindingController
begin

text \<open>
  \<^verbatim>\<open>CloudflareTunnelPrivateRouteReconciler\<close>: validation, the tunnel, the CIDR route, the
  connector, the finalizer and \<^verbatim>\<open>Reconcile\<close>. A function that writes the status also returns
  the route it leaves in memory.
\<close>

section \<open>Status\<close>

definition patchRoute ::
  "world \<Rightarrow> (cloudflareTunnelPrivateRoute \<Rightarrow> cloudflareTunnelPrivateRoute) \<Rightarrow>
     cloudflareTunnelPrivateRoute \<Rightarrow> (cloudflareTunnelPrivateRoute \<times> goerr option) io" where
  "patchRoute w change before = do {
     let route = change before;
     p \<leftarrow> k8s_patchPrivateRouteStatus w before route;
     ret (case p of
            Inl e \<Rightarrow> (route, Some (Kube e))
          | Inr server \<Rightarrow> (server, None)) }"

definition privateStatus ::
  "lib \<Rightarrow> world \<Rightarrow> cloudflareTunnelPrivateRoute \<Rightarrow> bool \<Rightarrow> string \<Rightarrow> bool \<Rightarrow> goerr option io" where
  "privateStatus L w route accepted reason connectorReady = do {
     (_, e) \<leftarrow> patchRoute w (privateStatusOf L accepted reason connectorReady) route;
     ret e }"

section \<open>Validation\<close>

definition privateRouteConflicts ::
  "world \<Rightarrow> cloudflareTunnelPrivateRoute \<Rightarrow> string \<Rightarrow> string \<Rightarrow> string \<Rightarrow> (goerr + bool) io" where
  "privateRouteConflicts w route targetNS serviceName network = do {
     l \<leftarrow> k8s_listPrivateRouteObjects w;
     ret (case l of
            Inl e \<Rightarrow> Inl (Kube e)
          | Inr routes \<Rightarrow> Inr (list_ex (privateConflicting route targetNS serviceName network) routes)) }"

text \<open>The result of \<^verbatim>\<open>validate\<close> is an error, or the reason of a rejection, or the provider
  and the network.\<close>

type_synonym validated = "goerr + (string + clusterCloudflareProvider \<times> string)"

definition validatePrivateService ::
  "lib \<Rightarrow> world \<Rightarrow> cloudflareTunnelPrivateRoute \<Rightarrow> clusterCloudflareProvider \<Rightarrow> validated io" where
  \<comment> \<open>Lines 189 to 214.\<close>
  "validatePrivateService L w route provider = do {
     let targetNS = privateServiceNamespace route;
     s \<leftarrow> k8s_getService w (targetNS, prs_name (rs_serviceRef (r_spec route)));
     case s of
       Inl err \<Rightarrow> if isNotFoundKube err then ret (Inr (Inl ''ServiceNotFound'')) else ret (Inl (Kube err))
     | Inr svc \<Rightarrow>
         if svc_type svc \<noteq> '''' \<and> svc_type svc \<noteq> ServiceTypeClusterIP then ret (Inr (Inl ''InvalidService''))
         else
           (case ParseAddr4 (svc_clusterIP svc) of
              None \<Rightarrow> ret (Inr (Inl ''InvalidService''))
            | Some ip \<Rightarrow>
                if IsUnspecified ip then ret (Inr (Inl ''InvalidService''))
                else
                  (case resolveServicePort L svc (prs_port (rs_serviceRef (r_spec route))) of
                     Inl _ \<Rightarrow> ret (Inr (Inl ''ServicePortNotFound''))
                   | Inr _ \<Rightarrow> do {
                       let network = prefixString ip 32;
                       c \<leftarrow> privateRouteConflicts w route targetNS (om_name (svc_meta svc)) network;
                       ret (case c of
                              Inl err \<Rightarrow> Inl err
                            | Inr conflict \<Rightarrow>
                                if conflict then Inr (Inl ''RouteConflict'')
                                else Inr (Inr (provider, network))) })) }"

definition privateValidate :: "lib \<Rightarrow> world \<Rightarrow> cloudflareTunnelPrivateRoute \<Rightarrow> validated io" where
  "privateValidate L w route = do {
     g \<leftarrow> k8s_getProvider w (rs_providerRef (r_spec route));
     case g of
       Inl err \<Rightarrow> if isNotFoundKube err then ret (Inr (Inl ''ProviderNotFound'')) else ret (Inl (Kube err))
     | Inr provider \<Rightarrow>
         if ps_controller (p_spec provider) \<noteq> rs_controller (r_spec route) then
           ret (Inr (Inl providerControllerClassMismatch))
         else if \<not> conditionTrue L (pst_conditions (p_status provider)) (p_generation provider) ProviderConditionAccepted
               \<or> \<not> conditionTrue L (pst_conditions (p_status provider)) (p_generation provider) ProviderConditionCredentialsValid then
           ret (Inr (Inl ''ProviderNotReady''))
         else do {
           n \<leftarrow> k8s_getNamespace w (r_namespace route);
           case n of
             Inl err \<Rightarrow> ret (Inl (Kube err))
           | Inr ns \<Rightarrow>
               if \<not> namespaceSelected L provider ns then ret (Inr (Inl ''NamespaceNotAllowed''))
               else
                 let targetNS = privateServiceNamespace route in
                 if targetNS \<noteq> r_namespace route then do {
                   l \<leftarrow> k8s_listReferenceGrants w targetNS;
                   case l of
                     Inl err \<Rightarrow> ret (Inl (Kube err))
                   | Inr grants \<Rightarrow>
                       if \<not> list_ex (\<lambda>grant. privateGrantPermits grant route) grants then
                         ret (Inr (Inl ''RefNotPermitted''))
                       else validatePrivateService L w route provider }
                 else validatePrivateService L w route provider } }"

section \<open>The client\<close>

definition privateApi ::
  "world \<Rightarrow> privateReconciler \<Rightarrow> clusterCloudflareProvider \<Rightarrow> (goerr + cfClient) io" where
  "privateApi w r provider = do {
     t \<leftarrow> readAPIToken w (bindingHelper r) provider;
     case t of
       Inl err \<Rightarrow> ret (Inl err)
     | Inr token \<Rightarrow> do {
         api \<leftarrow> newClient w (vr_cloudflare r) token (ps_accountID (p_spec provider));
         ret (Inr api) } }"

section \<open>The CIDR route\<close>

fun deleteListedRoutes ::
  "cfClient \<Rightarrow> cloudflareTunnelPrivateRoute \<Rightarrow> privateRoute list \<Rightarrow> goerr option io" where
  \<comment> \<open>Lines 417 to 425.\<close>
  "deleteListedRoutes api route [] = ret None"
| "deleteListedRoutes api route (current # existing) =
     (if pr_network current = rst_network (r_status route) \<and> privateOwned current route then do {
        d \<leftarrow> cfDeletePrivateRoute api (pr_id current);
        case d of
          Some err \<Rightarrow> ret (Some err)
        | None \<Rightarrow> deleteListedRoutes api route existing }
      else deleteListedRoutes api route existing)"

definition deleteRoute :: "cfClient \<Rightarrow> cloudflareTunnelPrivateRoute \<Rightarrow> goerr option io" where
  "deleteRoute api route =
     (if rst_routeID (r_status route) = '''' then do {
        (existing, e) \<leftarrow> cfListPrivateRoutes api (rst_network (r_status route));
        case e of
          Some err \<Rightarrow> ret (Some err)
        | None \<Rightarrow> deleteListedRoutes api route existing }
      else do {
        g \<leftarrow> cfGetPrivateRoute api (rst_routeID (r_status route));
        case g of
          Inl err \<Rightarrow> ret (Some err)
        | Inr None \<Rightarrow> ret None
        | Inr (Some current) \<Rightarrow>
            if \<not> privateOwned current route \<or> pr_network current \<noteq> rst_network (r_status route) then
              ret (Some (Errorf (''refusing to delete route '' @ rst_routeID (r_status route)
                @ '' with mismatched identity'')))
            else cfDeletePrivateRoute api (pr_id current) })"

definition createRoute ::
  "world \<Rightarrow> cfClient \<Rightarrow> cloudflareTunnelPrivateRoute \<Rightarrow> tunnel \<Rightarrow> string \<Rightarrow>
     (cloudflareTunnelPrivateRoute \<times> goerr option) io" where
  \<comment> \<open>Lines 399 to 406 of \<^verbatim>\<open>ensureRoute\<close>.\<close>
  "createRoute w api route tun network = do {
     c \<leftarrow> cfCreatePrivateRoute api network (tn_id tun) (privateComment route);
     case c of
       Inl err \<Rightarrow> ret (route, Some err)
     | Inr None \<Rightarrow> ret (route, Some (Errorf ''cloudflare returned unexpected route identity''))
     | Inr (Some created) \<Rightarrow>
         if \<not> privateOwned created route \<or> pr_network created \<noteq> network \<or> pr_tunnelID created \<noteq> tn_id tun then
           ret (route, Some (Errorf ''cloudflare returned unexpected route identity''))
         else patchRoute w (routeRecorded (pr_id created) network) route }"

definition findOrCreateRoute ::
  "world \<Rightarrow> cfClient \<Rightarrow> cloudflareTunnelPrivateRoute \<Rightarrow> tunnel \<Rightarrow> string \<Rightarrow>
     (cloudflareTunnelPrivateRoute \<times> goerr option) io" where
  \<comment> \<open>Lines 378 to 406 of \<^verbatim>\<open>ensureRoute\<close>.\<close>
  "findOrCreateRoute w api route tun network = do {
     (existing, e) \<leftarrow> cfListPrivateRoutes api network;
     case e of
       Some err \<Rightarrow> ret (route, Some err)
     | None \<Rightarrow>
         (case List.find (\<lambda>current. pr_network current = network) existing of
            Some current \<Rightarrow>
              if privateOwned current route \<and> pr_tunnelID current = tn_id tun then
                patchRoute w (routeRecorded (pr_id current) network) route
              else ret (route, Some (Errorf (''cloudflare network '' @ network
                @ '' is already routed by route '' @ pr_id current)))
          | None \<Rightarrow>
              if rst_network (r_status route) \<noteq> network then do {
                (route, p) \<leftarrow> patchRoute w (networkRecorded network) route;
                case p of
                  Some err \<Rightarrow> ret (route, Some err)
                | None \<Rightarrow> createRoute w api route tun network }
              else createRoute w api route tun network) }"

definition ensureRoute ::
  "world \<Rightarrow> cfClient \<Rightarrow> cloudflareTunnelPrivateRoute \<Rightarrow> tunnel \<Rightarrow> string \<Rightarrow>
     (cloudflareTunnelPrivateRoute \<times> goerr option) io" where
  "ensureRoute w api route tun network =
     (if rst_routeID (r_status route) \<noteq> '''' then do {
        g \<leftarrow> cfGetPrivateRoute api (rst_routeID (r_status route));
        case g of
          Inl err \<Rightarrow> ret (route, Some err)
        | Inr None \<Rightarrow> do {
            (route, p) \<leftarrow> patchRoute w routeCleared route;
            case p of
              Some err \<Rightarrow> ret (route, Some err)
            | None \<Rightarrow> findOrCreateRoute w api route tun network }
        | Inr (Some current) \<Rightarrow>
            if \<not> privateOwned current route \<or> pr_network current \<noteq> network \<or> pr_tunnelID current \<noteq> tn_id tun then
              ret (route, Some (Errorf ''owned route identity does not match status''))
            else ret (route, None) }
      else findOrCreateRoute w api route tun network)"

definition removeRoute ::
  "world \<Rightarrow> privateReconciler \<Rightarrow> cloudflareTunnelPrivateRoute \<Rightarrow>
     (cloudflareTunnelPrivateRoute \<times> goerr option) io" where
  "removeRoute w r route = do {
     g \<leftarrow> k8s_getProvider w (rs_providerRef (r_spec route));
     case g of
       Inl err \<Rightarrow> ret (route, Some (Kube err))
     | Inr provider \<Rightarrow>
         if ps_controller (p_spec provider) \<noteq> rs_controller (r_spec route) then
           ret (route, Some (Errorf ''provider controller class changed''))
         else do {
           a \<leftarrow> privateApi w r provider;
           case a of
             Inl err \<Rightarrow> ret (route, Some err)
           | Inr api \<Rightarrow> do {
               d \<leftarrow> deleteRoute api route;
               case d of
                 Some err \<Rightarrow> ret (route, Some err)
               | None \<Rightarrow> patchRoute w routeCleared route } } }"

section \<open>The tunnel\<close>

definition adoptPrivateTunnel ::
  "world \<Rightarrow> cloudflareTunnelPrivateRoute \<Rightarrow> string \<Rightarrow> tunnel \<Rightarrow>
     (cloudflareTunnelPrivateRoute \<times> (goerr + tunnel)) io" where
  \<comment> \<open>Lines 353 to 359 of \<^verbatim>\<open>ensureTunnel\<close>.\<close>
  "adoptPrivateTunnel w route name tun =
     (if tn_name tun \<noteq> name \<or> tn_configSource tun \<noteq> ConfigSourceCloudflare then
        ret (route, Inl (Errorf ''refusing tunnel with incompatible identity''))
      else do {
        (route, p) \<leftarrow> patchRoute w (tunnelRecorded tun) route;
        ret (route, case p of Some err \<Rightarrow> Inl err | None \<Rightarrow> Inr tun) })"

definition findPrivateTunnel ::
  "world \<Rightarrow> cfClient \<Rightarrow> cloudflareTunnelPrivateRoute \<Rightarrow> string \<Rightarrow>
     (cloudflareTunnelPrivateRoute \<times> (goerr + tunnel)) io" where
  \<comment> \<open>Lines 341 to 359 of \<^verbatim>\<open>ensureTunnel\<close>.\<close>
  "findPrivateTunnel w api route name = do {
     f \<leftarrow> cfFindTunnelByName api name;
     case f of
       Inl err \<Rightarrow> ret (route, Inl err)
     | Inr (Some tun) \<Rightarrow> adoptPrivateTunnel w route name tun
     | Inr None \<Rightarrow> do {
         c \<leftarrow> cfCreateTunnel api name;
         case c of
           Inl err \<Rightarrow> ret (route, Inl err)
         | Inr tun \<Rightarrow> adoptPrivateTunnel w route name tun } }"

definition replaceLostTunnel ::
  "world \<Rightarrow> cfClient \<Rightarrow> cloudflareTunnelPrivateRoute \<Rightarrow> string \<Rightarrow>
     (cloudflareTunnelPrivateRoute \<times> (goerr + tunnel)) io" where
  \<comment> \<open>Lines 331 to 359 of \<^verbatim>\<open>ensureTunnel\<close>.\<close>
  "replaceLostTunnel w api route name = do {
     (route, p) \<leftarrow> patchRoute w tunnelCleared route;
     case p of
       Some err \<Rightarrow> ret (route, Inl err)
     | None \<Rightarrow> findPrivateTunnel w api route name }"

definition privateEnsureTunnel ::
  "world \<Rightarrow> cfClient \<Rightarrow> cloudflareTunnelPrivateRoute \<Rightarrow> string \<Rightarrow>
     (cloudflareTunnelPrivateRoute \<times> (goerr + tunnel)) io" where
  "privateEnsureTunnel w api route name =
     (if rst_tunnelID (r_status route) \<noteq> '''' then do {
        g \<leftarrow> cfGetTunnel api (rst_tunnelID (r_status route));
        case g of
          Inl err \<Rightarrow> ret (route, Inl err)
        | Inr (Some tun) \<Rightarrow> adoptPrivateTunnel w route name tun
        | Inr None \<Rightarrow>
            if rst_network (r_status route) \<noteq> '''' then do {
              d \<leftarrow> deleteRoute api route;
              case d of
                Some err \<Rightarrow> ret (route, Inl err)
              | None \<Rightarrow> replaceLostTunnel w api route name }
            else replaceLostTunnel w api route name }
      else findPrivateTunnel w api route name)"

section \<open>The connector\<close>

definition mutatePrivateSecret ::
  "cloudflareTunnelPrivateRoute \<Rightarrow> string \<Rightarrow> secret \<Rightarrow> goerr + secret" where
  "mutatePrivateSecret route token sec =
     (case verifyPrivateChild route (sec_meta sec) of
        Some err \<Rightarrow> Inl err
      | None \<Rightarrow> Inr (sec\<lparr>sec_meta := (sec_meta sec)\<lparr>om_labels := privateLabels route\<rparr>,
          sec_type := SecretTypeOpaque, sec_data := [''token'' \<mapsto> token]\<rparr>))"

definition mutatePrivateDeployment ::
  "lib \<Rightarrow> privateReconciler \<Rightarrow> cloudflareTunnelPrivateRoute \<Rightarrow> string \<Rightarrow> deployment \<Rightarrow> goerr + deployment" where
  "mutatePrivateDeployment L r route name dep =
     (case verifyPrivateChild route (dep_meta dep) of
        Some err \<Rightarrow> Inl err
      | None \<Rightarrow>
          let replicas = effectiveReplicas (rs_connectorReplicas (r_spec route));
              childLabels = privateLabels route in
          Inr (dep\<lparr>dep_meta := (dep_meta dep)\<lparr>om_labels := childLabels\<rparr>,
            dep_replicas := Some replicas, dep_selector := childLabels,
            dep_strategy := ''RollingUpdate'', dep_templateLabels := childLabels,
            dep_templateSpec := connectorPodSpec L name (privateCloudflaredImage r)\<rparr>))"

definition ensureConnector ::
  "lib \<Rightarrow> world \<Rightarrow> privateReconciler \<Rightarrow> cloudflareTunnelPrivateRoute \<Rightarrow> string \<Rightarrow>
     (cloudflareTunnelPrivateRoute \<times> (goerr + deployment)) io" where
  "ensureConnector L w r route token = do {
     let name = privateResourceName (r_uid route);
     let namespace = privateSystemNamespace r;
     s \<leftarrow> createOrPatchSecret w (namespace, name) (mutatePrivateSecret route token);
     case s of
       Some err \<Rightarrow> ret (route, Inl err)
     | None \<Rightarrow> do {
         d \<leftarrow> createOrPatchDeployment w (namespace, name) (mutatePrivateDeployment L r route name);
         case d of
           Inl err \<Rightarrow> ret (route, Inl err)
         | Inr deployment \<Rightarrow> do {
             (route, p) \<leftarrow> patchRoute w (connectorRecorded name) route;
             ret (route, case p of Some err \<Rightarrow> Inl err | None \<Rightarrow> Inr deployment) } } }"

section \<open>Deletion\<close>

fun deletePrivateChildren ::
  "world \<Rightarrow> cloudflareTunnelPrivateRoute \<Rightarrow> namespacedName \<Rightarrow> childKind list \<Rightarrow> goerr option io" where
  \<comment> \<open>Lines 511 to 526.\<close>
  "deletePrivateChildren w route key [] = ret None"
| "deletePrivateChildren w route key (kind # kinds) = do {
     g \<leftarrow> k8s_getChild w kind key;
     case g of
       Inl err \<Rightarrow>
         if isNotFoundKube err then deletePrivateChildren w route key kinds else ret (Some (Kube err))
     | Inr current \<Rightarrow>
         (case verifyPrivateChild route current of
            Some err \<Rightarrow> ret (Some err)
          | None \<Rightarrow> do {
              d \<leftarrow> k8s_deleteChild w kind current;
              case d of
                None \<Rightarrow> deletePrivateChildren w route key kinds
              | Some err \<Rightarrow>
                  if isNotFoundKube err then deletePrivateChildren w route key kinds
                  else ret (Some (Kube err)) }) }"

definition removePrivateFinalizer ::
  "lib \<Rightarrow> world \<Rightarrow> cloudflareTunnelPrivateRoute \<Rightarrow> (ctrlResult \<times> goerr option) io" where
  "removePrivateFinalizer L w route = do {
     e \<leftarrow> k8s_updatePrivateRoute w (route\<lparr>r_meta := (r_meta route)\<lparr>om_finalizers :=
            lib_removeFinalizer L (om_finalizers (r_meta route)) privateFinalizer\<rparr>\<rparr>);
     ret (0, map_option Kube e) }"

definition deletePrivateTunnel ::
  "lib \<Rightarrow> world \<Rightarrow> privateReconciler \<Rightarrow> cloudflareTunnelPrivateRoute \<Rightarrow> (ctrlResult \<times> goerr option) io" where
  \<comment> \<open>Lines 528 to 553.\<close>
  "deletePrivateTunnel L w r route = do {
     g \<leftarrow> k8s_getProvider w (rs_providerRef (r_spec route));
     case g of
       Inl err \<Rightarrow> ret (0, Some (Kube err))
     | Inr provider \<Rightarrow>
         if ps_controller (p_spec provider) \<noteq> rs_controller (r_spec route) then
           ret (0, Some (Errorf ''provider class mismatch''))
         else do {
           a \<leftarrow> privateApi w r provider;
           case a of
             Inl err \<Rightarrow> ret (0, Some err)
           | Inr api \<Rightarrow> do {
               t \<leftarrow> cfGetTunnel api (rst_tunnelID (r_status route));
               case t of
                 Inl err \<Rightarrow> ret (0, Some err)
               | Inr None \<Rightarrow> removePrivateFinalizer L w route
               | Inr (Some tun) \<Rightarrow>
                   if tn_name tun \<noteq> rst_tunnelName (r_status route)
                      \<or> tn_configSource tun \<noteq> ConfigSourceCloudflare then
                     ret (0, Some (Errorf ''refusing to delete tunnel with mismatched identity''))
                   else do {
                     d \<leftarrow> cfDeleteTunnel api (tn_id tun);
                     case d of
                       Some err \<Rightarrow> ret (0, Some err)
                     | None \<Rightarrow> removePrivateFinalizer L w route } } } }"

definition privateFinalizeChildren ::
  "lib \<Rightarrow> world \<Rightarrow> privateReconciler \<Rightarrow> cloudflareTunnelPrivateRoute \<Rightarrow> (ctrlResult \<times> goerr option) io" where
  \<comment> \<open>Lines 510 to 553.\<close>
  "privateFinalizeChildren L w r route = do {
     let name = privateResourceName (r_uid route);
     c \<leftarrow> deletePrivateChildren w route (privateSystemNamespace r, name) [DeploymentKind, SecretKind];
     case c of
       Some err \<Rightarrow> ret (0, Some err)
     | None \<Rightarrow>
         if rs_deletionPolicy (r_spec route) \<noteq> DeletionPolicyRetain \<and> rst_tunnelID (r_status route) \<noteq> ''''
         then deletePrivateTunnel L w r route
         else removePrivateFinalizer L w route }"

definition privateFinalize ::
  "lib \<Rightarrow> world \<Rightarrow> privateReconciler \<Rightarrow> cloudflareTunnelPrivateRoute \<Rightarrow> (ctrlResult \<times> goerr option) io" where
  "privateFinalize L w r route =
     (if \<not> lib_containsFinalizer L (om_finalizers (r_meta route)) privateFinalizer then ret (0, None)
      else if rs_deletionPolicy (r_spec route) \<noteq> DeletionPolicyRetain \<and> rst_network (r_status route) \<noteq> '''' then do {
        (route, e) \<leftarrow> removeRoute w r route;
        case e of
          Some err \<Rightarrow> ret (0, Some err)
        | None \<Rightarrow> privateFinalizeChildren L w r route }
      else privateFinalizeChildren L w r route)"

section \<open>Reconcile\<close>

definition connectRoute ::
  "lib \<Rightarrow> world \<Rightarrow> privateReconciler \<Rightarrow> cfClient \<Rightarrow> cloudflareTunnelPrivateRoute \<Rightarrow> tunnel \<Rightarrow> string \<Rightarrow>
     (ctrlResult \<times> goerr option) io" where
  \<comment> \<open>Lines 131 to 147.\<close>
  "connectRoute L w r api route tun network = do {
     (route, e) \<leftarrow> ensureRoute w api route tun network;
     case e of
       Some err \<Rightarrow> ret (0, Some err)
     | None \<Rightarrow> do {
         t \<leftarrow> cfGetToken api (tn_id tun);
         case t of
           Inl err \<Rightarrow> ret (0, Some err)
         | Inr token \<Rightarrow> do {
             (route, c) \<leftarrow> ensureConnector L w r route token;
             case c of
               Inl err \<Rightarrow> ret (0, Some err)
             | Inr deployment \<Rightarrow> do {
                 let ready = dep_observedGeneration deployment \<ge> om_generation (dep_meta deployment)
                       \<and> dep_availableReplicas deployment \<ge> effectiveReplicas (rs_connectorReplicas (r_spec route));
                 s \<leftarrow> privateStatus L w route True ''Accepted'' ready;
                 case s of
                   Some err \<Rightarrow> ret (0, Some err)
                 | None \<Rightarrow> ret (120, None) } } } }"

definition switchNetwork ::
  "lib \<Rightarrow> world \<Rightarrow> privateReconciler \<Rightarrow> cfClient \<Rightarrow> cloudflareTunnelPrivateRoute \<Rightarrow> tunnel \<Rightarrow> string \<Rightarrow>
     (ctrlResult \<times> goerr option) io" where
  \<comment> \<open>Lines 123 to 147.\<close>
  "switchNetwork L w r api route tun network =
     (if rst_network (r_status route) \<noteq> '''' \<and> rst_network (r_status route) \<noteq> network then do {
        d \<leftarrow> deleteRoute api route;
        case d of
          Some err \<Rightarrow> ret (0, Some err)
        | None \<Rightarrow> do {
            (route, p) \<leftarrow> patchRoute w routeCleared route;
            case p of
              Some err \<Rightarrow> ret (0, Some err)
            | None \<Rightarrow> connectRoute L w r api route tun network } }
      else connectRoute L w r api route tun network)"

definition acceptRoute ::
  "lib \<Rightarrow> world \<Rightarrow> privateReconciler \<Rightarrow> cloudflareTunnelPrivateRoute \<Rightarrow> clusterCloudflareProvider \<Rightarrow>
     string \<Rightarrow> (ctrlResult \<times> goerr option) io" where
  \<comment> \<open>Lines 111 to 147.\<close>
  "acceptRoute L w r route provider network = do {
     a \<leftarrow> privateApi w r provider;
     case a of
       Inl err \<Rightarrow> ret (0, Some err)
     | Inr api \<Rightarrow> do {
         n \<leftarrow> k8s_getNamespace w NamespaceSystem;
         case n of
           Inl err \<Rightarrow> ret (0, Some (Kube err))
         | Inr system \<Rightarrow> do {
             (route, t) \<leftarrow> privateEnsureTunnel w api route
                (privateTunnelName (om_uid (ns_meta system)) (r_uid route));
             case t of
               Inl err \<Rightarrow> ret (0, Some err)
             | Inr tun \<Rightarrow> switchNetwork L w r api route tun network } } }"

definition rejectRoute ::
  "lib \<Rightarrow> world \<Rightarrow> privateReconciler \<Rightarrow> cloudflareTunnelPrivateRoute \<Rightarrow> string \<Rightarrow>
     (ctrlResult \<times> goerr option) io" where
  \<comment> \<open>Lines 104 to 109.\<close>
  "rejectRoute L w r route reason =
     (if rst_network (r_status route) \<noteq> '''' \<and> reason \<noteq> providerControllerClassMismatch then do {
        (route, e) \<leftarrow> removeRoute w r route;
        case e of
          Some err \<Rightarrow> ret (0, Some err)
        | None \<Rightarrow> do {
            s \<leftarrow> privateStatus L w route False reason False;
            ret (300, s) } }
      else do {
        s \<leftarrow> privateStatus L w route False reason False;
        ret (300, s) })"

definition privateReconcileLive ::
  "lib \<Rightarrow> world \<Rightarrow> privateReconciler \<Rightarrow> cloudflareTunnelPrivateRoute \<Rightarrow> (ctrlResult \<times> goerr option) io" where
  \<comment> \<open>Lines 95 to 147.\<close>
  "privateReconcileLive L w r route =
     (if \<not> lib_containsFinalizer L (om_finalizers (r_meta route)) privateFinalizer then do {
        e \<leftarrow> k8s_updatePrivateRoute w (route\<lparr>r_meta := (r_meta route)\<lparr>om_finalizers :=
               lib_addFinalizer L (om_finalizers (r_meta route)) privateFinalizer\<rparr>\<rparr>);
        ret (0, map_option Kube e) }
      else do {
        v \<leftarrow> privateValidate L w route;
        case v of
          Inl err \<Rightarrow> ret (0, Some err)
        | Inr (Inl reason) \<Rightarrow> rejectRoute L w r route reason
        | Inr (Inr (provider, network)) \<Rightarrow> acceptRoute L w r route provider network })"

definition privateReconcileOnce ::
  "lib \<Rightarrow> world \<Rightarrow> privateReconciler \<Rightarrow> namespacedName \<Rightarrow> (ctrlResult \<times> goerr option) io" where
  \<comment> \<open>\<^verbatim>\<open>reconcile\<close>\<close>
  "privateReconcileOnce L w r req = do {
     g \<leftarrow> k8s_getPrivateRouteObject w req;
     case g of
       Inl err \<Rightarrow> ret (0, ignoreNotFound err)
     | Inr route \<Rightarrow>
         if vr_controllerClass r = '''' \<or> rs_controller (r_spec route) \<noteq> vr_controllerClass r then ret (0, None)
         else if \<not> timeIsZero (om_deletionTimestamp (r_meta route)) then privateFinalize L w r route
         else privateReconcileLive L w r route }"

definition reportPrivateFailure ::
  "lib \<Rightarrow> world \<Rightarrow> privateReconciler \<Rightarrow> namespacedName \<Rightarrow> ctrlResult \<Rightarrow> goerr \<Rightarrow>
     (ctrlResult \<times> goerr option) io" where
  \<comment> \<open>Lines 70 to 81 of \<^verbatim>\<open>Reconcile\<close>.\<close>
  "reportPrivateFailure L w r req result err = do {
     g \<leftarrow> k8s_getPrivateRouteObject w req;
     case g of
       Inl _ \<Rightarrow> ret (result, Some err)
     | Inr route \<Rightarrow>
         if rs_controller (r_spec route) = vr_controllerClass r
            \<and> timeIsZero (om_deletionTimestamp (r_meta route)) then do {
           (_, statusErr) \<leftarrow> patchRoute w (privateFailureStatus L) route;
           case statusErr of
             Some e \<Rightarrow> ret (result, Some (Framed ''reconcile: '' err (''; update failure status: '' @ errorText e)))
           | None \<Rightarrow> ret (result, Some err) }
         else ret (result, Some err) }"

definition privateReconcile ::
  "lib \<Rightarrow> world \<Rightarrow> privateReconciler \<Rightarrow> namespacedName \<Rightarrow> (ctrlResult \<times> goerr option) io" where
  \<comment> \<open>\<^verbatim>\<open>Reconcile\<close>\<close>
  "privateReconcile L w r req = do {
     (result, err) \<leftarrow> privateReconcileOnce L w r req;
     case err of
       None \<Rightarrow> ret (result, None)
     | Some err \<Rightarrow> reportPrivateFailure L w r req result err }"

section \<open>Watches\<close>

definition routeMatches :: "watchedObject \<Rightarrow> cloudflareTunnelPrivateRoute \<Rightarrow> bool" where
  "routeMatches object route =
     (case object of
        WatchedProvider changed \<Rightarrow> rs_providerRef (r_spec route) = p_name changed
      | WatchedService changed \<Rightarrow> privateServiceNamespace route = om_namespace (svc_meta changed)
          \<and> prs_name (rs_serviceRef (r_spec route)) = om_name (svc_meta changed)
      | WatchedReferenceGrant changed \<Rightarrow> privateServiceNamespace route = om_namespace (rg_meta changed)
      | WatchedNamespace changed \<Rightarrow> r_namespace route = om_name (ns_meta changed)
      | _ \<Rightarrow> False)"

definition routesForObject ::
  "world \<Rightarrow> privateReconciler \<Rightarrow> watchedObject \<Rightarrow> namespacedName list io" where
  "routesForObject w r object = do {
     l \<leftarrow> k8s_listPrivateRouteObjects w;
     ret (case l of
            Inl _ \<Rightarrow> []
          | Inr routes \<Rightarrow>
              map (\<lambda>route. (r_namespace route, r_name route))
                (filter (\<lambda>route. rs_controller (r_spec route) = vr_controllerClass r \<and> routeMatches object route)
                  routes)) }"

section \<open>The history only grows\<close>

lemma patchRoute_extends [extends_rules]: "extends (patchRoute w change before)"
  unfolding patchRoute_def by (intro extends_rules)

lemma privateStatus_extends [extends_rules]: "extends (privateStatus L w route accepted reason connectorReady)"
  unfolding privateStatus_def by (intro extends_rules)

lemma privateRouteConflicts_extends [extends_rules]: "extends (privateRouteConflicts w route targetNS serviceName network)"
  unfolding privateRouteConflicts_def by (intro extends_rules)

lemma validatePrivateService_extends [extends_rules]: "extends (validatePrivateService L w route provider)"
  unfolding validatePrivateService_def by (intro extends_rules)

lemma privateValidate_extends [extends_rules]: "extends (privateValidate L w route)"
  unfolding privateValidate_def by (intro extends_rules)

lemma privateApi_extends [extends_rules]: "extends (privateApi w r provider)"
  unfolding privateApi_def by (intro extends_rules)

lemma deleteListedRoutes_extends [extends_rules]: "extends (deleteListedRoutes api route existing)"
  by (induction existing) (simp_all add: extends_rules)

lemma deleteRoute_extends [extends_rules]: "extends (deleteRoute api route)"
  unfolding deleteRoute_def by (intro extends_rules)

lemma createRoute_extends [extends_rules]: "extends (createRoute w api route tun network)"
  unfolding createRoute_def by (intro extends_rules)

lemma findOrCreateRoute_extends [extends_rules]: "extends (findOrCreateRoute w api route tun network)"
  unfolding findOrCreateRoute_def by (intro extends_rules)

lemma ensureRoute_extends [extends_rules]: "extends (ensureRoute w api route tun network)"
  unfolding ensureRoute_def by (intro extends_rules)

lemma removeRoute_extends [extends_rules]: "extends (removeRoute w r route)"
  unfolding removeRoute_def by (intro extends_rules)

lemma adoptPrivateTunnel_extends [extends_rules]: "extends (adoptPrivateTunnel w route name tun)"
  unfolding adoptPrivateTunnel_def by (intro extends_rules)

lemma findPrivateTunnel_extends [extends_rules]: "extends (findPrivateTunnel w api route name)"
  unfolding findPrivateTunnel_def by (intro extends_rules)

lemma replaceLostTunnel_extends [extends_rules]: "extends (replaceLostTunnel w api route name)"
  unfolding replaceLostTunnel_def by (intro extends_rules)

lemma privateEnsureTunnel_extends [extends_rules]: "extends (privateEnsureTunnel w api route name)"
  unfolding privateEnsureTunnel_def by (intro extends_rules)

lemma ensureConnector_extends [extends_rules]: "extends (ensureConnector L w r route token)"
  unfolding ensureConnector_def by (intro extends_rules)

lemma deletePrivateChildren_extends [extends_rules]: "extends (deletePrivateChildren w route key kinds)"
  by (induction kinds) (simp_all add: extends_rules)

lemma removePrivateFinalizer_extends [extends_rules]: "extends (removePrivateFinalizer L w route)"
  unfolding removePrivateFinalizer_def by (intro extends_rules)

lemma deletePrivateTunnel_extends [extends_rules]: "extends (deletePrivateTunnel L w r route)"
  unfolding deletePrivateTunnel_def by (intro extends_rules)

lemma privateFinalizeChildren_extends [extends_rules]: "extends (privateFinalizeChildren L w r route)"
  unfolding privateFinalizeChildren_def by (intro extends_rules)

lemma privateFinalize_extends [extends_rules]: "extends (privateFinalize L w r route)"
  unfolding privateFinalize_def by (intro extends_rules)

lemma connectRoute_extends [extends_rules]: "extends (connectRoute L w r api route tun network)"
  unfolding connectRoute_def by (intro extends_rules)

lemma switchNetwork_extends [extends_rules]: "extends (switchNetwork L w r api route tun network)"
  unfolding switchNetwork_def by (intro extends_rules)

lemma acceptRoute_extends [extends_rules]: "extends (acceptRoute L w r route provider network)"
  unfolding acceptRoute_def by (intro extends_rules)

lemma rejectRoute_extends [extends_rules]: "extends (rejectRoute L w r route reason)"
  unfolding rejectRoute_def by (intro extends_rules)

lemma privateReconcileLive_extends [extends_rules]: "extends (privateReconcileLive L w r route)"
  unfolding privateReconcileLive_def by (intro extends_rules)

lemma privateReconcileOnce_extends [extends_rules]: "extends (privateReconcileOnce L w r req)"
  unfolding privateReconcileOnce_def by (intro extends_rules)

lemma reportPrivateFailure_extends [extends_rules]: "extends (reportPrivateFailure L w r req result err)"
  unfolding reportPrivateFailure_def by (intro extends_rules)

lemma privateReconcile_extends [extends_rules]: "extends (privateReconcile L w r req)"
  unfolding privateReconcile_def by (intro extends_rules)

lemma routesForObject_extends [extends_rules]: "extends (routesForObject w r object)"
  unfolding routesForObject_def by (intro extends_rules)

end
