(* ===== verification/PrivateNames.thy ===== *)
theory PrivateNames
  imports PrivateReconcile PlannerProps Demo
begin

text \<open>
  Private routes: names that keep apart what belongs to different resources and to the two
  controllers, the decision of conflicts, and the conditions in the status.
\<close>

section \<open>Tunnel names\<close>

lemma hex_digit_inj:
  assumes "a < 16" "b < 16" "hex_digit a = hex_digit b" shows "a = b"
proof -
  have "code (char_of n) = n" if "n < 256" for n :: nat
    using that by (simp add: code_def)
  then have c: "code (hex_digit d) = (if d < 10 then 48 + d else 87 + d)" if "d < 16" for d
    using that by (simp add: hex_digit_def)
  have "(if a < 10 then 48 + a else 87 + a) = (if b < 10 then 48 + b else 87 + b)"
    by (simp only: c [OF assms(1), symmetric] c [OF assms(2), symmetric] assms(3))
  then show ?thesis by presburger
qed

lemma nibbles_eq:
  fixes a b :: u8
  assumes "drop_bit 4 a = drop_bit 4 b" "a AND 15 = b AND 15"
  shows "a = b"
proof -
  have "take_bit 4 a = take_bit 4 b"
    using assms(2) by (simp add: take_bit_eq_mask mask_eq_exp_minus_1)
  then show ?thesis
    using assms(1) by (metis bits_ident)
qed

lemma hexEncode_inj: "hexEncodeToString as = hexEncodeToString bs \<Longrightarrow> as = bs"
proof (induction as arbitrary: bs)
  case Nil
  then show ?case by (cases bs) (auto simp: hexEncodeToString_def)
next
  case (Cons a as)
  then obtain b bs' where bs: "bs = b # bs'"
    by (cases bs) (auto simp: hexEncodeToString_def)
  have "hex_digit (unat (drop_bit 4 a)) = hex_digit (unat (drop_bit 4 b))"
    "hex_digit (unat (a AND 15)) = hex_digit (unat (b AND 15))"
    using Cons.prems by (simp_all add: bs hexEncodeToString_def)
  then have "unat (drop_bit 4 a) = unat (drop_bit 4 b)" "unat (a AND 15) = unat (b AND 15)"
    by - (erule hex_digit_inj [OF nibbles(1) nibbles(1)], erule hex_digit_inj [OF nibbles(2) nibbles(2)])
  then have "a = b" by - (rule nibbles_eq; erule unsigned_word_eqI)
  with Cons show ?case by (simp add: bs hexEncodeToString_def)
qed

text \<open>C35: Private tunnel names. Two of them are equal exactly if the first four bytes of the
  clusters' digests and the route UIDs are; with a UUID the name has 61 characters.\<close>

theorem privateTunnelName_identifies_route:
  "(privateTunnelName clusterUID uid = privateTunnelName clusterUID' uid') =
     (take 4 (Sum256 clusterUID) = take 4 (Sum256 clusterUID') \<and> uid = uid')
   \<and> length (privateTunnelName clusterUID uid) = 25 + length uid"
proof -
  have "length (hexEncodeToString (take 4 (Sum256 c))) = 8" for c by simp
  then show ?thesis
    using hexEncode_inj by (auto simp: privateTunnelName_def Let_def)
qed

section \<open>The two controllers' names\<close>

lemma connectorResourceName_dashless:
  "\<exists>x. connectorResourceName uid = ''kflared-'' @ x \<and> dash \<notin> set x \<and> length x \<le> 12"
proof -
  have "dash \<notin> set (remove_dashes uid)" "dash \<notin> set ''pending''"
    by (simp_all add: remove_dashes_def dash_def)
  then show ?thesis
    unfolding connectorResourceName_def Let_def by (auto dest: in_set_takeD)
qed

lemma privateResourceName_form:
  "\<exists>x. privateResourceName uid = ''kflared-private-'' @ x \<and> dash \<notin> set x \<and> length x \<le> 12"
proof -
  obtain x where "connectorResourceName uid = ''kflared-'' @ x" "dash \<notin> set x" "length x \<le> 12"
    using connectorResourceName_dashless by blast
  then have "privateResourceName uid = ''kflared-private-'' @ x"
    unfolding privateResourceName_def by (simp only: trim_prefix_append)
  with \<open>dash \<notin> set x\<close> \<open>length x \<le> 12\<close> show ?thesis by blast
qed

lemma child_names_differ: "privateResourceName u \<noteq> connectorResourceName v"
proof
  assume eq: "privateResourceName u = connectorResourceName v"
  obtain x where x: "connectorResourceName v = ''kflared-'' @ x" "dash \<notin> set x"
    using connectorResourceName_dashless by blast
  obtain y where "privateResourceName u = ''kflared-private-'' @ y"
    using privateResourceName_form by blast
  with eq x have "x = ''private-'' @ y" by simp
  with x show False by (simp add: dash_def)
qed

definition hexText :: "string \<Rightarrow> bool" where
  \<comment> \<open>The characters of a UUID.\<close>
  "hexText = list_all (\<lambda>c. is_hex c \<or> c = dash)"

lemma tunnel_names_differ:
  assumes "hexText clusterUID"
  shows "TunnelName clusterUID b \<noteq> privateTunnelName c u"
proof
  assume eq: "TunnelName clusterUID b = privateTunnelName c u"
  have "compactID clusterUID 8 \<noteq> [] \<and> hd (compactID clusterUID 8) \<noteq> CHR ''p''"
  proof -
    have "list_all is_hex (remove_dashes clusterUID)"
      using assms by (auto simp: hexText_def remove_dashes_def list_all_iff)
    moreover have "\<not> is_hex CHR ''p''" by (simp add: is_hex_def is_digit_def code_def)
    ultimately show ?thesis
      by (cases "remove_dashes clusterUID") (auto simp: compactID_def Let_def)
  qed
  with eq show False
    by (cases "compactID clusterUID 8") (auto simp: TunnelName_parts privateTunnelName_def Let_def)
qed

text \<open>C36: The two controllers keep out of each other's way. In a cluster with a hexadecimal UID, the
  tunnel of a binding and of a private route never have the same name, nor do their children,
  and an existing child with the labels of one is refused by the other.\<close>

theorem controllers_keep_apart:
  assumes "hexText clusterUID" "b_uid b \<noteq> ''''" "r_uid route \<noteq> ''''" "om_uid child \<noteq> ''''"
  shows "TunnelName clusterUID b \<noteq> privateTunnelName clusterUID (r_uid route)
     \<and> privateResourceName (r_uid route) \<noteq> connectorResourceName (b_uid b)
     \<and> verifyChildOwnership b (child\<lparr>om_labels := privateLabels route\<rparr>) \<noteq> None
     \<and> verifyPrivateChild route (child\<lparr>om_labels := managedLabels b\<rparr>) \<noteq> None"
proof (intro conjI)
  have labels: "labelValue (privateLabels route) ownerUIDLabel = ''''"
    "labelValue (managedLabels b) privateUIDLabel = ''''"
    by (simp_all add: labelValue_def privateLabels_def managedLabels_def ownerUIDLabel_def
        privateUIDLabel_def managedByLabel_def)
  show "TunnelName clusterUID b \<noteq> privateTunnelName clusterUID (r_uid route)"
    using assms(1) by (rule tunnel_names_differ)
  show "privateResourceName (r_uid route) \<noteq> connectorResourceName (b_uid b)"
    by (rule child_names_differ)
  show "verifyChildOwnership b (child\<lparr>om_labels := privateLabels route\<rparr>) \<noteq> None"
    "verifyPrivateChild route (child\<lparr>om_labels := managedLabels b\<rparr>) \<noteq> None"
    using assms labels by (auto simp: verifyChildOwnership_def verifyPrivateChild_def Let_def)
qed

section \<open>Conflicts\<close>

definition claimsNetwork ::
  "string \<Rightarrow> string \<Rightarrow> string \<Rightarrow> string \<Rightarrow> string \<Rightarrow> cloudflareTunnelPrivateRoute \<Rightarrow> bool" where
  \<comment> \<open>The route holds the network, or holds none yet and is for the Service that has it.\<close>
  "claimsNetwork controllerClass provider targetNS serviceName network r \<longleftrightarrow>
     timeIsZero (om_deletionTimestamp (r_meta r))
     \<and> rs_providerRef (r_spec r) = provider \<and> rs_controller (r_spec r) = controllerClass
     \<and> (rst_network (r_status r) = network
        \<or> rst_network (r_status r) = '''' \<and> privateServiceNamespace r = targetNS
          \<and> prs_name (rs_serviceRef (r_spec r)) = serviceName)"

definition networkFree ::
  "world \<Rightarrow> history \<Rightarrow> string \<Rightarrow> string \<Rightarrow> string \<Rightarrow> cloudflareTunnelPrivateRoute \<Rightarrow> bool" where
  "networkFree w h targetNS serviceName network r \<longleftrightarrow>
     fst (run_state (privateRouteConflicts w r targetNS serviceName network) h) = Inr False"

lemma networkFree_beaten:
  assumes "w_listPrivateRouteObjects w h = Inr rs" "claimsNetwork c p ns sn net r"
  shows "networkFree w h ns sn net r =
    (\<not> private_order.beaten {x \<in> set rs. claimsNetwork c p ns sn net x} r)"
  using assms
  by (auto simp: networkFree_def privateRouteConflicts_def k8s_call_defs privateConflicting_def Let_def
      private_order.beaten_def claimsNetwork_def list_ex_iff split: if_splits)

text \<open>C32: A private network has exactly one owner. Of the routes of a provider and class that hold a
  network, or hold none yet and are for the Service that has it, exactly one is not told of a
  conflict.\<close>

theorem network_has_one_owner:
  assumes "w_listPrivateRouteObjects w h = Inr rs"
    and "claimants = {r \<in> set rs. claimsNetwork controllerClass provider targetNS serviceName network r}"
    and "claimants \<noteq> {}" "inj_on (\<lambda>r. r_uid r) claimants"
  shows "\<exists>!r. r \<in> claimants \<and> networkFree w h targetNS serviceName network r"
proof -
  have "\<exists>!r. r \<in> claimants \<and> \<not> private_order.beaten claimants r"
    using assms by (intro private_order.one_winner) auto
  then show ?thesis
    using networkFree_beaten [OF assms(1)] assms(2) by auto
qed

section \<open>Status\<close>

definition routeHolds :: "lib \<Rightarrow> cloudflareTunnelPrivateRoute \<Rightarrow> string \<Rightarrow> bool" where
  "routeHolds L r t \<longleftrightarrow> conditionTrue L (rst_conditions (r_status r)) (r_generation r) t"

definition withoutConditions :: "cloudflareTunnelPrivateRoute \<Rightarrow> cloudflareTunnelPrivateRoute" where
  "withoutConditions r = updateRouteStatus (\<lambda>s. s\<lparr>rst_conditions := [], rst_observedGeneration := 0\<rparr>) r"

lemma setRouteCondition_keeps [simp]:
  "r_meta (setRouteCondition L t s reason message r) = r_meta r"
  "r_spec (setRouteCondition L t s reason message r) = r_spec r"
  "rst_routeID (r_status (setRouteCondition L t s reason message r)) = rst_routeID (r_status r)"
  "withoutConditions (setRouteCondition L t s reason message r) = withoutConditions r"
  by (simp_all add: setRouteCondition_def withoutConditions_def)

interpretation route_report: reporting "\<lambda>r. rst_conditions (r_status r)" r_generation setRouteCondition
  by unfold_locales (simp_all add: setRouteCondition_def)

lemma routeHolds_set [simp]:
  "condition_laws L \<Longrightarrow> routeHolds L (setRouteCondition L t s reason message r) t' =
     (if t' = t then s = ConditionTrue else routeHolds L r t')"
  unfolding routeHolds_def by (rule route_report.holds_report)

lemma routeConditionNames [simp]:
  "PrivateRouteConditionAccepted \<noteq> PrivateRouteConditionProgrammed"
  "PrivateRouteConditionAccepted \<noteq> PrivateRouteConditionConnectorReady"
  "PrivateRouteConditionAccepted \<noteq> PrivateRouteConditionReady"
  "PrivateRouteConditionProgrammed \<noteq> PrivateRouteConditionConnectorReady"
  "PrivateRouteConditionProgrammed \<noteq> PrivateRouteConditionReady"
  "PrivateRouteConditionConnectorReady \<noteq> PrivateRouteConditionReady"
  by code_simp+

lemmas routeConditionNames' [simp] = routeConditionNames [THEN not_sym]

text \<open>C34: What a private route reports. Accepted and ConnectorReady are true exactly as observed,
  Programmed exactly if a CIDR route is recorded, and Ready exactly if all three are. After a
  failure Programmed, ConnectorReady and Ready are not true and Accepted is unchanged. Nothing
  else of the status changes.\<close>

theorem private_status_conditions:
  assumes "condition_laws L"
  shows "let reported = privateStatusOf L accepted reason connectorReady route;
             failed = privateFailureStatus L route
    in routeHolds L reported PrivateRouteConditionAccepted = accepted
     \<and> routeHolds L reported PrivateRouteConditionProgrammed = (rst_routeID (r_status route) \<noteq> '''')
     \<and> routeHolds L reported PrivateRouteConditionConnectorReady = connectorReady
     \<and> routeHolds L reported PrivateRouteConditionReady =
         (accepted \<and> connectorReady \<and> rst_routeID (r_status route) \<noteq> '''')
     \<and> routeHolds L failed PrivateRouteConditionAccepted = routeHolds L route PrivateRouteConditionAccepted
     \<and> \<not> routeHolds L failed PrivateRouteConditionProgrammed
     \<and> \<not> routeHolds L failed PrivateRouteConditionConnectorReady
     \<and> \<not> routeHolds L failed PrivateRouteConditionReady
     \<and> withoutConditions reported = withoutConditions route
     \<and> withoutConditions failed = withoutConditions route"
proof -
  have observed: "routeHolds L (updateRouteStatus (\<lambda>s. s\<lparr>rst_observedGeneration := g\<rparr>) r) t = routeHolds L r t"
    "withoutConditions (updateRouteStatus (\<lambda>s. s\<lparr>rst_observedGeneration := g\<rparr>) r) = withoutConditions r" for r g t
    by (simp_all add: routeHolds_def withoutConditions_def)
  show ?thesis
    using assms observed
    by (simp add: privateStatusOf_def privateFailureStatus_def Let_def boolCondition_def)
qed

section \<open>Witnesses\<close>

definition demoPrivateRoute :: cloudflareTunnelPrivateRoute where
  "demoPrivateRoute = \<lparr>r_meta = (demoMeta ''apps'' ''api'' ''r1'' 20)\<lparr>om_finalizers := [privateFinalizer]\<rparr>,
     r_spec = \<lparr>rs_controller = ''class'', rs_providerRef = ''main'',
       rs_serviceRef = \<lparr>prs_name = ''traefik'', prs_namespace = '''', prs_port = StrVal ''http''\<rparr>,
       rs_connectorReplicas = 0, rs_deletionPolicy = DeletionPolicyDelete\<rparr>,
     r_status = \<lparr>rst_observedGeneration = 0, rst_tunnelID = ''tid'', rst_tunnelName = ''t'',
       rst_routeID = ''rid'', rst_network = ''10.0.0.7/32'',
       rst_resources = \<lparr>crn_deployment = '''', crn_secret = '''', crn_dnsEndpoint = ''''\<rparr>,
       rst_conditions = []\<rparr>\<rparr>"

definition laterPrivateRoute :: cloudflareTunnelPrivateRoute where
  \<comment> \<open>A second route for the same Service, created later, without a network yet.\<close>
  "laterPrivateRoute = demoPrivateRoute\<lparr>r_meta := demoMeta ''apps'' ''api2'' ''r2'' 21,
     r_status := (r_status demoPrivateRoute)\<lparr>rst_routeID := '''', rst_network := ''''\<rparr>\<rparr>"

definition demoPrivateWorld :: world where
  "demoPrivateWorld = demoWorld\<lparr>w_getPrivateRouteObject := \<lambda>h k. Inr demoPrivateRoute,
     w_listPrivateRouteObjects := \<lambda>h. Inr [demoPrivateRoute, laterPrivateRoute]\<rparr>"

lemma private_status_conditions_witness:
  "routeHolds refLib (privateStatusOf refLib True ''Accepted'' True demoPrivateRoute) PrivateRouteConditionReady"
  using private_status_conditions [OF refLib_conditions, of True "''Accepted''" True demoPrivateRoute]
  by (simp add: Let_def demoPrivateRoute_def)

lemma network_has_one_owner_witness:
  "\<exists>!r. r \<in> {demoPrivateRoute, laterPrivateRoute}
     \<and> networkFree demoPrivateWorld [] ''apps'' ''traefik'' ''10.0.0.7/32'' r"
proof (rule network_has_one_owner)
  show "w_listPrivateRouteObjects demoPrivateWorld [] = Inr [demoPrivateRoute, laterPrivateRoute]"
    by (simp add: demoPrivateWorld_def)
  have "claimsNetwork ''class'' ''main'' ''apps'' ''traefik'' ''10.0.0.7/32'' demoPrivateRoute"
    "claimsNetwork ''class'' ''main'' ''apps'' ''traefik'' ''10.0.0.7/32'' laterPrivateRoute"
    by code_simp+
  then show "{demoPrivateRoute, laterPrivateRoute} = {r \<in> set [demoPrivateRoute, laterPrivateRoute].
      claimsNetwork ''class'' ''main'' ''apps'' ''traefik'' ''10.0.0.7/32'' r}"
    by auto
  show "inj_on (\<lambda>r. r_uid r) {demoPrivateRoute, laterPrivateRoute}"
    by (simp add: demoPrivateRoute_def laterPrivateRoute_def demoMeta_def)
qed simp

lemma controllers_keep_apart_witness:
  "TunnelName ''0a1b-2c'' demoBinding \<noteq> privateTunnelName ''0a1b-2c'' (r_uid demoPrivateRoute)"
  using controllers_keep_apart [of "''0a1b-2c''" demoBinding demoPrivateRoute "demoMeta ''x'' ''y'' ''u'' 0"]
  by (simp add: hexText_def is_hex_def is_digit_def code_def dash_def demoBinding_def demoPrivateRoute_def demoMeta_def)

end
