(* ===== verification/PrivatePlan.thy ===== *)
theory PrivatePlan
  imports PrivateNames BindingActs
begin

text \<open>
  Validation of a private route: exactly which answers admit it, and that a Service of another
  namespace is only read under a grant.
\<close>

section \<open>Admission\<close>

definition canonicalIPv4 :: "string \<Rightarrow> bool" where
  \<comment> \<open>Four decimal bytes without leading zeros, separated by dots, and not all zero.\<close>
  "canonicalIPv4 s \<longleftrightarrow> (\<exists>ip. s = addrString ip \<and> length ip = 4 \<and> ip \<noteq> [0, 0, 0, 0])"

definition serviceAdmitted :: "cloudflareTunnelPrivateRoute \<Rightarrow> string \<Rightarrow> history \<Rightarrow> bool" where
  "serviceAdmitted route network es \<longleftrightarrow>
     (let tns = privateServiceNamespace route; ref = rs_serviceRef (r_spec route) in
      \<exists>svc rs. es = [GetService (tns, prs_name ref) (Inr svc), ListPrivateRouteObjects (Inr rs)]
        \<and> svc_type svc \<in> {'''', ServiceTypeClusterIP}
        \<and> canonicalIPv4 (svc_clusterIP svc) \<and> network = svc_clusterIP svc @ ''/32''
        \<and> resolvePortLoop (svc_ports svc) (prs_port ref) \<noteq> None
        \<and> \<not> list_ex (privateConflicting route tns (om_name (svc_meta svc)) network) rs)"

definition privateAdmitted ::
  "lib \<Rightarrow> cloudflareTunnelPrivateRoute \<Rightarrow> clusterCloudflareProvider \<Rightarrow> string \<Rightarrow> history \<Rightarrow> bool" where
  "privateAdmitted L route p network es \<longleftrightarrow>
     (let tns = privateServiceNamespace route in
      \<exists>ns grants rest.
        es = [GetProvider (rs_providerRef (r_spec route)) (Inr p), GetNamespace (r_namespace route) (Inr ns)]
             @ (if tns = r_namespace route then [] else [ListReferenceGrants tns (Inr grants)]) @ rest
        \<and> serviceAdmitted route network rest
        \<and> ps_controller (p_spec p) = rs_controller (r_spec route)
        \<and> conditionTrue L (pst_conditions (p_status p)) (p_generation p) ProviderConditionAccepted
        \<and> conditionTrue L (pst_conditions (p_status p)) (p_generation p) ProviderConditionCredentialsValid
        \<and> namespaceSelected L p ns
        \<and> (tns = r_namespace route \<or> list_ex (\<lambda>g. privateGrantPermits g route) grants))"

lemma prefixString_32: "prefixString ip 32 = addrString ip @ ''/32''"
proof -
  have "nat_to_dec 32 = ''32''" by code_simp
  then show ?thesis by (simp add: prefixString_def)
qed

lemma canonicalIPv4_addrString:
  assumes "length ip = 4" shows "canonicalIPv4 (addrString ip) = (\<not> IsUnspecified ip)"
proof -
  have "ip' = ip" if "addrString ip = addrString ip'" "length ip' = 4" for ip'
    by (metis ParseAddr4_addrString assms that option.inject)
  then have "(\<exists>x. addrString ip = addrString x \<and> length x = 4 \<and> x \<noteq> z) = (ip \<noteq> z)" for z
    using assms by metis
  then show ?thesis by (simp only: canonicalIPv4_def IsUnspecified_def)
qed

lemma ParseAddr4_canonical:
  "ParseAddr4 s = Some ip \<Longrightarrow> canonicalIPv4 s = (\<not> IsUnspecified ip) \<and> prefixString ip 32 = s @ ''/32''"
  "ParseAddr4 s = None \<Longrightarrow> \<not> canonicalIPv4 s"
proof -
  show "ParseAddr4 s = Some ip \<Longrightarrow> canonicalIPv4 s = (\<not> IsUnspecified ip) \<and> prefixString ip 32 = s @ ''/32''"
    using canonicalIPv4_addrString by (auto simp: ParseAddr4_iff prefixString_32)
  show "ParseAddr4 s = None \<Longrightarrow> \<not> canonicalIPv4 s"
    using ParseAddr4_addrString by (fastforce simp: canonicalIPv4_def)
qed

lemma validatePrivateService_result:
  "yields (validatePrivateService L w route p) (\<lambda>x es.
     \<forall>q network. (x = Inr (Inr (q, network))) = (q = p \<and> serviceAdmitted route network es))"
  unfolding validatePrivateService_def privateRouteConflicts_def k8s_call_defs Let_def
  by (auto intro!: yields_rules simp: ParseAddr4_canonical resolveServicePort_def serviceAdmitted_def Let_def
      split: sum.splits option.splits if_splits)

lemma validatePrivateService_admits:
  "yields (validatePrivateService L w route p) (\<lambda>x es.
     (\<forall>q network. x = Inr (Inr (q, network)) \<longrightarrow> q = p \<and> serviceAdmitted route network es)
     \<and> (\<forall>network. serviceAdmitted route network es \<longrightarrow> x = Inr (Inr (p, network))))"
  by (rule yields_mono [OF validatePrivateService_result]) metis

lemma serviceAdmitted_nonempty [simp]: "\<not> serviceAdmitted route network []"
  by (simp add: serviceAdmitted_def Let_def)

lemma privateAdmitted_simps:
  "\<not> privateAdmitted L route p network [e]"
  "\<not> privateAdmitted L route p network [e, e']"
  "privateServiceNamespace route \<noteq> r_namespace route \<Longrightarrow> \<not> privateAdmitted L route p network [e, e', e'']"
  "privateServiceNamespace route = r_namespace route \<Longrightarrow>
     privateAdmitted L route p network (GetProvider ref (Inr q) # GetNamespace n (Inr ns) # rest) =
     (q = p \<and> ref = rs_providerRef (r_spec route) \<and> n = r_namespace route \<and> serviceAdmitted route network rest
      \<and> ps_controller (p_spec p) = rs_controller (r_spec route)
      \<and> conditionTrue L (pst_conditions (p_status p)) (p_generation p) ProviderConditionAccepted
      \<and> conditionTrue L (pst_conditions (p_status p)) (p_generation p) ProviderConditionCredentialsValid
      \<and> namespaceSelected L p ns)"
  "privateServiceNamespace route \<noteq> r_namespace route \<Longrightarrow>
     privateAdmitted L route p network
       (GetProvider ref (Inr q) # GetNamespace n (Inr ns) # ListReferenceGrants t (Inr grants) # rest) =
     (q = p \<and> ref = rs_providerRef (r_spec route) \<and> n = r_namespace route \<and> t = privateServiceNamespace route
      \<and> serviceAdmitted route network rest
      \<and> ps_controller (p_spec p) = rs_controller (r_spec route)
      \<and> conditionTrue L (pst_conditions (p_status p)) (p_generation p) ProviderConditionAccepted
      \<and> conditionTrue L (pst_conditions (p_status p)) (p_generation p) ProviderConditionCredentialsValid
      \<and> namespaceSelected L p ns \<and> list_ex (\<lambda>g. privateGrantPermits g route) grants)"
  unfolding privateAdmitted_def Let_def by auto

lemma privateValidate_admitted:
  "yields (privateValidate L w route) (\<lambda>x es.
     \<forall>p network. (x = Inr (Inr (p, network))) = privateAdmitted L route p network es)"
proof -
  have service: "yields (validatePrivateService L w route p) (\<lambda>x es.
      \<forall>q network. (x = Inr (Inr (q, network))) = (p = q \<and> serviceAdmitted route network es \<and> Q q))"
    if "Q p" for p Q
    by (rule yields_mono [OF validatePrivateService_result]) (use that in auto)
  show ?thesis
    unfolding privateValidate_def k8s_call_defs Let_def
    by (auto intro!: yields_bind yields_call yields_ret service simp: privateAdmitted_simps split: sum.split)
qed

section \<open>The Service is read under a grant\<close>

fun isGetService :: "event \<Rightarrow> bool" where
  "isGetService (GetService key s) = True"
| "isGetService e = False"

definition serviceReadPermitted :: "cloudflareTunnelPrivateRoute \<Rightarrow> history \<Rightarrow> bool" where
  "serviceReadPermitted route es \<longleftrightarrow>
     (let tns = privateServiceNamespace route in
      \<not> list_ex isGetService es \<or> tns = r_namespace route \<or>
      (\<exists>grants. ListReferenceGrants tns (Inr grants) \<in> set (takeWhile (\<lambda>e. \<not> isGetService e) es)
         \<and> list_ex (\<lambda>g. privateGrantPermits g route) grants))"

lemma validatePrivateService_idle: "does idle (\<lambda>_. True) (validatePrivateService L w route p)"
  unfolding validatePrivateService_def privateRouteConflicts_def k8s_call_defs
  by (auto intro!: emits_rules extends_rules simp: Let_def split: sum.split option.split)

lemma privateValidate_idle [emits_rules]: "(\<And>x. R x) \<Longrightarrow> does idle R (privateValidate L w route)"
  unfolding privateValidate_def k8s_call_defs
  by (auto intro!: emits_rules extends_rules emits_mono [OF validatePrivateService_idle] simp: Let_def
      split: sum.split option.split)

lemma privateValidate_permitted:
  "yields (privateValidate L w route) (\<lambda>x. serviceReadPermitted route)"
  unfolding privateValidate_def k8s_call_defs Let_def
  by (auto intro!: yields_bind yields_call yields_ret 
      yields_mono [OF yields_extends [unfolded extends_def, OF validatePrivateService_admits]]
      simp: serviceReadPermitted_def Let_def split: sum.split) blast

lemma privateValidate_plans:
  "yields (privateValidate L w route) (\<lambda>x es. list_all idle es \<and> serviceReadPermitted route es
     \<and> (\<forall>p network. (x = Inr (Inr (p, network))) = privateAdmitted L route p network es))"
proof -
  have "yields (privateValidate L w route) (\<lambda>x. list_all idle)"
    using emits_yields [OF privateValidate_idle [where R = "\<lambda>_. True"]]
    by (rule yields_mono) (simp_all add: list_all_iff)
  from yields_conj [OF this yields_conj [OF privateValidate_permitted privateValidate_admitted]]
  show ?thesis .
qed

text \<open>C29: Validation of a private route. It changes nothing; a Service of another namespace is read
  only after a ReferenceGrant that permits it was listed there; and it admits the route with a
  provider and a network exactly if the provider is of the route's class, with true Accepted and
  CredentialsValid for its present generation, selects the route's namespace, the Service is of
  type ClusterIP with the port and a canonical IPv4 address, the network is that address with
  /32, and no route with a better claim conflicts.\<close>

theorem private_validate_mediates:
  "yields (privateValidate L w route) (\<lambda>x es. list_all idle es \<and> serviceReadPermitted route es
     \<and> (\<forall>p network. (x = Inr (Inr (p, network))) = privateAdmitted L route p network es))"
  by (rule privateValidate_plans)

end
