(* ===== verification/PrivateSafety.thy ===== *)
theory PrivateSafety
  imports PrivatePlan
begin

text \<open>
  What a run of the private route controller may change. As for bindings, the rules are stated for
  a set of facts \<open>F\<close> and the rely that everything the world answers is in \<open>F\<close>;
  the property takes for \<open>F\<close> what was answered in the run.
\<close>

section \<open>Facts and the policy\<close>

datatype (plugins only: code) fact =
    RouteObject cloudflareTunnelPrivateRoute
  | RemoteTunnel tunnel
  | RemoteRoute privateRoute

fun facts :: "string \<Rightarrow> event \<Rightarrow> fact set" where
  \<comment> \<open>What an answer tells, of the objects of the API only those of the controller class.\<close>
  "facts c (GetPrivateRouteObject key (Inr route)) =
     (if rs_controller (r_spec route) = c then {RouteObject route} else {})"
| "facts c (PatchPrivateRouteStatus r0 r1 (Inr route)) = {RouteObject route}"
| "facts c (CfGetTunnel i (Inr (Some t))) = {RemoteTunnel t}"
| "facts c (CfListPrivateRoutes n (routes, None)) = RemoteRoute ` set routes"
| "facts c (CfGetPrivateRoute i (Inr (Some x))) = {RemoteRoute x}"
| "facts c e = {}"

definition factsOf :: "string \<Rightarrow> history \<Rightarrow> fact set" where
  "factsOf c es = (\<Union>e \<in> set es. facts c e)"

fun patchedObject :: "event \<Rightarrow> (cloudflareTunnelPrivateRoute \<times> cloudflareTunnelPrivateRoute) option" where
  \<comment> \<open>The object a status patch was for, and the one it answered with.\<close>
  "patchedObject (PatchPrivateRouteStatus r0 r1 (Inr route)) = Some (r0, route)"
| "patchedObject e = None"

definition answersIn :: "string \<Rightarrow> fact set \<Rightarrow> event \<Rightarrow> bool" where
  \<comment> \<open>The rely: answers are in \<open>F\<close>, and status patches stay in it.\<close>
  "answersIn c F e \<longleftrightarrow> (case patchedObject e of
     Some (r0, r) \<Rightarrow> RouteObject r0 \<in> F \<longrightarrow> RouteObject r \<in> F
   | None \<Rightarrow> facts c e \<subseteq> F)"

abbreviation knownRoutes :: "fact set \<Rightarrow> cloudflareTunnelPrivateRoute set" where
  "knownRoutes F \<equiv> {r. RouteObject r \<in> F}"

definition privateChild :: "fact set \<Rightarrow> objectMeta \<Rightarrow> bool" where
  \<comment> \<open>The child does not exist yet or carries the UID of a known route.\<close>
  "privateChild F child \<longleftrightarrow> om_uid child = ''''
     \<or> (\<exists>r \<in> knownRoutes F. labelValue (om_labels child) privateUIDLabel = r_uid r)"

definition routeTunnelName :: "fact set \<Rightarrow> string \<Rightarrow> bool" where
  "routeTunnelName F n \<longleftrightarrow> (\<exists>r \<in> knownRoutes F. \<exists>c. n = privateTunnelName c (r_uid r))"

definition ownTunnel :: "fact set \<Rightarrow> string \<Rightarrow> bool" where
  \<comment> \<open>The id of a tunnel that has the name a known route recorded and is remotely configured.\<close>
  "ownTunnel F i \<longleftrightarrow> (\<exists>r \<in> knownRoutes F. \<exists>t. RemoteTunnel t \<in> F \<and> tn_id t = i
     \<and> tn_name t = rst_tunnelName (r_status r) \<and> tn_configSource t = ConfigSourceCloudflare)"

definition provenOwn :: "privateRoute \<Rightarrow> cloudflareTunnelPrivateRoute \<Rightarrow> bool" where
  \<comment> \<open>The CIDR route carries the object's comment and leads to the tunnel it recorded, if any.\<close>
  "provenOwn x r \<longleftrightarrow> pr_id x \<noteq> '''' \<and> pr_comment x = privateComment r
     \<and> rst_tunnelID (r_status r) \<in> {'''', pr_tunnelID x}"

lemma privateOwned_proven: "privateOwned x r \<Longrightarrow> provenOwn x r"
  by (auto simp: privateOwned_def provenOwn_def)

definition ownRoute :: "fact set \<Rightarrow> string \<Rightarrow> bool" where
  \<comment> \<open>The id of a CIDR route with a known route's comment, for the network it recorded and, if it
    recorded a tunnel, to that tunnel.\<close>
  "ownRoute F i \<longleftrightarrow> (\<exists>r \<in> knownRoutes F. \<exists>x. RemoteRoute x \<in> F \<and> pr_id x = i \<and> provenOwn x r
     \<and> pr_network x = rst_network (r_status r))"

lemma routeTunnelNameI: "RouteObject r \<in> F \<Longrightarrow> routeTunnelName F (privateTunnelName c (r_uid r))"
  by (auto simp: routeTunnelName_def)

lemma ownTunnelI:
  "RouteObject r \<in> F \<Longrightarrow> RemoteTunnel t \<in> F \<Longrightarrow> tn_name t = rst_tunnelName (r_status r) \<Longrightarrow>
     tn_configSource t = ConfigSourceCloudflare \<Longrightarrow> ownTunnel F (tn_id t)"
  by (auto simp: ownTunnel_def)

lemma ownRouteI:
  "RouteObject r \<in> F \<Longrightarrow> RemoteRoute x \<in> F \<Longrightarrow> privateOwned x r \<Longrightarrow>
     pr_network x = rst_network (r_status r) \<Longrightarrow> ownRoute F (pr_id x)"
  by (auto simp: ownRoute_def dest: privateOwned_proven)

definition finalizerChanged :: "lib \<Rightarrow> fact set \<Rightarrow> cloudflareTunnelPrivateRoute \<Rightarrow> bool" where
  \<comment> \<open>A known route with the controller's own finalizer added or removed.\<close>
  "finalizerChanged L F r' \<longleftrightarrow> (\<exists>r \<in> knownRoutes F. \<exists>f \<in> {lib_addFinalizer L, lib_removeFinalizer L}.
     r' = r\<lparr>r_meta := (r_meta r)\<lparr>om_finalizers := f (om_finalizers (r_meta r)) privateFinalizer\<rparr>\<rparr>)"

lemma finalizerChangedI:
  "RouteObject r \<in> F \<Longrightarrow> f \<in> {lib_addFinalizer L, lib_removeFinalizer L} \<Longrightarrow> finalizerChanged L F
     (r\<lparr>r_meta := (r_meta r)\<lparr>om_finalizers := f (om_finalizers (r_meta r)) privateFinalizer\<rparr>\<rparr>)"
  unfolding finalizerChanged_def by (rule bexI, rule bexI, rule refl) auto

fun privateSafe :: "lib \<Rightarrow> privateReconciler \<Rightarrow> fact set \<Rightarrow> event \<Rightarrow> bool" where
  "privateSafe L vr F (StoreSecret current new e) =
     (privateChild F (sec_meta current) \<and> (\<exists>r \<in> knownRoutes F. om_labels (sec_meta new) = privateLabels r))"
| "privateSafe L vr F (StoreDeployment current new e) =
     (privateChild F (dep_meta current) \<and> (\<exists>r \<in> knownRoutes F. om_labels (dep_meta new) = privateLabels r)
      \<and> (case dep_replicas new of None \<Rightarrow> False | Some n \<Rightarrow> 1 \<le> n \<and> n \<le> 10))"
| "privateSafe L vr F (DeleteChild kind child e) =
     (kind \<in> {DeploymentKind, SecretKind} \<and> privateChild F child)"
| "privateSafe L vr F (UpdatePrivateRoute r' e) = finalizerChanged L F r'"
| "privateSafe L vr F (PatchPrivateRouteStatus r0 r1 x) = (\<exists>r \<in> knownRoutes F. r0 = r \<and> (\<exists>s. r1 = r\<lparr>r_status := s\<rparr>))"
| "privateSafe L vr F (GetSecret key s) = (fst key = privateSystemNamespace vr)"
| "privateSafe L vr F (CfCreateTunnel n t) = routeTunnelName F n"
| "privateSafe L vr F (CfDeleteTunnel i e) = ownTunnel F i"
| "privateSafe L vr F (CfCreatePrivateRoute n t c x) = (\<exists>r \<in> knownRoutes F. c = privateComment r)"
| "privateSafe L vr F (CfDeletePrivateRoute i e) = ownRoute F i"
| "privateSafe L vr F e = readOnly e"

lemma patchedObject_facts: "patchedObject e = Some (r0, r) \<Longrightarrow> RouteObject r \<in> facts c e"
  by (cases e rule: patchedObject.cases) auto

lemma list_all_answersIn: "factsOf c es \<subseteq> F \<Longrightarrow> list_all (answersIn c F) es"
  using patchedObject_facts
  by (fastforce simp: list_all_iff answersIn_def factsOf_def split: option.split)

lemma answersIn_simps [simp]:
  "answersIn c F (GetPrivateRouteObject key (Inr route)) =
     (rs_controller (r_spec route) = c \<longrightarrow> RouteObject route \<in> F)"
  "answersIn c F (PatchPrivateRouteStatus r0 r1 (Inr route)) =
     (RouteObject r0 \<in> F \<longrightarrow> RouteObject route \<in> F)"
  "answersIn c F (CfGetTunnel i (Inr (Some t))) = (RemoteTunnel t \<in> F)"
  "answersIn c F (CfListPrivateRoutes n (routes, None)) = (\<forall>x \<in> set routes. RemoteRoute x \<in> F)"
  "answersIn c F (CfGetPrivateRoute i (Inr (Some x))) = (RemoteRoute x \<in> F)"
  by (auto simp: answersIn_def)

section \<open>One rule per function\<close>

abbreviation psafe :: "lib \<Rightarrow> privateReconciler \<Rightarrow> fact set \<Rightarrow> ('a \<Rightarrow> bool) \<Rightarrow> 'a io \<Rightarrow> bool" where
  "psafe L vr F \<equiv> emits (answersIn (vr_controllerClass vr) F) (privateSafe L vr F)"

abbreviation knownAfter :: "fact set \<Rightarrow> cloudflareTunnelPrivateRoute \<times> 'e option \<Rightarrow> bool" where
  \<comment> \<open>Unless an error is returned, the route in memory is one the API server answered.\<close>
  "knownAfter F x \<equiv> snd x = None \<longrightarrow> RouteObject (fst x) \<in> F"

lemma psafe_patchRoute [emits_rules]:
  assumes "RouteObject route \<in> F" "\<And>r. \<exists>s. change r = r\<lparr>r_status := s\<rparr>"
    and "\<And>r e. e \<noteq> None \<or> RouteObject r \<in> F \<Longrightarrow> R (r, e)"
  shows "psafe L vr F R (patchRoute w change route)"
  unfolding patchRoute_def k8s_call_defs Let_def
  using assms by (auto intro!: emits_rules extends_rules split: sum.split)

lemma psafe_readAPIToken [emits_rules]:
  "(\<And>x. R x) \<Longrightarrow> psafe L vr F R (readAPIToken w (bindingHelper vr) p)"
  unfolding readAPIToken_def k8s_call_defs
  by (auto intro!: emits_rules extends_rules
      simp: bindingHelper_def systemNamespace_def privateSystemNamespace_def)

lemma psafe_newClient [emits_rules]: "(\<And>x. R x) \<Longrightarrow> psafe L vr F R (newClient w f t a)"
  by (simp add: newClient_def emits_call)

lemma psafe_privateApi [emits_rules]: "(\<And>x. R x) \<Longrightarrow> psafe L vr F R (privateApi w vr p)"
  unfolding privateApi_def by (auto intro!: emits_rules extends_rules split: sum.split)

lemma psafe_privateStatus [emits_rules]:
  assumes "RouteObject route \<in> F" "\<And>x. R x"
  shows "psafe L vr F R (privateStatus L w route accepted reason ready)"
proof -
  have "\<exists>s. privateStatusOf L accepted reason ready r = r\<lparr>r_status := s\<rparr>" for r
    unfolding privateStatusOf_def setRouteCondition_def Let_def by (cases r) auto
  then show ?thesis
    unfolding privateStatus_def using assms by (auto intro!: emits_rules extends_rules)
qed

lemma psafe_privateValidate [emits_rules]:
  "(\<And>x. R x) \<Longrightarrow> psafe L vr F R (privateValidate L w route)"
  unfolding privateValidate_def validatePrivateService_def privateRouteConflicts_def k8s_call_defs
  by (auto intro!: emits_rules extends_rules simp: Let_def split: sum.split option.split)

subsection \<open>Cloudflare\<close>

lemma psafe_deleteListedRoutes:
  "\<lbrakk>RouteObject route \<in> F; \<forall>x \<in> set existing. RemoteRoute x \<in> F; \<And>x. R x\<rbrakk> \<Longrightarrow>
     psafe L vr F R (deleteListedRoutes api route existing)"
  by (induction existing)
     (auto intro!: emits_rules extends_rules ownRouteI simp: cfDeletePrivateRoute_def split: option.split)

lemma psafe_deleteRoute [emits_rules]:
  "\<lbrakk>RouteObject route \<in> F; \<And>x. R x\<rbrakk> \<Longrightarrow> psafe L vr F R (deleteRoute api route)"
  unfolding deleteRoute_def cf_call_defs
  by (auto intro!: emits_rules extends_rules psafe_deleteListedRoutes ownRouteI split: sum.split option.split)

lemmas statusChanges = routeCleared_def tunnelCleared_def tunnelRecorded_def networkRecorded_def
  routeRecorded_def connectorRecorded_def

lemma statusChanges_status:
  "\<exists>s. routeCleared r = r\<lparr>r_status := s\<rparr>" "\<exists>s. tunnelCleared r = r\<lparr>r_status := s\<rparr>"
  "\<exists>s. tunnelRecorded t r = r\<lparr>r_status := s\<rparr>" "\<exists>s. networkRecorded n r = r\<lparr>r_status := s\<rparr>"
  "\<exists>s. routeRecorded i n r = r\<lparr>r_status := s\<rparr>" "\<exists>s. connectorRecorded n r = r\<lparr>r_status := s\<rparr>"
  by (auto simp: statusChanges)

lemma psafe_createRoute [emits_rules]:
  "\<lbrakk>RouteObject route \<in> F; \<And>r e. e \<noteq> None \<or> RouteObject r \<in> F \<Longrightarrow> R (r, e)\<rbrakk> \<Longrightarrow>
     psafe L vr F R (createRoute w api route tun network)"
  unfolding createRoute_def cf_call_defs
  by (auto intro!: emits_rules extends_rules statusChanges_status split: sum.split option.split)

lemma psafe_findOrCreateRoute [emits_rules]:
  "\<lbrakk>RouteObject route \<in> F; \<And>r e. e \<noteq> None \<or> RouteObject r \<in> F \<Longrightarrow> R (r, e)\<rbrakk> \<Longrightarrow>
     psafe L vr F R (findOrCreateRoute w api route tun network)"
  unfolding findOrCreateRoute_def cf_call_defs
  by (auto intro!: emits_rules extends_rules statusChanges_status split: sum.split option.split)

lemma psafe_ensureRoute [emits_rules]:
  "\<lbrakk>RouteObject route \<in> F; \<And>r e. e \<noteq> None \<or> RouteObject r \<in> F \<Longrightarrow> R (r, e)\<rbrakk> \<Longrightarrow>
     psafe L vr F R (ensureRoute w api route tun network)"
  unfolding ensureRoute_def cf_call_defs
  by (auto intro!: emits_rules extends_rules statusChanges_status split: sum.split option.split)

lemma psafe_removeRoute [emits_rules]:
  "\<lbrakk>RouteObject route \<in> F; \<And>r e. e \<noteq> None \<or> RouteObject r \<in> F \<Longrightarrow> R (r, e)\<rbrakk> \<Longrightarrow>
     psafe L vr F R (removeRoute w vr route)"
  unfolding removeRoute_def k8s_call_defs
  by (auto intro!: emits_rules extends_rules statusChanges_status split: sum.split option.split)

lemma psafe_adoptPrivateTunnel [emits_rules]:
  "\<lbrakk>RouteObject route \<in> F; \<And>r e. RouteObject r \<in> F \<Longrightarrow> R (r, Inr e); \<And>r e. R (r, Inl e)\<rbrakk> \<Longrightarrow>
     psafe L vr F R (adoptPrivateTunnel w route name tun)"
  unfolding adoptPrivateTunnel_def
  by (auto intro!: emits_rules extends_rules statusChanges_status split: option.split)

lemma psafe_findPrivateTunnel [emits_rules]:
  "\<lbrakk>RouteObject route \<in> F; routeTunnelName F name;
    \<And>r e. RouteObject r \<in> F \<Longrightarrow> R (r, Inr e); \<And>r e. R (r, Inl e)\<rbrakk> \<Longrightarrow>
     psafe L vr F R (findPrivateTunnel w api route name)"
  unfolding findPrivateTunnel_def cf_call_defs
  by (auto intro!: emits_rules extends_rules split: sum.split option.split)

lemma psafe_privateEnsureTunnel [emits_rules]:
  "\<lbrakk>RouteObject route \<in> F; routeTunnelName F name;
    \<And>r e. RouteObject r \<in> F \<Longrightarrow> R (r, Inr e); \<And>r e. R (r, Inl e)\<rbrakk> \<Longrightarrow>
     psafe L vr F R (privateEnsureTunnel w api route name)"
  unfolding privateEnsureTunnel_def replaceLostTunnel_def cf_call_defs
  by (auto intro!: emits_rules extends_rules statusChanges_status split: sum.split option.split)

subsection \<open>The connector and deletion\<close>

lemma verifyPrivateChild_child:
  "verifyPrivateChild route c = None \<Longrightarrow> RouteObject route \<in> F \<Longrightarrow> privateChild F c"
  by (auto simp: verifyPrivateChild_def privateChild_def split: if_splits)

lemma psafe_ensureConnector [emits_rules]:
  assumes "RouteObject route \<in> F" "\<And>r e. RouteObject r \<in> F \<Longrightarrow> R (r, Inr e)" "\<And>r e. R (r, Inl e)"
  shows "psafe L vr F R (ensureConnector L w vr route token)"
proof -
  have secret: "psafe L vr F (\<lambda>_. True) (createOrPatchSecret w key (mutatePrivateSecret route token))" for key
    by (rule yields_emits [OF createOrPatchSecret_yields [where P = "\<lambda>_. list_all (privateSafe L vr F)"]])
       (use assms(1) in \<open>auto simp: mutatePrivateSecret_def verifyPrivateChild_child split: option.splits\<close>)
  have deployment: "psafe L vr F (\<lambda>_. True) (createOrPatchDeployment w key (mutatePrivateDeployment L vr route n))"
    for key n
    by (rule yields_emits [OF createOrPatchDeployment_yields [where P = "\<lambda>_. list_all (privateSafe L vr F)"]])
       (use assms(1) in \<open>auto simp: mutatePrivateDeployment_def Let_def verifyPrivateChild_child effectiveReplicas_bounds
          split: option.splits\<close>)
  show ?thesis
    unfolding ensureConnector_def Let_def
    by (rule emits_bind [OF emits_mono [OF secret]])
       (auto intro!: emits_rules extends_rules statusChanges_status emits_mono [OF deployment] assms
         split: sum.split option.split)
qed

lemma psafe_deletePrivateChildren [emits_rules]:
  "\<lbrakk>RouteObject route \<in> F; set kinds \<subseteq> {DeploymentKind, SecretKind}; \<And>x. R x\<rbrakk> \<Longrightarrow>
     psafe L vr F R (deletePrivateChildren w route key kinds)"
  by (induction kinds)
     (auto intro!: emits_rules extends_rules simp: k8s_call_defs verifyPrivateChild_child
       split: sum.split option.split)

lemma psafe_removePrivateFinalizer [emits_rules]:
  "\<lbrakk>RouteObject route \<in> F; \<And>x. R x\<rbrakk> \<Longrightarrow> psafe L vr F R (removePrivateFinalizer L w route)"
  unfolding removePrivateFinalizer_def k8s_call_defs
  by (auto intro!: emits_rules extends_rules finalizerChangedI)

lemma psafe_privateFinalizeChildren [emits_rules]:
  "\<lbrakk>RouteObject route \<in> F; \<And>x. R x\<rbrakk> \<Longrightarrow> psafe L vr F R (privateFinalizeChildren L w vr route)"
  unfolding privateFinalizeChildren_def deletePrivateTunnel_def k8s_call_defs cf_call_defs
  by (auto intro!: emits_rules extends_rules ownTunnelI [where r = route] simp: Let_def
      simp del: deletePrivateChildren.simps split: sum.split option.split)

lemma psafe_privateFinalize [emits_rules]:
  "\<lbrakk>RouteObject route \<in> F; \<And>x. R x\<rbrakk> \<Longrightarrow> psafe L vr F R (privateFinalize L w vr route)"
  unfolding privateFinalize_def
  by (auto intro!: emits_rules extends_rules split: option.split)

subsection \<open>Reconcile\<close>

lemma psafe_connectRoute [emits_rules]:
  "\<lbrakk>RouteObject route \<in> F; \<And>x. R x\<rbrakk> \<Longrightarrow> psafe L vr F R (connectRoute L w vr api route tun network)"
  unfolding connectRoute_def cf_call_defs
  by (auto intro!: emits_rules extends_rules simp: Let_def split: sum.split option.split)

lemma psafe_switchNetwork [emits_rules]:
  "\<lbrakk>RouteObject route \<in> F; \<And>x. R x\<rbrakk> \<Longrightarrow> psafe L vr F R (switchNetwork L w vr api route tun network)"
  unfolding switchNetwork_def
  by (auto intro!: emits_rules extends_rules statusChanges_status split: option.split)

lemma psafe_acceptRoute [emits_rules]:
  "\<lbrakk>RouteObject route \<in> F; \<And>x. R x\<rbrakk> \<Longrightarrow> psafe L vr F R (acceptRoute L w vr route p network)"
  unfolding acceptRoute_def k8s_call_defs
  by (auto intro!: emits_rules extends_rules routeTunnelNameI split: sum.split)

lemma psafe_rejectRoute [emits_rules]:
  "\<lbrakk>RouteObject route \<in> F; \<And>x. R x\<rbrakk> \<Longrightarrow> psafe L vr F R (rejectRoute L w vr route reason)"
  unfolding rejectRoute_def
  by (auto intro!: emits_rules extends_rules split: option.split)

lemma psafe_privateReconcileLive [emits_rules]:
  "\<lbrakk>RouteObject route \<in> F; \<And>x. R x\<rbrakk> \<Longrightarrow> psafe L vr F R (privateReconcileLive L w vr route)"
  unfolding privateReconcileLive_def k8s_call_defs
  by (auto intro!: emits_rules extends_rules finalizerChangedI split: sum.split)

lemma privateReconcile_safe: "psafe L vr F (\<lambda>_. True) (privateReconcile L w vr req)"
proof -
  have "\<exists>s. privateFailureStatus L r = r\<lparr>r_status := s\<rparr>" for r
    unfolding privateFailureStatus_def setRouteCondition_def by (cases r) auto
  then show ?thesis
    unfolding privateReconcile_def reportPrivateFailure_def privateReconcileOnce_def k8s_call_defs
    by (auto intro!: emits_rules extends_rules split: sum.split option.split)
qed

lemma privateReconcile_answers:
  "yields (privateReconcile L w vr req) (\<lambda>_ es. \<forall>F.
     list_all (answersIn (vr_controllerClass vr) F) es \<longrightarrow> list_all (privateSafe L vr F) es)"
  using emits_forall [where P = "\<lambda>_. True", OF privateReconcile_safe
      yields_extends [OF emits_yields [OF privateReconcile_safe]]]
  by simp

text \<open>C27: One run of the private route controller, whatever the world answers. It stores or deletes
  only children that are new or carry the UID of a private route object of its class the API
  server answered with in the run; it changes only that object's own finalizer and status; it
  creates tunnels and CIDR routes only under that object's name and comment; it deletes a CIDR
  route only if Cloudflare answered with it, with that comment and for the recorded network, and
  a tunnel only if Cloudflare answered with it under the recorded name; it reads Secrets only in
  the system namespace, and never writes a tunnel's ingress configuration, a binding or a
  provider.\<close>

theorem private_run_safe:
  "yields (privateReconcile L w vr req)
     (\<lambda>_ es. list_all (privateSafe L vr (factsOf (vr_controllerClass vr) es)) es)"
  by (rule yields_mono [OF privateReconcile_answers]) (simp add: list_all_answersIn)

end
