(* ===== verification/PrivateRoutes.thy ===== *)
theory PrivateRoutes
  imports PrivateSafety
begin

text \<open>
  The CIDR route of a private route: when it is created, adopted and recorded, and what a
  successful run of \<^verbatim>\<open>ensureRoute\<close> means.
\<close>

section \<open>Calls in the light of the calls before them\<close>

fun eachAfter :: "(history \<Rightarrow> event \<Rightarrow> bool) \<Rightarrow> history \<Rightarrow> history \<Rightarrow> bool" where
  "eachAfter P before [] = True"
| "eachAfter P before (e # es) = (P before e \<and> eachAfter P (before @ [e]) es)"

lemma eachAfter_append [simp]:
  "eachAfter P before (es @ es') = (eachAfter P before es \<and> eachAfter P (before @ es) es')"
  by (induction es arbitrary: before) auto

fun listsFree :: "string \<Rightarrow> event \<Rightarrow> bool" where
  \<comment> \<open>Cloudflare listed no route of the network.\<close>
  "listsFree network (CfListPrivateRoutes n (rs, None)) =
     (n = network \<and> list_all (\<lambda>x. pr_network x \<noteq> network) rs)"
| "listsFree network e = False"

fun holdsNetwork :: "string \<Rightarrow> event \<Rightarrow> bool" where
  \<comment> \<open>The API server holds the network in the route's status, as just written or answered.\<close>
  "holdsNetwork network (PatchPrivateRouteStatus r0 r1 (Inr r)) =
     (rst_network (r_status r1) = network \<or> rst_network (r_status r) = network)"
| "holdsNetwork network e = False"

fun answersRoute :: "privateRoute \<Rightarrow> event \<Rightarrow> bool" where
  "answersRoute x (CfGetPrivateRoute i (Inr (Some y))) = (y = x)"
| "answersRoute x (CfListPrivateRoutes n (rs, None)) = (x \<in> set rs)"
| "answersRoute x (CfCreatePrivateRoute n t c (Inr (Some y))) = (y = x)"
| "answersRoute x e = False"

definition networkPersisted :: "cloudflareTunnelPrivateRoute \<Rightarrow> string \<Rightarrow> history \<Rightarrow> bool" where
  "networkPersisted route network es \<longleftrightarrow>
     rst_network (r_status route) = network \<or> list_ex (holdsNetwork network) es"

definition serves :: "privateRoute \<Rightarrow> cloudflareTunnelPrivateRoute \<Rightarrow> tunnel \<Rightarrow> string \<Rightarrow> bool" where
  "serves x r tun network \<longleftrightarrow> provenOwn x r \<and> pr_network x = network \<and> pr_tunnelID x = tn_id tun"

definition routePatch ::
  "tunnel \<Rightarrow> string \<Rightarrow> history \<Rightarrow> cloudflareTunnelPrivateRoute \<Rightarrow> cloudflareTunnelPrivateRoute \<Rightarrow> bool" where
  \<comment> \<open>A lost route is cleared, the network of a new one announced, and only a route that is proven to
    be the object's own is recorded.\<close>
  "routePatch tun network before r0 r1 \<longleftrightarrow>
     r1 = routeCleared r0 \<and> CfGetPrivateRoute (rst_routeID (r_status r0)) (Inr None) \<in> set before
     \<or> r1 = networkRecorded network r0 \<and> list_ex (listsFree network) before
     \<or> (\<exists>x. r1 = routeRecorded (pr_id x) network r0 \<and> serves x r0 tun network \<and> list_ex (answersRoute x) before)"

fun routeStep :: "cloudflareTunnelPrivateRoute \<Rightarrow> tunnel \<Rightarrow> string \<Rightarrow> history \<Rightarrow> event \<Rightarrow> bool" where
  "routeStep route tun network before (CfCreatePrivateRoute n t c x) =
     (n = network \<and> t = tn_id tun \<and> list_ex (listsFree network) before \<and> networkPersisted route network before)"
| "routeStep route tun network before (PatchPrivateRouteStatus r0 r1 a) = routePatch tun network before r0 r1"
| "routeStep route tun network before e = (\<not> mutates e)"

definition routeProgrammed :: "tunnel \<Rightarrow> string \<Rightarrow> history \<Rightarrow> bool" where
  \<comment> \<open>Cloudflare answered with a route of the network to the tunnel that carries the comment of a
    private route object.\<close>
  "routeProgrammed tun network es \<longleftrightarrow> (\<exists>x r. serves x r tun network \<and> list_ex (answersRoute x) es)"

lemma routePatchI:
  "CfGetPrivateRoute (rst_routeID (r_status r0)) (Inr None) \<in> set before \<Longrightarrow>
     routePatch tun network before r0 (routeCleared r0)"
  "list_ex (listsFree network) before \<Longrightarrow> routePatch tun network before r0 (networkRecorded network r0)"
  "\<lbrakk>privateOwned x r0; pr_tunnelID x = tn_id tun; pr_network x = network; list_ex (answersRoute x) before\<rbrakk> \<Longrightarrow>
     routePatch tun network before r0 (routeRecorded (pr_id x) network r0)"
  unfolding routePatch_def serves_def using privateOwned_proven by blast+

lemma routeProgrammedI:
  "\<lbrakk>privateOwned x r; pr_tunnelID x = tn_id tun; answersRoute x e\<rbrakk> \<Longrightarrow>
     routeProgrammed tun (pr_network x) (es @ e # es')"
  unfolding routeProgrammed_def serves_def
  by (intro exI [of _ x] exI [of _ r]) (simp add: privateOwned_proven)

lemma routeProgrammed_listed:
  "\<lbrakk>privateOwned x r; pr_tunnelID x = tn_id tun; pr_network x = network; x \<in> set rs\<rbrakk> \<Longrightarrow>
     routeProgrammed tun network (es @ CfListPrivateRoutes n (rs, None) # es')"
  using routeProgrammedI [of x r tun "CfListPrivateRoutes n (rs, None)" es es'] by simp

lemma find_SomeD: "List.find P xs = Some x \<Longrightarrow> x \<in> set xs \<and> P x"
  by (auto simp: find_Some_iff)

lemma networkPersisted_read [simp]: "networkPersisted route (rst_network (r_status route)) es"
  by (simp add: networkPersisted_def)

lemma networkPersisted_append [simp]:
  "networkPersisted route network (es @ es') =
     (networkPersisted route network es \<or> list_ex (holdsNetwork network) es')"
  by (auto simp: networkPersisted_def)

lemma recorded_network [simp]: "rst_network (r_status (networkRecorded network r)) = network"
  by (simp add: networkRecorded_def)

section \<open>Creating, adopting and recording\<close>

lemma createRoute_steps:
  assumes "list_ex (listsFree network) before" "networkPersisted route0 network before"
  shows "yields (createRoute w api route tun network) (\<lambda>x es.
     eachAfter (routeStep route0 tun network) before es
     \<and> (snd x = None \<longrightarrow> routeProgrammed tun network (before @ es)))"
  unfolding createRoute_def patchRoute_def k8s_call_defs cf_call_defs Let_def
  using assms
  by (auto intro!: yields_rules routePatchI routeProgrammedI split: sum.splits option.splits)

lemma createRoute_after:
  assumes "list_ex (listsFree network) (before @ pre)" "networkPersisted route0 network (before @ pre)"
  shows "yields (createRoute w api route tun network) (\<lambda>x es.
     eachAfter (routeStep route0 tun network) (before @ pre) es
     \<and> (snd x = None \<longrightarrow> routeProgrammed tun network (before @ pre @ es)))"
  using createRoute_steps [OF assms] by simp

lemma findOrCreateRoute_steps:
  assumes "rst_network (r_status route) = network \<Longrightarrow> networkPersisted route0 network before"
  shows "yields (findOrCreateRoute w api route tun network) (\<lambda>x es.
     eachAfter (routeStep route0 tun network) before es
     \<and> (snd x = None \<longrightarrow> routeProgrammed tun network (before @ es)))"
  using assms
  unfolding findOrCreateRoute_def patchRoute_def k8s_call_defs cf_call_defs Let_def
  by (auto intro!: yields_bind yields_call yields_ret createRoute_after [of _ _ "[a]" for a, simplified]
      createRoute_after [of _ _ "[a, b]" for a b, simplified] routePatchI
    dest!: find_SomeD simp: find_None_iff list_all_iff routePatchI split: sum.splits option.splits)
    (rule routeProgrammed_listed, assumption, assumption, (rule refl | assumption), assumption)+

lemma ensureRoute_steps:
  "yields (ensureRoute w api route tun network) (\<lambda>x es.
     eachAfter (routeStep route tun network) [] es
     \<and> (snd x = None \<longrightarrow> routeProgrammed tun network es))"
proof -
  have cleared: "yields (findOrCreateRoute w api r tun network) (\<lambda>x es.
      eachAfter (routeStep route tun network) [a, PatchPrivateRouteStatus r0 r1 (Inr r)] es
      \<and> (snd x = None \<longrightarrow> routeProgrammed tun network (a # PatchPrivateRouteStatus r0 r1 (Inr r) # es)))"
    for a r r0 r1
    using findOrCreateRoute_steps [of r network route "[a, PatchPrivateRouteStatus r0 r1 (Inr r)]" w api tun]
    by (simp add: networkPersisted_def)
  have current: "routeProgrammed tun (pr_network x) [CfGetPrivateRoute i (Inr (Some x))]"
    if "privateOwned x route" "pr_tunnelID x = tn_id tun" for x i
    using routeProgrammedI [OF that, of "CfGetPrivateRoute i (Inr (Some x))" "[]" "[]"] by simp
  show ?thesis
    unfolding ensureRoute_def patchRoute_def k8s_call_defs cf_call_defs Let_def
    by (auto intro!: yields_bind yields_call yields_ret cleared current routePatchI
        findOrCreateRoute_steps [where before = "[]", simplified] simp: routePatchI
        split: sum.splits option.splits)
qed

text \<open>C31: A CIDR route is created only right for the admitted network and tunnel, after Cloudflare
  listed no route of that network, and after the network was persisted in the status, so that it
  can be found again; a route id is recorded only for a route proven to be the object's own,
  with the same network and tunnel; a recorded route is forgotten only when Cloudflare reports
  it missing. On success Cloudflare has answered with such a route.\<close>

theorem ensureRoute_programs:
  "yields (ensureRoute w api route tun network) (\<lambda>x es.
     eachAfter (routeStep route tun network) [] es
     \<and> (case snd x of None \<Rightarrow> routeProgrammed tun network es | Some err \<Rightarrow> True))"
  by (rule yields_mono [OF ensureRoute_steps]) (auto split: option.split)

end
