(* ===== verification/PrivateFinalize.thy ===== *)
theory PrivateFinalize
  imports PrivateRoutes
begin

text \<open>
  Deletion of a private route: first the CIDR route, then the connector's children, then the
  tunnel, and the finalizer last, each only after the world confirmed the steps before.
\<close>

section \<open>What counts as gone\<close>

fun childGone :: "childKind \<Rightarrow> namespacedName \<Rightarrow> cloudflareTunnelPrivateRoute \<Rightarrow> event \<Rightarrow> bool" where
  "childGone kind key r (GetChild k n (Inl e)) = (k = kind \<and> n = key \<and> isNotFoundKube e)"
| "childGone kind key r (DeleteChild k child e) =
     (k = kind \<and> verifyPrivateChild r child = None \<and> (case e of None \<Rightarrow> True | Some x \<Rightarrow> isNotFoundKube x))"
| "childGone kind key r e = False"

definition privateChildrenGone :: "privateReconciler \<Rightarrow> cloudflareTunnelPrivateRoute \<Rightarrow> history \<Rightarrow> bool" where
  "privateChildrenGone vr r es \<longleftrightarrow>
     list_all (\<lambda>kind. list_ex (childGone kind (privateSystemNamespace vr, privateResourceName (r_uid r)) r) es)
       [DeploymentKind, SecretKind]"

fun deletedRoute :: "string \<Rightarrow> event \<Rightarrow> bool" where
  "deletedRoute i (CfDeletePrivateRoute j None) = (j = i)"
| "deletedRoute i e = False"

fun deletedTunnel :: "string \<Rightarrow> event \<Rightarrow> bool" where
  "deletedTunnel i (CfDeleteTunnel j None) = (j = i)"
| "deletedTunnel i e = False"

definition retainedRoute :: "cloudflareTunnelPrivateRoute \<Rightarrow> bool" where
  "retainedRoute r \<longleftrightarrow> rs_deletionPolicy (r_spec r) = DeletionPolicyRetain"

fun routeAnsweredGone :: "cloudflareTunnelPrivateRoute \<Rightarrow> history \<Rightarrow> event \<Rightarrow> bool" where
  \<comment> \<open>Cloudflare has no recorded route, or the answered ones that are the object's own were deleted.\<close>
  "routeAnsweredGone r es (CfGetPrivateRoute i (Inr x)) =
     (i = rst_routeID (r_status r) \<and> i \<noteq> '''' \<and> (case x of None \<Rightarrow> True | Some y \<Rightarrow> list_ex (deletedRoute (pr_id y)) es))"
| "routeAnsweredGone r es (CfListPrivateRoutes n (xs, None)) =
     (rst_routeID (r_status r) = '''' \<and> n = rst_network (r_status r)
      \<and> list_all (\<lambda>y. pr_network y = n \<and> privateOwned y r \<longrightarrow> list_ex (deletedRoute (pr_id y)) es) xs)"
| "routeAnsweredGone r es e = False"

definition routeStage :: "cloudflareTunnelPrivateRoute \<Rightarrow> history \<Rightarrow> bool" where
  "routeStage r es \<longleftrightarrow> retainedRoute r \<or> rst_network (r_status r) = '''' \<or> list_ex (routeAnsweredGone r es) es"

fun tunnelAnsweredGone :: "cloudflareTunnelPrivateRoute \<Rightarrow> history \<Rightarrow> event \<Rightarrow> bool" where
  "tunnelAnsweredGone r es (CfGetTunnel i (Inr t)) =
     (i = rst_tunnelID (r_status r)
      \<and> (case t of None \<Rightarrow> True
         | Some u \<Rightarrow> tn_name u = rst_tunnelName (r_status r) \<and> list_ex (deletedTunnel (tn_id u)) es))"
| "tunnelAnsweredGone r es e = False"

definition tunnelStage :: "cloudflareTunnelPrivateRoute \<Rightarrow> history \<Rightarrow> bool" where
  "tunnelStage r es \<longleftrightarrow> retainedRoute r \<or> rst_tunnelID (r_status r) = '''' \<or> list_ex (tunnelAnsweredGone r es) es"

section \<open>The order of deletion\<close>

fun answersObject :: "cloudflareTunnelPrivateRoute \<Rightarrow> event \<Rightarrow> bool" where
  "answersObject r (PatchPrivateRouteStatus r0 r1 (Inr r2)) = (r2 = r)"
| "answersObject r e = False"

fun updatesObject :: "event \<Rightarrow> bool" where
  "updatesObject (UpdatePrivateRoute r e) = True"
| "updatesObject e = False"

fun acceptedUpdate :: "event \<Rightarrow> bool" where
  "acceptedUpdate (UpdatePrivateRoute r None) = True"
| "acceptedUpdate e = False"

definition inMemory :: "cloudflareTunnelPrivateRoute \<Rightarrow> history \<Rightarrow> cloudflareTunnelPrivateRoute \<Rightarrow> bool" where
  \<comment> \<open>The object deletion started from, or the one the API server answered with since.\<close>
  "inMemory route es r \<longleftrightarrow> r = route \<or> list_ex (answersObject r) es"

definition unfinalizedRoute :: "lib \<Rightarrow> cloudflareTunnelPrivateRoute \<Rightarrow> cloudflareTunnelPrivateRoute" where
  "unfinalizedRoute L r = r\<lparr>r_meta := (r_meta r)\<lparr>om_finalizers :=
     lib_removeFinalizer L (om_finalizers (r_meta r)) privateFinalizer\<rparr>\<rparr>"

fun deletionStep ::
  "lib \<Rightarrow> privateReconciler \<Rightarrow> cloudflareTunnelPrivateRoute \<Rightarrow> history \<Rightarrow> event \<Rightarrow> bool" where
  "deletionStep L vr route es (CfDeletePrivateRoute i e) = (\<not> retainedRoute route)"
| "deletionStep L vr route es (DeleteChild kind child e) = routeStage route es"
| "deletionStep L vr route es (CfDeleteTunnel i e) =
     (routeStage route es \<and> (\<exists>r. inMemory route es r \<and> privateChildrenGone vr r es \<and> \<not> retainedRoute r))"
| "deletionStep L vr route es (UpdatePrivateRoute r' e) =
     (routeStage route es \<and> (\<exists>r. inMemory route es r \<and> privateChildrenGone vr r es \<and> tunnelStage r es
        \<and> r' = unfinalizedRoute L r))"
| "deletionStep L vr route es e = (\<not> mutates e)"

definition deletedInOrder ::
  "lib \<Rightarrow> privateReconciler \<Rightarrow> cloudflareTunnelPrivateRoute \<Rightarrow> goerr option \<Rightarrow> history \<Rightarrow> history \<Rightarrow> bool" where
  \<comment> \<open>The calls are in order after those before, the update of the object is the last one, and the
    result is success exactly if that update was accepted.\<close>
  "deletedInOrder L vr route res before es \<longleftrightarrow>
     eachAfter (deletionStep L vr route) before es
     \<and> list_all (\<lambda>e. \<not> updatesObject e) (butlast es)
     \<and> (res = None) = (es \<noteq> [] \<and> acceptedUpdate (last es))"

section \<open>Evidence stays\<close>

lemma deletedRoute_mono: "list_ex (deletedRoute i) es \<Longrightarrow> list_ex (deletedRoute i) (es @ es')"
  by simp

lemma routeAnsweredGone_mono: "routeAnsweredGone r es e \<Longrightarrow> routeAnsweredGone r (es0 @ es @ es') e"
  by (cases "(r, es, e)" rule: routeAnsweredGone.cases) (auto simp: list_all_iff split: option.splits)

lemma tunnelAnsweredGone_mono: "tunnelAnsweredGone r es e \<Longrightarrow> tunnelAnsweredGone r (es @ es') e"
  by (cases "(r, es, e)" rule: tunnelAnsweredGone.cases) (auto split: option.splits)

lemma list_ex_routeGone: 
  "list_ex (routeAnsweredGone r es) es \<Longrightarrow> list_ex (routeAnsweredGone r (es0 @ es @ es')) (es0 @ es @ es')"
  using routeAnsweredGone_mono [of r es _ es0 es'] by (fastforce simp: list_ex_iff)

lemma evidence_stays:
  "routeStage r es \<Longrightarrow> routeStage r (es @ es')"
  "inMemory route es r \<Longrightarrow> inMemory route (es @ es') r"
  "privateChildrenGone vr r es \<Longrightarrow> privateChildrenGone vr r (es @ es')"
  using list_ex_routeGone [of r es "[]" es']
  by (auto simp: routeStage_def inMemory_def privateChildrenGone_def)

abbreviation silent :: "event \<Rightarrow> bool" where
  "silent e \<equiv> \<not> updatesObject e"

lemma idle_silent: "idle e \<Longrightarrow> silent e"
  by (cases e) auto

lemma idle_step: "idle e \<Longrightarrow> deletionStep L vr route es e"
  by (cases e) auto

lemma idle_steps: "list_all idle es \<Longrightarrow> eachAfter (deletionStep L vr route) before es \<and> list_all silent es"
  by (induction es arbitrary: before) (auto simp: idle_step idle_silent)

lemma order_append:
  assumes "eachAfter (deletionStep L vr route) before pre" "list_all silent pre"
    and "deletedInOrder L vr route res (before @ pre) es"
  shows "deletedInOrder L vr route res before (pre @ es)"
proof (cases "es = []")
  case True
  have "\<not> acceptedUpdate (last pre)" if "pre \<noteq> []"
    using assms(2) that by (cases pre rule: rev_cases; cases "last pre") auto
  moreover have "list_all silent (butlast pre)"
    using assms(2) by (auto simp: list_all_iff dest: in_set_butlastD)
  ultimately show ?thesis using True assms by (auto simp: deletedInOrder_def)
next
  case False
  with assms show ?thesis by (auto simp: deletedInOrder_def butlast_append)
qed

lemma order_stop:
  "eachAfter (deletionStep L vr route) before es \<Longrightarrow> list_all silent es \<Longrightarrow> res \<noteq> None \<Longrightarrow>
     deletedInOrder L vr route res before es"
  using order_append [of L vr route before es res "[]"] by (simp add: deletedInOrder_def)

section \<open>One rule per stage\<close>

text \<open>\<open>ordered before m\<close>: after the calls \<open>before\<close>, \<open>m\<close> completes the deletion in order.\<close>

abbreviation ordered ::
  "lib \<Rightarrow> privateReconciler \<Rightarrow> cloudflareTunnelPrivateRoute \<Rightarrow> history \<Rightarrow> (ctrlResult \<times> goerr option) io \<Rightarrow> bool" where
  "ordered L vr route before m \<equiv> yields m (\<lambda>x. deletedInOrder L vr route (snd x) before)"

lemma ordered_ret: "res \<noteq> None \<Longrightarrow> ordered L vr route before (ret (n, res))"
  by (rule yields_ret) (simp add: order_stop)

lemma ordered_bind:
  assumes "yields m (\<lambda>a es. eachAfter (deletionStep L vr route) before es \<and> list_all silent es \<and> Q a es)"
    and "\<And>a es. Q a es \<Longrightarrow> ordered L vr route (before @ es) (f a)"
  shows "ordered L vr route before (State_Monad.bind m f)"
  by (rule yields_bind_mono [OF assms(1)]) (auto intro: yields_mono [OF assms(2)] order_append)

lemma ordered_idle:
  assumes "yields m (\<lambda>_. list_all idle)" and "\<And>a es. ordered L vr route (before @ es) (f a)"
  shows "ordered L vr route before (State_Monad.bind m f)"
  by (rule ordered_bind [where Q = "\<lambda>_ _. True", OF yields_mono [OF assms(1)]])
     (simp_all add: idle_steps assms(2))

lemma ordered_call:
  assumes "\<And>a. deletionStep L vr route before (mk a) \<and> silent (mk a)"
    and "\<And>a. ordered L vr route (before @ [mk a]) (f a)"
  shows "ordered L vr route before (State_Monad.bind (call g mk) f)"
  by (rule ordered_bind [where Q = "\<lambda>a es. es = [mk a]"]) (auto intro!: yields_call simp: assms)

lemma removePrivateFinalizer_ordered:
  assumes "routeStage route before" "inMemory route before r" "privateChildrenGone vr r before" "tunnelStage r before"
  shows "ordered L vr route before (removePrivateFinalizer L w r)"
proof -
  have "acceptedUpdate (UpdatePrivateRoute (unfinalizedRoute L r) e) = (e = None)" for e
    by (cases e) auto
  moreover have "deletionStep L vr route before (UpdatePrivateRoute (unfinalizedRoute L r) e)" for e
    using assms unfolding deletionStep.simps by blast
  ultimately show ?thesis
    unfolding removePrivateFinalizer_def k8s_call_defs unfinalizedRoute_def [symmetric]
    by (simp add: yields_bind yields_call yields_ret deletedInOrder_def del: deletionStep.simps)
qed

lemma privateApi_idle: "yields (privateApi w vr p) (\<lambda>_. list_all idle)"
  unfolding privateApi_def readAPIToken_def newClient_def k8s_call_defs
  by (auto intro!: yields_rules split: sum.split)

lemma deletePrivateTunnel_ordered:
  assumes "routeStage route before" "inMemory route before r" "privateChildrenGone vr r before" "\<not> retainedRoute r"
  shows "ordered L vr route before (deletePrivateTunnel L w vr r)"
proof -
  have stays: "routeStage route (before @ es)" "inMemory route (before @ es) r" "privateChildrenGone vr r (before @ es)" for es
    using assms evidence_stays by auto
  have gone: "tunnelStage r (before @ es @ [CfGetTunnel (rst_tunnelID (r_status r)) (Inr None)])" for es
    by (simp add: tunnelStage_def)
  have deleted: "tunnelStage r (before @ es @
      [CfGetTunnel (rst_tunnelID (r_status r)) (Inr (Some t)), CfDeleteTunnel (tn_id t) None])"
    if "tn_name t = rst_tunnelName (r_status r)" for es t
    using that by (simp add: tunnelStage_def)
  note finish = removePrivateFinalizer_ordered [OF stays]
  have del: "ordered L vr route (before @ es @ [CfGetTunnel (rst_tunnelID (r_status r)) (Inr (Some t))])
      (do { d \<leftarrow> cfDeleteTunnel api (tn_id t);
            case d of Some err \<Rightarrow> ret (0, Some err) | None \<Rightarrow> removePrivateFinalizer L w r })"
    if "tn_name t = rst_tunnelName (r_status r)" for es t api
    unfolding cfDeleteTunnel_def
    by (rule ordered_call)
       (use stays assms(4) deleted [OF that, of es] in \<open>auto intro!: ordered_ret finish split: option.split\<close>)
  show ?thesis
    unfolding deletePrivateTunnel_def k8s_getProvider_def cfGetTunnel_def
    by (auto intro!: ordered_call ordered_idle [OF privateApi_idle] ordered_ret finish gone [of "x # es" for x es, simplified]
         del [where es = "x # es" for x es, simplified] split: sum.split option.split)
qed

subsection \<open>Stages with other results\<close>

text \<open>\<open>steps before m R\<close>: after the calls \<open>before\<close>, \<open>m\<close> makes only calls in order and no
  update of the object, and \<open>R\<close> relates its result and the calls so far.\<close>

definition steps ::
  "lib \<Rightarrow> privateReconciler \<Rightarrow> cloudflareTunnelPrivateRoute \<Rightarrow> history \<Rightarrow> 'a io \<Rightarrow> ('a \<Rightarrow> history \<Rightarrow> bool) \<Rightarrow> bool" where
  "steps L vr route before m R \<longleftrightarrow> yields m (\<lambda>x es.
     eachAfter (deletionStep L vr route) before es \<and> list_all silent es \<and> R x (before @ es))"

lemma steps_ret: "R a before \<Longrightarrow> steps L vr route before (ret a) R"
  by (simp add: steps_def yields_ret)

lemma steps_call:
  "(\<And>a. deletionStep L vr route before (mk a) \<and> silent (mk a) \<and> R a (before @ [mk a])) \<Longrightarrow>
     steps L vr route before (call g mk) R"
  by (simp add: steps_def yields_call)

lemma steps_bind:
  assumes "steps L vr route before m Q"
    and "\<And>a es. Q a (before @ es) \<Longrightarrow> steps L vr route (before @ es) (f a) R"
  shows "steps L vr route before (State_Monad.bind m f) R"
  unfolding steps_def
  by (rule yields_bind_mono [OF assms(1) [unfolded steps_def]])
     (auto elim!: yields_mono [OF assms(2) [unfolded steps_def]])

lemma steps_mono:
  "steps L vr route before m Q \<Longrightarrow> (\<And>a es. Q a (before @ es) \<Longrightarrow> R a (before @ es)) \<Longrightarrow> steps L vr route before m R"
  unfolding steps_def by (erule yields_mono) blast

lemma steps_idle: "yields m (\<lambda>_. list_all idle) \<Longrightarrow> steps L vr route before m (\<lambda>_ _. True)"
  unfolding steps_def by (erule yields_mono) (simp add: idle_steps)

lemma steps_call_bind:
  assumes "\<And>a. deletionStep L vr route before (mk a) \<and> silent (mk a)"
    and "\<And>a. steps L vr route (before @ [mk a]) (f a) R"
  shows "steps L vr route before (State_Monad.bind (call g mk) f) R"
  by (rule steps_bind [OF steps_call [where R = "\<lambda>a h. h = before @ [mk a]"]]) (auto simp: assms)

lemma ordered_steps:
  assumes "steps L vr route before m Q"
    and "\<And>a es. Q a (before @ es) \<Longrightarrow> ordered L vr route (before @ es) (f a)"
  shows "ordered L vr route before (State_Monad.bind m f)"
  using assms unfolding steps_def by (rule ordered_bind)

lemmas steps_rules = steps_ret steps_call_bind steps_call

lemma deletePrivateChildren_gone:
  "routeStage route before \<Longrightarrow> steps L vr route before (deletePrivateChildren w r key kinds)
     (\<lambda>x h. x = None \<longrightarrow> (\<forall>kind \<in> set kinds. list_ex (childGone kind key r) h))"
proof (induction kinds arbitrary: before)
  case (Cons kind kinds)
  have rest: "steps L vr route h (deletePrivateChildren w r key kinds)
      (\<lambda>x h. x = None \<longrightarrow> (\<forall>kind \<in> set (kind # kinds). list_ex (childGone kind key r) h))"
    if "routeStage route h" "list_ex (childGone kind key r) h" for h
    by (rule steps_mono [OF Cons.IH [OF that(1)]]) (use that(2) in auto)
  show ?case
    unfolding deletePrivateChildren.simps k8s_call_defs
    using Cons.prems evidence_stays(1) [OF Cons.prems]
    by (auto intro!: steps_rules rest simp del: set_simps split: sum.split option.split)
qed (simp add: steps_ret)

lemma deleteListedRoutes_gone:
  assumes "\<not> retainedRoute route"
  shows "steps L vr route before (deleteListedRoutes api r xs)
     (\<lambda>x h. x = None \<longrightarrow> (\<forall>y \<in> set xs. pr_network y = rst_network (r_status r) \<and> privateOwned y r \<longrightarrow>
          list_ex (deletedRoute (pr_id y)) h))"
proof (induction xs arbitrary: before)
  case (Cons x xs)
  have rest: "steps L vr route h (deleteListedRoutes api r xs)
      (\<lambda>y h. y = None \<longrightarrow> (\<forall>y \<in> set (x # xs). pr_network y = rst_network (r_status r) \<and> privateOwned y r \<longrightarrow>
          list_ex (deletedRoute (pr_id y)) h))"
    if "pr_network x = rst_network (r_status r) \<and> privateOwned x r \<longrightarrow> list_ex (deletedRoute (pr_id x)) h" for h
    by (rule steps_mono [OF Cons.IH]) (use that in auto)
  show ?case
    unfolding deleteListedRoutes.simps cfDeletePrivateRoute_def
    using assms by (auto intro!: steps_rules rest simp del: set_simps split: option.split)
qed (simp add: steps_ret)

lemma deleteRoute_gone:
  assumes "\<not> retainedRoute route"
  shows "steps L vr route before (deleteRoute api r)
     (\<lambda>x h. x = None \<longrightarrow> list_ex (routeAnsweredGone r h) h)"
proof -
  have listed: "steps L vr route (before @ [CfListPrivateRoutes (rst_network (r_status r)) (xs, None)])
      (deleteListedRoutes api r xs) (\<lambda>x h. x = None \<longrightarrow> list_ex (routeAnsweredGone r h) h)"
    if "rst_routeID (r_status r) = ''''" for xs
    by (rule steps_mono [OF deleteListedRoutes_gone [OF assms]]) (use that in \<open>auto simp: list_all_iff\<close>)
  show ?thesis
    unfolding deleteRoute_def cfListPrivateRoutes_def cfGetPrivateRoute_def cfDeletePrivateRoute_def
    using assms by (auto intro!: steps_rules listed split: sum.split option.split)
qed

lemma removeRoute_gone:
  assumes "\<not> retainedRoute route"
  shows "steps L vr route before (removeRoute w vr route)
     (\<lambda>x h. snd x = None \<longrightarrow> inMemory route h (fst x) \<and> routeStage route h)"
proof -
  have del: "steps L vr route before (deleteRoute api route) (\<lambda>x h. x = None \<longrightarrow> routeStage route h)" for before api
    by (rule steps_mono [OF deleteRoute_gone [OF assms]]) (simp add: routeStage_def)
  have patch: "steps L vr route before (patchRoute w routeCleared route)
      (\<lambda>x h. snd x = None \<longrightarrow> inMemory route h (fst x) \<and> routeStage route h)" if "routeStage route before" for before
    unfolding patchRoute_def k8s_call_defs Let_def
    using evidence_stays(1) [OF that] by (auto intro!: steps_rules simp: inMemory_def split: sum.split)
  show ?thesis
    unfolding removeRoute_def k8s_call_defs
    by (auto intro!: steps_rules steps_bind [OF steps_idle [OF privateApi_idle]] steps_bind [OF del] patch
         split: sum.split option.split)
qed

section \<open>The whole deletion\<close>

lemma privateFinalizeChildren_ordered:
  assumes "routeStage route before" "inMemory route before r"
  shows "ordered L vr route before (privateFinalizeChildren L w vr r)"
proof -
  let ?key = "(privateSystemNamespace vr, privateResourceName (r_uid r))"
  have tunnel: "ordered L vr route (before @ es) (deletePrivateTunnel L w vr r)"
    if "\<forall>kind \<in> set [DeploymentKind, SecretKind]. list_ex (childGone kind ?key r) (before @ es)" "\<not> retainedRoute r" for es
    using assms that evidence_stays
    by (intro deletePrivateTunnel_ordered) (auto simp: privateChildrenGone_def)
  have finish: "ordered L vr route (before @ es) (removePrivateFinalizer L w r)"
    if "\<forall>kind \<in> set [DeploymentKind, SecretKind]. list_ex (childGone kind ?key r) (before @ es)"
      "retainedRoute r \<or> rst_tunnelID (r_status r) = ''''" for es
    using assms that evidence_stays
    by (intro removePrivateFinalizer_ordered) (auto simp: privateChildrenGone_def tunnelStage_def)
  show ?thesis
    unfolding privateFinalizeChildren_def Let_def
    by (rule ordered_steps [OF deletePrivateChildren_gone [OF assms(1)]])
       (auto intro!: ordered_ret tunnel finish simp: retainedRoute_def simp del: set_simps split: option.split)
qed

lemma privateFinalize_ordered:
  "yields (privateFinalize L w vr route) (\<lambda>x es.
     if lib_containsFinalizer L (om_finalizers (r_meta route)) privateFinalizer
     then deletedInOrder L vr route (snd x) [] es
     else es = [] \<and> x = (0, None))"
proof (cases "lib_containsFinalizer L (om_finalizers (r_meta route)) privateFinalizer")
  case True
  have "ordered L vr route [] (privateFinalize L w vr route)"
  proof (cases "retainedRoute route \<or> rst_network (r_status route) = ''''")
    case skip: True
    then have "routeStage route []" "inMemory route [] route"
      by (auto simp: routeStage_def inMemory_def)
    with skip True show ?thesis
      by (auto simp: privateFinalize_def retainedRoute_def intro!: privateFinalizeChildren_ordered)
  next
    case False
    then show ?thesis
      using True unfolding privateFinalize_def
      by (auto simp: retainedRoute_def intro!: ordered_steps [OF removeRoute_gone] ordered_ret
          privateFinalizeChildren_ordered split: option.split)
  qed
  with True show ?thesis by (simp add: yields_def)
qed (simp add: privateFinalize_def yields_ret)

text \<open>C30: Deletion of a private route is ordered. No child is deleted before the recorded CIDR route
  is gone (unless it is retained or none is recorded); no tunnel before both children are gone;
  and the update that removes the finalizer is the last call and comes after all of these, with
  every deletion confirmed by the answer of Kubernetes or Cloudflare. The run succeeds exactly
  if that update was accepted. With the policy Retain no CIDR route and no tunnel is deleted.\<close>

theorem private_finalize_order:
  "yields (privateFinalize L w vr route) (\<lambda>x es.
     if lib_containsFinalizer L (om_finalizers (r_meta route)) privateFinalizer
     then deletedInOrder L vr route (snd x) [] es
     else es = [] \<and> x = (0, None))"
  by (rule privateFinalize_ordered)

end
