(* ===== verification/ProviderController.thy ===== *)
theory ProviderController
  imports BindingController
begin

text \<open>
  \<^verbatim>\<open>internal/controller/clustercloudflareprovider_controller.go\<close>: the controller of
  \<^verbatim>\<open>ClusterCloudflareProvider\<close>, which checks a provider's configuration and credentials,
  reports them as conditions, and protects a provider that is still referenced.
\<close>

section \<open>The reconciler\<close>

definition clusterProviderFinalizer :: string where
  "clusterProviderFinalizer = ''kflared.kodeblox.com/cluster-provider-protection''"

record providerReconciler =
  cr_cloudflare :: "cfFactory option"
  cr_systemNamespace :: string
  cr_controllerClass :: string

definition providerSystemNamespace :: "providerReconciler \<Rightarrow> string" where
  "providerSystemNamespace r =
     (if cr_systemNamespace r = '''' then defaultSystemNamespace else cr_systemNamespace r)"

definition providerOwns :: "providerReconciler \<Rightarrow> string \<Rightarrow> bool" where
  "providerOwns r controllerClass \<longleftrightarrow>
     cr_controllerClass r \<noteq> '''' \<and> controllerClass = cr_controllerClass r"

definition clusterProviderClassPredicate :: "string \<Rightarrow> clusterCloudflareProvider option \<Rightarrow> bool" where
  \<comment> \<open>The argument is the watched object, \<open>None\<close> if it is not a provider.\<close>
  "clusterProviderClassPredicate controllerClass object =
     (case object of
        None \<Rightarrow> False
      | Some provider \<Rightarrow> controllerClass \<noteq> '''' \<and> ps_controller (p_spec provider) = controllerClass)"

definition NamespaceAllowed ::
  "lib \<Rightarrow> clusterCloudflareProvider \<Rightarrow> namespaceObj \<Rightarrow> string + bool" where
  "NamespaceAllowed L provider namespace =
     (case lib_labelSelectorAsSelector L (ps_bindingNamespaceSelector (p_spec provider)) of
        Inl err \<Rightarrow> Inl err
      | Inr selector \<Rightarrow> Inr (selector (om_labels (ns_meta namespace))))"

section \<open>Status\<close>

definition setProviderCondition ::
  "lib \<Rightarrow> string \<Rightarrow> conditionStatus \<Rightarrow> string \<Rightarrow> string \<Rightarrow> clusterCloudflareProvider \<Rightarrow>
     clusterCloudflareProvider" where
  "setProviderCondition L conditionType status reason message provider =
     provider\<lparr>p_status := (p_status provider)\<lparr>pst_conditions :=
       setCondition L (pst_conditions (p_status provider)) (p_generation provider)
         conditionType status reason message\<rparr>\<rparr>"

definition patchProvider ::
  "world \<Rightarrow> clusterCloudflareProvider \<Rightarrow> clusterCloudflareProvider \<Rightarrow> goerr option io" where
  "patchProvider w base provider = do {
     p \<leftarrow> k8s_patchProviderStatus w base provider;
     ret (case p of Inl e \<Rightarrow> Some (Kube e) | Inr _ \<Rightarrow> None) }"

definition invalidProvider ::
  "lib \<Rightarrow> string \<Rightarrow> string \<Rightarrow> clusterCloudflareProvider \<Rightarrow> clusterCloudflareProvider" where
  \<comment> \<open>The two condition updates of lines 86 to 87 and 91 to 92.\<close>
  "invalidProvider L reason message provider =
     setProviderCondition L ProviderConditionCredentialsValid ConditionUnknown
       ''ValidationFailed'' ''Credentials were not checked''
       (setProviderCondition L ProviderConditionAccepted ConditionFalse reason message provider)"

definition checkConfiguration ::
  "lib \<Rightarrow> clusterCloudflareProvider \<Rightarrow> clusterCloudflareProvider + clusterCloudflareProvider" where
  \<comment> \<open>Lines 84 to 95: the rejected (left) or accepted (right) provider.\<close>
  "checkConfiguration L provider =
     (let provider = provider\<lparr>p_status := (p_status provider)\<lparr>pst_observedGeneration :=
            p_generation provider\<rparr>\<rparr> in
      case NormalizeZones L (ps_allowedDNSZones (p_spec provider)) of
        Inl err \<Rightarrow> Inl (invalidProvider L ''InvalidDNSZones'' (errorText err) provider)
      | Inr _ \<Rightarrow>
          (case lib_labelSelectorAsSelector L (ps_bindingNamespaceSelector (p_spec provider)) of
             Inl err \<Rightarrow> Inl (invalidProvider L ''InvalidNamespaceSelector'' err provider)
           | Inr _ \<Rightarrow> Inr (setProviderCondition L ProviderConditionAccepted ConditionTrue
               ''Accepted'' ''Provider configuration is valid'' provider)))"

section \<open>Credentials\<close>

definition validationFailure ::
  "lib \<Rightarrow> goerr \<Rightarrow> clusterCloudflareProvider \<Rightarrow> clusterCloudflareProvider" where
  \<comment> \<open>Lines 115 to 123.\<close>
  "validationFailure L validationErr provider =
     (if IsCredentialRejected validationErr then
        setProviderCondition L ProviderConditionCredentialsValid ConditionFalse
          ''CloudflareAPIRejected'' ''Cloudflare rejected the configured credentials'' provider
      else
        setProviderCondition L ProviderConditionCredentialsValid ConditionUnknown
          ''CloudflareAPIUnavailable'' ''Cloudflare credentials could not be checked'' provider)"

definition checkToken ::
  "lib \<Rightarrow> world \<Rightarrow> providerReconciler \<Rightarrow> clusterCloudflareProvider \<Rightarrow> clusterCloudflareProvider \<Rightarrow> string \<Rightarrow>
     (ctrlResult \<times> goerr option) io" where
  \<comment> \<open>Lines 114 to 131.\<close>
  "checkToken L w r statusBase provider token = do {
     api \<leftarrow> newClient w (cr_cloudflare r) token (ps_accountID (p_spec provider));
     v \<leftarrow> cfValidate api;
     case v of
       Some validationErr \<Rightarrow> do {
         p \<leftarrow> patchProvider w statusBase (validationFailure L validationErr provider);
         case p of
           Some patchErr \<Rightarrow> ret (0, errorsJoin [Some validationErr, Some patchErr])
         | None \<Rightarrow> ret (0, Some validationErr) }
     | None \<Rightarrow> do {
         p \<leftarrow> patchProvider w statusBase (setProviderCondition L ProviderConditionCredentialsValid
                ConditionTrue ''CredentialsValid'' ''Cloudflare accepted the configured credentials'' provider);
         ret (600, p) } }"

definition secretFailure ::
  "lib \<Rightarrow> namespacedName \<Rightarrow> kubeError \<Rightarrow> clusterCloudflareProvider \<Rightarrow> clusterCloudflareProvider" where
  \<comment> \<open>Lines 100 to 104.\<close>
  "secretFailure L secretKey err provider =
     setProviderCondition L ProviderConditionCredentialsValid ConditionFalse
       (if isNotFoundKube err then ''SecretNotFound'' else ''SecretReadFailed'')
       (''Could not read API token Secret '' @ fst secretKey @ ''/'' @ snd secretKey) provider"

definition checkCredentials ::
  "lib \<Rightarrow> world \<Rightarrow> providerReconciler \<Rightarrow> clusterCloudflareProvider \<Rightarrow> clusterCloudflareProvider \<Rightarrow>
     (ctrlResult \<times> goerr option) io" where
  \<comment> \<open>Lines 97 to 131.\<close>
  "checkCredentials L w r statusBase provider = do {
     let secretKey = (providerSystemNamespace r, skr_name (ps_apiTokenSecretRef (p_spec provider)));
     s \<leftarrow> k8s_getSecret w secretKey;
     case s of
       Inl err \<Rightarrow> do {
         p \<leftarrow> patchProvider w statusBase (secretFailure L secretKey err provider);
         case p of
           Some patchErr \<Rightarrow> ret (0, Some patchErr)
         | None \<Rightarrow> ret (60, ignoreNotFound err) }
     | Inr sec \<Rightarrow>
         let token = trim_space (labelValue (sec_data sec)
               (skr_key (ps_apiTokenSecretRef (p_spec provider)))) in
         if token = '''' then do {
           p \<leftarrow> patchProvider w statusBase (setProviderCondition L ProviderConditionCredentialsValid
                  ConditionFalse ''TokenMissing'' ''The configured Secret key is missing or empty'' provider);
           ret (60, p) }
         else checkToken L w r statusBase provider token }"

section \<open>Reconcile\<close>

definition providerReferenced ::
  "providerReconciler \<Rightarrow> clusterCloudflareProvider \<Rightarrow> string \<times> string \<Rightarrow> bool" where
  \<comment> \<open>A resource's controller class and provider reference, as lines 143 and 152 compare them.\<close>
  "providerReferenced r provider ref \<longleftrightarrow> fst ref = cr_controllerClass r \<and> snd ref = p_name provider"

definition providerFinalize ::
  "lib \<Rightarrow> world \<Rightarrow> providerReconciler \<Rightarrow> clusterCloudflareProvider \<Rightarrow> (ctrlResult \<times> goerr option) io" where
  "providerFinalize L w r provider =
     (if \<not> lib_containsFinalizer L (om_finalizers (p_meta provider)) clusterProviderFinalizer then ret (0, None)
      else do {
        lb \<leftarrow> k8s_listBindings w None;
        case lb of
          Inl err \<Rightarrow> ret (0, Some (Kube err))
        | Inr bindings \<Rightarrow>
            (case List.find (\<lambda>b. providerReferenced r provider
                    (bs_controller (b_spec b), bs_providerRef (b_spec b))) bindings of
               Some b \<Rightarrow> ret (0, Some (Errorf (''provider is still referenced by CloudflareTunnelBinding ''
                 @ b_namespace b @ ''/'' @ b_name b)))
             | None \<Rightarrow> do {
                 lr \<leftarrow> k8s_listPrivateRouteObjects w;
                 case lr of
                   Inl err \<Rightarrow> ret (0, Some (Kube err))
                 | Inr privateRoutes \<Rightarrow>
                     (case List.find (\<lambda>p. providerReferenced r provider
                             (rs_controller (r_spec p), rs_providerRef (r_spec p))) privateRoutes of
                        Some p \<Rightarrow> ret (0, Some (Errorf (''provider is still referenced by CloudflareTunnelPrivateRoute ''
                          @ r_namespace p @ ''/'' @ r_name p)))
                      | None \<Rightarrow> do {
                          e \<leftarrow> k8s_updateProvider w (provider\<lparr>p_meta := (p_meta provider)\<lparr>om_finalizers :=
                                 lib_removeFinalizer L (om_finalizers (p_meta provider)) clusterProviderFinalizer\<rparr>\<rparr>);
                          ret (0, map_option Kube e) }) }) })"

definition providerReconcile ::
  "lib \<Rightarrow> world \<Rightarrow> providerReconciler \<Rightarrow> string \<Rightarrow> (ctrlResult \<times> goerr option) io" where
  "providerReconcile L w r req = do {
     g \<leftarrow> k8s_getProvider w req;
     case g of
       Inl err \<Rightarrow> ret (0, ignoreNotFound err)
     | Inr provider \<Rightarrow>
         if \<not> providerOwns r (ps_controller (p_spec provider)) then ret (0, None)
         else if \<not> timeIsZero (om_deletionTimestamp (p_meta provider)) then providerFinalize L w r provider
         else if \<not> lib_containsFinalizer L (om_finalizers (p_meta provider)) clusterProviderFinalizer then do {
           e \<leftarrow> k8s_updateProvider w (provider\<lparr>p_meta := (p_meta provider)\<lparr>om_finalizers :=
                  lib_addFinalizer L (om_finalizers (p_meta provider)) clusterProviderFinalizer\<rparr>\<rparr>);
           ret (0, map_option Kube e) }
         else
           (case checkConfiguration L provider of
              Inl invalid \<Rightarrow> do {
                p \<leftarrow> patchProvider w provider invalid;
                ret (300, p) }
            | Inr accepted \<Rightarrow> checkCredentials L w r provider accepted) }"

section \<open>The history only grows\<close>

lemma patchProvider_extends [extends_rules]: "extends (patchProvider w base provider)"
  unfolding patchProvider_def by (intro extends_rules)

lemma checkToken_extends [extends_rules]: "extends (checkToken L w r statusBase provider token)"
  unfolding checkToken_def by (intro extends_rules)

lemma checkCredentials_extends [extends_rules]: "extends (checkCredentials L w r statusBase provider)"
  unfolding checkCredentials_def by (intro extends_rules)

lemma providerFinalize_extends [extends_rules]: "extends (providerFinalize L w r provider)"
  unfolding providerFinalize_def by (intro extends_rules)

lemma providerReconcile_extends [extends_rules]: "extends (providerReconcile L w r req)"
  unfolding providerReconcile_def by (intro extends_rules)

end
