(* ===== verification/ProviderProps.thy ===== *)
theory ProviderProps
  imports ProviderController BindingActs
begin

text \<open>
  The provider controller: its calls, when it reports valid credentials, when it gives up a
  provider, and what the binding controller does on each status it can report.
\<close>

section \<open>Its calls\<close>

definition providerHolds :: "lib \<Rightarrow> clusterCloudflareProvider \<Rightarrow> string \<Rightarrow> bool" where
  "providerHolds L p t \<longleftrightarrow> conditionTrue L (pst_conditions (p_status p)) (p_generation p) t"

definition credentialsChecked :: "providerReconciler \<Rightarrow> clusterCloudflareProvider \<Rightarrow> history \<Rightarrow> bool" where
  \<comment> \<open>Cloudflare accepted the token that the provider's Secret holds, for the provider's account.\<close>
  "credentialsChecked r p es \<longleftrightarrow>
     (\<exists>sec. GetSecret (providerSystemNamespace r, skr_name (ps_apiTokenSecretRef (p_spec p))) (Inr sec) \<in> set es
       \<and> (let token = trim_space (labelValue (sec_data sec) (skr_key (ps_apiTokenSecretRef (p_spec p))))
          in token \<noteq> '''' \<and> NewCloudflareClient token (ps_accountID (p_spec p)) \<in> set es))
     \<and> CfValidate None \<in> set es"

definition unreferenced :: "providerReconciler \<Rightarrow> clusterCloudflareProvider \<Rightarrow> history \<Rightarrow> bool" where
  "unreferenced r p es \<longleftrightarrow>
     (\<exists>bs rs. ListBindings None (Inr bs) \<in> set es \<and> ListPrivateRouteObjects (Inr rs) \<in> set es
       \<and> \<not> list_ex (\<lambda>b. providerReferenced r p (bs_controller (b_spec b), bs_providerRef (b_spec b))) bs
       \<and> \<not> list_ex (\<lambda>x. providerReferenced r p (rs_controller (r_spec x), rs_providerRef (r_spec x))) rs)"

text \<open>\<open>providerSafe\<close> constrains each call in the light of all calls of the run.\<close>

fun providerSafe :: "lib \<Rightarrow> providerReconciler \<Rightarrow> clusterCloudflareProvider \<Rightarrow> history \<Rightarrow> event \<Rightarrow> bool" where
  "providerSafe L r p es (UpdateProvider p' e) =
     (if timeIsZero (om_deletionTimestamp (p_meta p))
      then p' = p\<lparr>p_meta := (p_meta p)\<lparr>om_finalizers :=
             lib_addFinalizer L (om_finalizers (p_meta p)) clusterProviderFinalizer\<rparr>\<rparr>
      else p' = p\<lparr>p_meta := (p_meta p)\<lparr>om_finalizers :=
             lib_removeFinalizer L (om_finalizers (p_meta p)) clusterProviderFinalizer\<rparr>\<rparr>
           \<and> unreferenced r p es)"
| "providerSafe L r p es (PatchProviderStatus p0 p' x) =
     (p0 = p \<and> p_meta p' = p_meta p \<and> p_spec p' = p_spec p
      \<and> (if providerHolds L p' ProviderConditionCredentialsValid
         then providerHolds L p' ProviderConditionAccepted \<and> credentialsChecked r p es else True))"
| "providerSafe L r p es e = readOnly e"

definition providerRun ::
  "lib \<Rightarrow> providerReconciler \<Rightarrow> string \<Rightarrow> ctrlResult \<times> goerr option \<Rightarrow> history \<Rightarrow> bool" where
  "providerRun L r req x es \<longleftrightarrow>
     (case es of
        GetProvider key g # rest \<Rightarrow>
          key = req \<and>
          (case g of
             Inl e \<Rightarrow> rest = [] \<and> x = (0, ignoreNotFound e)
           | Inr p \<Rightarrow>
               if \<not> providerOwns r (ps_controller (p_spec p)) then rest = [] \<and> x = (0, None)
               else list_all (providerSafe L r p rest) rest)
      | _ \<Rightarrow> False)"

lemma setProviderCondition_keeps [simp]:
  "p_meta (setProviderCondition L t s reason message p) = p_meta p"
  "p_spec (setProviderCondition L t s reason message p) = p_spec p"
  by (simp_all add: setProviderCondition_def)

interpretation provider_report: reporting "\<lambda>p. pst_conditions (p_status p)" p_generation setProviderCondition
  by unfold_locales (simp_all add: setProviderCondition_def)

lemma providerHolds_set:
  "condition_laws L \<Longrightarrow> providerHolds L (setProviderCondition L t s reason message p) t' =
     (if t' = t then s = ConditionTrue else providerHolds L p t')"
  unfolding providerHolds_def by (rule provider_report.holds_report)

lemma providerConditions_differ [simp]:
  "ProviderConditionAccepted \<noteq> ProviderConditionCredentialsValid"
  "ProviderConditionCredentialsValid \<noteq> ProviderConditionAccepted"
  by code_simp+

lemma checkConfiguration_cases:
  assumes "condition_laws L"
  shows "case checkConfiguration L p of
     Inl q \<Rightarrow> p_meta q = p_meta p \<and> p_spec q = p_spec p \<and> \<not> providerHolds L q ProviderConditionCredentialsValid
       \<and> \<not> providerHolds L q ProviderConditionAccepted
   | Inr q \<Rightarrow> p_meta q = p_meta p \<and> p_spec q = p_spec p \<and> providerHolds L q ProviderConditionAccepted"
  using assms
  by (auto simp: checkConfiguration_def invalidProvider_def Let_def providerHolds_set split: sum.split)

lemma checkCredentials_safe:
  assumes "condition_laws L" "p_meta q = p_meta p" "p_spec q = p_spec p"
    and "providerHolds L q ProviderConditionAccepted" "timeIsZero (om_deletionTimestamp (p_meta p))"
  shows "yields (checkCredentials L w r p q) (\<lambda>x es. list_all (providerSafe L r p es) es)"
  unfolding checkCredentials_def checkToken_def patchProvider_def newClient_def k8s_call_defs cf_call_defs
  using assms
  by (auto intro!: yields_rules simp: Let_def validationFailure_def secretFailure_def providerHolds_set credentialsChecked_def
      split: sum.split option.split)

lemma providerFinalize_safe:
  assumes "\<not> timeIsZero (om_deletionTimestamp (p_meta p))"
  shows "yields (providerFinalize L w r p) (\<lambda>x es. list_all (providerSafe L r p es) es)"
  unfolding providerFinalize_def k8s_call_defs
  using assms
  by (auto intro!: yields_rules simp: unreferenced_def find_None_iff list_ex_iff split: sum.split option.split)

lemma providerReconcile_yields:
  assumes "condition_laws L"
  shows "yields (providerReconcile L w r req) (providerRun L r req)"
proof -
  have conf: "yields (patchProvider w p q) (\<lambda>_ es. list_all (providerSafe L r p es) es)"
    if "checkConfiguration L p = Inl q" for p q
    using checkConfiguration_cases [OF assms, of p] that
    unfolding patchProvider_def k8s_call_defs by (auto intro!: yields_rules)
  have cred: "yields (checkCredentials L w r p q) (\<lambda>_ es. list_all (providerSafe L r p es) es)"
    if "checkConfiguration L p = Inr q" "timeIsZero (om_deletionTimestamp (p_meta p))" for p q
    using checkConfiguration_cases [OF assms, of p] that by (intro checkCredentials_safe assms) auto
  show ?thesis
    unfolding providerReconcile_def k8s_call_defs
    by (auto intro!: yields_bind yields_call yields_ret yields_mono [OF conf] yields_mono [OF cred]
        yields_mono [OF providerFinalize_safe] simp: providerRun_def split: sum.split if_splits)
qed

text \<open>C20: One run of the provider controller, whatever the world answers. A provider of another
  controller class is only read. Otherwise the only changes are the finalizer and the status of
  that provider: the finalizer is added while it lives, and removed on deletion only after the
  lists of bindings and of private routes showed no reference to it; and a status with true
  CredentialsValid is only written together with true Accepted, after Cloudflare accepted the
  token of the provider's Secret for the provider's account.\<close>

theorem providerReconcile_run:
  assumes "condition_laws L"
  shows "yields (providerReconcile L w r req) (providerRun L r req)"
  using assms by (rule providerReconcile_yields)

section \<open>What the binding controller makes of the report\<close>


definition waits ::
  "lib \<Rightarrow> cloudflareTunnelBinding \<Rightarrow> clusterCloudflareProvider \<Rightarrow>
     ctrlResult \<times> goerr option \<Rightarrow> history \<Rightarrow> bool" where
  "waits L b q x es \<longleftrightarrow> fst x = 0 \<and> snd x \<noteq> None
     \<and> (\<exists>answer.
        es = [GetProvider (bs_providerRef (b_spec b)) (Inr q),
          PatchBindingStatus b (failureStatus L b BindingConditionReady ''ProviderStatusUnknown''
            ''The referenced ClusterCloudflareProvider status is not currently known'') answer])"


definition answersProvider :: "world \<Rightarrow> cloudflareTunnelBinding \<Rightarrow> clusterCloudflareProvider \<Rightarrow> bool" where
  "answersProvider w b q \<longleftrightarrow> (\<forall>h. w_getProvider w h (bs_providerRef (b_spec b)) = Inr q)
     \<and> ps_controller (p_spec q) = bs_controller (b_spec b)"

definition reportsFalse :: "lib \<Rightarrow> clusterCloudflareProvider \<Rightarrow> string \<Rightarrow> bool" where
  "reportsFalse L q t \<longleftrightarrow>
     (let c = lib_findStatusCondition L (pst_conditions (p_status q)) t
      in conditionCurrent c (p_generation q) \<and> conditionHas c ConditionFalse)"

definition reportsTrue :: "lib \<Rightarrow> clusterCloudflareProvider \<Rightarrow> string \<Rightarrow> bool" where
  "reportsTrue L q t \<longleftrightarrow>
     (let c = lib_findStatusCondition L (pst_conditions (p_status q)) t
      in conditionCurrent c (p_generation q) \<and> conditionHas c ConditionTrue)"

lemmas report_defs = reportsFalse_def reportsTrue_def Let_def





lemma validateClusterProvider_waits:
  assumes "answersProvider w b q"
    and "\<not> (reportsTrue L q ProviderConditionAccepted \<and> reportsTrue L q ProviderConditionCredentialsValid)"
    and "\<not> reportsFalse L q ProviderConditionAccepted" "\<not> reportsFalse L q ProviderConditionCredentialsValid"
  shows "yields (validateClusterProvider L w r b) (\<lambda>x es.
     x = (b, Fail (Framed '''' ErrClusterProviderStatusUnknown ('': '' @ quote (p_name q))))
     \<and> es = [GetProvider (bs_providerRef (b_spec b)) (Inr q)])"
  unfolding validateClusterProvider_def k8s_getProvider_def
  by (rule yields_bind_known) (use assms in \<open>auto intro!: yields_ret simp: answersProvider_def report_defs\<close>)

lemma reconcileLive_waits:
  assumes "answersProvider w b q"
    and "\<not> (reportsTrue L q ProviderConditionAccepted \<and> reportsTrue L q ProviderConditionCredentialsValid)"
    and "\<not> reportsFalse L q ProviderConditionAccepted" "\<not> reportsFalse L q ProviderConditionCredentialsValid"
  shows "yields (reconcileLive L w r b) (waits L b q)"
  unfolding reconcileLive_def validateAndPlan_def
  by (rule yields_bind_mono, rule yields_bind_mono [OF validateClusterProvider_waits [OF assms]])
    (auto intro!: yields_rules simp: waits_def handleFailure_def reportOperationalFailure_def patchBinding_def
      k8s_call_defs split: sum.split prod.splits)


lemma provider_reports:
  assumes "condition_laws L"
  shows "case checkConfiguration L p of
      Inl q \<Rightarrow> reportsFalse L q ProviderConditionAccepted
    | Inr q \<Rightarrow>
        (let valid = setProviderCondition L ProviderConditionCredentialsValid ConditionTrue reason message q in
           reportsTrue L valid ProviderConditionAccepted \<and> reportsTrue L valid ProviderConditionCredentialsValid)
        \<and> (let failed = validationFailure L err q in
             \<not> reportsFalse L failed ProviderConditionAccepted
             \<and> \<not> reportsTrue L failed ProviderConditionCredentialsValid
             \<and> (reportsFalse L failed ProviderConditionCredentialsValid \<longleftrightarrow> IsCredentialRejected err))
        \<and> reportsFalse L (secretFailure L key kerr q) ProviderConditionCredentialsValid"
  using assms
  by (auto simp: checkConfiguration_def invalidProvider_def validationFailure_def secretFailure_def report_defs
      provider_report.find_report conditionCurrent_def conditionHas_def split: sum.split)



text \<open>C22: An outage of Cloudflare does not take published hostnames down. If the provider's status is
  what the provider controller writes when Cloudflare could not be asked, the reconciliation of
  a live binding of it makes exactly two calls: it reads the provider and it patches the
  binding's status with the operational failure.\<close>

theorem outage_keeps_publication:
  assumes "condition_laws L" "checkConfiguration L p = Inr q" "\<not> IsCredentialRejected err"
    and "ps_controller (p_spec p) = bs_controller (b_spec b)"
    and "\<forall>h. w_getProvider w h (bs_providerRef (b_spec b)) = Inr (validationFailure L err q)"
  shows "yields (reconcileLive L w r b) (\<lambda>x es. \<exists>answer.
     es = [GetProvider (bs_providerRef (b_spec b)) (Inr (validationFailure L err q)),
           PatchBindingStatus b (failureStatus L b BindingConditionReady ''ProviderStatusUnknown''
             ''The referenced ClusterCloudflareProvider status is not currently known'') answer])"
proof -
  have "answersProvider w b (validationFailure L err q)"
    using checkConfiguration_cases [OF assms(1), of p] assms(2,4,5)
    by (simp add: validationFailure_def answersProvider_def)
  then have "yields (reconcileLive L w r b) (waits L b (validationFailure L err q))"
    using provider_reports [OF assms(1), where p = p and err = err] assms(2,3) by (intro reconcileLive_waits) (auto simp: Let_def)
  then show ?thesis by (rule yields_mono) (simp add: waits_def)
qed

section \<open>Witnesses\<close>

definition outageError :: goerr where
  "outageError = SDK (TransportError ''timeout'')"

definition acceptedDemo :: clusterCloudflareProvider where
  "acceptedDemo = (case checkConfiguration refLib demoProvider of Inl q \<Rightarrow> q | Inr q \<Rightarrow> q)"

definition outageWorld :: world where
  "outageWorld = demoWorld\<lparr>w_getProvider := \<lambda>h k. Inr (validationFailure refLib outageError acceptedDemo)\<rparr>"

lemma acceptedDemo: "checkConfiguration refLib demoProvider = Inr acceptedDemo"
proof -
  have "case checkConfiguration refLib demoProvider of Inl q \<Rightarrow> False | Inr q \<Rightarrow> True"
    by code_simp
  then show ?thesis by (auto simp: acceptedDemo_def split: sum.splits)
qed

lemma outage_keeps_publication_witness:
  "snd (run_state (reconcileLive refLib outageWorld demoReconciler demoBinding) []) \<noteq> []"
proof -
  have "ps_controller (p_spec demoProvider) = bs_controller (b_spec demoBinding)"
    by (simp add: demoProvider_def demoBinding_def)
  moreover have "\<not> IsCredentialRejected outageError"
    by code_simp
  moreover have "\<forall>h. w_getProvider outageWorld h (bs_providerRef (b_spec demoBinding))
      = Inr (validationFailure refLib outageError acceptedDemo)"
    by (simp add: outageWorld_def)
  ultimately have outage: "yields (reconcileLive refLib outageWorld demoReconciler demoBinding) (\<lambda>x es. \<exists>answer.
     es = [GetProvider (bs_providerRef (b_spec demoBinding)) (Inr (validationFailure refLib outageError acceptedDemo)),
           PatchBindingStatus demoBinding (failureStatus refLib demoBinding BindingConditionReady
             ''ProviderStatusUnknown''
             ''The referenced ClusterCloudflareProvider status is not currently known'') answer])"
    using outage_keeps_publication [OF refLib_conditions acceptedDemo] by fast
  then obtain x es where "run_state (reconcileLive refLib outageWorld demoReconciler demoBinding) [] = (x, [] @ es)"
    "es \<noteq> []"
    by (auto elim: yieldsE [where h = "[]"])
  then show ?thesis by simp
qed


definition demoProviderReconciler :: providerReconciler where
  "demoProviderReconciler = \<lparr>cr_cloudflare = Some (\<lambda>token account. demoCloudflare),
     cr_systemNamespace = '''', cr_controllerClass = ''class''\<rparr>"

lemma providerReconcile_run_witness:
  "providerRun refLib demoProviderReconciler ''main''
     (fst (run_state (providerReconcile refLib demoWorld demoProviderReconciler ''main'') []))
     (snd (run_state (providerReconcile refLib demoWorld demoProviderReconciler ''main'') []))"
  using yieldsE [OF providerReconcile_run [OF refLib_conditions, of demoWorld demoProviderReconciler "''main''"],
    where h = "[]"] by (metis append_Nil fst_conv snd_conv)

end
