(* ===== verification/PrivateProps.thy ===== *)
theory PrivateProps
  imports PrivateFinalize ProviderProps
begin

text \<open>
  The private route controller as a whole: one reconciliation of a request, and how it differs
  from the binding controller in an outage of Cloudflare.
\<close>

section \<open>The two policies\<close>

fun inRoutePlan :: "privateReconciler \<Rightarrow> clusterCloudflareProvider \<times> string \<Rightarrow> event \<Rightarrow> bool" where
  "inRoutePlan vr (p, network) (CfCreatePrivateRoute n t c x) = (n = network)"
| "inRoutePlan vr (p, network) (GetSecret key s) =
     (key = (privateSystemNamespace vr, skr_name (ps_apiTokenSecretRef (p_spec p))))"
| "inRoutePlan vr (p, network) (NewCloudflareClient token account) = (account = ps_accountID (p_spec p))"
| "inRoutePlan vr plan (CfDeletePrivateRoute i e) = True"
| "inRoutePlan vr plan (CfCreateTunnel n t) = True"
| "inRoutePlan vr plan (StoreSecret current new e) = True"
| "inRoutePlan vr plan (StoreDeployment current new e) = True"
| "inRoutePlan vr plan e = (\<not> mutates e)"

fun withdrawsRoute :: "event \<Rightarrow> bool" where
  "withdrawsRoute (CfDeletePrivateRoute i e) = True"
| "withdrawsRoute e = (\<not> mutates e)"

section \<open>What each function does\<close>

lemma does_patchRoute [emits_rules]:
  "(\<And>a b c. G (PatchPrivateRouteStatus a b c)) \<Longrightarrow> (\<And>x. R x) \<Longrightarrow> does G R (patchRoute w change route)"
  unfolding patchRoute_def k8s_call_defs Let_def by (auto intro!: emits_rules extends_rules split: sum.split)

lemma does_privateStatus [emits_rules]:
  "(\<And>a b c. G (PatchPrivateRouteStatus a b c)) \<Longrightarrow> (\<And>x. R x) \<Longrightarrow>
     does G R (privateStatus L w route accepted reason ready)"
  unfolding privateStatus_def by (auto intro!: emits_rules extends_rules)

lemma does_deleteListedRoutes:
  "(\<And>i e. G (CfDeletePrivateRoute i e)) \<Longrightarrow> (\<And>x. R x) \<Longrightarrow> does G R (deleteListedRoutes api route xs)"
  by (induction xs) (auto intro!: emits_rules extends_rules simp: cfDeletePrivateRoute_def split: option.split)

lemma does_deleteRoute [emits_rules]:
  "(\<And>i e. G (CfDeletePrivateRoute i e)) \<Longrightarrow> (\<And>n x. G (CfListPrivateRoutes n x)) \<Longrightarrow>
     (\<And>i x. G (CfGetPrivateRoute i x)) \<Longrightarrow> (\<And>x. R x) \<Longrightarrow> does G R (deleteRoute api route)"
  unfolding deleteRoute_def cf_call_defs
  by (auto intro!: emits_rules extends_rules does_deleteListedRoutes split: sum.split option.split)

lemma does_privateApi [emits_rules]:
  assumes "\<And>s. G (GetSecret (privateSystemNamespace vr, skr_name (ps_apiTokenSecretRef (p_spec p))) s)"
    and "\<And>t. G (NewCloudflareClient t (ps_accountID (p_spec p)))" and "\<And>x. R x"
  shows "does G R (privateApi w vr p)"
proof -
  have "systemNamespace (bindingHelper vr) = privateSystemNamespace vr"
    by (simp add: bindingHelper_def systemNamespace_def privateSystemNamespace_def)
  then show ?thesis
    unfolding privateApi_def readAPIToken_def newClient_def k8s_call_defs
    using assms by (auto intro!: emits_rules extends_rules split: sum.split)
qed

lemma does_removeRoute: "(\<And>x. R x) \<Longrightarrow> does withdrawsRoute R (removeRoute w vr route)"
  unfolding removeRoute_def k8s_call_defs
  by (auto intro!: emits_rules extends_rules split: sum.split option.split)

lemma does_rejectRoute: "does withdrawsRoute (\<lambda>_. True) (rejectRoute L w vr route reason)"
  unfolding rejectRoute_def
  by (auto intro!: emits_rules extends_rules does_removeRoute split: option.split)

lemma does_privateEnsureTunnel [emits_rules]:
  "(\<And>x. R x) \<Longrightarrow> does (inRoutePlan vr (p, network)) R (privateEnsureTunnel w api route name)"
  unfolding privateEnsureTunnel_def replaceLostTunnel_def findPrivateTunnel_def adoptPrivateTunnel_def cf_call_defs
  by (auto intro!: emits_rules extends_rules split: sum.split option.split)

lemma does_ensureRoute [emits_rules]:
  "(\<And>x. R x) \<Longrightarrow> does (inRoutePlan vr (p, network)) R (ensureRoute w api route tun network)"
  unfolding ensureRoute_def findOrCreateRoute_def createRoute_def cf_call_defs
  by (auto intro!: emits_rules extends_rules split: sum.split option.split)

lemma does_ensureConnector [emits_rules]:
  "(\<And>x. R x) \<Longrightarrow> does (inRoutePlan vr (p, network)) R (ensureConnector L w vr route token)"
  unfolding ensureConnector_def Let_def
  by (auto intro!: emits_rules extends_rules createOrPatch_does split: sum.split option.split)

lemma does_acceptRoute: "does (inRoutePlan vr (p, network)) (\<lambda>_. True) (acceptRoute L w vr route p network)"
  unfolding acceptRoute_def switchNetwork_def connectRoute_def k8s_call_defs cf_call_defs
  by (auto intro!: emits_rules extends_rules simp: Let_def split: sum.split option.split)

section \<open>One reconciliation\<close>

definition liveRun :: "lib \<Rightarrow> privateReconciler \<Rightarrow> cloudflareTunnelPrivateRoute \<Rightarrow> history \<Rightarrow> bool" where
  "liveRun L vr route es \<longleftrightarrow>
     (if lib_containsFinalizer L (om_finalizers (r_meta route)) privateFinalizer
      then \<exists>pre post. es = pre @ post \<and> list_all idle pre \<and> serviceReadPermitted route pre
        \<and> (list_all withdrawsRoute post
           \<or> (\<exists>p network. privateAdmitted L route p network pre \<and> list_all (inRoutePlan vr (p, network)) post))
      else \<exists>e. es = [UpdatePrivateRoute (route\<lparr>r_meta := (r_meta route)\<lparr>om_finalizers :=
        lib_addFinalizer L (om_finalizers (r_meta route)) privateFinalizer\<rparr>\<rparr>) e])"

definition reportRun :: "lib \<Rightarrow> privateReconciler \<Rightarrow> namespacedName \<Rightarrow> goerr option \<Rightarrow> history \<Rightarrow> bool" where
  \<comment> \<open>Nothing after a success; after a failure the object is read again, and its status patched if it
    is still this controller's and not being deleted.\<close>
  "reportRun L vr req res es \<longleftrightarrow>
     (if res = None then es = []
      else case es of
          [GetPrivateRouteObject key g] \<Rightarrow> key = req
        | [GetPrivateRouteObject key (Inr r), PatchPrivateRouteStatus r0 r1 a] \<Rightarrow>
            key = req \<and> r0 = r \<and> r1 = privateFailureStatus L r
            \<and> rs_controller (r_spec r) = vr_controllerClass vr \<and> timeIsZero (om_deletionTimestamp (r_meta r))
        | _ \<Rightarrow> False)"

lemma liveRunI:
  assumes "lib_containsFinalizer L (om_finalizers (r_meta route)) privateFinalizer"
    and "list_all idle pre" "serviceReadPermitted route pre"
    and "list_all withdrawsRoute post
      \<or> (\<exists>p network. privateAdmitted L route p network pre \<and> list_all (inRoutePlan vr (p, network)) post)"
  shows "liveRun L vr route (pre @ post)"
  unfolding liveRun_def using assms by auto

lemma privateReconcileLive_runs: "yields (privateReconcileLive L w vr route) (\<lambda>_. liveRun L vr route)"
proof (cases "lib_containsFinalizer L (om_finalizers (r_meta route)) privateFinalizer")
  case True
  have act: "yields (case v of Inl err \<Rightarrow> ret (0, Some err)
      | Inr (Inl reason) \<Rightarrow> rejectRoute L w vr route reason
      | Inr (Inr (provider, network)) \<Rightarrow> acceptRoute L w vr route provider network)
      (\<lambda>_ post. liveRun L vr route (pre @ post))"
    if "list_all idle pre" "serviceReadPermitted route pre"
      "\<forall>p network. (v = Inr (Inr (p, network))) = privateAdmitted L route p network pre" for v pre
  proof (cases v)
    case (Inl err)
    with that show ?thesis using liveRunI [OF True that(1,2), of "[]"] by (simp add: yields_ret)
  next
    case r: (Inr y)
    show ?thesis
    proof (cases y)
      case (Inl reason)
      have "yields (rejectRoute L w vr route reason) (\<lambda>_ post. liveRun L vr route (pre @ post))"
        by (rule yields_mono [OF emits_yields [OF does_rejectRoute]])
           (use liveRunI [OF True that(1,2)] in \<open>simp add: list_all_iff\<close>)
      with r Inl show ?thesis by simp
    next
      case (Inr q)
      obtain p network where q: "q = (p, network)" by (cases q)
      then have adm: "privateAdmitted L route p network pre" using that(3) r Inr by blast
      have "yields (acceptRoute L w vr route p network) (\<lambda>_ post. liveRun L vr route (pre @ post))"
        by (rule yields_mono [OF emits_yields [OF does_acceptRoute]])
           (rule liveRunI [OF True that(1,2)], intro disjI2 exI conjI, rule adm, simp add: list_all_iff)
      with r Inr q show ?thesis by simp
    qed
  qed
  show ?thesis
    unfolding privateReconcileLive_def
    by (simp add: True, rule yields_bind_mono [OF privateValidate_plans]) (blast intro: act)
next
  case False
  then show ?thesis
    unfolding privateReconcileLive_def k8s_call_defs
    by (auto intro!: yields_rules simp: liveRun_def)
qed

lemma reportPrivateFailure_runs:
  "yields (reportPrivateFailure L w vr req result err) (\<lambda>x es. reportRun L vr req (Some err) es \<and> snd x \<noteq> None)"
  unfolding reportPrivateFailure_def patchRoute_def k8s_call_defs Let_def
  by (auto intro!: yields_rules simp: reportRun_def split: option.split sum.split)

definition onceRun ::
  "lib \<Rightarrow> privateReconciler \<Rightarrow> namespacedName \<Rightarrow> goerr option \<Rightarrow> history \<Rightarrow> bool" where
  "onceRun L vr req err es \<longleftrightarrow>
     (\<exists>g acts. es = GetPrivateRouteObject req g # acts
       \<and> (case g of
            Inl e \<Rightarrow> acts = [] \<and> err = ignoreNotFound e
          | Inr route \<Rightarrow>
              if vr_controllerClass vr = '''' \<or> rs_controller (r_spec route) \<noteq> vr_controllerClass vr
              then acts = [] \<and> err = None
              else if timeIsZero (om_deletionTimestamp (r_meta route)) then liveRun L vr route acts
              else if lib_containsFinalizer L (om_finalizers (r_meta route)) privateFinalizer
              then deletedInOrder L vr route err [] acts
              else acts = [] \<and> err = None))"

lemma privateReconcileOnce_runs:
  "yields (privateReconcileOnce L w vr req) (\<lambda>x. onceRun L vr req (snd x))"
  unfolding privateReconcileOnce_def k8s_call_defs
  by (auto intro!: yields_bind yields_call yields_ret yields_mono [OF privateReconcileLive_runs]
       yields_mono [OF privateFinalize_ordered] simp: onceRun_def split: sum.split if_splits)

text \<open>C28: One reconciliation of a private route, whatever the world answers. A route of another class
  is only read. A live route first gets the finalizer and nothing else; then it is validated,
  without any change, and only if it is admitted are its tunnel, CIDR route and connector made,
  with the credentials of the admitted provider and for the admitted network, and otherwise its
  CIDR route can only be deleted. A deleted route is finalized in order. A failure is followed
  by reading the object again and patching its status, a success by nothing.\<close>

theorem privateReconcile_runs:
  "yields (privateReconcile L w vr req) (\<lambda>x es. \<exists>err acts report. es = acts @ report
     \<and> onceRun L vr req err acts \<and> reportRun L vr req err report \<and> (err = None) = (snd x = None))"
  unfolding privateReconcile_def
proof (rule yields_bind_mono [OF privateReconcileOnce_runs])
  fix x :: "ctrlResult \<times> goerr option" and acts :: history
  assume once: "onceRun L vr req (snd x) acts"
  have "yields (reportPrivateFailure L w vr req (fst x) e) (\<lambda>y report. reportRun L vr req (snd x) report
      \<and> (snd x = None) = (snd y = None))" if "snd x = Some e" for e
    by (rule yields_mono [OF reportPrivateFailure_runs]) (use that in auto)
  then have "yields (case x of (result, err) \<Rightarrow> (case err of None \<Rightarrow> ret (result, None)
      | Some err \<Rightarrow> reportPrivateFailure L w vr req result err)) (\<lambda>y report. reportRun L vr req (snd x) report
      \<and> (snd x = None) = (snd y = None))"
    by (auto simp: reportRun_def intro!: yields_ret split: prod.split option.split)
  then show "yields (case x of (result, err) \<Rightarrow> (case err of None \<Rightarrow> ret (result, None)
      | Some err \<Rightarrow> reportPrivateFailure L w vr req result err)) (\<lambda>y es. \<exists>err acts' report.
      acts @ es = acts' @ report \<and> onceRun L vr req err acts' \<and> reportRun L vr req err report
      \<and> (err = None) = (snd y = None))"
    by (rule yields_mono)
       (elim conjE, rule exI [of _ "snd x"], rule exI [of _ acts], rule exI, intro conjI, rule refl,
        rule once, assumption+)
qed

section \<open>An outage of Cloudflare\<close>

lemma readAPIToken_reads:
  assumes "\<forall>h key. \<exists>sec. w_getSecret w h key = Inr sec
      \<and> trim_space (labelValue (sec_data sec) (skr_key (ps_apiTokenSecretRef (p_spec p)))) \<noteq> ''''"
  shows "yields (readAPIToken w r p) (\<lambda>t es. \<exists>token. t = Inr token)"
  unfolding readAPIToken_def k8s_getSecret_def
proof (rule yields_bind, rule yields_call_known)
  fix h
  let ?key = "(systemNamespace r, skr_name (ps_apiTokenSecretRef (p_spec p)))"
  obtain sec where "w_getSecret w h ?key = Inr sec"
    "trim_space (labelValue (sec_data sec) (skr_key (ps_apiTokenSecretRef (p_spec p)))) \<noteq> ''''"
    using assms by blast
  then show "yields (ret (case w_getSecret w h ?key of
        Inl err \<Rightarrow> Inl (Kube err)
      | Inr sec \<Rightarrow>
          (let token = trim_space (labelValue (sec_data sec) (skr_key (ps_apiTokenSecretRef (p_spec p))))
           in if token = '''' then Inl (Errorf ''cloudflare API token secret key is missing or empty'')
              else Inr token))) (\<lambda>t es. \<exists>token. t = Inr token)"
    by (intro yields_ret) simp
qed

lemma removeRoute_deletes:
  assumes "\<forall>h. w_getProvider w h (rs_providerRef (r_spec route)) = Inr p"
    and "yields (privateApi w vr p) (\<lambda>a es. a = Inr api)"
    and "ps_controller (p_spec p) = rs_controller (r_spec route)"
    and "rst_network (r_status route) \<noteq> ''''" "rst_routeID (r_status route) \<noteq> ''''"
    and "\<forall>h. cl_GetPrivateRoute api h (rst_routeID (r_status route)) = Inr (Some x)"
    and "privateOwned x route" "pr_network x = rst_network (r_status route)"
  shows "yields (removeRoute w vr route) (\<lambda>_ es. \<exists>e. CfDeletePrivateRoute (pr_id x) e \<in> set es)"
proof -
  have del: "yields (deleteRoute api route) (\<lambda>_ es. \<exists>e. CfDeletePrivateRoute (pr_id x) e \<in> set es)"
    unfolding deleteRoute_def cfGetPrivateRoute_def cfDeletePrivateRoute_def
    using assms(5-8)
    by (auto intro!: yields_bind_known yields_call)
  have removed: "yields (do { d \<leftarrow> deleteRoute api route;
        case d of Some err \<Rightarrow> ret (route, Some err) | None \<Rightarrow> patchRoute w routeCleared route })
      (\<lambda>_ es. \<exists>e. CfDeletePrivateRoute (pr_id x) e \<in> set pre \<or> CfDeletePrivateRoute (pr_id x) e \<in> set es)" for pre
    by (rule yields_bind_mono [OF del]) (auto intro!: yields_whatever extends_rules)
  show ?thesis
    unfolding removeRoute_def k8s_getProvider_def
    by (rule yields_bind_known [where a = "Inr p"], use assms(1) in simp,
        use assms(3) in \<open>auto intro!: yields_bind_mono [OF assms(2)] removed\<close>)
qed

text \<open>C33: Private routes and bindings treat an outage differently. If the provider's status is what
  the provider controller writes when Cloudflare could not be asked, the reconciliation of a
  private route with a recorded CIDR route, as soon as Cloudflare answers it, deletes that
  route.\<close>

theorem outage_withdraws_private_route:
  assumes "condition_laws L" "checkConfiguration L p = Inr q" "\<not> IsCredentialRejected err"
    and "ps_controller (p_spec p) = rs_controller (r_spec route)"
    and "\<forall>h. w_getProvider w h (rs_providerRef (r_spec route)) = Inr (validationFailure L err q)"
    and "lib_containsFinalizer L (om_finalizers (r_meta route)) privateFinalizer"
    and "rst_network (r_status route) \<noteq> ''''" "rst_routeID (r_status route) \<noteq> ''''"
    and "\<forall>h key. \<exists>sec. w_getSecret w h key = Inr sec
      \<and> trim_space (labelValue (sec_data sec) (skr_key (ps_apiTokenSecretRef (p_spec p)))) \<noteq> ''''"
    and "vr_cloudflare vr = Some (\<lambda>token account. api)"
    and "\<forall>h. cl_GetPrivateRoute api h (rst_routeID (r_status route)) = Inr (Some x)"
    and "privateOwned x route" "pr_network x = rst_network (r_status route)"
  shows "yields (privateReconcileLive L w vr route) (\<lambda>_ es. \<exists>e. CfDeletePrivateRoute (pr_id x) e \<in> set es)"
proof -
  let ?p = "validationFailure L err q"
  have spec: "p_spec ?p = p_spec p"
    using checkConfiguration_cases [OF assms(1), of p] assms(2) by (simp add: validationFailure_def)
  have "\<not> providerHolds L ?p ProviderConditionCredentialsValid"
    using assms(1,3) by (simp add: validationFailure_def providerHolds_set)
  then have reject: "yields (privateValidate L w route) (\<lambda>v es. v = Inr (Inl ''ProviderNotReady''))"
    unfolding privateValidate_def k8s_getProvider_def
    using assms(4,5) spec by (auto intro!: yields_bind yields_call_known yields_ret simp: providerHolds_def)
  have "yields (readAPIToken w (bindingHelper vr) ?p) (\<lambda>t es. \<exists>token. t = Inr token)"
    using assms(9) by (intro readAPIToken_reads) (simp add: spec)
  then have api: "yields (privateApi w vr ?p) (\<lambda>a es. a = Inr api)"
    unfolding privateApi_def newClient_def
    by (rule yields_bind_mono) (auto simp: assms(10) intro!: yields_bind_known yields_ret)
  have "ps_controller (p_spec ?p) = rs_controller (r_spec route)" using assms(4) spec by simp
  note remove = removeRoute_deletes [OF assms(5) api this assms(7,8,11-13)]
  have "''ProviderNotReady'' \<noteq> providerControllerClassMismatch"
    by (simp add: providerControllerClassMismatch_def)
  then have reject': "yields (rejectRoute L w vr route ''ProviderNotReady'')
      (\<lambda>_ es. \<exists>e. CfDeletePrivateRoute (pr_id x) e \<in> set es)"
    unfolding rejectRoute_def
    using assms(7) by (auto intro!: yields_bind_mono [OF remove] yields_whatever extends_rules)
  show ?thesis
    unfolding privateReconcileLive_def
    using assms(6) by (auto intro!: yields_bind_mono [OF reject] yields_mono [OF reject'])
qed

section \<open>Witnesses\<close>

definition demoRemoteRoute :: privateRoute where
  "demoRemoteRoute = \<lparr>pr_id = ''rid'', pr_network = ''10.0.0.7/32'', pr_tunnelID = ''tid'',
     pr_comment = privateComment demoPrivateRoute, pr_virtualNetworkID = ''''\<rparr>"

definition outageApi :: cfClient where
  "outageApi = demoCloudflare\<lparr>cl_GetPrivateRoute := \<lambda>h i. Inr (Some demoRemoteRoute)\<rparr>"

lemma outageApi_get: "cl_GetPrivateRoute outageApi h i = Inr (Some demoRemoteRoute)"
  by (simp add: outageApi_def demoCloudflare_def)

definition demoPrivateReconciler :: privateReconciler where
  "demoPrivateReconciler = \<lparr>vr_cloudflare = Some (\<lambda>token account. outageApi), vr_systemNamespace = '''',
     vr_cloudflaredImage = '''', vr_controllerClass = ''class''\<rparr>"

lemma outage_withdraws_private_route_witness:
  "\<exists>e. CfDeletePrivateRoute ''rid'' e \<in>
     set (snd (run_state (privateReconcileLive refLib outageWorld demoPrivateReconciler demoPrivateRoute) []))"
proof -
  have "yields (privateReconcileLive refLib outageWorld demoPrivateReconciler demoPrivateRoute)
      (\<lambda>_ es. \<exists>e. CfDeletePrivateRoute (pr_id demoRemoteRoute) e \<in> set es)"
  proof (rule outage_withdraws_private_route [OF refLib_conditions acceptedDemo])
    show "\<not> IsCredentialRejected outageError" by code_simp
    have "trim_space '' abc '' \<noteq> ''''" by code_simp
    then show "\<forall>h key. \<exists>sec. w_getSecret outageWorld h key = Inr sec
        \<and> trim_space (labelValue (sec_data sec) (skr_key (ps_apiTokenSecretRef (p_spec demoProvider)))) \<noteq> ''''"
      by (simp add: outageWorld_def demoWorld_def demoProvider_def labelValue_def)
    show "lib_containsFinalizer refLib (om_finalizers (r_meta demoPrivateRoute)) privateFinalizer"
      by code_simp
    show "privateOwned demoRemoteRoute demoPrivateRoute" by code_simp
    show "\<forall>h. cl_GetPrivateRoute outageApi h (rst_routeID (r_status demoPrivateRoute)) = Inr (Some demoRemoteRoute)"
      by (simp add: outageApi_get)
  qed (simp_all add: outageWorld_def demoWorld_def demoProvider_def demoPrivateRoute_def demoPrivateReconciler_def
      outageApi_get demoRemoteRoute_def)
  then obtain y es where "run_state (privateReconcileLive refLib outageWorld demoPrivateReconciler demoPrivateRoute) [] = (y, [] @ es)"
    "\<exists>e. CfDeletePrivateRoute (pr_id demoRemoteRoute) e \<in> set es"
    by (rule yieldsE)
  then show ?thesis by (simp add: demoRemoteRoute_def)
qed

end
