(* ===== verification/Watches.thy ===== *)
theory Watches
  imports PrivatePlan
begin

text \<open>
  Change detection. Each controller registers, in \<^verbatim>\<open>SetupWithManager\<close>, the kinds of
  objects it watches, and maps a changed object to the requests it concerns. A reconciliation
  that comes to rest must be repeated when something it read changes: the theory relates what
  validation reads to what the watches report, and to the requeueing of rejected objects.
\<close>

section \<open>The registered watches\<close>

datatype watchedKind = ClusterCloudflareProviderKind | GatewayClassKind | GatewayKind
  | HTTPRouteKind | ReferenceGrantKind | ServiceKind | NamespaceKind

fun kindOf :: "watchedObject \<Rightarrow> watchedKind" where
  "kindOf (WatchedProvider p) = ClusterCloudflareProviderKind"
| "kindOf (WatchedGatewayClass c) = GatewayClassKind"
| "kindOf (WatchedGateway g) = GatewayKind"
| "kindOf (WatchedHTTPRoute r) = HTTPRouteKind"
| "kindOf (WatchedReferenceGrant g) = ReferenceGrantKind"
| "kindOf (WatchedService s) = ServiceKind"
| "kindOf (WatchedNamespace n) = NamespaceKind"

definition bindingWatches :: "watchedKind list" where
  "bindingWatches = [ClusterCloudflareProviderKind, GatewayClassKind, GatewayKind, HTTPRouteKind,
     ReferenceGrantKind, ServiceKind, NamespaceKind]"

definition privateWatches :: "watchedKind list" where
  "privateWatches = [ClusterCloudflareProviderKind, ServiceKind, ReferenceGrantKind, NamespaceKind]"

section \<open>What a read depends on\<close>

datatype place = ProviderAt string | NamespaceAt string | GatewayAt namespacedName | GatewayClasses
  | ServiceAt namespacedName | HTTPRoutesIn string | ReferenceGrantsIn string

fun reads :: "event \<Rightarrow> place option" where
  "reads (GetProvider n x) = Some (ProviderAt n)"
| "reads (GetNamespace n x) = Some (NamespaceAt n)"
| "reads (GetGateway key x) = Some (GatewayAt key)"
| "reads (GetGatewayClass n x) = Some GatewayClasses"
| "reads (GetService key x) = Some (ServiceAt key)"
| "reads (ListHTTPRoutes n x) = Some (HTTPRoutesIn n)"
| "reads (ListReferenceGrants n x) = Some (ReferenceGrantsIn n)"
| "reads e = None"

fun livesAt :: "watchedObject \<Rightarrow> place \<Rightarrow> bool" where
  "livesAt (WatchedProvider p) (ProviderAt n) = (p_name p = n)"
| "livesAt (WatchedNamespace ns) (NamespaceAt n) = (om_name (ns_meta ns) = n)"
| "livesAt (WatchedGateway g) (GatewayAt key) = ((om_namespace (gw_meta g), om_name (gw_meta g)) = key)"
| "livesAt (WatchedGatewayClass c) GatewayClasses = True"
| "livesAt (WatchedService s) (ServiceAt key) = ((om_namespace (svc_meta s), om_name (svc_meta s)) = key)"
| "livesAt (WatchedHTTPRoute r) (HTTPRoutesIn n) = (om_namespace (hr_meta r) = n)"
| "livesAt (WatchedReferenceGrant g) (ReferenceGrantsIn n) = (om_namespace (rg_meta g) = n)"
| "livesAt object place = False"

definition readAt :: "event \<Rightarrow> watchedObject \<Rightarrow> bool" where
  \<comment> \<open>The call reads the place where the object lives.\<close>
  "readAt e object \<longleftrightarrow> (case reads e of None \<Rightarrow> False | Some place \<Rightarrow> livesAt object place)"

definition bears :: "cloudflareTunnelBinding \<Rightarrow> watchedObject \<Rightarrow> bool" where
  \<comment> \<open>Routes of other Gateways do not bear on the binding.\<close>
  "bears b object = (case object of WatchedHTTPRoute r \<Rightarrow> routeTargetsBinding r b | _ \<Rightarrow> True)"

definition bindingNotices :: "cloudflareTunnelBinding \<Rightarrow> event \<Rightarrow> bool" where
  \<comment> \<open>Every object the call depends on is of a watched kind and is mapped to the binding.\<close>
  "bindingNotices b e \<longleftrightarrow> (\<forall>object. readAt e object \<longrightarrow>
     kindOf object \<in> set bindingWatches \<and> (bears b object \<longrightarrow> bindingMatches object b))"

definition routeNotices :: "cloudflareTunnelPrivateRoute \<Rightarrow> event \<Rightarrow> bool" where
  "routeNotices route e \<longleftrightarrow> (\<forall>object. readAt e object \<longrightarrow>
     kindOf object \<in> set privateWatches \<and> routeMatches object route)"

fun listsBindings :: "event \<Rightarrow> bool" where
  "listsBindings (ListBindings None x) = True"
| "listsBindings e = False"

lemma bindingNoticesI:
  "(\<And>object. readAt e object \<Longrightarrow> bears b object \<Longrightarrow> bindingMatches object b) \<Longrightarrow> bindingNotices b e"
  unfolding bindingNotices_def bindingWatches_def
  by (intro allI impI conjI, rename_tac object, case_tac object) auto

lemma bindingNotices_calls [simp]:
  "bindingNotices b (GetProvider (bs_providerRef (b_spec b)) x)"
  "bindingNotices b (GetNamespace (b_namespace b) y)"
  "bindingNotices b (GetGateway (b_namespace b, gr_name (bs_gatewayRef (b_spec b))) z)"
  "bindingNotices b (GetGatewayClass n c)"
  "bindingNotices b (GetService (effectiveOriginServiceNamespace b, osr_name (bs_originServiceRef (b_spec b))) s)"
  "bindingNotices b (ListHTTPRoutes (b_namespace b) rs)"
  "effectiveOriginServiceNamespace b \<noteq> b_namespace b \<Longrightarrow>
     bindingNotices b (ListReferenceGrants (effectiveOriginServiceNamespace b) gs)"
  "bindingNotices b (ListBindings l bs)"
  "bindingNotices b (PatchBindingStatus b0 b1 p)"
  by (rule bindingNoticesI, rename_tac object, case_tac object, auto simp: readAt_def bindingMatches_def bears_def)+

lemma routeNoticesI:
  "(\<And>object. readAt e object \<Longrightarrow> kindOf object \<in> set privateWatches \<and> routeMatches object route)
     \<Longrightarrow> routeNotices route e"
  unfolding routeNotices_def by blast

lemma routeNotices_calls [simp]:
  "routeNotices route (GetProvider (rs_providerRef (r_spec route)) x)"
  "routeNotices route (GetNamespace (r_namespace route) y)"
  "routeNotices route (GetService (privateServiceNamespace route, prs_name (rs_serviceRef (r_spec route))) s)"
  "routeNotices route (ListReferenceGrants (privateServiceNamespace route) gs)"
  "routeNotices route (ListPrivateRouteObjects rs)"
  by (rule routeNoticesI, rename_tac object, case_tac object,
      auto simp: readAt_def routeMatches_def privateWatches_def)+

section \<open>Validation of a binding\<close>

text \<open>\<open>attentive b\<close>: everything read before the other bindings are looked at is noticed, and a
  rejection is repeated after five minutes.\<close>

definition attentive :: "cloudflareTunnelBinding \<Rightarrow> 'a outcome \<Rightarrow> history \<Rightarrow> bool" where
  "attentive b x es \<longleftrightarrow>
     list_all (bindingNotices b) (takeWhile (\<lambda>e. \<not> listsBindings e) es)
     \<and> (case x of Reject after err \<Rightarrow> after = 300 | _ \<Rightarrow> True)"

definition retried :: "ctrlResult \<times> goerr option \<Rightarrow> bool" where
  \<comment> \<open>The request is repeated after five minutes, or at once because of an error.\<close>
  "retried x \<longleftrightarrow> (case snd x of None \<Rightarrow> fst x = 300 | Some err \<Rightarrow> True)"

abbreviation heedful :: "cloudflareTunnelBinding \<Rightarrow> (cloudflareTunnelBinding \<times> 'a outcome) io \<Rightarrow> bool" where
  "heedful b m \<equiv> yields m (\<lambda>x es. list_all (\<lambda>e. bindingNotices b e \<and> \<not> listsBindings e) es
     \<and> continues b (\<lambda>_. True) x \<and> (case snd x of Reject after err \<Rightarrow> after = 300 | _ \<Rightarrow> True))"

lemma validateClusterProvider_heedful: "heedful b (validateClusterProvider L w r b)"
  unfolding validateClusterProvider_def k8s_call_defs Let_def
  by (auto intro!: yields_rules split: sum.split option.split)

lemma validateService_heedful:
  "n = effectiveOriginServiceNamespace b \<Longrightarrow> heedful b (validateService L w b n)"
  unfolding validateService_def k8s_call_defs Let_def
  by (auto intro!: yields_rules split: sum.split option.split)

lemma validateOriginService_heedful: "heedful b (validateOriginService L w b)"
  unfolding validateOriginService_def originReferencePermitted_def k8s_call_defs Let_def
  by (auto intro!: yields_rules yields_mono [OF validateService_heedful [OF refl]]
      yields_mono [OF validateService_heedful [OF sym]] split: sum.split)

lemma attentive_append:
  "list_all (\<lambda>e. bindingNotices b e \<and> \<not> listsBindings e) es \<Longrightarrow> attentive b x es' \<Longrightarrow>
     attentive b x (es @ es')"
  by (induction es) (auto simp: attentive_def)

lemma heedful_attentive: "heedful b m \<Longrightarrow> yields m (\<lambda>x es. attentive b (snd x) es)"
  by (erule yields_mono)
     (auto simp: attentive_def list_all_iff dest: set_takeWhileD split: outcome.splits)

lemma planHostnames_attentive:
  "yields (planHostnames L w b p origin hs) (\<lambda>x es. attentive b (snd x) es)"
proof -
  have other: "yields (hostnameWinner L w b ns) (\<lambda>_ es. \<exists>l rest. es = ListBindings None l # rest)" for ns
    unfolding hostnameWinner_def k8s_call_defs
    by (auto intro!: yields_rules yields_whatever extends_rules split: sum.split)
  show ?thesis
    unfolding planHostnames_def Let_def
    by (auto intro!: yields_rules yields_bind_mono [OF other] simp: attentive_def
        split: sum.split option.split)
qed

lemma attentive_ret: "(case x of Reject after err \<Rightarrow> after = 300 | _ \<Rightarrow> True) \<Longrightarrow> attentive b x []"
  by (simp add: attentive_def)

lemma heedful_bind:
  assumes "heedful b m"
    and "\<And>a. yields (f (b, Continue a)) (\<lambda>x. attentive b (snd x))"
    and "\<And>c err. yields (f (c, Reject 300 err)) (\<lambda>x. attentive b (snd x))"
    and "\<And>c err. yields (f (c, Fail err)) (\<lambda>x. attentive b (snd x))"
  shows "yields (m \<bind> f) (\<lambda>x. attentive b (snd x))"
proof (rule yields_bind_mono [OF assms(1)], elim conjE)
  fix x :: "cloudflareTunnelBinding \<times> 'a outcome" and es
  assume "list_all (\<lambda>e. bindingNotices b e \<and> \<not> listsBindings e) es"
  note append = attentive_append [OF this]
  assume "continues b (\<lambda>_. True) x" "case snd x of Reject after err \<Rightarrow> after = 300 | _ \<Rightarrow> True"
  then have "yields (f x) (\<lambda>y. attentive b (snd y))"
    using assms(2-4) by (cases x; cases "snd x") auto
  then show "yields (f x) (\<lambda>y es'. attentive b (snd y) (es @ es'))"
    by (rule yields_mono) (rule append)
qed

lemma validateAndPlan_attentive:
  "yields (validateAndPlan L w r b) (\<lambda>x. attentive b (snd x))"
proof -
  have routes: "yields (acceptedRouteHostnames L w b \<bind> (\<lambda>rh. case rh of
         Inl err \<Rightarrow> ret (b, Fail err)
       | Inr hs \<Rightarrow> planHostnames L w b p origin hs)) (\<lambda>x. attentive b (snd x))" for p origin
    unfolding acceptedRouteHostnames_def k8s_call_defs
    by (auto intro!: yields_bind yields_call yields_ret yields_mono [OF planHostnames_attentive]
          attentive_append [where es = "[e]" for e, simplified] attentive_ret split: sum.split)
  show ?thesis
    unfolding validateAndPlan_def
    by (rule heedful_bind [OF validateClusterProvider_heedful])
      (auto intro!: heedful_bind [OF validateOriginService_heedful] routes yields_ret attentive_ret)
qed

section \<open>Validation of a private route\<close>

lemma privateValidate_notices: "yields (privateValidate L w route) (\<lambda>_. list_all (routeNotices route))"
proof -
  have service: "yields (validatePrivateService L w route p) (\<lambda>_. list_all (routeNotices route))" for p
    unfolding validatePrivateService_def privateRouteConflicts_def k8s_call_defs Let_def
    by (auto intro!: yields_rules split: sum.split option.split)
  show ?thesis
    unfolding privateValidate_def k8s_call_defs Let_def
    by (auto intro!: yields_bind yields_call yields_ret yields_mono [OF service] split: sum.split)
qed

lemma rejectRoute_retried: "yields (rejectRoute L w vr route reason) (\<lambda>x es. retried x)"
  unfolding rejectRoute_def
  by (auto intro!: yields_bind_mono [OF yields_whatever [where P = "\<lambda>_ _. True"]] yields_ret extends_rules
      simp: retried_def split: option.split)

text \<open>C39: No change goes unnoticed. Every object of another kind that the validation of a binding
  reads, up to the comparison with the other bindings' hostnames, is of a kind the controller
  watches, and the watch maps its change to the binding; only an HTTPRoute that does not target
  the binding's Gateway is not mapped to it, and such routes have no influence on its hostnames.
  What the watches do not cover, the other bindings, is covered by repeating every rejected
  request after five minutes. Everything the validation of a private route reads, but the other
  private routes, is watched and mapped to the route, and a rejected route is repeated too.\<close>

theorem changes_are_noticed:
  "yields (validateAndPlan L w r b) (\<lambda>x. attentive b (snd x))
   \<and> acceptedHostnames L b (filter (\<lambda>route. routeTargetsBinding route b) routes) = acceptedHostnames L b routes
   \<and> yields (privateValidate L w route) (\<lambda>_. list_all (routeNotices route))
   \<and> yields (rejectRoute L w vr route reason) (\<lambda>x es. retried x)"
  using validateAndPlan_attentive privateValidate_notices rejectRoute_retried
  by (simp add: acceptedHostnames_def filter_filter conj_ac)

end
