(* ===== verification/Startup.thy ===== *)
theory Startup
  imports SHA256 BindingController ProviderController PrivateReconcile
begin

text \<open>
  The manager's start, \<^verbatim>\<open>cmd/main.go\<close>: the command-line configuration with its defaults, the
  options of the servers and of the manager, the three reconcilers and the order of the steps,
  each of which ends the process when it fails. What the manager does in a step is
  controller-runtime's; whether it fails is a parameter. A class is read as UTF-8, so that
  \<^verbatim>\<open>strings.TrimSpace\<close> cuts off Unicode white space.
\<close>

section \<open>The class\<close>

definition spaceWidth :: "string \<Rightarrow> nat" where
  \<comment> \<open>The number of bytes of the white-space rune \<open>s\<close> begins with, 0 if it does not: the ASCII
    ones, U+0085, U+00A0, U+1680, U+2000 to U+200A, U+2028, U+2029, U+202F, U+205F and U+3000.\<close>
  "spaceWidth s =
     (case map code s of
        a # rest \<Rightarrow>
          if a = 32 \<or> 9 \<le> a \<and> a \<le> 13 then 1
          else (case rest of
             b # rest' \<Rightarrow>
               if a = 194 \<and> (b = 133 \<or> b = 160) then 2
               else (case rest' of
                  c # _ \<Rightarrow>
                    if a = 225 \<and> b = 154 \<and> c = 128
                       \<or> a = 226 \<and> b = 128 \<and> (128 \<le> c \<and> c \<le> 138 \<or> c = 168 \<or> c = 169 \<or> c = 175)
                       \<or> a = 226 \<and> b = 129 \<and> c = 159
                       \<or> a = 227 \<and> b = 128 \<and> c = 128
                    then 3 else 0
                | [] \<Rightarrow> 0)
           | [] \<Rightarrow> 0)
      | [] \<Rightarrow> 0)"

lemma spaceWidth_Nil: "spaceWidth [] = 0"
  by (simp add: spaceWidth_def)

function trimLeftSpace :: "string \<Rightarrow> string" where
  "trimLeftSpace s = (if spaceWidth s = 0 then s else trimLeftSpace (drop (spaceWidth s) s))"
  by auto
termination
proof (relation "measure length")
  fix s :: string
  assume "spaceWidth s \<noteq> 0"
  then have "s \<noteq> []" using spaceWidth_Nil by auto
  with \<open>spaceWidth s \<noteq> 0\<close> show "(drop (spaceWidth s) s, s) \<in> measure length" by simp
qed simp

declare trimLeftSpace.simps [simp del]

definition blank :: "string \<Rightarrow> bool" where
  \<comment> \<open>\<^verbatim>\<open>strings.TrimSpace(s) == ""\<close>: what is left of a non-blank string after trimming on the
    left begins with a rune that trimming on the right keeps.\<close>
  "blank s \<longleftrightarrow> trimLeftSpace s = ''''"

definition validateControllerClass :: "string \<Rightarrow> goerr option" where
  "validateControllerClass controllerClass =
     (if blank controllerClass
      then Some (Errorf ''--controller-class is required and must not be empty'') else None)"

definition leaderElectionID :: "string \<Rightarrow> string" where
  "leaderElectionID controllerClass =
     ''kflared-'' @ hexEncodeToString (Sum256 controllerClass) @ ''.kodeblox.com''"

section \<open>Configuration\<close>

record flags =
  metricsAddr :: string
  metricsCertPath :: string
  metricsCertName :: string
  metricsCertKey :: string
  webhookCertPath :: string
  webhookCertName :: string
  webhookCertKey :: string
  webhookPort :: int
  enableLeaderElection :: bool
  controllerClass :: string
  probeAddr :: string
  systemNamespaceFlag :: string
  secureMetrics :: bool
  enableHTTP2 :: bool

definition defaultFlags :: "string \<Rightarrow> flags" where
  \<comment> \<open>The values before \<^verbatim>\<open>flag.Parse\<close>; the argument is \<^verbatim>\<open>os.Getenv("POD_NAMESPACE")\<close>.\<close>
  "defaultFlags podNamespace =
     \<lparr>metricsAddr = ''0'', metricsCertPath = '''', metricsCertName = ''tls.crt'',
      metricsCertKey = ''tls.key'', webhookCertPath = '''', webhookCertName = ''tls.crt'',
      webhookCertKey = ''tls.key'', webhookPort = 9443, enableLeaderElection = False,
      controllerClass = '''', probeAddr = '':8081'', systemNamespaceFlag = podNamespace,
      secureMetrics = True, enableHTTP2 = False\<rparr>"

record tlsConfig =
  NextProtos :: "string list"

type_synonym tlsOpt = "tlsConfig \<Rightarrow> tlsConfig"

definition disableHTTP2 :: tlsOpt where
  "disableHTTP2 c = c\<lparr>NextProtos := [''http/1.1'']\<rparr>"

definition tlsOpts :: "flags \<Rightarrow> tlsOpt list" where
  "tlsOpts f = (if \<not> enableHTTP2 f then [disableHTTP2] else [])"

text \<open>The certificate part of both servers' options: directory, certificate and key file, empty
  where unset.\<close>

record certOptions =
  CertDir :: string
  CertName :: string
  KeyName :: string

record webhookOptions = certOptions +
  wh_TLSOpts :: "tlsOpt list"
  wh_Port :: int

record metricsOptions = certOptions +
  me_BindAddress :: string
  me_SecureServing :: bool
  me_TLSOpts :: "tlsOpt list"
  me_withAuthenticationAndAuthorization :: bool

definition webhookServerOptions :: "flags \<Rightarrow> webhookOptions" where
  "webhookServerOptions f =
     (let options = \<lparr>CertDir = '''', CertName = '''', KeyName = '''',
                     wh_TLSOpts = tlsOpts f, wh_Port = webhookPort f\<rparr>
      in if 0 < length (webhookCertPath f)
         then options\<lparr>CertDir := webhookCertPath f, CertName := webhookCertName f,
                      KeyName := webhookCertKey f\<rparr>
         else options)"

definition metricsServerOptions :: "flags \<Rightarrow> metricsOptions" where
  "metricsServerOptions f =
     (let options = \<lparr>CertDir = '''', CertName = '''', KeyName = '''',
                     me_BindAddress = metricsAddr f, me_SecureServing = secureMetrics f,
                     me_TLSOpts = tlsOpts f, me_withAuthenticationAndAuthorization = False\<rparr>;
          options = (if secureMetrics f
                     then options\<lparr>me_withAuthenticationAndAuthorization := True\<rparr> else options)
      in if 0 < length (metricsCertPath f)
         then options\<lparr>CertDir := metricsCertPath f, CertName := metricsCertName f,
                      KeyName := metricsCertKey f\<rparr>
         else options)"

datatype uncachedKind = UncachedSecret | UncachedDeployment

record managerOptions =
  mo_DisableFor :: "uncachedKind list"
  mo_Metrics :: metricsOptions
  mo_WebhookServer :: webhookOptions
  mo_HealthProbeBindAddress :: string
  mo_LeaderElection :: bool
  mo_LeaderElectionID :: string

definition newManagerOptions :: "flags \<Rightarrow> managerOptions" where
  "newManagerOptions f =
     \<lparr>mo_DisableFor = [UncachedSecret, UncachedDeployment],
      mo_Metrics = metricsServerOptions f, mo_WebhookServer = webhookServerOptions f,
      mo_HealthProbeBindAddress = probeAddr f, mo_LeaderElection = enableLeaderElection f,
      mo_LeaderElectionID = leaderElectionID (controllerClass f)\<rparr>"

section \<open>The reconcilers\<close>

text \<open>The client, scheme, REST mapper and recorder are the manager's: the world, and present.\<close>

definition providerReconcilerOf :: "world \<Rightarrow> flags \<Rightarrow> providerReconciler" where
  "providerReconcilerOf w f =
     \<lparr>cr_cloudflare = Some (SDKFactory_New w), cr_systemNamespace = systemNamespaceFlag f,
      cr_controllerClass = controllerClass f\<rparr>"

definition bindingReconcilerOf :: "world \<Rightarrow> flags \<Rightarrow> bindingReconciler" where
  "bindingReconcilerOf w f =
     \<lparr>br_hasRESTMapper = True, br_hasRecorder = True, br_cloudflare = Some (SDKFactory_New w),
      br_systemNamespace = systemNamespaceFlag f, br_cloudflaredImage = '''',
      br_controllerClass = controllerClass f\<rparr>"

definition privateReconcilerOf :: "world \<Rightarrow> flags \<Rightarrow> privateReconciler" where
  "privateReconcilerOf w f =
     \<lparr>vr_cloudflare = Some (SDKFactory_New w), vr_systemNamespace = systemNamespaceFlag f,
      vr_cloudflaredImage = '''', vr_controllerClass = controllerClass f\<rparr>"

section \<open>The steps\<close>

datatype (plugins only: code) startStep =
    LoadConfig
  | NewManager managerOptions
  | SetupProvider providerReconciler
  | SetupBinding bindingReconciler
  | SetupPrivateRoute privateReconciler
  | AddHealthzCheck string
  | AddReadyzCheck string
  | StartManager

definition startSteps :: "world \<Rightarrow> flags \<Rightarrow> startStep list" where
  "startSteps w f =
     [LoadConfig, NewManager (newManagerOptions f),
      SetupProvider (providerReconcilerOf w f), SetupBinding (bindingReconcilerOf w f),
      SetupPrivateRoute (privateReconcilerOf w f),
      AddHealthzCheck ''healthz'', AddReadyzCheck ''readyz'', StartManager]"

fun runSteps :: "(startStep \<Rightarrow> goerr option) \<Rightarrow> startStep list \<Rightarrow> startStep list \<times> nat" where
  \<comment> \<open>The steps taken and the exit status.\<close>
  "runSteps outcome [] = ([], 0)"
| "runSteps outcome (s # ss) =
     (case outcome s of
        Some err \<Rightarrow> ([s], 1)
      | None \<Rightarrow> (let (taken, status) = runSteps outcome ss in (s # taken, status)))"

definition main :: "world \<Rightarrow> (startStep \<Rightarrow> goerr option) \<Rightarrow> flags \<Rightarrow> startStep list \<times> nat" where
  "main w outcome f =
     (case validateControllerClass (controllerClass f) of
        Some err \<Rightarrow> ([], 1)
      | None \<Rightarrow> runSteps outcome (startSteps w f))"

section \<open>What starts\<close>

definition served :: "tlsOpt list \<Rightarrow> tlsConfig \<Rightarrow> string list" where
  \<comment> \<open>The protocols a server offers after its options were applied to its configuration.\<close>
  "served opts c = NextProtos (fold (\<lambda>opt. opt) opts c)"

definition lease_char :: "char \<Rightarrow> bool" where
  "lease_char c \<longleftrightarrow> is_lower c \<or> is_digit c \<or> c = dash \<or> c = CHR ''.''"

definition hardened :: "flags \<Rightarrow> managerOptions \<Rightarrow> bool" where
  \<comment> \<open>No cached Secrets, HTTP/1.1 only unless HTTP/2 is asked for, metrics behind authentication
    if they are secure, and a Lease name of the class.\<close>
  "hardened f m \<longleftrightarrow> UncachedSecret \<in> set (mo_DisableFor m)
     \<and> (\<forall>c. served (wh_TLSOpts (mo_WebhookServer m)) c = (if enableHTTP2 f then NextProtos c else [''http/1.1''])
          \<and> served (me_TLSOpts (mo_Metrics m)) c = (if enableHTTP2 f then NextProtos c else [''http/1.1'']))
     \<and> me_withAuthenticationAndAuthorization (mo_Metrics m) = me_SecureServing (mo_Metrics m)
     \<and> me_SecureServing (mo_Metrics m) = secureMetrics f
     \<and> length (mo_LeaderElectionID m) = 85 \<and> list_all lease_char (mo_LeaderElectionID m)"

fun stepOf :: "flags \<Rightarrow> startStep \<Rightarrow> bool" where
  \<comment> \<open>Every controller owns exactly the objects of the class, in the same system namespace.\<close>
  "stepOf f (NewManager m) = hardened f m"
| "stepOf f (SetupProvider r) \<longleftrightarrow> (\<forall>c. providerOwns r c = (c = controllerClass f))
     \<and> providerSystemNamespace r = (if systemNamespaceFlag f = '''' then ''kflared'' else systemNamespaceFlag f)"
| "stepOf f (SetupBinding r) \<longleftrightarrow> (\<forall>c. owns r c = (c = controllerClass f))
     \<and> systemNamespace r = (if systemNamespaceFlag f = '''' then ''kflared'' else systemNamespaceFlag f)
     \<and> br_hasRESTMapper r \<and> br_hasRecorder r"
| "stepOf f (SetupPrivateRoute r) \<longleftrightarrow>
     (\<forall>route. privateClassPredicate (vr_controllerClass r) (Some route) =
        (rs_controller (r_spec route) = controllerClass f))
     \<and> privateSystemNamespace r = (if systemNamespaceFlag f = '''' then ''kflared'' else systemNamespaceFlag f)"
| "stepOf f s = True"

definition startsUp ::
  "world \<Rightarrow> (startStep \<Rightarrow> goerr option) \<Rightarrow> flags \<Rightarrow> startStep list \<Rightarrow> nat \<Rightarrow> bool" where
  "startsUp w outcome f taken status \<longleftrightarrow>
     list_all (stepOf f) taken
     \<and> (\<exists>rest. startSteps w f = taken @ rest)
     \<and> list_all (\<lambda>s. outcome s = None) (butlast taken)
     \<and> (status = 0 \<longleftrightarrow> taken = startSteps w f \<and> list_all (\<lambda>s. outcome s = None) taken)
     \<and> (status = 1 \<longleftrightarrow> taken = [] \<or> outcome (last taken) \<noteq> None)
     \<and> (taken = [] \<longleftrightarrow> blank (controllerClass f))
     \<and> (StartManager \<in> set taken \<longleftrightarrow> taken = startSteps w f)"

lemma runSteps_prefix:
  "runSteps outcome ss = (taken, status) \<Longrightarrow>
     (\<exists>rest. ss = taken @ rest) \<and> list_all (\<lambda>s. outcome s = None) (butlast taken)
     \<and> (status = 0 \<longleftrightarrow> taken = ss \<and> list_all (\<lambda>s. outcome s = None) taken)
     \<and> (ss \<noteq> [] \<longrightarrow> taken \<noteq> [] \<and> (status = 1 \<longleftrightarrow> outcome (last taken) \<noteq> None))"
proof (induction ss arbitrary: taken status)
  case (Cons s ss)
  show ?case
  proof (cases "outcome s")
    case None
    obtain taken' status' where run: "runSteps outcome ss = (taken', status')" by fastforce
    with Cons.prems None have "taken = s # taken'" "status = status'" by auto
    with Cons.IH [OF run] None show ?thesis
      by (cases ss) (auto simp: run)
  qed (use Cons.prems in auto)
qed simp

lemma leaderElectionID_lease:
  "length (leaderElectionID c) = 85" "list_all lease_char (leaderElectionID c)"
proof -
  have "list_all lease_char (hexEncodeToString bs)" for bs
    using hexEncode_hex [of bs]
    by (auto simp: list_all_iff lease_char_def is_hex_def is_lower_def)
  moreover have "list_all lease_char ''kflared-''" "list_all lease_char ''.kodeblox.com''"
    by (simp_all add: lease_char_def is_lower_def is_digit_def code_def dash_def)
  ultimately show "list_all lease_char (leaderElectionID c)"
    by (simp only: leaderElectionID_def list_all_append)
qed (simp add: leaderElectionID_def)

lemma hardened_options: "hardened f (newManagerOptions f)"
  using leaderElectionID_lease [of "controllerClass f"]
  by (simp add: hardened_def newManagerOptions_def metricsServerOptions_def webhookServerOptions_def
      Let_def served_def tlsOpts_def disableHTTP2_def)

lemma blank_Nil: "blank []"
  by (simp add: blank_def trimLeftSpace.simps spaceWidth_Nil)

lemma startSteps_stepOf: "\<not> blank (controllerClass f) \<Longrightarrow> list_all (stepOf f) (startSteps w f)"
  using blank_Nil
  by (auto simp: startSteps_def hardened_options providerReconcilerOf_def bindingReconcilerOf_def
      privateReconcilerOf_def providerOwns_def owns_def privateClassPredicate_def
      providerSystemNamespace_def systemNamespace_def privateSystemNamespace_def
      defaultSystemNamespace_def)

lemma StartManager_last:
  "startSteps w f = taken @ rest \<Longrightarrow> StartManager \<in> set taken \<longleftrightarrow> rest = []"
proof (cases rest rule: rev_cases)
  case (snoc ys s)
  assume "startSteps w f = taken @ rest"
  with snoc have "butlast (startSteps w f) = taken @ ys" by (simp add: butlast_append)
  then have "set taken \<subseteq> set (butlast (startSteps w f))" by simp
  moreover have "StartManager \<notin> set (butlast (startSteps w f))" by (simp add: startSteps_def)
  ultimately show ?thesis using snoc by auto
qed (auto simp: startSteps_def dest: sym)

text \<open>C38: Nothing starts without a controller class that is more than white space. Otherwise the
  start takes its steps in order up to the first that fails, exits with status 1 exactly if one
  fails, and runs the manager only after every other step succeeded. The manager it makes reads
  Secrets uncached, offers HTTP/1.1 only unless HTTP/2 is enabled, serves secure metrics only
  behind authentication and authorization, and elects its leader under a valid Lease name of 85
  characters; every controller it sets up owns exactly the objects of the given class and uses
  the same system namespace.\<close>

theorem main_starts:
  "case main w outcome f of (taken, status) \<Rightarrow> startsUp w outcome f taken status"
proof (cases "blank (controllerClass f)")
  case True
  then show ?thesis by (simp add: main_def validateControllerClass_def startsUp_def startSteps_def)
next
  case False
  obtain taken status where run: "runSteps outcome (startSteps w f) = (taken, status)" by fastforce
  have steps: "startSteps w f \<noteq> []" by (simp add: startSteps_def)
  note prefix = runSteps_prefix [OF run]
  then obtain rest where rest: "startSteps w f = taken @ rest" by blast
  then have "list_all (stepOf f) taken"
    using startSteps_stepOf [OF False, of w] by simp
  moreover have "StartManager \<in> set taken \<longleftrightarrow> taken = startSteps w f"
    using StartManager_last [OF rest] rest by auto
  ultimately have "startsUp w outcome f taken status"
    using prefix steps False unfolding startsUp_def by blast
  then show ?thesis by (simp add: main_def validateControllerClass_def run False)
qed

end
