(* ===== verification/ManagerLog.thy ===== *)
theory ManagerLog
  imports BindingSafety PrivateSafety ProviderProps Startup
begin

text \<open>
  The whole manager. Once it is started, the controllers it was set up with run any number of
  reconciliations, concurrently: a log of the manager is any interleaving of the calls of any
  runs, and every run meets a world of its own. The theory lifts what single runs promise to
  such logs.
\<close>

section \<open>Logs\<close>

datatype actor = ByBinding | ByPrivateRoute | ByProvider | ByWatch

type_synonym entry = "actor \<times> event"

abbreviation running :: "startStep list \<Rightarrow> startStep \<Rightarrow> bool" where
  \<comment> \<open>The controller was set up, and the manager started.\<close>
  "running steps controller \<equiv> controller \<in> set steps \<and> StartManager \<in> set steps"

inductive managerLog :: "lib \<Rightarrow> startStep list \<Rightarrow> entry list \<Rightarrow> bool" for L steps where
  idle: "managerLog L steps []"
| binding:
    "\<lbrakk>managerLog L steps log; running steps (SetupBinding r);
      run_state (Reconcile L w r req) h = (x, h @ es);
      zs \<in> shuffles log (map (Pair ByBinding) es)\<rbrakk> \<Longrightarrow> managerLog L steps zs"
| privateRoute:
    "\<lbrakk>managerLog L steps log; running steps (SetupPrivateRoute vr);
      run_state (privateReconcile L w vr req) h = (x, h @ es);
      zs \<in> shuffles log (map (Pair ByPrivateRoute) es)\<rbrakk> \<Longrightarrow> managerLog L steps zs"
| provider:
    "\<lbrakk>managerLog L steps log; running steps (SetupProvider pr);
      run_state (providerReconcile L w pr name) h = (x, h @ es);
      zs \<in> shuffles log (map (Pair ByProvider) es)\<rbrakk> \<Longrightarrow> managerLog L steps zs"
| watchBindings:
    "\<lbrakk>managerLog L steps log; running steps (SetupBinding r);
      run_state (bindingsForObject w r object) h = (keys, h @ es);
      zs \<in> shuffles log (map (Pair ByWatch) es)\<rbrakk> \<Longrightarrow> managerLog L steps zs"
| watchRoutes:
    "\<lbrakk>managerLog L steps log; running steps (SetupPrivateRoute vr);
      run_state (routesForObject w vr object) h = (keys, h @ es);
      zs \<in> shuffles log (map (Pair ByWatch) es)\<rbrakk> \<Longrightarrow> managerLog L steps zs"

section \<open>Attribution\<close>

definition routeID :: "cloudflareTunnelPrivateRoute \<Rightarrow> identity" where
  "routeID r = (r_uid r, rs_controller (r_spec r))"

fun identityKept :: "event \<Rightarrow> bool" where
  \<comment> \<open>The API server keeps an object's UID, and its controller class is immutable.\<close>
  "identityKept (PatchBindingStatus b0 b1 (Inr b)) = (bindingID b = bindingID b0)"
| "identityKept (PatchPrivateRouteStatus r0 r1 (Inr r)) = (routeID r = routeID r0)"
| "identityKept e = True"

definition bindingsOf :: "string \<Rightarrow> entry set \<Rightarrow> identity set" where
  \<comment> \<open>The bindings of the class the binding controller was given.\<close>
  "bindingsOf c X = {i. \<exists>key b. (ByBinding, GetBinding key (Inr b)) \<in> X
     \<and> bs_controller (b_spec b) = c \<and> i = bindingID b}"

definition routesOf :: "string \<Rightarrow> entry set \<Rightarrow> fact set" where
  \<comment> \<open>The private routes of the class the private route controller was given, in any state, and
    what Cloudflare answered it.\<close>
  "routesOf c X =
     {RouteObject r | r. \<exists>key r'. (ByPrivateRoute, GetPrivateRouteObject key (Inr r')) \<in> X
        \<and> rs_controller (r_spec r') = c \<and> routeID r = routeID r'}
     \<union> {f. \<exists>e. (ByPrivateRoute, e) \<in> X \<and> patchedObject e = None \<and> f \<in> facts c e}"

definition providersOf :: "lib \<Rightarrow> providerReconciler \<Rightarrow> string \<Rightarrow> entry set \<Rightarrow> event \<Rightarrow> bool" where
  "providersOf L pr c X e \<longleftrightarrow> (\<exists>key p es. (ByProvider, GetProvider key (Inr p)) \<in> X
     \<and> ps_controller (p_spec p) = c \<and> Pair ByProvider ` set es \<subseteq> X \<and> providerSafe L pr p es e)"

fun attributed :: "lib \<Rightarrow> startStep list \<Rightarrow> string \<Rightarrow> entry set \<Rightarrow> entry \<Rightarrow> bool" where
  "attributed L steps c X (ByBinding, e) = childSafe (bindingsOf c X) e"
| "attributed L steps c X (ByPrivateRoute, e) =
     (\<exists>vr. SetupPrivateRoute vr \<in> set steps \<and> privateSafe L vr (routesOf c X) e)"
| "attributed L steps c X (ByProvider, e) =
     (readOnly e \<or> (\<exists>pr. SetupProvider pr \<in> set steps \<and> providersOf L pr c X e))"
| "attributed L steps c X (ByWatch, e) = readOnly e"

fun ofClass :: "string \<Rightarrow> event \<Rightarrow> bool" where
  \<comment> \<open>An object of the API that the call changes is of the class.\<close>
  "ofClass c (UpdateBinding b e) = (bs_controller (b_spec b) = c)"
| "ofClass c (PatchBindingStatus b b' x) = (bs_controller (b_spec b) = c \<and> b_spec b' = b_spec b)"
| "ofClass c (UpdatePrivateRoute r e) = (rs_controller (r_spec r) = c)"
| "ofClass c (PatchPrivateRouteStatus r r' x) = (rs_controller (r_spec r) = c \<and> r_spec r' = r_spec r)"
| "ofClass c (UpdateProvider p e) = (ps_controller (p_spec p) = c)"
| "ofClass c (PatchProviderStatus p p' x) = (ps_controller (p_spec p) = c \<and> p_spec p' = p_spec p)"
| "ofClass c e = True"

section \<open>Single runs\<close>

lemma identityKept_patchedIn: "identityKept e \<Longrightarrow> patchedIn U e"
  by (cases "(U, e)" rule: patchedIn.cases) auto

lemma bindingRun_attributed:
  assumes "bindingRun r req es" "Pair ByBinding ` set es \<subseteq> X" "\<forall>e \<in> set es. identityKept e"
    and "br_controllerClass r = c" "e \<in> set es"
  shows "childSafe (bindingsOf c X) e"
proof -
  have "list_all (patchedIn U) rest" if "set rest \<subseteq> set es" for U rest
    using assms(3) that identityKept_patchedIn by (auto simp: list_all_iff)
  note kept = this
  obtain key a rest where es: "es = GetBinding key a # rest"
    using assms(1) by (cases "(r, req, es)" rule: bindingRun.cases) auto
  show ?thesis
  proof (cases a)
    case (Inl err)
    with assms es show ?thesis by auto
  next
    case (Inr b)
    show ?thesis
    proof (cases "owns r (bs_controller (b_spec b))")
      case True
      then have "(ByBinding, GetBinding key (Inr b)) \<in> X" "bs_controller (b_spec b) = c"
        using assms(2,4) by (auto simp: es Inr owns_def)
      then have "bindingID b \<in> bindingsOf c X"
        unfolding bindingsOf_def by blast
      then have "list_all (childSafe (bindingsOf c X)) rest"
        using assms(1) True kept [of rest] by (auto simp: es Inr)
      then show ?thesis using assms(5) by (auto simp: es list_all_iff)
    qed (use assms in \<open>auto simp: es Inr\<close>)
  qed
qed

lemma facts_RouteObject:
  assumes "RouteObject r \<in> facts c e" "patchedObject e = None"
  obtains key where "e = GetPrivateRouteObject key (Inr r)" "rs_controller (r_spec r) = c"
  using assms by (cases "(c, e)" rule: facts.cases) (auto split: if_splits)

lemma routesOf_RouteObject:
  "RouteObject r \<in> routesOf c X \<longleftrightarrow> (\<exists>key r'. (ByPrivateRoute, GetPrivateRouteObject key (Inr r')) \<in> X
     \<and> rs_controller (r_spec r') = c \<and> routeID r = routeID r')"
  unfolding routesOf_def by (blast elim: facts_RouteObject)

lemma routesOf_class: "RouteObject r \<in> routesOf c X \<Longrightarrow> rs_controller (r_spec r) = c"
  by (auto simp: routesOf_RouteObject routeID_def)

lemma routesOf_answers:
  assumes "(ByPrivateRoute, e) \<in> X" "identityKept e"
  shows "answersIn c (routesOf c X) e"
proof (cases "patchedObject e")
  case None
  with assms(1) show ?thesis by (auto simp: answersIn_def routesOf_def)
next
  case (Some rr)
  then obtain r0 r1 r where "e = PatchPrivateRouteStatus r0 r1 (Inr r)" "rr = (r0, r)"
    by (cases e rule: patchedObject.cases) auto
  with assms(2) show ?thesis by (simp add: routesOf_RouteObject)
qed

lemma providerRun_attributed:
  assumes "providerRun L pr name x es" "Pair ByProvider ` set es \<subseteq> X"
    and "cr_controllerClass pr = c" "e \<in> set es"
  shows "readOnly e \<or> providersOf L pr c X e"
proof -
  obtain key a rest where es: "es = GetProvider key a # rest"
    using assms(1) by (auto simp: providerRun_def split: list.splits event.splits)
  show ?thesis
  proof (cases a)
    case (Inl err)
    with assms(1,4) es show ?thesis by (auto simp: providerRun_def)
  next
    case (Inr p)
    show ?thesis
    proof (cases "providerOwns pr (ps_controller (p_spec p))")
      case True
      then have "list_all (providerSafe L pr p rest) rest" "ps_controller (p_spec p) = c"
        using assms(1,3) by (auto simp: es Inr providerRun_def providerOwns_def)
      moreover have "(ByProvider, GetProvider key (Inr p)) \<in> X" "Pair ByProvider ` set rest \<subseteq> X"
        using assms(2) by (auto simp: es Inr)
      ultimately show ?thesis
        using assms(4) unfolding providersOf_def by (auto simp: es list_all_iff)
    qed (use assms(1,4) es Inr in \<open>auto simp: providerRun_def\<close>)
  qed
qed

section \<open>Whole logs\<close>

lemma yields_run: "yields m P \<Longrightarrow> run_state m h = (x, h @ es) \<Longrightarrow> P x es"
  using yieldsD by fastforce

lemma managerLog_attributed:
  assumes "managerLog L steps log" "condition_laws L"
    and "\<forall>r. SetupBinding r \<in> set steps \<longrightarrow> br_controllerClass r = c"
    and "\<forall>vr. SetupPrivateRoute vr \<in> set steps \<longrightarrow> vr_controllerClass vr = c"
    and "\<forall>pr. SetupProvider pr \<in> set steps \<longrightarrow> cr_controllerClass pr = c"
    and "set log \<subseteq> X" "\<forall>a e. (a, e) \<in> X \<longrightarrow> identityKept e"
  shows "\<forall>z \<in> set log. attributed L steps c X z"
  using assms(1,6)
proof (induction rule: managerLog.induct)
  case idle
  then show ?case by simp
next
  case (binding log r w req h x es zs)
  then have zs: "set zs = set log \<union> Pair ByBinding ` set es" by (simp add: set_shuffles)
  moreover have "bindingRun r req es" using yields_run [OF Reconcile_run binding.hyps(3)] .
  moreover have "\<forall>e \<in> set es. identityKept e" using zs binding.prems assms(7) by auto
  ultimately show ?case
    using binding assms(3) bindingRun_attributed [of r req es X c] by auto
next
  case (privateRoute log vr w req h x es zs)
  then have zs: "set zs = set log \<union> Pair ByPrivateRoute ` set es" by (simp add: set_shuffles)
  have "list_all (answersIn c (routesOf c X)) es"
    using zs privateRoute.prems assms(7) by (auto simp: list_all_iff intro!: routesOf_answers)
  then have "list_all (privateSafe L vr (routesOf c X)) es"
    using yields_run [OF privateReconcile_answers privateRoute.hyps(3)] privateRoute.hyps(2) assms(4) by simp
  then show ?case
    using zs privateRoute by (auto simp: list_all_iff intro!: exI [of _ vr])
next
  case (provider log pr w name h x es zs)
  then have zs: "set zs = set log \<union> Pair ByProvider ` set es" by (simp add: set_shuffles)
  have "providerRun L pr name x es"
    using yields_run [OF providerReconcile_yields [OF assms(2)] provider.hyps(3)] .
  then have "\<forall>e \<in> set es. readOnly e \<or> providersOf L pr c X e"
    using zs provider.prems provider.hyps(2) assms(5) by (intro ballI providerRun_attributed) auto
  then show ?case
    using zs provider by (auto intro!: exI [of _ pr])
next
  case (watchBindings log r w object h keys es zs)
  have "yields (bindingsForObject w r object) (\<lambda>_. list_all readOnly)"
    unfolding bindingsForObject_def k8s_call_defs by (auto intro!: yields_rules)
  from yields_run [OF this watchBindings.hyps(3)] show ?case
    using watchBindings by (auto simp: set_shuffles list_all_iff)
next
  case (watchRoutes log vr w object h keys es zs)
  have "yields (routesForObject w vr object) (\<lambda>_. list_all readOnly)"
    unfolding routesForObject_def k8s_call_defs by (auto intro!: yields_rules)
  from yields_run [OF this watchRoutes.hyps(3)] show ?case
    using watchRoutes by (auto simp: set_shuffles list_all_iff)
qed

lemma bindingsOf_class: "bindingID b \<in> bindingsOf c X \<Longrightarrow> bs_controller (b_spec b) = c"
  by (auto simp: bindingsOf_def bindingID_def)

lemma childSafe_ofClass: "childSafe (bindingsOf c X) e \<Longrightarrow> ofClass c e"
  by (cases "(c, e)" rule: ofClass.cases) (auto dest: bindingsOf_class)

lemma privateSafe_ofClass: "privateSafe L vr (routesOf c X) e \<Longrightarrow> ofClass c e"
  by (cases "(c, e)" rule: ofClass.cases) (auto dest: routesOf_class simp: finalizerChanged_def)

lemma providersOf_ofClass: "providersOf L pr c X e \<Longrightarrow> ofClass c e"
  unfolding providersOf_def by (cases "(c, e)" rule: ofClass.cases) (auto split: if_splits)

lemma readOnly_ofClass: "readOnly e \<Longrightarrow> ofClass c e"
  by (cases "(c, e)" rule: ofClass.cases) auto

lemma attributed_ofClass: "attributed L steps c X z \<Longrightarrow> ofClass c (snd z)"
  by (cases "(L, steps, c, X, z)" rule: attributed.cases)
     (auto intro: childSafe_ofClass privateSafe_ofClass providersOf_ofClass readOnly_ofClass)

lemma started_class:
  assumes "main w outcome f = (steps, status)"
  shows "SetupBinding r \<in> set steps \<Longrightarrow> br_controllerClass r = controllerClass f"
    "SetupPrivateRoute vr \<in> set steps \<Longrightarrow> vr_controllerClass vr = controllerClass f"
    "SetupProvider pr \<in> set steps \<Longrightarrow> cr_controllerClass pr = controllerClass f"
proof -
  have "set steps \<subseteq> set (startSteps w f)"
  proof (cases "blank (controllerClass f)")
    case False
    with assms have "runSteps outcome (startSteps w f) = (steps, status)"
      by (simp add: main_def validateControllerClass_def)
    from runSteps_prefix [OF this] show ?thesis by auto
  qed (use assms in \<open>simp add: main_def validateControllerClass_def\<close>)
  then show "SetupBinding r \<in> set steps \<Longrightarrow> br_controllerClass r = controllerClass f"
    "SetupPrivateRoute vr \<in> set steps \<Longrightarrow> vr_controllerClass vr = controllerClass f"
    "SetupProvider pr \<in> set steps \<Longrightarrow> cr_controllerClass pr = controllerClass f"
    by (auto simp: startSteps_def bindingReconcilerOf_def privateReconcilerOf_def providerReconcilerOf_def)
qed

text \<open>C40: The manager keeps to its controller class, however its controllers' runs interleave. If the
  API server keeps an object's UID and class under status patches, then of the API's objects
  only bindings, private routes and providers of the configured class are changed, every one of
  them given to the controller that changes it; and every other change made anywhere in the log
  is made for such an object: connectors and DNS records are stored or deleted only with the UID
  of such a binding or route or, for storing, new; tunnels and CIDR routes are created under its
  name and deleted only if they are its own; and the watches change nothing.\<close>

theorem manager_keeps_to_its_class:
  assumes "main w outcome f = (steps, status)" "condition_laws L"
    and "managerLog L steps log" "list_all (\<lambda>z. identityKept (snd z)) log"
  shows "list_all (\<lambda>z. attributed L steps (controllerClass f) (set log) z \<and> ofClass (controllerClass f) (snd z)) log"
proof -
  have "\<forall>z \<in> set log. attributed L steps (controllerClass f) (set log) z"
    using assms started_class [OF assms(1)]
    by (intro managerLog_attributed [OF assms(3,2)]) (auto simp: list_all_iff)
  then show ?thesis by (auto simp: list_all_iff intro: attributed_ofClass)
qed

section \<open>Witness\<close>

definition demoFlags :: flags where
  "demoFlags = (defaultFlags ''kflared'')\<lparr>controllerClass := ''class''\<rparr>"

definition newPrivateRoute :: cloudflareTunnelPrivateRoute where
  \<comment> \<open>A route without the finalizer.\<close>
  "newPrivateRoute = demoPrivateRoute\<lparr>r_meta := (r_meta demoPrivateRoute)\<lparr>om_finalizers := []\<rparr>\<rparr>"

definition newRouteWorld :: world where
  "newRouteWorld = demoWorld\<lparr>w_getPrivateRouteObject := \<lambda>h k. Inr newPrivateRoute,
     w_updatePrivateRoute := \<lambda>h r. None\<rparr>"

definition newRouteCalls :: history where
  "newRouteCalls = [GetPrivateRouteObject (''apps'', ''api'') (Inr newPrivateRoute),
     UpdatePrivateRoute demoPrivateRoute None]"

lemma newRoute_run:
  "run_state (privateReconcile refLib newRouteWorld (privateReconcilerOf newRouteWorld demoFlags) (''apps'', ''api'')) []
     = ((0, None), [] @ newRouteCalls)"
  by (simp add: privateReconcile_def privateReconcileOnce_def privateReconcileLive_def k8s_call_defs
      newRouteWorld_def newRouteCalls_def privateReconcilerOf_def demoFlags_def defaultFlags_def newPrivateRoute_def
      demoPrivateRoute_def demoMeta_def timeIsZero_def refLib_def privateFinalizer_def)

definition demoSteps :: "startStep list" where
  "demoSteps = startSteps newRouteWorld demoFlags"

lemma demo_starts: "main newRouteWorld (\<lambda>_. None) demoFlags = (demoSteps, 0)"
proof -
  have "\<not> blank (controllerClass demoFlags)"
    by (simp add: demoFlags_def blank_def trimLeftSpace.simps spaceWidth_def code_def)
  then show ?thesis
    by (simp add: main_def validateControllerClass_def demoSteps_def startSteps_def)
qed

lemma demo_log: "managerLog refLib demoSteps (map (Pair ByPrivateRoute) newRouteCalls)"
  by (rule managerLog.privateRoute [OF managerLog.idle _ newRoute_run])
     (simp_all add: demoSteps_def startSteps_def)

lemma manager_keeps_to_its_class_witness:
  "list_all (\<lambda>z. attributed refLib demoSteps ''class'' (set (map (Pair ByPrivateRoute) newRouteCalls)) z
     \<and> ofClass ''class'' (snd z)) (map (Pair ByPrivateRoute) newRouteCalls)"
proof -
  have "controllerClass demoFlags = ''class''" by (simp add: demoFlags_def)
  moreover have "list_all (\<lambda>z. identityKept (snd z)) (map (Pair ByPrivateRoute) newRouteCalls)"
    by (simp add: newRouteCalls_def)
  ultimately show ?thesis
    using manager_keeps_to_its_class [OF demo_starts refLib_conditions demo_log] by simp
qed

end
