(* ===== verification/GoHeap.thy ===== *)
theory GoHeap
  imports KPrelude "HOL-Library.Sublist"
begin

text \<open>
  Go's memory as far as copying an object is concerned, and the contract of a deep copy.

  A heap is the list of its cells, an address is a position in it and allocation appends a
  cell. A pointer, a slice or a map is an \<open>addr option\<close> (\<open>None\<close> is nil), a struct is a record
  that holds addresses where the Go struct holds a pointer, a slice or a map. An operation takes the
  heap and returns its result with the new heap, or \<open>None\<close> where Go would dereference an
  address that holds no such value. \<^verbatim>\<open>new\<close> and \<^verbatim>\<open>make\<close> with the assignments that fill the
  new cell are one allocation of the filled cell: nobody else has its address before.

  \<open>deepCopies\<close> is the contract: the copy reads as the original, every cell it
  reaches is new, and no old cell changed. \<open>footprint\<close> says that what an object
  reads depends on the cells it reaches and on nothing else. The rules below derive both for
  slices, pointers and structs from their parts; the locale \<open>deep_copy\<close> draws the consequence
  the controllers rely on, that a copy is unaffected by any later change to the original.
\<close>

type_synonym addr = nat

definition loadCell :: "('c \<Rightarrow> 'a option) \<Rightarrow> 'c list \<Rightarrow> addr \<Rightarrow> 'a option" where
  "loadCell unbox h a = (if a < length h then unbox (h ! a) else None)"

section \<open>The shapes a copy is made of\<close>

definition plainCopy :: "'a \<Rightarrow> 'c list \<Rightarrow> ('a \<times> 'c list) option" where
  \<comment> \<open>\<^verbatim>\<open>*out = *in\<close> for a type without references; an assignment of a struct field that
     follows, like \<^verbatim>\<open>out.Port = in.Port\<close>, writes what is already there.\<close>
  "plainCopy x h = Some (x, h)"

fun copyEach :: "('a \<Rightarrow> 'c list \<Rightarrow> ('a \<times> 'c list) option) \<Rightarrow> 'a list \<Rightarrow> 'c list \<Rightarrow> ('a list \<times> 'c list) option" where
  \<comment> \<open>\<^verbatim>\<open>for i := range *in { (*in)[i].DeepCopyInto(&(*out)[i]) }\<close>\<close>
  "copyEach into [] h = Some ([], h)"
| "copyEach into (x # xs) h = do {
     (y, h1) \<leftarrow> into x h;
     (ys, h2) \<leftarrow> copyEach into xs h1;
     Some (y # ys, h2)
   }"

definition copyPointer ::
  "('a \<Rightarrow> 'c) \<Rightarrow> ('c \<Rightarrow> 'a option) \<Rightarrow> ('a \<Rightarrow> 'c list \<Rightarrow> ('a \<times> 'c list) option) \<Rightarrow>
     addr option \<Rightarrow> 'c list \<Rightarrow> (addr option \<times> 'c list) option" where
  \<comment> \<open>\<^verbatim>\<open>if in == nil { return nil }; out := new(T); in.DeepCopyInto(out); return out\<close>\<close>
  "copyPointer box unbox into p h = (case p of
       None \<Rightarrow> Some (None, h)
     | Some a \<Rightarrow> do {
         x \<leftarrow> loadCell unbox h a;
         (y, h1) \<leftarrow> into x h;
         Some (Some (length h1), h1 @ [box y])
       })"

definition copySlice ::
  "('a list \<Rightarrow> 'c) \<Rightarrow> ('c \<Rightarrow> 'a list option) \<Rightarrow> ('a \<Rightarrow> 'c list \<Rightarrow> ('a \<times> 'c list) option) \<Rightarrow>
     addr option \<Rightarrow> 'c list \<Rightarrow> (addr option \<times> 'c list) option" where
  \<comment> \<open>\<^verbatim>\<open>if in.F != nil { *out = make([]T, len(*in)); ... }\<close>: with \<open>plainCopy\<close> the body is \<^verbatim>\<open>copy(*out, *in)\<close>.\<close>
  "copySlice box unbox into = copyPointer box unbox (copyEach into)"

section \<open>What an object reads and reaches\<close>

definition plainView :: "'c list \<Rightarrow> 'a \<Rightarrow> 'a option" where
  "plainView h x = Some x"

definition plainRefs :: "'c list \<Rightarrow> 'a \<Rightarrow> addr list" where
  "plainRefs h x = []"

definition eachView :: "('c list \<Rightarrow> 'a \<Rightarrow> 'v option) \<Rightarrow> 'c list \<Rightarrow> 'a list \<Rightarrow> 'v list option" where
  "eachView view h xs = those (map (view h) xs)"

definition eachRefs :: "('c list \<Rightarrow> 'a \<Rightarrow> addr list) \<Rightarrow> 'c list \<Rightarrow> 'a list \<Rightarrow> addr list" where
  "eachRefs refs h xs = concat (map (refs h) xs)"

definition pointerView ::
  "('c \<Rightarrow> 'a option) \<Rightarrow> ('c list \<Rightarrow> 'a \<Rightarrow> 'v option) \<Rightarrow> 'c list \<Rightarrow> addr option \<Rightarrow> 'v option option" where
  "pointerView unbox view h p = (case p of
       None \<Rightarrow> Some None
     | Some a \<Rightarrow> do { x \<leftarrow> loadCell unbox h a; v \<leftarrow> view h x; Some (Some v) })"

definition pointerRefs ::
  "('c \<Rightarrow> 'a option) \<Rightarrow> ('c list \<Rightarrow> 'a \<Rightarrow> addr list) \<Rightarrow> 'c list \<Rightarrow> addr option \<Rightarrow> addr list" where
  "pointerRefs unbox refs h p = (case p of
       None \<Rightarrow> []
     | Some a \<Rightarrow> a # (case loadCell unbox h a of None \<Rightarrow> [] | Some x \<Rightarrow> refs h x))"

section \<open>The contract\<close>

definition agreeOn :: "addr list \<Rightarrow> 'c list \<Rightarrow> 'c list \<Rightarrow> bool" where
  "agreeOn as h k \<longleftrightarrow> (\<forall>a\<in>set as. a < length k \<and> k ! a = h ! a)"

definition footprint :: "('c list \<Rightarrow> 'a \<Rightarrow> addr list) \<Rightarrow> ('c list \<Rightarrow> 'a \<Rightarrow> 'v option) \<Rightarrow> bool" where
  "footprint refs view \<longleftrightarrow> (\<forall>h x v. view h x = Some v \<longrightarrow>
     (\<forall>a\<in>set (refs h x). a < length h) \<and>
     (\<forall>k. agreeOn (refs h x) h k \<longrightarrow> view k x = Some v \<and> refs k x = refs h x))"

definition deepCopies ::
  "('a \<Rightarrow> 'c list \<Rightarrow> ('a \<times> 'c list) option) \<Rightarrow> ('c list \<Rightarrow> 'a \<Rightarrow> addr list) \<Rightarrow>
     ('c list \<Rightarrow> 'a \<Rightarrow> 'v option) \<Rightarrow> bool" where
  "deepCopies into refs view \<longleftrightarrow> (\<forall>h x v. view h x = Some v \<longrightarrow>
     (\<exists>y h'. into x h = Some (y, h') \<and> prefix h h' \<and> view h' y = Some v \<and>
        (\<forall>a\<in>set (refs h' y). length h \<le> a)))"

lemma agreeOn_simps [simp]:
  "agreeOn [] h k"
  "agreeOn (a # as) h k \<longleftrightarrow> a < length k \<and> k ! a = h ! a \<and> agreeOn as h k"
  "agreeOn (as @ bs) h k \<longleftrightarrow> agreeOn as h k \<and> agreeOn bs h k"
  by (auto simp: agreeOn_def)

lemma agreeOn_prefix: "prefix h k \<Longrightarrow> \<forall>a\<in>set as. a < length h \<Longrightarrow> agreeOn as h k"
  by (auto simp: agreeOn_def prefix_def nth_append)

lemma footprintI:
  assumes "\<And>h x v a. view h x = Some v \<Longrightarrow> a \<in> set (refs h x) \<Longrightarrow> a < length h"
    and "\<And>h x v k. view h x = Some v \<Longrightarrow> agreeOn (refs h x) h k \<Longrightarrow> view k x = Some v \<and> refs k x = refs h x"
  shows "footprint refs view"
  unfolding footprint_def using assms by blast

lemma footprint_range: "footprint refs view \<Longrightarrow> view h x = Some v \<Longrightarrow> a \<in> set (refs h x) \<Longrightarrow> a < length h"
  unfolding footprint_def by blast

lemma footprint_frame:
  "footprint refs view \<Longrightarrow> view h x = Some v \<Longrightarrow> agreeOn (refs h x) h k \<Longrightarrow> view k x = Some v"
  "footprint refs view \<Longrightarrow> view h x = Some v \<Longrightarrow> agreeOn (refs h x) h k \<Longrightarrow> refs k x = refs h x"
  unfolding footprint_def by blast+

lemma footprint_grow:
  assumes "footprint refs view" and "view h x = Some v" and "prefix h k"
  shows "view k x = Some v" and "refs k x = refs h x"
proof -
  have "agreeOn (refs h x) h k"
    by (rule agreeOn_prefix [OF assms(3)]) (blast intro: footprint_range [OF assms(1,2)])
  then show "view k x = Some v" and "refs k x = refs h x"
    by (rule footprint_frame [OF assms(1,2)])+
qed

lemma deepCopiesE:
  assumes "deepCopies into refs view" and "view h x = Some v"
  obtains y h' where "into x h = Some (y, h')" and "prefix h h'" and "view h' y = Some v"
    and "\<forall>a\<in>set (refs h' y). length h \<le> a"
  using assms unfolding deepCopies_def by blast

lemma deepCopiesI:
  assumes "\<And>h x v. view h x = Some v \<Longrightarrow> \<exists>y h'. into x h = Some (y, h') \<and> prefix h h' \<and>
     view h' y = Some v \<and> (\<forall>a\<in>set (refs h' y). length h \<le> a)"
  shows "deepCopies into refs view"
  using assms by (simp add: deepCopies_def)

section \<open>Values without references, slices and pointers\<close>

lemma footprint_plain [intro!, simp]: "footprint plainRefs plainView"
  by (simp add: footprint_def plainRefs_def plainView_def)

lemma deepCopies_plain [intro!, simp]: "deepCopies plainCopy plainRefs plainView"
  by (simp add: deepCopies_def plainRefs_def plainView_def plainCopy_def)

lemma eachView_simps [simp]:
  "eachView view h [] = Some []"
  "eachView view h (x # xs) = (case view h x of None \<Rightarrow> None | Some v \<Rightarrow> map_option ((#) v) (eachView view h xs))"
  by (auto simp: eachView_def split: option.split)

lemma eachRefs_simps [simp]:
  "eachRefs refs h [] = []"
  "eachRefs refs h (x # xs) = refs h x @ eachRefs refs h xs"
  by (simp_all add: eachRefs_def)

lemma footprint_each:
  assumes "footprint refs view"
  shows "footprint (eachRefs refs) (eachView view)"
proof (rule footprintI)
  fix h xs vs a
  show "eachView view h xs = Some vs \<Longrightarrow> a \<in> set (eachRefs refs h xs) \<Longrightarrow> a < length h"
    by (induction xs arbitrary: vs) (auto split: option.splits dest: footprint_range [OF assms])
next
  fix h xs vs k
  show "eachView view h xs = Some vs \<Longrightarrow> agreeOn (eachRefs refs h xs) h k \<Longrightarrow>
      eachView view k xs = Some vs \<and> eachRefs refs k xs = eachRefs refs h xs"
  proof (induction xs arbitrary: vs)
    case (Cons x xs)
    then obtain v ws where x: "view h x = Some v" and xs: "eachView view h xs = Some ws" and vs: "vs = v # ws"
      and agree: "agreeOn (refs h x) h k" "agreeOn (eachRefs refs h xs) h k"
      by (auto split: option.splits)
    from footprint_frame [OF assms x agree(1)] Cons.IH [OF xs agree(2)] vs show ?case by simp
  qed simp
qed

lemma deepCopies_each:
  assumes "deepCopies into refs view" and "footprint refs view"
  shows "deepCopies (copyEach into) (eachRefs refs) (eachView view)"
proof (rule deepCopiesI)
  fix h xs vs
  show "eachView view h xs = Some vs \<Longrightarrow> \<exists>ys h'. copyEach into xs h = Some (ys, h') \<and> prefix h h' \<and>
      eachView view h' ys = Some vs \<and> (\<forall>a\<in>set (eachRefs refs h' ys). length h \<le> a)"
  proof (induction xs arbitrary: h vs)
    case (Cons x xs)
    from Cons.prems obtain w ws where x: "view h x = Some w" and xs: "eachView view h xs = Some ws"
      and vs: "vs = w # ws" by (auto split: option.splits)
    from assms(1) x obtain y h1 where y: "into x h = Some (y, h1)" "prefix h h1" "view h1 y = Some w"
      "\<forall>a\<in>set (refs h1 y). length h \<le> a" by (rule deepCopiesE)
    from Cons.IH [OF footprint_grow(1) [OF footprint_each [OF assms(2)] xs y(2)]]
    obtain ys h2 where ys: "copyEach into xs h1 = Some (ys, h2)" "prefix h1 h2" "eachView view h2 ys = Some ws"
      "\<forall>a\<in>set (eachRefs refs h2 ys). length h1 \<le> a" by blast
    show ?case
      using y ys vs footprint_grow [OF assms(2) y(3) ys(2)]
      by (auto dest: prefix_length_le intro: prefix_order.trans order_trans)
  qed simp
qed

lemma pointerView_Some:
  "pointerView unbox view h (Some a) = Some v \<longleftrightarrow>
     (\<exists>x w. loadCell unbox h a = Some x \<and> view h x = Some w \<and> v = Some w)"
  by (auto simp: pointerView_def bind_eq_Some_conv)

lemma pointerView_None [simp]: "pointerView unbox view h None = Some None"
  by (simp add: pointerView_def)

lemma loadCell_range: "loadCell unbox h a = Some x \<Longrightarrow> a < length h"
  by (simp add: loadCell_def split: if_splits)

lemma footprint_pointer:
  assumes "footprint refs view"
  shows "footprint (pointerRefs unbox refs) (pointerView unbox view)"
proof (rule footprintI)
  fix h p v b
  assume "pointerView unbox view h p = Some v" and "b \<in> set (pointerRefs unbox refs h p)"
  then show "b < length h"
    by (cases p) (auto simp: pointerView_Some pointerRefs_def dest: loadCell_range footprint_range [OF assms])
next
  fix h p v k
  assume v: "pointerView unbox view h p = Some v" and agree: "agreeOn (pointerRefs unbox refs h p) h k"
  show "pointerView unbox view k p = Some v \<and> pointerRefs unbox refs k p = pointerRefs unbox refs h p"
  proof (cases p)
    case (Some a)
    with v obtain x w where x: "loadCell unbox h a = Some x" "view h x = Some w" "v = Some w"
      by (auto simp: pointerView_Some)
    with agree Some have "loadCell unbox k a = Some x" and "agreeOn (refs h x) h k"
      by (simp_all add: pointerRefs_def loadCell_def split: if_splits)
    with Some x footprint_frame [OF assms x(2)] show ?thesis
      by (simp add: pointerView_Some pointerRefs_def)
  qed (use v in \<open>simp add: pointerRefs_def\<close>)
qed

lemma deepCopies_pointer:
  assumes "deepCopies into refs view" and "footprint refs view" and box: "\<And>x. unbox (box x) = Some x"
  shows "deepCopies (copyPointer box unbox into) (pointerRefs unbox refs) (pointerView unbox view)"
proof (rule deepCopiesI)
  fix h p v
  assume v: "pointerView unbox view h p = Some v"
  show "\<exists>q h'. copyPointer box unbox into p h = Some (q, h') \<and> prefix h h' \<and>
      pointerView unbox view h' q = Some v \<and> (\<forall>a\<in>set (pointerRefs unbox refs h' q). length h \<le> a)"
  proof (cases p)
    case (Some a)
    with v obtain x w where x: "loadCell unbox h a = Some x" "view h x = Some w" "v = Some w"
      by (auto simp: pointerView_Some)
    from assms(1) x(2) obtain y h1 where y: "into x h = Some (y, h1)" "prefix h h1" "view h1 y = Some w"
      "\<forall>a\<in>set (refs h1 y). length h \<le> a" by (rule deepCopiesE)
    have "loadCell unbox (h1 @ [box y]) (length h1) = Some y"
      by (simp add: loadCell_def box)
    with Some x y footprint_grow [OF assms(2) y(3), of "h1 @ [box y]"] show ?thesis
      by (auto simp: copyPointer_def pointerView_def pointerRefs_def dest: prefix_length_le)
  qed (use v in \<open>simp add: copyPointer_def pointerView_def pointerRefs_def\<close>)
qed

lemma deepCopies_slice:
  assumes "deepCopies into refs view" and "footprint refs view" and "\<And>xs. unbox (box xs) = Some xs"
  shows "deepCopies (copySlice box unbox into) (pointerRefs unbox (eachRefs refs)) (pointerView unbox (eachView view))"
  unfolding copySlice_def by (intro deepCopies_pointer deepCopies_each footprint_each assms)

section \<open>Structs\<close>

text \<open>A struct whose three references are copied one after the other; fewer are the special case
  where the others are \<open>plainCopy\<close> of nothing.\<close>

lemma footprint_fields:
  assumes "footprint r1 v1" and "footprint r2 v2" and "footprint r3 v3"
  shows "footprint (\<lambda>h x. r1 h (f1 x) @ r2 h (f2 x) @ r3 h (f3 x))
     (\<lambda>h x. do { a \<leftarrow> v1 h (f1 x); b \<leftarrow> v2 h (f2 x); d \<leftarrow> v3 h (f3 x); Some (mk x a b d) })"
proof (rule footprintI, goal_cases)
  case (1 h x v i)
  then show ?case
    by (auto simp: bind_eq_Some_conv dest: assms [THEN footprint_range])
next
  case (2 h x v k)
  then obtain a b d where v: "v1 h (f1 x) = Some a" "v2 h (f2 x) = Some b" "v3 h (f3 x) = Some d" "v = mk x a b d"
    by (auto simp: bind_eq_Some_conv)
  with 2(2) footprint_frame [OF assms(1) v(1)] footprint_frame [OF assms(2) v(2)] footprint_frame [OF assms(3) v(3)]
  show ?case by simp
qed

lemma deepCopies_fields:
  assumes "deepCopies i1 r1 v1" and "deepCopies i2 r2 v2" and "deepCopies i3 r3 v3"
    and "footprint r1 v1" and "footprint r2 v2" and "footprint r3 v3"
    and sel: "\<And>x a b d. f1 (upd x a b d) = a" "\<And>x a b d. f2 (upd x a b d) = b" "\<And>x a b d. f3 (upd x a b d) = d"
    and mk: "\<And>x a b d. mk (upd x a b d) = mk x"
  shows "deepCopies
     (\<lambda>x h. do { (a, h1) \<leftarrow> i1 (f1 x) h; (b, h2) \<leftarrow> i2 (f2 x) h1; (d, h3) \<leftarrow> i3 (f3 x) h2; Some (upd x a b d, h3) })
     (\<lambda>h x. r1 h (f1 x) @ r2 h (f2 x) @ r3 h (f3 x))
     (\<lambda>h x. do { a \<leftarrow> v1 h (f1 x); b \<leftarrow> v2 h (f2 x); d \<leftarrow> v3 h (f3 x); Some (mk x a b d) })"
proof (rule deepCopiesI, goal_cases)
  case (1 h x v)
  then obtain a b d where v: "v1 h (f1 x) = Some a" "v2 h (f2 x) = Some b" "v3 h (f3 x) = Some d" "v = mk x a b d"
    by (auto simp: bind_eq_Some_conv)
  from assms(1) v(1) obtain p h1 where p: "i1 (f1 x) h = Some (p, h1)" "prefix h h1" "v1 h1 p = Some a"
    "\<forall>a\<in>set (r1 h1 p). length h \<le> a" by (rule deepCopiesE)
  from assms(2) footprint_grow(1) [OF assms(5) v(2) p(2)]
  obtain q h2 where q: "i2 (f2 x) h1 = Some (q, h2)" "prefix h1 h2" "v2 h2 q = Some b"
    "\<forall>a\<in>set (r2 h2 q). length h1 \<le> a" by (rule deepCopiesE)
  have grow: "prefix h h2" using p(2) q(2) by (rule prefix_order.trans)
  from assms(3) footprint_grow(1) [OF assms(6) v(3) grow]
  obtain r h3 where r: "i3 (f3 x) h2 = Some (r, h3)" "prefix h2 h3" "v3 h3 r = Some d"
    "\<forall>a\<in>set (r3 h3 r). length h2 \<le> a" by (rule deepCopiesE)
  note keep = footprint_grow [OF assms(4) p(3) prefix_order.trans [OF q(2) r(2)]]
    footprint_grow [OF assms(5) q(3) r(2)]
  show ?case
    using p q r v(4) keep grow
    by (auto simp: sel mk dest: prefix_length_le intro: prefix_order.trans order_trans)
qed

lemma footprint_two:
  assumes "footprint r1 v1" and "footprint r2 v2"
  shows "footprint (\<lambda>h x. r1 h (f1 x) @ r2 h (f2 x))
     (\<lambda>h x. do { a \<leftarrow> v1 h (f1 x); b \<leftarrow> v2 h (f2 x); Some (mk x a b) })"
  using footprint_fields [OF assms footprint_plain, where ?f3.0 = "\<lambda>x. ()" and mk = "\<lambda>x a b _. mk x a b"]
  by (simp add: plainRefs_def plainView_def)

lemma deepCopies_two:
  assumes "deepCopies i1 r1 v1" and "deepCopies i2 r2 v2" and "footprint r1 v1" and "footprint r2 v2"
    and sel: "\<And>x a b. f1 (upd x a b) = a" "\<And>x a b. f2 (upd x a b) = b"
    and mk: "\<And>x a b. mk (upd x a b) = mk x"
  shows "deepCopies
     (\<lambda>x h. do { (a, h1) \<leftarrow> i1 (f1 x) h; (b, h2) \<leftarrow> i2 (f2 x) h1; Some (upd x a b, h2) })
     (\<lambda>h x. r1 h (f1 x) @ r2 h (f2 x))
     (\<lambda>h x. do { a \<leftarrow> v1 h (f1 x); b \<leftarrow> v2 h (f2 x); Some (mk x a b) })"
  using deepCopies_fields [OF assms(1,2) deepCopies_plain assms(3,4) footprint_plain,
      where ?f1.0 = f1 and ?f2.0 = f2 and ?f3.0 = "\<lambda>x. ()" and upd = "\<lambda>x a b _. upd x a b" and mk = "\<lambda>x a b _. mk x a b"]
  by (simp add: plainRefs_def plainView_def plainCopy_def sel mk)

lemma footprint_one:
  assumes "footprint r1 v1"
  shows "footprint (\<lambda>h x. r1 h (f1 x)) (\<lambda>h x. do { a \<leftarrow> v1 h (f1 x); Some (mk x a) })"
  using footprint_two [OF assms footprint_plain, where ?f2.0 = "\<lambda>x. ()" and mk = "\<lambda>x a _. mk x a"]
  by (simp add: plainRefs_def plainView_def)

lemma deepCopies_one:
  assumes "deepCopies i1 r1 v1" and "footprint r1 v1"
    and sel: "\<And>x a. f1 (upd x a) = a" and mk: "\<And>x a. mk (upd x a) = mk x"
  shows "deepCopies (\<lambda>x h. do { (a, h1) \<leftarrow> i1 (f1 x) h; Some (upd x a, h1) }) (\<lambda>h x. r1 h (f1 x))
     (\<lambda>h x. do { a \<leftarrow> v1 h (f1 x); Some (mk x a) })"
  using deepCopies_two [OF assms(1) deepCopies_plain assms(2) footprint_plain,
      where ?f1.0 = f1 and ?f2.0 = "\<lambda>x. ()" and upd = "\<lambda>x a _. upd x a" and mk = "\<lambda>x a _. mk x a"]
  by (simp add: plainRefs_def plainView_def plainCopy_def sel mk)

section \<open>What a deep copy is good for\<close>

definition keepsBelow :: "nat \<Rightarrow> 'c list \<Rightarrow> 'c list \<Rightarrow> bool" where
  \<comment> \<open>A later heap in which the cells below \<open>n\<close> are as they were.\<close>
  "keepsBelow n h k \<longleftrightarrow> (\<forall>a<n. a < length k \<and> k ! a = h ! a)"

definition keepsFrom :: "nat \<Rightarrow> 'c list \<Rightarrow> 'c list \<Rightarrow> bool" where
  \<comment> \<open>A later heap in which the cells from \<open>n\<close> on are as they were, and the others arbitrary.\<close>
  "keepsFrom n h k \<longleftrightarrow> (\<forall>a. n \<le> a \<and> a < length h \<longrightarrow> a < length k \<and> k ! a = h ! a)"

definition independentCopy ::
  "('c list \<Rightarrow> 'a \<Rightarrow> 'v option) \<Rightarrow> 'c list \<Rightarrow> 'a \<Rightarrow> 'a \<Rightarrow> 'c list \<Rightarrow> bool" where
  \<comment> \<open>\<open>y\<close> in \<open>h'\<close> reads as \<open>x\<close> does, whatever is then written to the cells that were there
     before the copy; and \<open>x\<close> whatever is written to the new ones.\<close>
  "independentCopy view h x y h' \<longleftrightarrow>
     (\<forall>k. keepsFrom (length h) h' k \<longrightarrow> view k y = view h x) \<and>
     (\<forall>k. keepsBelow (length h) h' k \<longrightarrow> view k x = view h x)"

locale deep_copy =
  fixes laws :: "'l \<Rightarrow> bool" and into :: "'l \<Rightarrow> 'a \<Rightarrow> 'c list \<Rightarrow> ('a \<times> 'c list) option"
    and refs :: "'c list \<Rightarrow> 'a \<Rightarrow> addr list" and view :: "'c list \<Rightarrow> 'a \<Rightarrow> 'v option"
  assumes copies: "laws c \<Longrightarrow> deepCopies (into c) refs view"
    and framed: "footprint refs view"
begin

lemma independent:
  assumes "laws c" and "view h x = Some v"
  obtains y h' where "into c x h = Some (y, h')" and "independentCopy view h x y h'"
proof -
  from copies [OF assms(1)] assms(2) obtain y h' where y: "into c x h = Some (y, h')" "prefix h h'"
    "view h' y = Some v" "\<forall>a\<in>set (refs h' y). length h \<le> a" by (rule deepCopiesE)
  have "view k y = Some v" if "keepsFrom (length h) h' k" for k
    using that y by (intro footprint_frame(1) [OF framed y(3)])
      (auto simp: agreeOn_def keepsFrom_def dest: footprint_range [OF framed])
  moreover have "view k x = Some v" if "keepsBelow (length h) h' k" for k
    using that y(2) footprint_range [OF framed assms(2)]
    by (intro footprint_frame(1) [OF framed assms(2)])
      (auto simp: agreeOn_def keepsBelow_def prefix_def nth_append)
  ultimately have "independentCopy view h x y h'"
    using assms(2) by (simp add: independentCopy_def)
  with y(1) show ?thesis by (rule that)
qed

end

text \<open>\<^verbatim>\<open>DeepCopy\<close> of a struct is a deep copy of the pointer to it.\<close>

locale deep_copy_pointer = deep_copy laws into refs view
  for laws :: "'l \<Rightarrow> bool" and into :: "'l \<Rightarrow> 'a \<Rightarrow> 'c list \<Rightarrow> ('a \<times> 'c list) option"
    and refs :: "'c list \<Rightarrow> 'a \<Rightarrow> addr list" and view :: "'c list \<Rightarrow> 'a \<Rightarrow> 'v option" +
  fixes box :: "'a \<Rightarrow> 'c" and unbox :: "'c \<Rightarrow> 'a option"
  assumes unbox_box: "unbox (box x) = Some x"

sublocale deep_copy_pointer \<subseteq> pointer: deep_copy laws "\<lambda>c. copyPointer box unbox (into c)"
  "pointerRefs unbox refs" "pointerView unbox view"
  by unfold_locales (auto intro: deepCopies_pointer copies framed footprint_pointer unbox_box)

context deep_copy_pointer begin

lemma pointer_independent:
  assumes "laws c" and "pointerView unbox view h (Some a) = Some v"
  obtains b h' where "copyPointer box unbox (into c) (Some a) h = Some (Some b, h')"
    and "independentCopy (pointerView unbox view) h (Some a) (Some b) h'"
proof -
  from pointer.independent [OF assms] obtain q h' where q: "copyPointer box unbox (into c) (Some a) h = Some (q, h')"
    "independentCopy (pointerView unbox view) h (Some a) q h'" .
  from q(1) have "q \<noteq> None" by (auto simp: copyPointer_def bind_eq_Some_conv)
  with q show ?thesis by (auto intro: that)
qed

end

end
