(* ===== verification/DeepCopy.thy ===== *)
theory DeepCopy
  imports GoHeap ApiTypes
begin

text \<open>
  The generated deep copies of \<^verbatim>\<open>api/v1alpha1/zz_generated.deepcopy.go\<close>, over the heap of
  \<open>GoHeap\<close>. The structs of this theory (\<open>goBinding\<close>, \<open>goBindingStatus\<close>, ...) have the fields of
  the records of \<open>ApiTypes\<close> with an address wherever the Go struct has a pointer, a slice or a map;
  the structs without one are the records of \<open>ApiTypes\<close> themselves. The view of a struct
  (\<open>bindingView\<close>, ...) reads it through the heap and gives the record the rest of the
  development works with, so a nil slice and an empty one read alike there.

  The deep copies of the Kubernetes types an object embeds (\<^verbatim>\<open>ObjectMeta\<close>, \<^verbatim>\<open>ListMeta\<close>,
  \<^verbatim>\<open>LabelSelector\<close>, \<^verbatim>\<open>Condition\<close>) are third-party code: the record \<open>copiers\<close> has one field for each
  and \<open>copier_laws\<close> states their documented contract. The theorem is what
  the controllers rely on when they take \<^verbatim>\<open>base := binding.DeepCopy()\<close> before they
  change the object: the base goes on reading as the object did.
\<close>

section \<open>Structs with references\<close>

record typeMeta =
  tm_kind :: string
  tm_apiVersion :: string

record goObjectMeta =
  gom_name :: string
  gom_namespace :: string
  gom_uid :: string
  gom_generation :: int
  gom_creationTimestamp :: int
  gom_deletionTimestamp :: "addr option"
  gom_finalizers :: "addr option"
  gom_labels :: "addr option"

record listMeta =
  lm_resourceVersion :: string
  lm_continue :: string
  lm_remainingItemCount :: "int option"

record goListMeta =
  glm_resourceVersion :: string
  glm_continue :: string
  glm_remainingItemCount :: "addr option"

record goLabelSelector =
  gls_matchLabels :: "addr option"
  gls_matchExpressions :: "addr option"

record goProviderSpec =
  gps_controller :: string
  gps_accountID :: string
  gps_apiTokenSecretRef :: secretKeyReference
  gps_allowedDNSZones :: "addr option"
  gps_bindingNamespaceSelector :: goLabelSelector

record goProviderStatus =
  gpst_observedGeneration :: int
  gpst_conditions :: "addr option"

record goProvider =
  gp_typeMeta :: typeMeta
  gp_meta :: goObjectMeta
  gp_spec :: goProviderSpec
  gp_status :: goProviderStatus

record goBindingSpec =
  gbs_controller :: string
  gbs_providerRef :: string
  gbs_gatewayRef :: gatewayReference
  gbs_originServiceRef :: originServiceReference
  gbs_connectorReplicas :: int
  gbs_deletionPolicy :: deletionPolicy
  gbs_dnsAutomationEnabled :: "addr option"

record goBindingStatus =
  gbst_observedGeneration :: int
  gbst_tunnelID :: string
  gbst_tunnelName :: string
  gbst_tunnelCNAME :: string
  gbst_publishedHostnames :: "addr option"
  gbst_dnsRecords :: "addr option"
  gbst_resources :: connectorResourceNames
  gbst_conditions :: "addr option"

record goBinding =
  gb_typeMeta :: typeMeta
  gb_meta :: goObjectMeta
  gb_spec :: goBindingSpec
  gb_status :: goBindingStatus

record goRouteStatus =
  grst_observedGeneration :: int
  grst_tunnelID :: string
  grst_tunnelName :: string
  grst_routeID :: string
  grst_network :: string
  grst_resources :: connectorResourceNames
  grst_conditions :: "addr option"

record goRoute =
  gpr_typeMeta :: typeMeta
  gpr_meta :: goObjectMeta
  gpr_spec :: cloudflareTunnelPrivateRouteSpec
  gpr_status :: goRouteStatus

record goList =
  \<comment> \<open>The three list types differ in the type of the items \<open>gl_items\<close> points to.\<close>
  gl_typeMeta :: typeMeta
  gl_meta :: goListMeta
  gl_items :: "addr option"

section \<open>Cells\<close>

datatype goStruct =
    SecretKeyReferenceStruct secretKeyReference
  | ClusterCloudflareProviderSpecStruct goProviderSpec
  | ClusterCloudflareProviderStatusStruct goProviderStatus
  | ClusterCloudflareProviderStruct goProvider
  | ClusterCloudflareProviderListStruct goList
  | GatewayReferenceStruct gatewayReference
  | OriginServiceReferenceStruct originServiceReference
  | LocalReferenceStruct string
  | CloudflareTunnelBindingSpecStruct goBindingSpec
  | DNSRecordStruct dnsRecord
  | ConnectorResourceNamesStruct connectorResourceNames
  | CloudflareTunnelBindingStatusStruct goBindingStatus
  | CloudflareTunnelBindingStruct goBinding
  | CloudflareTunnelBindingListStruct goList
  | PrivateRouteServiceReferenceStruct privateRouteServiceReference
  | CloudflareTunnelPrivateRouteSpecStruct cloudflareTunnelPrivateRouteSpec
  | CloudflareTunnelPrivateRouteStatusStruct goRouteStatus
  | CloudflareTunnelPrivateRouteStruct goRoute
  | CloudflareTunnelPrivateRouteListStruct goList

datatype cell =
    StringsCell "string list"
  | DNSRecordsCell "dnsRecord list"
  | ConditionsCell "condition list"
  | BoolCell bool
  | IntCell int
  | LabelsCell labels
  | SelectorLabelsCell "(string \<times> string) list"
  | SelectorExpressionsCell "(string \<times> string \<times> string list) list"
  | ProvidersCell "goProvider list"
  | BindingsCell "goBinding list"
  | RoutesCell "goRoute list"
  | StructCell goStruct

type_synonym heap = "cell list"

definition unStrings :: "cell \<Rightarrow> (string list) option" where
  "unStrings c = (case c of StringsCell x \<Rightarrow> Some x | _ \<Rightarrow> None)"

definition unDNSRecords :: "cell \<Rightarrow> (dnsRecord list) option" where
  "unDNSRecords c = (case c of DNSRecordsCell x \<Rightarrow> Some x | _ \<Rightarrow> None)"

definition unConditions :: "cell \<Rightarrow> (condition list) option" where
  "unConditions c = (case c of ConditionsCell x \<Rightarrow> Some x | _ \<Rightarrow> None)"

definition unBool :: "cell \<Rightarrow> (bool) option" where
  "unBool c = (case c of BoolCell x \<Rightarrow> Some x | _ \<Rightarrow> None)"

definition unInt :: "cell \<Rightarrow> (int) option" where
  "unInt c = (case c of IntCell x \<Rightarrow> Some x | _ \<Rightarrow> None)"

definition unLabels :: "cell \<Rightarrow> (labels) option" where
  "unLabels c = (case c of LabelsCell x \<Rightarrow> Some x | _ \<Rightarrow> None)"

definition unSelectorLabels :: "cell \<Rightarrow> ((string \<times> string) list) option" where
  "unSelectorLabels c = (case c of SelectorLabelsCell x \<Rightarrow> Some x | _ \<Rightarrow> None)"

definition unSelectorExpressions :: "cell \<Rightarrow> ((string \<times> string \<times> string list) list) option" where
  "unSelectorExpressions c = (case c of SelectorExpressionsCell x \<Rightarrow> Some x | _ \<Rightarrow> None)"

definition unProviders :: "cell \<Rightarrow> (goProvider list) option" where
  "unProviders c = (case c of ProvidersCell x \<Rightarrow> Some x | _ \<Rightarrow> None)"

definition unBindings :: "cell \<Rightarrow> (goBinding list) option" where
  "unBindings c = (case c of BindingsCell x \<Rightarrow> Some x | _ \<Rightarrow> None)"

definition unRoutes :: "cell \<Rightarrow> (goRoute list) option" where
  "unRoutes c = (case c of RoutesCell x \<Rightarrow> Some x | _ \<Rightarrow> None)"

definition unStruct :: "cell \<Rightarrow> goStruct option" where
  "unStruct c = (case c of StructCell s \<Rightarrow> Some s | _ \<Rightarrow> None)"

definition boxSecretKeyReference :: "secretKeyReference \<Rightarrow> cell" where
  "boxSecretKeyReference x = StructCell (SecretKeyReferenceStruct x)"

definition unSecretKeyReference :: "cell \<Rightarrow> secretKeyReference option" where
  "unSecretKeyReference c = (case c of StructCell (SecretKeyReferenceStruct x) \<Rightarrow> Some x | _ \<Rightarrow> None)"

definition boxClusterCloudflareProviderSpec :: "goProviderSpec \<Rightarrow> cell" where
  "boxClusterCloudflareProviderSpec x = StructCell (ClusterCloudflareProviderSpecStruct x)"

definition unClusterCloudflareProviderSpec :: "cell \<Rightarrow> goProviderSpec option" where
  "unClusterCloudflareProviderSpec c = (case c of StructCell (ClusterCloudflareProviderSpecStruct x) \<Rightarrow> Some x | _ \<Rightarrow> None)"

definition boxClusterCloudflareProviderStatus :: "goProviderStatus \<Rightarrow> cell" where
  "boxClusterCloudflareProviderStatus x = StructCell (ClusterCloudflareProviderStatusStruct x)"

definition unClusterCloudflareProviderStatus :: "cell \<Rightarrow> goProviderStatus option" where
  "unClusterCloudflareProviderStatus c = (case c of StructCell (ClusterCloudflareProviderStatusStruct x) \<Rightarrow> Some x | _ \<Rightarrow> None)"

definition boxClusterCloudflareProvider :: "goProvider \<Rightarrow> cell" where
  "boxClusterCloudflareProvider x = StructCell (ClusterCloudflareProviderStruct x)"

definition unClusterCloudflareProvider :: "cell \<Rightarrow> goProvider option" where
  "unClusterCloudflareProvider c = (case c of StructCell (ClusterCloudflareProviderStruct x) \<Rightarrow> Some x | _ \<Rightarrow> None)"

definition boxClusterCloudflareProviderList :: "goList \<Rightarrow> cell" where
  "boxClusterCloudflareProviderList x = StructCell (ClusterCloudflareProviderListStruct x)"

definition unClusterCloudflareProviderList :: "cell \<Rightarrow> goList option" where
  "unClusterCloudflareProviderList c = (case c of StructCell (ClusterCloudflareProviderListStruct x) \<Rightarrow> Some x | _ \<Rightarrow> None)"

definition boxGatewayReference :: "gatewayReference \<Rightarrow> cell" where
  "boxGatewayReference x = StructCell (GatewayReferenceStruct x)"

definition unGatewayReference :: "cell \<Rightarrow> gatewayReference option" where
  "unGatewayReference c = (case c of StructCell (GatewayReferenceStruct x) \<Rightarrow> Some x | _ \<Rightarrow> None)"

definition boxOriginServiceReference :: "originServiceReference \<Rightarrow> cell" where
  "boxOriginServiceReference x = StructCell (OriginServiceReferenceStruct x)"

definition unOriginServiceReference :: "cell \<Rightarrow> originServiceReference option" where
  "unOriginServiceReference c = (case c of StructCell (OriginServiceReferenceStruct x) \<Rightarrow> Some x | _ \<Rightarrow> None)"

definition boxLocalReference :: "string \<Rightarrow> cell" where
  "boxLocalReference x = StructCell (LocalReferenceStruct x)"

definition unLocalReference :: "cell \<Rightarrow> string option" where
  "unLocalReference c = (case c of StructCell (LocalReferenceStruct x) \<Rightarrow> Some x | _ \<Rightarrow> None)"

definition boxCloudflareTunnelBindingSpec :: "goBindingSpec \<Rightarrow> cell" where
  "boxCloudflareTunnelBindingSpec x = StructCell (CloudflareTunnelBindingSpecStruct x)"

definition unCloudflareTunnelBindingSpec :: "cell \<Rightarrow> goBindingSpec option" where
  "unCloudflareTunnelBindingSpec c = (case c of StructCell (CloudflareTunnelBindingSpecStruct x) \<Rightarrow> Some x | _ \<Rightarrow> None)"

definition boxDNSRecord :: "dnsRecord \<Rightarrow> cell" where
  "boxDNSRecord x = StructCell (DNSRecordStruct x)"

definition unDNSRecord :: "cell \<Rightarrow> dnsRecord option" where
  "unDNSRecord c = (case c of StructCell (DNSRecordStruct x) \<Rightarrow> Some x | _ \<Rightarrow> None)"

definition boxConnectorResourceNames :: "connectorResourceNames \<Rightarrow> cell" where
  "boxConnectorResourceNames x = StructCell (ConnectorResourceNamesStruct x)"

definition unConnectorResourceNames :: "cell \<Rightarrow> connectorResourceNames option" where
  "unConnectorResourceNames c = (case c of StructCell (ConnectorResourceNamesStruct x) \<Rightarrow> Some x | _ \<Rightarrow> None)"

definition boxCloudflareTunnelBindingStatus :: "goBindingStatus \<Rightarrow> cell" where
  "boxCloudflareTunnelBindingStatus x = StructCell (CloudflareTunnelBindingStatusStruct x)"

definition unCloudflareTunnelBindingStatus :: "cell \<Rightarrow> goBindingStatus option" where
  "unCloudflareTunnelBindingStatus c = (case c of StructCell (CloudflareTunnelBindingStatusStruct x) \<Rightarrow> Some x | _ \<Rightarrow> None)"

definition boxCloudflareTunnelBinding :: "goBinding \<Rightarrow> cell" where
  "boxCloudflareTunnelBinding x = StructCell (CloudflareTunnelBindingStruct x)"

definition unCloudflareTunnelBinding :: "cell \<Rightarrow> goBinding option" where
  "unCloudflareTunnelBinding c = (case c of StructCell (CloudflareTunnelBindingStruct x) \<Rightarrow> Some x | _ \<Rightarrow> None)"

definition boxCloudflareTunnelBindingList :: "goList \<Rightarrow> cell" where
  "boxCloudflareTunnelBindingList x = StructCell (CloudflareTunnelBindingListStruct x)"

definition unCloudflareTunnelBindingList :: "cell \<Rightarrow> goList option" where
  "unCloudflareTunnelBindingList c = (case c of StructCell (CloudflareTunnelBindingListStruct x) \<Rightarrow> Some x | _ \<Rightarrow> None)"

definition boxPrivateRouteServiceReference :: "privateRouteServiceReference \<Rightarrow> cell" where
  "boxPrivateRouteServiceReference x = StructCell (PrivateRouteServiceReferenceStruct x)"

definition unPrivateRouteServiceReference :: "cell \<Rightarrow> privateRouteServiceReference option" where
  "unPrivateRouteServiceReference c = (case c of StructCell (PrivateRouteServiceReferenceStruct x) \<Rightarrow> Some x | _ \<Rightarrow> None)"

definition boxCloudflareTunnelPrivateRouteSpec :: "cloudflareTunnelPrivateRouteSpec \<Rightarrow> cell" where
  "boxCloudflareTunnelPrivateRouteSpec x = StructCell (CloudflareTunnelPrivateRouteSpecStruct x)"

definition unCloudflareTunnelPrivateRouteSpec :: "cell \<Rightarrow> cloudflareTunnelPrivateRouteSpec option" where
  "unCloudflareTunnelPrivateRouteSpec c = (case c of StructCell (CloudflareTunnelPrivateRouteSpecStruct x) \<Rightarrow> Some x | _ \<Rightarrow> None)"

definition boxCloudflareTunnelPrivateRouteStatus :: "goRouteStatus \<Rightarrow> cell" where
  "boxCloudflareTunnelPrivateRouteStatus x = StructCell (CloudflareTunnelPrivateRouteStatusStruct x)"

definition unCloudflareTunnelPrivateRouteStatus :: "cell \<Rightarrow> goRouteStatus option" where
  "unCloudflareTunnelPrivateRouteStatus c = (case c of StructCell (CloudflareTunnelPrivateRouteStatusStruct x) \<Rightarrow> Some x | _ \<Rightarrow> None)"

definition boxCloudflareTunnelPrivateRoute :: "goRoute \<Rightarrow> cell" where
  "boxCloudflareTunnelPrivateRoute x = StructCell (CloudflareTunnelPrivateRouteStruct x)"

definition unCloudflareTunnelPrivateRoute :: "cell \<Rightarrow> goRoute option" where
  "unCloudflareTunnelPrivateRoute c = (case c of StructCell (CloudflareTunnelPrivateRouteStruct x) \<Rightarrow> Some x | _ \<Rightarrow> None)"

definition boxCloudflareTunnelPrivateRouteList :: "goList \<Rightarrow> cell" where
  "boxCloudflareTunnelPrivateRouteList x = StructCell (CloudflareTunnelPrivateRouteListStruct x)"

definition unCloudflareTunnelPrivateRouteList :: "cell \<Rightarrow> goList option" where
  "unCloudflareTunnelPrivateRouteList c = (case c of StructCell (CloudflareTunnelPrivateRouteListStruct x) \<Rightarrow> Some x | _ \<Rightarrow> None)"

lemma unbox_box [simp]:
  "unStrings (StringsCell x0) = Some x0"
  "unDNSRecords (DNSRecordsCell x1) = Some x1"
  "unConditions (ConditionsCell x2) = Some x2"
  "unBool (BoolCell x3) = Some x3"
  "unInt (IntCell x4) = Some x4"
  "unLabels (LabelsCell x5) = Some x5"
  "unSelectorLabels (SelectorLabelsCell x6) = Some x6"
  "unSelectorExpressions (SelectorExpressionsCell x7) = Some x7"
  "unProviders (ProvidersCell x8) = Some x8"
  "unBindings (BindingsCell x9) = Some x9"
  "unRoutes (RoutesCell x10) = Some x10"
  "unSecretKeyReference (boxSecretKeyReference y0) = Some y0"
  "unClusterCloudflareProviderSpec (boxClusterCloudflareProviderSpec y1) = Some y1"
  "unClusterCloudflareProviderStatus (boxClusterCloudflareProviderStatus y2) = Some y2"
  "unClusterCloudflareProvider (boxClusterCloudflareProvider y3) = Some y3"
  "unClusterCloudflareProviderList (boxClusterCloudflareProviderList y4) = Some y4"
  "unGatewayReference (boxGatewayReference y5) = Some y5"
  "unOriginServiceReference (boxOriginServiceReference y6) = Some y6"
  "unLocalReference (boxLocalReference y7) = Some y7"
  "unCloudflareTunnelBindingSpec (boxCloudflareTunnelBindingSpec y8) = Some y8"
  "unDNSRecord (boxDNSRecord y9) = Some y9"
  "unConnectorResourceNames (boxConnectorResourceNames y10) = Some y10"
  "unCloudflareTunnelBindingStatus (boxCloudflareTunnelBindingStatus y11) = Some y11"
  "unCloudflareTunnelBinding (boxCloudflareTunnelBinding y12) = Some y12"
  "unCloudflareTunnelBindingList (boxCloudflareTunnelBindingList y13) = Some y13"
  "unPrivateRouteServiceReference (boxPrivateRouteServiceReference y14) = Some y14"
  "unCloudflareTunnelPrivateRouteSpec (boxCloudflareTunnelPrivateRouteSpec y15) = Some y15"
  "unCloudflareTunnelPrivateRouteStatus (boxCloudflareTunnelPrivateRouteStatus y16) = Some y16"
  "unCloudflareTunnelPrivateRoute (boxCloudflareTunnelPrivateRoute y17) = Some y17"
  "unCloudflareTunnelPrivateRouteList (boxCloudflareTunnelPrivateRouteList y18) = Some y18"
  by (simp_all add: unStrings_def unDNSRecords_def unConditions_def unBool_def unInt_def unLabels_def unSelectorLabels_def unSelectorExpressions_def unProviders_def unBindings_def unRoutes_def unSecretKeyReference_def boxSecretKeyReference_def unClusterCloudflareProviderSpec_def boxClusterCloudflareProviderSpec_def unClusterCloudflareProviderStatus_def boxClusterCloudflareProviderStatus_def unClusterCloudflareProvider_def boxClusterCloudflareProvider_def unClusterCloudflareProviderList_def boxClusterCloudflareProviderList_def unGatewayReference_def boxGatewayReference_def unOriginServiceReference_def boxOriginServiceReference_def unLocalReference_def boxLocalReference_def unCloudflareTunnelBindingSpec_def boxCloudflareTunnelBindingSpec_def unDNSRecord_def boxDNSRecord_def unConnectorResourceNames_def boxConnectorResourceNames_def unCloudflareTunnelBindingStatus_def boxCloudflareTunnelBindingStatus_def unCloudflareTunnelBinding_def boxCloudflareTunnelBinding_def unCloudflareTunnelBindingList_def boxCloudflareTunnelBindingList_def unPrivateRouteServiceReference_def boxPrivateRouteServiceReference_def unCloudflareTunnelPrivateRouteSpec_def boxCloudflareTunnelPrivateRouteSpec_def unCloudflareTunnelPrivateRouteStatus_def boxCloudflareTunnelPrivateRouteStatus_def unCloudflareTunnelPrivateRoute_def boxCloudflareTunnelPrivateRoute_def unCloudflareTunnelPrivateRouteList_def boxCloudflareTunnelPrivateRouteList_def)

section \<open>The third-party copies\<close>

record copiers =
  cp_objectMeta :: "goObjectMeta \<Rightarrow> heap \<Rightarrow> (goObjectMeta \<times> heap) option"
  cp_listMeta :: "goListMeta \<Rightarrow> heap \<Rightarrow> (goListMeta \<times> heap) option"
  cp_labelSelector :: "goLabelSelector \<Rightarrow> heap \<Rightarrow> (goLabelSelector \<times> heap) option"
  cp_condition :: "condition \<Rightarrow> heap \<Rightarrow> (condition \<times> heap) option"

section \<open>ClusterCloudflareProvider\<close>

definition DeepCopyInto_SecretKeyReference :: "secretKeyReference \<Rightarrow> heap \<Rightarrow> (secretKeyReference \<times> heap) option" where
  "DeepCopyInto_SecretKeyReference = plainCopy"

definition DeepCopy_SecretKeyReference :: "addr option \<Rightarrow> heap \<Rightarrow> (addr option \<times> heap) option" where
  "DeepCopy_SecretKeyReference = copyPointer boxSecretKeyReference unSecretKeyReference DeepCopyInto_SecretKeyReference"

definition DeepCopyInto_ClusterCloudflareProviderSpec :: "copiers \<Rightarrow> goProviderSpec \<Rightarrow> heap \<Rightarrow> (goProviderSpec \<times> heap) option" where
  "DeepCopyInto_ClusterCloudflareProviderSpec c = (\<lambda>x h. do {
     (zones, h1) \<leftarrow> copySlice StringsCell unStrings plainCopy (gps_allowedDNSZones x) h;
     (selector, h2) \<leftarrow> cp_labelSelector c (gps_bindingNamespaceSelector x) h1;
     Some (x\<lparr>gps_allowedDNSZones := zones, gps_bindingNamespaceSelector := selector\<rparr>, h2)
   })"

definition DeepCopy_ClusterCloudflareProviderSpec :: "copiers \<Rightarrow> addr option \<Rightarrow> heap \<Rightarrow> (addr option \<times> heap) option" where
  "DeepCopy_ClusterCloudflareProviderSpec c = copyPointer boxClusterCloudflareProviderSpec unClusterCloudflareProviderSpec (DeepCopyInto_ClusterCloudflareProviderSpec c)"

definition DeepCopyInto_ClusterCloudflareProviderStatus :: "copiers \<Rightarrow> goProviderStatus \<Rightarrow> heap \<Rightarrow> (goProviderStatus \<times> heap) option" where
  "DeepCopyInto_ClusterCloudflareProviderStatus c = (\<lambda>x h. do {
     (conditions, h1) \<leftarrow> copySlice ConditionsCell unConditions (cp_condition c) (gpst_conditions x) h;
     Some (x\<lparr>gpst_conditions := conditions\<rparr>, h1)
   })"

definition DeepCopy_ClusterCloudflareProviderStatus :: "copiers \<Rightarrow> addr option \<Rightarrow> heap \<Rightarrow> (addr option \<times> heap) option" where
  "DeepCopy_ClusterCloudflareProviderStatus c = copyPointer boxClusterCloudflareProviderStatus unClusterCloudflareProviderStatus (DeepCopyInto_ClusterCloudflareProviderStatus c)"

definition DeepCopyInto_ClusterCloudflareProvider :: "copiers \<Rightarrow> goProvider \<Rightarrow> heap \<Rightarrow> (goProvider \<times> heap) option" where
  "DeepCopyInto_ClusterCloudflareProvider c = (\<lambda>x h. do {
     (meta, h1) \<leftarrow> cp_objectMeta c (gp_meta x) h;
     (spec, h2) \<leftarrow> DeepCopyInto_ClusterCloudflareProviderSpec c (gp_spec x) h1;
     (status, h3) \<leftarrow> DeepCopyInto_ClusterCloudflareProviderStatus c (gp_status x) h2;
     Some (x\<lparr>gp_meta := meta, gp_spec := spec, gp_status := status\<rparr>, h3)
   })"

definition DeepCopy_ClusterCloudflareProvider :: "copiers \<Rightarrow> addr option \<Rightarrow> heap \<Rightarrow> (addr option \<times> heap) option" where
  "DeepCopy_ClusterCloudflareProvider c = copyPointer boxClusterCloudflareProvider unClusterCloudflareProvider (DeepCopyInto_ClusterCloudflareProvider c)"

definition DeepCopyInto_ClusterCloudflareProviderList :: "copiers \<Rightarrow> goList \<Rightarrow> heap \<Rightarrow> (goList \<times> heap) option" where
  "DeepCopyInto_ClusterCloudflareProviderList c = (\<lambda>x h. do {
     (meta, h1) \<leftarrow> cp_listMeta c (gl_meta x) h;
     (items, h2) \<leftarrow> copySlice ProvidersCell unProviders (DeepCopyInto_ClusterCloudflareProvider c) (gl_items x) h1;
     Some (x\<lparr>gl_meta := meta, gl_items := items\<rparr>, h2)
   })"

definition DeepCopy_ClusterCloudflareProviderList :: "copiers \<Rightarrow> addr option \<Rightarrow> heap \<Rightarrow> (addr option \<times> heap) option" where
  "DeepCopy_ClusterCloudflareProviderList c = copyPointer boxClusterCloudflareProviderList unClusterCloudflareProviderList (DeepCopyInto_ClusterCloudflareProviderList c)"

section \<open>CloudflareTunnelBinding\<close>

definition DeepCopyInto_GatewayReference :: "gatewayReference \<Rightarrow> heap \<Rightarrow> (gatewayReference \<times> heap) option" where
  "DeepCopyInto_GatewayReference = plainCopy"

definition DeepCopy_GatewayReference :: "addr option \<Rightarrow> heap \<Rightarrow> (addr option \<times> heap) option" where
  "DeepCopy_GatewayReference = copyPointer boxGatewayReference unGatewayReference DeepCopyInto_GatewayReference"

definition DeepCopyInto_OriginServiceReference :: "originServiceReference \<Rightarrow> heap \<Rightarrow> (originServiceReference \<times> heap) option" where
  "DeepCopyInto_OriginServiceReference = plainCopy"

definition DeepCopy_OriginServiceReference :: "addr option \<Rightarrow> heap \<Rightarrow> (addr option \<times> heap) option" where
  "DeepCopy_OriginServiceReference = copyPointer boxOriginServiceReference unOriginServiceReference DeepCopyInto_OriginServiceReference"

definition DeepCopyInto_LocalReference :: "string \<Rightarrow> heap \<Rightarrow> (string \<times> heap) option" where
  "DeepCopyInto_LocalReference = plainCopy"

definition DeepCopy_LocalReference :: "addr option \<Rightarrow> heap \<Rightarrow> (addr option \<times> heap) option" where
  "DeepCopy_LocalReference = copyPointer boxLocalReference unLocalReference DeepCopyInto_LocalReference"

definition DeepCopyInto_CloudflareTunnelBindingSpec :: "copiers \<Rightarrow> goBindingSpec \<Rightarrow> heap \<Rightarrow> (goBindingSpec \<times> heap) option" where
  "DeepCopyInto_CloudflareTunnelBindingSpec c = (\<lambda>x h. do {
     (automation, h1) \<leftarrow> copyPointer BoolCell unBool plainCopy (gbs_dnsAutomationEnabled x) h;
     Some (x\<lparr>gbs_dnsAutomationEnabled := automation\<rparr>, h1)
   })"

definition DeepCopy_CloudflareTunnelBindingSpec :: "copiers \<Rightarrow> addr option \<Rightarrow> heap \<Rightarrow> (addr option \<times> heap) option" where
  "DeepCopy_CloudflareTunnelBindingSpec c = copyPointer boxCloudflareTunnelBindingSpec unCloudflareTunnelBindingSpec (DeepCopyInto_CloudflareTunnelBindingSpec c)"

definition DeepCopyInto_DNSRecord :: "dnsRecord \<Rightarrow> heap \<Rightarrow> (dnsRecord \<times> heap) option" where
  "DeepCopyInto_DNSRecord = plainCopy"

definition DeepCopy_DNSRecord :: "addr option \<Rightarrow> heap \<Rightarrow> (addr option \<times> heap) option" where
  "DeepCopy_DNSRecord = copyPointer boxDNSRecord unDNSRecord DeepCopyInto_DNSRecord"

definition DeepCopyInto_ConnectorResourceNames :: "connectorResourceNames \<Rightarrow> heap \<Rightarrow> (connectorResourceNames \<times> heap) option" where
  "DeepCopyInto_ConnectorResourceNames = plainCopy"

definition DeepCopy_ConnectorResourceNames :: "addr option \<Rightarrow> heap \<Rightarrow> (addr option \<times> heap) option" where
  "DeepCopy_ConnectorResourceNames = copyPointer boxConnectorResourceNames unConnectorResourceNames DeepCopyInto_ConnectorResourceNames"

definition DeepCopyInto_CloudflareTunnelBindingStatus :: "copiers \<Rightarrow> goBindingStatus \<Rightarrow> heap \<Rightarrow> (goBindingStatus \<times> heap) option" where
  "DeepCopyInto_CloudflareTunnelBindingStatus c = (\<lambda>x h. do {
     (hostnames, h1) \<leftarrow> copySlice StringsCell unStrings plainCopy (gbst_publishedHostnames x) h;
     (records, h2) \<leftarrow> copySlice DNSRecordsCell unDNSRecords plainCopy (gbst_dnsRecords x) h1;
     (conditions, h3) \<leftarrow> copySlice ConditionsCell unConditions (cp_condition c) (gbst_conditions x) h2;
     Some (x\<lparr>gbst_publishedHostnames := hostnames, gbst_dnsRecords := records, gbst_conditions := conditions\<rparr>, h3)
   })"

definition DeepCopy_CloudflareTunnelBindingStatus :: "copiers \<Rightarrow> addr option \<Rightarrow> heap \<Rightarrow> (addr option \<times> heap) option" where
  "DeepCopy_CloudflareTunnelBindingStatus c = copyPointer boxCloudflareTunnelBindingStatus unCloudflareTunnelBindingStatus (DeepCopyInto_CloudflareTunnelBindingStatus c)"

definition DeepCopyInto_CloudflareTunnelBinding :: "copiers \<Rightarrow> goBinding \<Rightarrow> heap \<Rightarrow> (goBinding \<times> heap) option" where
  "DeepCopyInto_CloudflareTunnelBinding c = (\<lambda>x h. do {
     (meta, h1) \<leftarrow> cp_objectMeta c (gb_meta x) h;
     (spec, h2) \<leftarrow> DeepCopyInto_CloudflareTunnelBindingSpec c (gb_spec x) h1;
     (status, h3) \<leftarrow> DeepCopyInto_CloudflareTunnelBindingStatus c (gb_status x) h2;
     Some (x\<lparr>gb_meta := meta, gb_spec := spec, gb_status := status\<rparr>, h3)
   })"

definition DeepCopy_CloudflareTunnelBinding :: "copiers \<Rightarrow> addr option \<Rightarrow> heap \<Rightarrow> (addr option \<times> heap) option" where
  "DeepCopy_CloudflareTunnelBinding c = copyPointer boxCloudflareTunnelBinding unCloudflareTunnelBinding (DeepCopyInto_CloudflareTunnelBinding c)"

definition DeepCopyInto_CloudflareTunnelBindingList :: "copiers \<Rightarrow> goList \<Rightarrow> heap \<Rightarrow> (goList \<times> heap) option" where
  "DeepCopyInto_CloudflareTunnelBindingList c = (\<lambda>x h. do {
     (meta, h1) \<leftarrow> cp_listMeta c (gl_meta x) h;
     (items, h2) \<leftarrow> copySlice BindingsCell unBindings (DeepCopyInto_CloudflareTunnelBinding c) (gl_items x) h1;
     Some (x\<lparr>gl_meta := meta, gl_items := items\<rparr>, h2)
   })"

definition DeepCopy_CloudflareTunnelBindingList :: "copiers \<Rightarrow> addr option \<Rightarrow> heap \<Rightarrow> (addr option \<times> heap) option" where
  "DeepCopy_CloudflareTunnelBindingList c = copyPointer boxCloudflareTunnelBindingList unCloudflareTunnelBindingList (DeepCopyInto_CloudflareTunnelBindingList c)"

section \<open>CloudflareTunnelPrivateRoute\<close>

definition DeepCopyInto_PrivateRouteServiceReference :: "privateRouteServiceReference \<Rightarrow> heap \<Rightarrow> (privateRouteServiceReference \<times> heap) option" where
  "DeepCopyInto_PrivateRouteServiceReference = plainCopy"

definition DeepCopy_PrivateRouteServiceReference :: "addr option \<Rightarrow> heap \<Rightarrow> (addr option \<times> heap) option" where
  "DeepCopy_PrivateRouteServiceReference = copyPointer boxPrivateRouteServiceReference unPrivateRouteServiceReference DeepCopyInto_PrivateRouteServiceReference"

definition DeepCopyInto_CloudflareTunnelPrivateRouteSpec :: "cloudflareTunnelPrivateRouteSpec \<Rightarrow> heap \<Rightarrow> (cloudflareTunnelPrivateRouteSpec \<times> heap) option" where
  "DeepCopyInto_CloudflareTunnelPrivateRouteSpec = plainCopy"

definition DeepCopy_CloudflareTunnelPrivateRouteSpec :: "addr option \<Rightarrow> heap \<Rightarrow> (addr option \<times> heap) option" where
  "DeepCopy_CloudflareTunnelPrivateRouteSpec = copyPointer boxCloudflareTunnelPrivateRouteSpec unCloudflareTunnelPrivateRouteSpec DeepCopyInto_CloudflareTunnelPrivateRouteSpec"

definition DeepCopyInto_CloudflareTunnelPrivateRouteStatus :: "copiers \<Rightarrow> goRouteStatus \<Rightarrow> heap \<Rightarrow> (goRouteStatus \<times> heap) option" where
  "DeepCopyInto_CloudflareTunnelPrivateRouteStatus c = (\<lambda>x h. do {
     (conditions, h1) \<leftarrow> copySlice ConditionsCell unConditions (cp_condition c) (grst_conditions x) h;
     Some (x\<lparr>grst_conditions := conditions\<rparr>, h1)
   })"

definition DeepCopy_CloudflareTunnelPrivateRouteStatus :: "copiers \<Rightarrow> addr option \<Rightarrow> heap \<Rightarrow> (addr option \<times> heap) option" where
  "DeepCopy_CloudflareTunnelPrivateRouteStatus c = copyPointer boxCloudflareTunnelPrivateRouteStatus unCloudflareTunnelPrivateRouteStatus (DeepCopyInto_CloudflareTunnelPrivateRouteStatus c)"

definition DeepCopyInto_CloudflareTunnelPrivateRoute :: "copiers \<Rightarrow> goRoute \<Rightarrow> heap \<Rightarrow> (goRoute \<times> heap) option" where
  "DeepCopyInto_CloudflareTunnelPrivateRoute c = (\<lambda>x h. do {
     (meta, h1) \<leftarrow> cp_objectMeta c (gpr_meta x) h;
     (status, h2) \<leftarrow> DeepCopyInto_CloudflareTunnelPrivateRouteStatus c (gpr_status x) h1;
     Some (x\<lparr>gpr_meta := meta, gpr_status := status\<rparr>, h2)
   })"

definition DeepCopy_CloudflareTunnelPrivateRoute :: "copiers \<Rightarrow> addr option \<Rightarrow> heap \<Rightarrow> (addr option \<times> heap) option" where
  "DeepCopy_CloudflareTunnelPrivateRoute c = copyPointer boxCloudflareTunnelPrivateRoute unCloudflareTunnelPrivateRoute (DeepCopyInto_CloudflareTunnelPrivateRoute c)"

definition DeepCopyInto_CloudflareTunnelPrivateRouteList :: "copiers \<Rightarrow> goList \<Rightarrow> heap \<Rightarrow> (goList \<times> heap) option" where
  "DeepCopyInto_CloudflareTunnelPrivateRouteList c = (\<lambda>x h. do {
     (meta, h1) \<leftarrow> cp_listMeta c (gl_meta x) h;
     (items, h2) \<leftarrow> copySlice RoutesCell unRoutes (DeepCopyInto_CloudflareTunnelPrivateRoute c) (gl_items x) h1;
     Some (x\<lparr>gl_meta := meta, gl_items := items\<rparr>, h2)
   })"

definition DeepCopy_CloudflareTunnelPrivateRouteList :: "copiers \<Rightarrow> addr option \<Rightarrow> heap \<Rightarrow> (addr option \<times> heap) option" where
  "DeepCopy_CloudflareTunnelPrivateRouteList c = copyPointer boxCloudflareTunnelPrivateRouteList unCloudflareTunnelPrivateRouteList (DeepCopyInto_CloudflareTunnelPrivateRouteList c)"

section \<open>Objects behind the interface runtime.Object\<close>

text \<open>An interface value is nil (\<open>None\<close>) or a pointer with its type. \<^verbatim>\<open>DeepCopyObject\<close>
  returns the nil interface for a nil receiver, not an interface that holds a nil pointer.\<close>

datatype runtimeObject =
    ClusterCloudflareProviderObject addr
  | ClusterCloudflareProviderListObject addr
  | CloudflareTunnelBindingObject addr
  | CloudflareTunnelBindingListObject addr
  | CloudflareTunnelPrivateRouteObject addr
  | CloudflareTunnelPrivateRouteListObject addr

definition DeepCopyObject_ClusterCloudflareProvider :: "copiers \<Rightarrow> addr option \<Rightarrow> heap \<Rightarrow> (runtimeObject option \<times> heap) option" where
  "DeepCopyObject_ClusterCloudflareProvider c p h = do {
     (q, h1) \<leftarrow> DeepCopy_ClusterCloudflareProvider c p h;
     case q of Some a \<Rightarrow> Some (Some (ClusterCloudflareProviderObject a), h1) | None \<Rightarrow> Some (None, h1)
   }"

definition DeepCopyObject_ClusterCloudflareProviderList :: "copiers \<Rightarrow> addr option \<Rightarrow> heap \<Rightarrow> (runtimeObject option \<times> heap) option" where
  "DeepCopyObject_ClusterCloudflareProviderList c p h = do {
     (q, h1) \<leftarrow> DeepCopy_ClusterCloudflareProviderList c p h;
     case q of Some a \<Rightarrow> Some (Some (ClusterCloudflareProviderListObject a), h1) | None \<Rightarrow> Some (None, h1)
   }"

definition DeepCopyObject_CloudflareTunnelBinding :: "copiers \<Rightarrow> addr option \<Rightarrow> heap \<Rightarrow> (runtimeObject option \<times> heap) option" where
  "DeepCopyObject_CloudflareTunnelBinding c p h = do {
     (q, h1) \<leftarrow> DeepCopy_CloudflareTunnelBinding c p h;
     case q of Some a \<Rightarrow> Some (Some (CloudflareTunnelBindingObject a), h1) | None \<Rightarrow> Some (None, h1)
   }"

definition DeepCopyObject_CloudflareTunnelBindingList :: "copiers \<Rightarrow> addr option \<Rightarrow> heap \<Rightarrow> (runtimeObject option \<times> heap) option" where
  "DeepCopyObject_CloudflareTunnelBindingList c p h = do {
     (q, h1) \<leftarrow> DeepCopy_CloudflareTunnelBindingList c p h;
     case q of Some a \<Rightarrow> Some (Some (CloudflareTunnelBindingListObject a), h1) | None \<Rightarrow> Some (None, h1)
   }"

definition DeepCopyObject_CloudflareTunnelPrivateRoute :: "copiers \<Rightarrow> addr option \<Rightarrow> heap \<Rightarrow> (runtimeObject option \<times> heap) option" where
  "DeepCopyObject_CloudflareTunnelPrivateRoute c p h = do {
     (q, h1) \<leftarrow> DeepCopy_CloudflareTunnelPrivateRoute c p h;
     case q of Some a \<Rightarrow> Some (Some (CloudflareTunnelPrivateRouteObject a), h1) | None \<Rightarrow> Some (None, h1)
   }"

definition DeepCopyObject_CloudflareTunnelPrivateRouteList :: "copiers \<Rightarrow> addr option \<Rightarrow> heap \<Rightarrow> (runtimeObject option \<times> heap) option" where
  "DeepCopyObject_CloudflareTunnelPrivateRouteList c p h = do {
     (q, h1) \<leftarrow> DeepCopy_CloudflareTunnelPrivateRouteList c p h;
     case q of Some a \<Rightarrow> Some (Some (CloudflareTunnelPrivateRouteListObject a), h1) | None \<Rightarrow> Some (None, h1)
   }"

end
