(* ===== verification/DeepCopyProps.thy ===== *)
theory DeepCopyProps
  imports DeepCopy
begin

text \<open>
  What the structs of \<open>DeepCopy\<close> read and reach, the contract of the third-party copies, and the
  proof that every generated \<^verbatim>\<open>DeepCopyInto\<close> and \<^verbatim>\<open>DeepCopy\<close> keeps the contract: an
  interpretation of \<open>deep_copy_pointer\<close> for each type of the API.
\<close>

section \<open>Views\<close>

definition elements :: "'a list option \<Rightarrow> 'a list" where
  \<comment> \<open>The elements of a slice: none for nil.\<close>
  "elements s = (case s of None \<Rightarrow> [] | Some xs \<Rightarrow> xs)"

definition entries :: "labels option \<Rightarrow> labels" where
  "entries m = (case m of None \<Rightarrow> Map.empty | Some f \<Rightarrow> f)"

abbreviation sliceView :: "(cell \<Rightarrow> 'a list option) \<Rightarrow> (heap \<Rightarrow> 'a \<Rightarrow> 'v option) \<Rightarrow> heap \<Rightarrow> addr option \<Rightarrow> 'v list option option" where
  "sliceView unbox view \<equiv> pointerView unbox (eachView view)"

abbreviation sliceRefs :: "(cell \<Rightarrow> 'a list option) \<Rightarrow> (heap \<Rightarrow> 'a \<Rightarrow> addr list) \<Rightarrow> heap \<Rightarrow> addr option \<Rightarrow> addr list" where
  "sliceRefs unbox refs \<equiv> pointerRefs unbox (eachRefs refs)"

definition objectMetaView :: "heap \<Rightarrow> goObjectMeta \<Rightarrow> objectMeta option" where
  "objectMetaView = (\<lambda>h x. do {
     deletion \<leftarrow> pointerView unInt plainView h (gom_deletionTimestamp x);
     finalizers \<leftarrow> sliceView unStrings plainView h (gom_finalizers x);
     labels \<leftarrow> pointerView unLabels plainView h (gom_labels x);
     Some (\<lparr>om_name = gom_name x, om_namespace = gom_namespace x, om_uid = gom_uid x, om_generation = gom_generation x, om_creationTimestamp = gom_creationTimestamp x, om_deletionTimestamp = deletion, om_finalizers = elements finalizers, om_labels = entries labels\<rparr>)
   })"

definition objectMetaRefs :: "heap \<Rightarrow> goObjectMeta \<Rightarrow> addr list" where
  "objectMetaRefs = (\<lambda>h x. pointerRefs unInt plainRefs h (gom_deletionTimestamp x) @ sliceRefs unStrings plainRefs h (gom_finalizers x) @ pointerRefs unLabels plainRefs h (gom_labels x))"

definition listMetaView :: "heap \<Rightarrow> goListMeta \<Rightarrow> listMeta option" where
  "listMetaView = (\<lambda>h x. do {
     remaining \<leftarrow> pointerView unInt plainView h (glm_remainingItemCount x);
     Some (\<lparr>lm_resourceVersion = glm_resourceVersion x, lm_continue = glm_continue x, lm_remainingItemCount = remaining\<rparr>)
   })"

definition listMetaRefs :: "heap \<Rightarrow> goListMeta \<Rightarrow> addr list" where
  "listMetaRefs = (\<lambda>h x. pointerRefs unInt plainRefs h (glm_remainingItemCount x))"

definition labelSelectorView :: "heap \<Rightarrow> goLabelSelector \<Rightarrow> labelSelector option" where
  "labelSelectorView = (\<lambda>h x. do {
     required \<leftarrow> sliceView unSelectorLabels plainView h (gls_matchLabels x);
     expressions \<leftarrow> sliceView unSelectorExpressions plainView h (gls_matchExpressions x);
     Some (\<lparr>sel_matchLabels = elements required, sel_matchExpressions = elements expressions\<rparr>)
   })"

definition labelSelectorRefs :: "heap \<Rightarrow> goLabelSelector \<Rightarrow> addr list" where
  "labelSelectorRefs = (\<lambda>h x. sliceRefs unSelectorLabels plainRefs h (gls_matchLabels x) @ sliceRefs unSelectorExpressions plainRefs h (gls_matchExpressions x))"

definition providerSpecView :: "heap \<Rightarrow> goProviderSpec \<Rightarrow> clusterCloudflareProviderSpec option" where
  "providerSpecView = (\<lambda>h x. do {
     zones \<leftarrow> sliceView unStrings plainView h (gps_allowedDNSZones x);
     selector \<leftarrow> labelSelectorView h (gps_bindingNamespaceSelector x);
     Some (\<lparr>ps_controller = gps_controller x, ps_accountID = gps_accountID x, ps_apiTokenSecretRef = gps_apiTokenSecretRef x, ps_allowedDNSZones = elements zones, ps_bindingNamespaceSelector = selector\<rparr>)
   })"

definition providerSpecRefs :: "heap \<Rightarrow> goProviderSpec \<Rightarrow> addr list" where
  "providerSpecRefs = (\<lambda>h x. sliceRefs unStrings plainRefs h (gps_allowedDNSZones x) @ labelSelectorRefs h (gps_bindingNamespaceSelector x))"

definition providerStatusView :: "heap \<Rightarrow> goProviderStatus \<Rightarrow> clusterCloudflareProviderStatus option" where
  "providerStatusView = (\<lambda>h x. do {
     conditions \<leftarrow> sliceView unConditions plainView h (gpst_conditions x);
     Some (\<lparr>pst_observedGeneration = gpst_observedGeneration x, pst_conditions = elements conditions\<rparr>)
   })"

definition providerStatusRefs :: "heap \<Rightarrow> goProviderStatus \<Rightarrow> addr list" where
  "providerStatusRefs = (\<lambda>h x. sliceRefs unConditions plainRefs h (gpst_conditions x))"

definition bindingSpecView :: "heap \<Rightarrow> goBindingSpec \<Rightarrow> cloudflareTunnelBindingSpec option" where
  "bindingSpecView = (\<lambda>h x. do {
     automation \<leftarrow> pointerView unBool plainView h (gbs_dnsAutomationEnabled x);
     Some (\<lparr>bs_controller = gbs_controller x, bs_providerRef = gbs_providerRef x, bs_gatewayRef = gbs_gatewayRef x, bs_originServiceRef = gbs_originServiceRef x, bs_connectorReplicas = gbs_connectorReplicas x, bs_deletionPolicy = gbs_deletionPolicy x, bs_dnsAutomationEnabled = automation\<rparr>)
   })"

definition bindingSpecRefs :: "heap \<Rightarrow> goBindingSpec \<Rightarrow> addr list" where
  "bindingSpecRefs = (\<lambda>h x. pointerRefs unBool plainRefs h (gbs_dnsAutomationEnabled x))"

definition bindingStatusView :: "heap \<Rightarrow> goBindingStatus \<Rightarrow> cloudflareTunnelBindingStatus option" where
  "bindingStatusView = (\<lambda>h x. do {
     hostnames \<leftarrow> sliceView unStrings plainView h (gbst_publishedHostnames x);
     records \<leftarrow> sliceView unDNSRecords plainView h (gbst_dnsRecords x);
     conditions \<leftarrow> sliceView unConditions plainView h (gbst_conditions x);
     Some (\<lparr>bst_observedGeneration = gbst_observedGeneration x, bst_tunnelID = gbst_tunnelID x, bst_tunnelName = gbst_tunnelName x, bst_tunnelCNAME = gbst_tunnelCNAME x, bst_publishedHostnames = elements hostnames, bst_dnsRecords = elements records, bst_resources = gbst_resources x, bst_conditions = elements conditions\<rparr>)
   })"

definition bindingStatusRefs :: "heap \<Rightarrow> goBindingStatus \<Rightarrow> addr list" where
  "bindingStatusRefs = (\<lambda>h x. sliceRefs unStrings plainRefs h (gbst_publishedHostnames x) @ sliceRefs unDNSRecords plainRefs h (gbst_dnsRecords x) @ sliceRefs unConditions plainRefs h (gbst_conditions x))"

definition routeStatusView :: "heap \<Rightarrow> goRouteStatus \<Rightarrow> cloudflareTunnelPrivateRouteStatus option" where
  "routeStatusView = (\<lambda>h x. do {
     conditions \<leftarrow> sliceView unConditions plainView h (grst_conditions x);
     Some (\<lparr>rst_observedGeneration = grst_observedGeneration x, rst_tunnelID = grst_tunnelID x, rst_tunnelName = grst_tunnelName x, rst_routeID = grst_routeID x, rst_network = grst_network x, rst_resources = grst_resources x, rst_conditions = elements conditions\<rparr>)
   })"

definition routeStatusRefs :: "heap \<Rightarrow> goRouteStatus \<Rightarrow> addr list" where
  "routeStatusRefs = (\<lambda>h x. sliceRefs unConditions plainRefs h (grst_conditions x))"

definition providerView :: "heap \<Rightarrow> goProvider \<Rightarrow> (typeMeta \<times> clusterCloudflareProvider) option" where
  "providerView = (\<lambda>h x. do {
     meta \<leftarrow> objectMetaView h (gp_meta x);
     spec \<leftarrow> providerSpecView h (gp_spec x);
     status \<leftarrow> providerStatusView h (gp_status x);
     Some (gp_typeMeta x, \<lparr>p_meta = meta, p_spec = spec, p_status = status\<rparr>)
   })"

definition providerRefs :: "heap \<Rightarrow> goProvider \<Rightarrow> addr list" where
  "providerRefs = (\<lambda>h x. objectMetaRefs h (gp_meta x) @ providerSpecRefs h (gp_spec x) @ providerStatusRefs h (gp_status x))"

definition bindingView :: "heap \<Rightarrow> goBinding \<Rightarrow> (typeMeta \<times> cloudflareTunnelBinding) option" where
  "bindingView = (\<lambda>h x. do {
     meta \<leftarrow> objectMetaView h (gb_meta x);
     spec \<leftarrow> bindingSpecView h (gb_spec x);
     status \<leftarrow> bindingStatusView h (gb_status x);
     Some (gb_typeMeta x, \<lparr>b_meta = meta, b_spec = spec, b_status = status\<rparr>)
   })"

definition bindingRefs :: "heap \<Rightarrow> goBinding \<Rightarrow> addr list" where
  "bindingRefs = (\<lambda>h x. objectMetaRefs h (gb_meta x) @ bindingSpecRefs h (gb_spec x) @ bindingStatusRefs h (gb_status x))"

definition routeView :: "heap \<Rightarrow> goRoute \<Rightarrow> (typeMeta \<times> cloudflareTunnelPrivateRoute) option" where
  "routeView = (\<lambda>h x. do {
     meta \<leftarrow> objectMetaView h (gpr_meta x);
     status \<leftarrow> routeStatusView h (gpr_status x);
     Some (gpr_typeMeta x, \<lparr>r_meta = meta, r_spec = gpr_spec x, r_status = status\<rparr>)
   })"

definition routeRefs :: "heap \<Rightarrow> goRoute \<Rightarrow> addr list" where
  "routeRefs = (\<lambda>h x. objectMetaRefs h (gpr_meta x) @ routeStatusRefs h (gpr_status x))"

definition providerListView :: "heap \<Rightarrow> goList \<Rightarrow> (typeMeta \<times> listMeta \<times> (typeMeta \<times> clusterCloudflareProvider) list) option" where
  "providerListView = (\<lambda>h x. do {
     meta \<leftarrow> listMetaView h (gl_meta x);
     items \<leftarrow> sliceView unProviders providerView h (gl_items x);
     Some (gl_typeMeta x, meta, elements items)
   })"

definition providerListRefs :: "heap \<Rightarrow> goList \<Rightarrow> addr list" where
  "providerListRefs = (\<lambda>h x. listMetaRefs h (gl_meta x) @ sliceRefs unProviders providerRefs h (gl_items x))"

definition bindingListView :: "heap \<Rightarrow> goList \<Rightarrow> (typeMeta \<times> listMeta \<times> (typeMeta \<times> cloudflareTunnelBinding) list) option" where
  "bindingListView = (\<lambda>h x. do {
     meta \<leftarrow> listMetaView h (gl_meta x);
     items \<leftarrow> sliceView unBindings bindingView h (gl_items x);
     Some (gl_typeMeta x, meta, elements items)
   })"

definition bindingListRefs :: "heap \<Rightarrow> goList \<Rightarrow> addr list" where
  "bindingListRefs = (\<lambda>h x. listMetaRefs h (gl_meta x) @ sliceRefs unBindings bindingRefs h (gl_items x))"

definition routeListView :: "heap \<Rightarrow> goList \<Rightarrow> (typeMeta \<times> listMeta \<times> (typeMeta \<times> cloudflareTunnelPrivateRoute) list) option" where
  "routeListView = (\<lambda>h x. do {
     meta \<leftarrow> listMetaView h (gl_meta x);
     items \<leftarrow> sliceView unRoutes routeView h (gl_items x);
     Some (gl_typeMeta x, meta, elements items)
   })"

definition routeListRefs :: "heap \<Rightarrow> goList \<Rightarrow> addr list" where
  "routeListRefs = (\<lambda>h x. listMetaRefs h (gl_meta x) @ sliceRefs unRoutes routeRefs h (gl_items x))"

section \<open>The contract\<close>

definition copier_laws :: "copiers \<Rightarrow> bool" where
  \<comment> \<open>What the Kubernetes types document of their own \<^verbatim>\<open>DeepCopyInto\<close>.\<close>
  "copier_laws c \<longleftrightarrow> deepCopies (cp_objectMeta c) objectMetaRefs objectMetaView \<and>
     deepCopies (cp_listMeta c) listMetaRefs listMetaView \<and>
     deepCopies (cp_labelSelector c) labelSelectorRefs labelSelectorView \<and>
     deepCopies (cp_condition c) plainRefs plainView"

named_theorems footprints \<open>footprints of the structs\<close>
named_theorems copies \<open>deep copies of the structs, under the laws of the third-party ones\<close>

lemmas footprint_rules = footprint_plain footprint_pointer footprint_each
lemmas copy_rules = deepCopies_plain deepCopies_pointer deepCopies_slice

lemma copier_lawsD [copies]:
  assumes "copier_laws c"
  shows "deepCopies (cp_objectMeta c) objectMetaRefs objectMetaView"
    and "deepCopies (cp_listMeta c) listMetaRefs listMetaView"
    and "deepCopies (cp_labelSelector c) labelSelectorRefs labelSelectorView"
    and "deepCopies (cp_condition c) plainRefs plainView"
  using assms by (simp_all add: copier_laws_def)

lemma footprint_objectMeta [footprints]: "footprint objectMetaRefs objectMetaView"
  unfolding objectMetaRefs_def objectMetaView_def by (intro footprint_fields footprint_rules footprints)

lemma footprint_listMeta [footprints]: "footprint listMetaRefs listMetaView"
  unfolding listMetaRefs_def listMetaView_def by (intro footprint_one footprint_rules footprints)

lemma footprint_labelSelector [footprints]: "footprint labelSelectorRefs labelSelectorView"
  unfolding labelSelectorRefs_def labelSelectorView_def by (intro footprint_two footprint_rules footprints)

lemma footprint_providerSpec [footprints]: "footprint providerSpecRefs providerSpecView"
  unfolding providerSpecRefs_def providerSpecView_def by (intro footprint_two footprint_rules footprints)

lemma footprint_providerStatus [footprints]: "footprint providerStatusRefs providerStatusView"
  unfolding providerStatusRefs_def providerStatusView_def by (intro footprint_one footprint_rules footprints)

lemma footprint_bindingSpec [footprints]: "footprint bindingSpecRefs bindingSpecView"
  unfolding bindingSpecRefs_def bindingSpecView_def by (intro footprint_one footprint_rules footprints)

lemma footprint_bindingStatus [footprints]: "footprint bindingStatusRefs bindingStatusView"
  unfolding bindingStatusRefs_def bindingStatusView_def by (intro footprint_fields footprint_rules footprints)

lemma footprint_routeStatus [footprints]: "footprint routeStatusRefs routeStatusView"
  unfolding routeStatusRefs_def routeStatusView_def by (intro footprint_one footprint_rules footprints)

lemma footprint_provider [footprints]: "footprint providerRefs providerView"
  unfolding providerRefs_def providerView_def by (intro footprint_fields footprint_rules footprints)

lemma footprint_binding [footprints]: "footprint bindingRefs bindingView"
  unfolding bindingRefs_def bindingView_def by (intro footprint_fields footprint_rules footprints)

lemma footprint_route [footprints]: "footprint routeRefs routeView"
  unfolding routeRefs_def routeView_def by (intro footprint_two footprint_rules footprints)

lemma footprint_providerList [footprints]: "footprint providerListRefs providerListView"
  unfolding providerListRefs_def providerListView_def by (intro footprint_two footprint_rules footprints)

lemma footprint_bindingList [footprints]: "footprint bindingListRefs bindingListView"
  unfolding bindingListRefs_def bindingListView_def by (intro footprint_two footprint_rules footprints)

lemma footprint_routeList [footprints]: "footprint routeListRefs routeListView"
  unfolding routeListRefs_def routeListView_def by (intro footprint_two footprint_rules footprints)

lemma copies_ClusterCloudflareProviderSpec [copies]:
  "copier_laws c \<Longrightarrow> deepCopies (DeepCopyInto_ClusterCloudflareProviderSpec c) providerSpecRefs providerSpecView"
  unfolding DeepCopyInto_ClusterCloudflareProviderSpec_def providerSpecRefs_def providerSpecView_def
  by (rule deepCopies_two) (auto intro!: copy_rules footprint_rules footprints copies)

lemma copies_ClusterCloudflareProviderStatus [copies]:
  "copier_laws c \<Longrightarrow> deepCopies (DeepCopyInto_ClusterCloudflareProviderStatus c) providerStatusRefs providerStatusView"
  unfolding DeepCopyInto_ClusterCloudflareProviderStatus_def providerStatusRefs_def providerStatusView_def
  by (rule deepCopies_one) (auto intro!: copy_rules footprint_rules footprints copies)

lemma copies_ClusterCloudflareProvider [copies]:
  "copier_laws c \<Longrightarrow> deepCopies (DeepCopyInto_ClusterCloudflareProvider c) providerRefs providerView"
  unfolding DeepCopyInto_ClusterCloudflareProvider_def providerRefs_def providerView_def
  by (rule deepCopies_fields) (auto intro!: copy_rules footprint_rules footprints copies)

lemma copies_ClusterCloudflareProviderList [copies]:
  "copier_laws c \<Longrightarrow> deepCopies (DeepCopyInto_ClusterCloudflareProviderList c) providerListRefs providerListView"
  unfolding DeepCopyInto_ClusterCloudflareProviderList_def providerListRefs_def providerListView_def
  by (rule deepCopies_two) (auto intro!: copy_rules footprint_rules footprints copies)

lemma copies_CloudflareTunnelBindingSpec [copies]:
  "copier_laws c \<Longrightarrow> deepCopies (DeepCopyInto_CloudflareTunnelBindingSpec c) bindingSpecRefs bindingSpecView"
  unfolding DeepCopyInto_CloudflareTunnelBindingSpec_def bindingSpecRefs_def bindingSpecView_def
  by (rule deepCopies_one) (auto intro!: copy_rules footprint_rules footprints copies)

lemma copies_CloudflareTunnelBindingStatus [copies]:
  "copier_laws c \<Longrightarrow> deepCopies (DeepCopyInto_CloudflareTunnelBindingStatus c) bindingStatusRefs bindingStatusView"
  unfolding DeepCopyInto_CloudflareTunnelBindingStatus_def bindingStatusRefs_def bindingStatusView_def
  by (rule deepCopies_fields) (auto intro!: copy_rules footprint_rules footprints copies)

lemma copies_CloudflareTunnelBinding [copies]:
  "copier_laws c \<Longrightarrow> deepCopies (DeepCopyInto_CloudflareTunnelBinding c) bindingRefs bindingView"
  unfolding DeepCopyInto_CloudflareTunnelBinding_def bindingRefs_def bindingView_def
  by (rule deepCopies_fields) (auto intro!: copy_rules footprint_rules footprints copies)

lemma copies_CloudflareTunnelBindingList [copies]:
  "copier_laws c \<Longrightarrow> deepCopies (DeepCopyInto_CloudflareTunnelBindingList c) bindingListRefs bindingListView"
  unfolding DeepCopyInto_CloudflareTunnelBindingList_def bindingListRefs_def bindingListView_def
  by (rule deepCopies_two) (auto intro!: copy_rules footprint_rules footprints copies)

lemma copies_CloudflareTunnelPrivateRouteStatus [copies]:
  "copier_laws c \<Longrightarrow> deepCopies (DeepCopyInto_CloudflareTunnelPrivateRouteStatus c) routeStatusRefs routeStatusView"
  unfolding DeepCopyInto_CloudflareTunnelPrivateRouteStatus_def routeStatusRefs_def routeStatusView_def
  by (rule deepCopies_one) (auto intro!: copy_rules footprint_rules footprints copies)

lemma copies_CloudflareTunnelPrivateRoute [copies]:
  "copier_laws c \<Longrightarrow> deepCopies (DeepCopyInto_CloudflareTunnelPrivateRoute c) routeRefs routeView"
  unfolding DeepCopyInto_CloudflareTunnelPrivateRoute_def routeRefs_def routeView_def
  by (rule deepCopies_two) (auto intro!: copy_rules footprint_rules footprints copies)

lemma copies_CloudflareTunnelPrivateRouteList [copies]:
  "copier_laws c \<Longrightarrow> deepCopies (DeepCopyInto_CloudflareTunnelPrivateRouteList c) routeListRefs routeListView"
  unfolding DeepCopyInto_CloudflareTunnelPrivateRouteList_def routeListRefs_def routeListView_def
  by (rule deepCopies_two) (auto intro!: copy_rules footprint_rules footprints copies)

section \<open>Every generated copy is a deep copy\<close>

interpretation providerSpec: deep_copy_pointer copier_laws DeepCopyInto_ClusterCloudflareProviderSpec providerSpecRefs providerSpecView boxClusterCloudflareProviderSpec unClusterCloudflareProviderSpec
  by unfold_locales (simp_all add: copies footprints)

interpretation providerStatus: deep_copy_pointer copier_laws DeepCopyInto_ClusterCloudflareProviderStatus providerStatusRefs providerStatusView boxClusterCloudflareProviderStatus unClusterCloudflareProviderStatus
  by unfold_locales (simp_all add: copies footprints)

interpretation provider: deep_copy_pointer copier_laws DeepCopyInto_ClusterCloudflareProvider providerRefs providerView boxClusterCloudflareProvider unClusterCloudflareProvider
  by unfold_locales (simp_all add: copies footprints)

interpretation providerList: deep_copy_pointer copier_laws DeepCopyInto_ClusterCloudflareProviderList providerListRefs providerListView boxClusterCloudflareProviderList unClusterCloudflareProviderList
  by unfold_locales (simp_all add: copies footprints)

interpretation bindingSpec: deep_copy_pointer copier_laws DeepCopyInto_CloudflareTunnelBindingSpec bindingSpecRefs bindingSpecView boxCloudflareTunnelBindingSpec unCloudflareTunnelBindingSpec
  by unfold_locales (simp_all add: copies footprints)

interpretation bindingStatus: deep_copy_pointer copier_laws DeepCopyInto_CloudflareTunnelBindingStatus bindingStatusRefs bindingStatusView boxCloudflareTunnelBindingStatus unCloudflareTunnelBindingStatus
  by unfold_locales (simp_all add: copies footprints)

interpretation binding: deep_copy_pointer copier_laws DeepCopyInto_CloudflareTunnelBinding bindingRefs bindingView boxCloudflareTunnelBinding unCloudflareTunnelBinding
  by unfold_locales (simp_all add: copies footprints)

interpretation bindingList: deep_copy_pointer copier_laws DeepCopyInto_CloudflareTunnelBindingList bindingListRefs bindingListView boxCloudflareTunnelBindingList unCloudflareTunnelBindingList
  by unfold_locales (simp_all add: copies footprints)

interpretation routeStatus: deep_copy_pointer copier_laws DeepCopyInto_CloudflareTunnelPrivateRouteStatus routeStatusRefs routeStatusView boxCloudflareTunnelPrivateRouteStatus unCloudflareTunnelPrivateRouteStatus
  by unfold_locales (simp_all add: copies footprints)

interpretation route: deep_copy_pointer copier_laws DeepCopyInto_CloudflareTunnelPrivateRoute routeRefs routeView boxCloudflareTunnelPrivateRoute unCloudflareTunnelPrivateRoute
  by unfold_locales (simp_all add: copies footprints)

interpretation routeList: deep_copy_pointer copier_laws DeepCopyInto_CloudflareTunnelPrivateRouteList routeListRefs routeListView boxCloudflareTunnelPrivateRouteList unCloudflareTunnelPrivateRouteList
  by unfold_locales (simp_all add: copies footprints)

text \<open>The types without references: their copy is the assignment, and needs no law.\<close>

interpretation secretKeyReference: deep_copy_pointer "\<lambda>_. True" "\<lambda>_::unit. DeepCopyInto_SecretKeyReference" plainRefs plainView boxSecretKeyReference unSecretKeyReference
  by unfold_locales (simp_all add: DeepCopyInto_SecretKeyReference_def)

interpretation gatewayReference: deep_copy_pointer "\<lambda>_. True" "\<lambda>_::unit. DeepCopyInto_GatewayReference" plainRefs plainView boxGatewayReference unGatewayReference
  by unfold_locales (simp_all add: DeepCopyInto_GatewayReference_def)

interpretation originServiceReference: deep_copy_pointer "\<lambda>_. True" "\<lambda>_::unit. DeepCopyInto_OriginServiceReference" plainRefs plainView boxOriginServiceReference unOriginServiceReference
  by unfold_locales (simp_all add: DeepCopyInto_OriginServiceReference_def)

interpretation localReference: deep_copy_pointer "\<lambda>_. True" "\<lambda>_::unit. DeepCopyInto_LocalReference" plainRefs plainView boxLocalReference unLocalReference
  by unfold_locales (simp_all add: DeepCopyInto_LocalReference_def)

interpretation dnsRecord: deep_copy_pointer "\<lambda>_. True" "\<lambda>_::unit. DeepCopyInto_DNSRecord" plainRefs plainView boxDNSRecord unDNSRecord
  by unfold_locales (simp_all add: DeepCopyInto_DNSRecord_def)

interpretation connectorResourceNames: deep_copy_pointer "\<lambda>_. True" "\<lambda>_::unit. DeepCopyInto_ConnectorResourceNames" plainRefs plainView boxConnectorResourceNames unConnectorResourceNames
  by unfold_locales (simp_all add: DeepCopyInto_ConnectorResourceNames_def)

interpretation privateRouteServiceReference: deep_copy_pointer "\<lambda>_. True" "\<lambda>_::unit. DeepCopyInto_PrivateRouteServiceReference" plainRefs plainView boxPrivateRouteServiceReference unPrivateRouteServiceReference
  by unfold_locales (simp_all add: DeepCopyInto_PrivateRouteServiceReference_def)

interpretation routeSpec: deep_copy_pointer "\<lambda>_. True" "\<lambda>_::unit. DeepCopyInto_CloudflareTunnelPrivateRouteSpec" plainRefs plainView boxCloudflareTunnelPrivateRouteSpec unCloudflareTunnelPrivateRouteSpec
  by unfold_locales (simp_all add: DeepCopyInto_CloudflareTunnelPrivateRouteSpec_def)

section \<open>The objects of the API\<close>

definition snapshots ::
  "(addr option \<Rightarrow> 'c list \<Rightarrow> (runtimeObject option \<times> 'c list) option) \<Rightarrow> (addr \<Rightarrow> runtimeObject) \<Rightarrow>
     ('c list \<Rightarrow> addr option \<Rightarrow> 'v option) \<Rightarrow> bool" where
  \<comment> \<open>nil is copied to the nil interface, and an object that can be read to an independent copy, of the same type.\<close>
  "snapshots copy mk view \<longleftrightarrow> (\<forall>h. copy None h = Some (None, h)) \<and>
     (\<forall>h a v. view h (Some a) = Some v \<longrightarrow>
        (\<exists>b h'. copy (Some a) h = Some (Some (mk b), h') \<and> independentCopy view h (Some a) (Some b) h'))"

lemma snapshotsD:
  assumes "snapshots copy mk view" and "view h (Some a) = Some v"
  shows "\<exists>b h'. copy (Some a) h = Some (Some (mk b), h') \<and> independentCopy view h (Some a) (Some b) h'"
  using assms unfolding snapshots_def by blast

context deep_copy_pointer begin

lemma object_snapshots:
  assumes "laws c" and object: "\<And>p h. copyObject p h = do {
       (q, h1) \<leftarrow> copyPointer box unbox (into c) p h;
       case q of Some a \<Rightarrow> Some (Some (mk a), h1) | None \<Rightarrow> Some (None, h1)
     }"
  shows "snapshots copyObject mk (pointerView unbox view)"
  unfolding snapshots_def
proof (intro conjI allI impI)
  fix h show "copyObject None h = Some (None, h)"
    by (simp add: object copyPointer_def)
next
  fix h a v
  assume "pointerView unbox view h (Some a) = Some v"
  from pointer_independent [OF assms(1) this] show "\<exists>b h'. copyObject (Some a) h = Some (Some (mk b), h') \<and>
      independentCopy (pointerView unbox view) h (Some a) (Some b) h'"
    by (metis (mono_tags, lifting) object Option.bind_lunit old.prod.case option.simps(5))
qed

end

text \<open>C37: A deep copy is a snapshot. For each of the three resources and their lists, copying an
  object that can be read succeeds and gives an object of the same type that reads as the
  original did before the copy and goes on doing so whatever is later written to any cell that
  existed then, and the original reads the same whatever is written to the new cells: no slice,
  pointer or map is shared. So a status patch taken against
  \<^verbatim>\<open>DeepCopy()\<close> compares with the object as it was. Copying nil gives
  the nil interface.\<close>

theorem DeepCopyObject_snapshots:
  assumes "copier_laws c"
  shows "snapshots (DeepCopyObject_ClusterCloudflareProvider c) ClusterCloudflareProviderObject (pointerView unClusterCloudflareProvider providerView) \<and>
    snapshots (DeepCopyObject_ClusterCloudflareProviderList c) ClusterCloudflareProviderListObject (pointerView unClusterCloudflareProviderList providerListView) \<and>
    snapshots (DeepCopyObject_CloudflareTunnelBinding c) CloudflareTunnelBindingObject (pointerView unCloudflareTunnelBinding bindingView) \<and>
    snapshots (DeepCopyObject_CloudflareTunnelBindingList c) CloudflareTunnelBindingListObject (pointerView unCloudflareTunnelBindingList bindingListView) \<and>
    snapshots (DeepCopyObject_CloudflareTunnelPrivateRoute c) CloudflareTunnelPrivateRouteObject (pointerView unCloudflareTunnelPrivateRoute routeView) \<and>
    snapshots (DeepCopyObject_CloudflareTunnelPrivateRouteList c) CloudflareTunnelPrivateRouteListObject (pointerView unCloudflareTunnelPrivateRouteList routeListView)"
  by (intro conjI provider.object_snapshots [OF assms] providerList.object_snapshots [OF assms] binding.object_snapshots [OF assms] bindingList.object_snapshots [OF assms] route.object_snapshots [OF assms] routeList.object_snapshots [OF assms])
    (simp_all add: DeepCopyObject_ClusterCloudflareProvider_def DeepCopy_ClusterCloudflareProvider_def DeepCopyObject_ClusterCloudflareProviderList_def DeepCopy_ClusterCloudflareProviderList_def DeepCopyObject_CloudflareTunnelBinding_def DeepCopy_CloudflareTunnelBinding_def DeepCopyObject_CloudflareTunnelBindingList_def DeepCopy_CloudflareTunnelBindingList_def DeepCopyObject_CloudflareTunnelPrivateRoute_def DeepCopy_CloudflareTunnelPrivateRoute_def DeepCopyObject_CloudflareTunnelPrivateRouteList_def DeepCopy_CloudflareTunnelPrivateRouteList_def)

section \<open>A run\<close>

definition simpleCopiers :: copiers where
  \<comment> \<open>Copies of the embedded types that keep the contract.\<close>
  "simpleCopiers = \<lparr>
     cp_objectMeta = (\<lambda>x h. do {
       (t, h1) \<leftarrow> copyPointer IntCell unInt plainCopy (gom_deletionTimestamp x) h;
       (fs, h2) \<leftarrow> copySlice StringsCell unStrings plainCopy (gom_finalizers x) h1;
       (ls, h3) \<leftarrow> copyPointer LabelsCell unLabels plainCopy (gom_labels x) h2;
       Some (x\<lparr>gom_deletionTimestamp := t, gom_finalizers := fs, gom_labels := ls\<rparr>, h3)
     }),
     cp_listMeta = (\<lambda>x h. do {
       (n, h1) \<leftarrow> copyPointer IntCell unInt plainCopy (glm_remainingItemCount x) h;
       Some (x\<lparr>glm_remainingItemCount := n\<rparr>, h1)
     }),
     cp_labelSelector = (\<lambda>x h. do {
       (ls, h1) \<leftarrow> copySlice SelectorLabelsCell unSelectorLabels plainCopy (gls_matchLabels x) h;
       (es, h2) \<leftarrow> copySlice SelectorExpressionsCell unSelectorExpressions plainCopy (gls_matchExpressions x) h1;
       Some (x\<lparr>gls_matchLabels := ls, gls_matchExpressions := es\<rparr>, h2)
     }),
     cp_condition = plainCopy\<rparr>"

lemma simpleCopiers_laws: "copier_laws simpleCopiers"
  unfolding copier_laws_def simpleCopiers_def copiers.select_convs
    objectMetaRefs_def objectMetaView_def listMetaRefs_def listMetaView_def labelSelectorRefs_def labelSelectorView_def
proof (intro conjI, goal_cases)
  case 1 show ?case by (rule deepCopies_fields) (auto intro!: copy_rules footprint_rules)
next
  case 2 show ?case by (rule deepCopies_one) (auto intro!: copy_rules footprint_rules)
next
  case 3 show ?case by (rule deepCopies_two) (auto intro!: copy_rules footprint_rules)
qed simp

definition sampleBinding :: goBinding where
  "sampleBinding = \<lparr>gb_typeMeta = \<lparr>tm_kind = ''CloudflareTunnelBinding'', tm_apiVersion = ''v1alpha1''\<rparr>,
     gb_meta = \<lparr>gom_name = ''site'', gom_namespace = ''apps'', gom_uid = ''u1'', gom_generation = 2,
       gom_creationTimestamp = 1, gom_deletionTimestamp = None, gom_finalizers = Some 0, gom_labels = None\<rparr>,
     gb_spec = \<lparr>gbs_controller = ''kflared'', gbs_providerRef = ''account'',
       gbs_gatewayRef = \<lparr>gr_name = ''public'', gr_sectionName = ''web''\<rparr>,
       gbs_originServiceRef = \<lparr>osr_name = ''traefik'', osr_namespace = ''traefik'', osr_port = IntVal 80\<rparr>,
       gbs_connectorReplicas = 2, gbs_deletionPolicy = ''Delete'', gbs_dnsAutomationEnabled = Some 1\<rparr>,
     gb_status = \<lparr>gbst_observedGeneration = 1, gbst_tunnelID = ''t1'', gbst_tunnelName = ''site'', gbst_tunnelCNAME = ''t1.cfargotunnel.com'',
       gbst_publishedHostnames = Some 2, gbst_dnsRecords = None,
       gbst_resources = \<lparr>crn_deployment = '''', crn_secret = '''', crn_dnsEndpoint = ''''\<rparr>, gbst_conditions = None\<rparr>\<rparr>"

definition sampleHeap :: heap where
  "sampleHeap = [StringsCell [''kflared.kodeblox.com/binding''], BoolCell True, StringsCell [''a.example.com''],
     boxCloudflareTunnelBinding sampleBinding]"

definition hostnamesAt :: "heap \<Rightarrow> addr \<Rightarrow> string list option" where
  "hostnamesAt h a = (case pointerView unCloudflareTunnelBinding bindingView h (Some a) of
     Some (Some (_, b)) \<Rightarrow> Some (bst_publishedHostnames (b_status b)) | _ \<Rightarrow> None)"

lemma sample_hostnames:
  "hostnamesAt sampleHeap 3 = Some [''a.example.com'']"
  "case DeepCopyObject_CloudflareTunnelBinding simpleCopiers (Some 3) sampleHeap of
     Some (_, h') \<Rightarrow> hostnamesAt (h'[2 := StringsCell []]) 3 = Some []"
  by code_simp+

text \<open>The status of the object is cleared in place: the object changes, its earlier copy does not.\<close>

lemma DeepCopyObject_snapshots_witness:
  "copier_laws simpleCopiers \<and>
   (\<exists>b h'. DeepCopyObject_CloudflareTunnelBinding simpleCopiers (Some 3) sampleHeap =
        Some (Some (CloudflareTunnelBindingObject b), h') \<and>
      (let view = pointerView unCloudflareTunnelBinding bindingView; before = view sampleHeap (Some 3);
           after = h'[2 := StringsCell []]
       in before \<noteq> None \<and> view after (Some b) = before \<and> view after (Some 3) \<noteq> before))"
proof -
  let ?view = "pointerView unCloudflareTunnelBinding bindingView"
  let ?copy = "DeepCopyObject_CloudflareTunnelBinding simpleCopiers"
  from sample_hostnames(1) obtain v
    where v: "?view sampleHeap (Some 3) = Some v"
    by (auto simp: hostnamesAt_def split: option.splits)
  have "snapshots ?copy CloudflareTunnelBindingObject ?view"
    using DeepCopyObject_snapshots [OF simpleCopiers_laws] by simp
  from snapshotsD [OF this v] obtain b h' 
    where run: "?copy (Some 3) sampleHeap = Some (Some (CloudflareTunnelBindingObject b), h')"
      and independent: "independentCopy ?view sampleHeap (Some 3) (Some b) h'"
    by blast
  have "keepsFrom (length sampleHeap) h' (h'[2 := StringsCell []])"
    by (auto simp: keepsFrom_def sampleHeap_def)
  with independent have "?view (h'[2 := StringsCell []]) (Some b) = ?view sampleHeap (Some 3)"
    by (simp add: independentCopy_def)
  moreover from sample_hostnames run have "?view (h'[2 := StringsCell []]) (Some 3) \<noteq> ?view sampleHeap (Some 3)"
    by (auto simp: hostnamesAt_def)
  ultimately show ?thesis using simpleCopiers_laws run v by (auto simp: Let_def)
qed

end

